(* ===== verification/Rust_Prelude.thy ===== *)
theory Rust_Prelude
  imports Main "HOL-Library.Word"
begin

text \<open>
  What the other theories share of the source language and its standard library: the integer
  types at their widths, \<^verbatim>\<open>Result\<close>, the checked and saturating arithmetic of machine words,
  slices read by range, and the big- and little-endian byte forms of an integer. Nothing here
  is particular to the protocol.
\<close>

section \<open>Integer types\<close>

type_synonym u8 = "8 word"
type_synonym u16 = "16 word"
type_synonym u32 = "32 word"
type_synonym u64 = "64 word"
type_synonym u128 = "128 word"
type_synonym bytes = "u8 list"

text \<open>\<^verbatim>\<open>usize\<close> on the 64-bit targets the crate is built for; a length in memory is a
  \<open>nat\<close>.\<close>

type_synonym usize = "64 word"

named_theorems result_simps "equations of the Result combinators"
named_theorems range_simps "reading a slice by range out of a concatenation"
named_theorems byte_simps "integers and their byte forms"

section \<open>Result\<close>

datatype ('a, 'e) result = Ok 'a | Err 'e

primrec and_then :: "('a, 'e) result \<Rightarrow> ('a \<Rightarrow> ('b, 'e) result) \<Rightarrow> ('b, 'e) result" where
  "and_then (Ok x) f = f x"
| "and_then (Err e) f = Err e"

primrec map_err :: "('e \<Rightarrow> 'f) \<Rightarrow> ('a, 'e) result \<Rightarrow> ('a, 'f) result" where
  "map_err f (Ok x) = Ok x"
| "map_err f (Err e) = Err (f e)"

primrec result_map :: "('a \<Rightarrow> 'b) \<Rightarrow> ('a, 'e) result \<Rightarrow> ('b, 'e) result" where
  "result_map f (Ok x) = Ok (f x)"
| "result_map f (Err e) = Err e"

primrec ok_or :: "'e \<Rightarrow> 'a option \<Rightarrow> ('a, 'e) result" where
  "ok_or e None = Err e"
| "ok_or e (Some x) = Ok x"

primrec is_ok :: "('a, 'e) result \<Rightarrow> bool" where
  "is_ok (Ok x) = True"
| "is_ok (Err e) = False"

text \<open>A test that goes on with the value \<^verbatim>\<open>expect\<close> unwraps, and fails when there is none.\<close>

primrec expect :: "('a, 'e) result \<Rightarrow> ('a \<Rightarrow> bool) \<Rightarrow> bool" where
  "expect (Ok x) k = k x"
| "expect (Err e) k = False"

lemma and_then_eq_Ok [result_simps]:
  "and_then r f = Ok y \<longleftrightarrow> (\<exists>x. r = Ok x \<and> f x = Ok y)"
  by (cases r) auto

lemma map_err_eq_Ok [result_simps]: "map_err f r = Ok x \<longleftrightarrow> r = Ok x"
  by (cases r) auto

lemma result_map_eq_Ok [result_simps]: "result_map f r = Ok y \<longleftrightarrow> (\<exists>x. r = Ok x \<and> y = f x)"
  by (cases r) auto

lemma ok_or_eq_Ok [result_simps]: "ok_or e opt = Ok x \<longleftrightarrow> opt = Some x"
  by (cases opt) auto

lemma is_ok_iff [result_simps]: "is_ok r \<longleftrightarrow> (\<exists>x. r = Ok x)"
  by (cases r) auto

section \<open>Checked and saturating arithmetic\<close>

definition checked_add :: "'a::len word \<Rightarrow> 'a word \<Rightarrow> 'a word option" where
  "checked_add a b = (if unat a + unat b < 2 ^ LENGTH('a) then Some (a + b) else None)"

definition checked_mul :: "'a::len word \<Rightarrow> 'a word \<Rightarrow> 'a word option" where
  "checked_mul a b = (if unat a * unat b < 2 ^ LENGTH('a) then Some (a * b) else None)"

definition saturating_add :: "'a::len word \<Rightarrow> 'a word \<Rightarrow> 'a word" where
  "saturating_add a b = (if unat a + unat b < 2 ^ LENGTH('a) then a + b else - 1)"

definition saturating_sub :: "'a::len word \<Rightarrow> 'a word \<Rightarrow> 'a word" where
  "saturating_sub a b = (if b \<le> a then a - b else 0)"

definition saturating_mul :: "'a::len word \<Rightarrow> 'a word \<Rightarrow> 'a word" where
  "saturating_mul a b = (if unat a * unat b < 2 ^ LENGTH('a) then a * b else - 1)"

lemma unat_mult_exact:
  "unat a * unat b < 2 ^ LENGTH('a) \<Longrightarrow> unat (a * b :: 'a::len word) = unat a * unat b"
  by (simp add: unat_word_ariths)

lemma unat_add_exact:
  "unat a + unat b < 2 ^ LENGTH('a) \<Longrightarrow> unat (a + b :: 'a::len word) = unat a + unat b"
  by (simp add: unat_word_ariths)

lemma unat_minus_one_exact: "unat (- 1 :: 'a::len word) = 2 ^ LENGTH('a) - 1"
  by (simp add: unsigned_minus_1_eq_mask mask_eq_exp_minus_1)

lemma checked_mul_Some:
  "checked_mul a b = Some c \<longleftrightarrow> c = a * b \<and> unat (a :: 'a::len word) * unat b < 2 ^ LENGTH('a)"
  by (auto simp: checked_mul_def)

lemma min_saturate:
  "(x::nat) < 2 ^ n \<Longrightarrow> min x (2 ^ n - 1) = x"
  "\<not> (x::nat) < 2 ^ n \<Longrightarrow> min x (2 ^ n - 1) = 2 ^ n - 1"
  by (rule min.absorb1, linarith) (rule min.absorb2, linarith)

lemma unat_saturating_mul:
  "unat (saturating_mul a b :: 'a::len word) = min (unat a * unat b) (2 ^ LENGTH('a) - 1)"
  by (simp add: saturating_mul_def unat_mult_exact unat_minus_one_exact min_saturate)

lemma unat_saturating_add:
  "unat (saturating_add a b :: 'a::len word) = min (unat a + unat b) (2 ^ LENGTH('a) - 1)"
  by (simp add: saturating_add_def unat_add_exact unat_minus_one_exact min_saturate)

section \<open>Slices\<close>

definition slice_first :: "'a list \<Rightarrow> 'a option" where
  "slice_first xs = (case xs of [] \<Rightarrow> None | x # _ \<Rightarrow> Some x)"

definition get_range :: "nat \<Rightarrow> nat \<Rightarrow> 'a list \<Rightarrow> 'a list option" where
  "get_range a b xs = (if a \<le> b \<and> b \<le> length xs then Some (take (b - a) (drop a xs)) else None)"

definition get_from :: "nat \<Rightarrow> 'a list \<Rightarrow> 'a list option" where
  "get_from a xs = (if a \<le> length xs then Some (drop a xs) else None)"

definition slice_get :: "nat \<Rightarrow> 'a list \<Rightarrow> 'a option" where
  "slice_get i xs = (if i < length xs then Some (xs ! i) else None)"

lemma slice_first_Cons [simp]: "slice_first (x # xs) = Some x"
  by (simp add: slice_first_def)

lemma slice_first_Nil [simp]: "slice_first [] = None"
  by (simp add: slice_first_def)

lemma slice_first_eq_Some: "slice_first xs = Some x \<longleftrightarrow> (\<exists>ys. xs = x # ys)"
  by (cases xs) auto

lemma get_range_eq_Some [range_simps]:
  "get_range a b xs = Some ys \<longleftrightarrow> a \<le> b \<and> b \<le> length xs \<and> ys = take (b - a) (drop a xs)"
  by (auto simp: get_range_def)

lemma get_from_eq_Some [range_simps]:
  "get_from a xs = Some ys \<longleftrightarrow> a \<le> length xs \<and> ys = drop a xs"
  by (auto simp: get_from_def)

lemma length_get_range: "get_range a b xs = Some ys \<Longrightarrow> length ys = b - a"
  by (auto simp: get_range_def split: if_splits)

lemma get_range_append:
  "\<lbrakk>length xs = a; length ys = b - a; a \<le> b\<rbrakk> \<Longrightarrow> get_range a b (xs @ ys @ zs) = Some ys"
  by (simp add: get_range_def)

section \<open>Byte forms of integers\<close>

text \<open>\<open>be_of_nat k n\<close> is the \<open>k\<close>-byte big-endian form of \<open>n\<close>, \<open>nat_of_be\<close> its reading;
  \<open>to_be_bytes\<close> and \<open>from_be_bytes\<close> are the methods of the unsigned integer types.\<close>

fun be_of_nat :: "nat \<Rightarrow> nat \<Rightarrow> bytes" where
  "be_of_nat 0 n = []"
| "be_of_nat (Suc k) n = be_of_nat k (n div 256) @ [word_of_nat (n mod 256)]"

definition nat_of_be :: "bytes \<Rightarrow> nat" where
  "nat_of_be bs = foldl (\<lambda>acc b. acc * 256 + unat b) 0 bs"

definition to_be_bytes :: "nat \<Rightarrow> 'a::len word \<Rightarrow> bytes" where
  "to_be_bytes k w = be_of_nat k (unat w)"

definition from_be_bytes :: "bytes \<Rightarrow> 'a::len word" where
  "from_be_bytes bs = word_of_nat (nat_of_be bs)"

definition to_le_bytes :: "nat \<Rightarrow> 'a::len word \<Rightarrow> bytes" where
  "to_le_bytes k w = rev (to_be_bytes k w)"

lemma nat_of_be_Nil [simp]: "nat_of_be [] = 0"
  by (simp add: nat_of_be_def)

lemma nat_of_be_snoc [simp]: "nat_of_be (bs @ [b]) = nat_of_be bs * 256 + unat b"
  by (simp add: nat_of_be_def)

lemma length_be_of_nat [simp]: "length (be_of_nat k n) = k"
  by (induction k arbitrary: n) auto

lemma length_to_be_bytes [simp]: "length (to_be_bytes k w) = k"
  by (simp add: to_be_bytes_def)

lemma length_to_le_bytes [simp]: "length (to_le_bytes k w) = k"
  by (simp add: to_le_bytes_def)

lemma unat_byte: "n < 256 \<Longrightarrow> unat (word_of_nat n :: u8) = n"
  by (simp add: unat_of_nat)

lemma byte_less [simp]: "unat (b :: u8) < 256"
  using unsigned_less [of b, where ?'a = nat] by simp

lemma nat_of_be_of_nat [byte_simps]: "n < 256 ^ k \<Longrightarrow> nat_of_be (be_of_nat k n) = n"
proof (induction k arbitrary: n)
  case 0
  then show ?case by simp
next
  case (Suc k)
  then have "n div 256 < 256 ^ k" by (simp add: less_mult_imp_div_less mult.commute)
  then have "nat_of_be (be_of_nat k (n div 256)) = n div 256" by (rule Suc.IH)
  then show ?case by (simp add: unat_byte)
qed

lemma nat_of_be_less: "nat_of_be bs < 256 ^ length bs"
proof (induction bs rule: rev_induct)
  case Nil
  then show ?case by simp
next
  case (snoc b bs)
  have "nat_of_be bs * 256 + unat b < (nat_of_be bs + 1) * 256"
    using byte_less [of b] by simp
  also have "\<dots> \<le> 256 ^ length bs * 256"
    using snoc.IH by simp
  finally show ?case by (simp add: mult.commute)
qed

lemma be_of_nat_of_be [byte_simps]: "length bs = k \<Longrightarrow> be_of_nat k (nat_of_be bs) = bs"
proof (induction bs arbitrary: k rule: rev_induct)
  case Nil
  then show ?case by simp
next
  case (snoc b bs)
  then obtain k' where k: "k = Suc k'" "length bs = k'" by simp
  have "(nat_of_be bs * 256 + unat b) div 256 = nat_of_be bs"
    and "(nat_of_be bs * 256 + unat b) mod 256 = unat b"
    using byte_less [of b] by (simp_all add: div_mult_self3)
  then show ?case using snoc.IH [OF k(2)] k(1) by simp
qed

lemma from_to_be_bytes [byte_simps]:
  assumes "LENGTH('a::len) = 8 * k"
  shows "from_be_bytes (to_be_bytes k (w :: 'a word)) = w"
proof -
  have "unat w < 256 ^ k"
    using unsigned_less [of w, where ?'a = nat] by (simp add: assms power_mult)
  then show ?thesis by (simp add: from_be_bytes_def to_be_bytes_def nat_of_be_of_nat)
qed

lemma to_from_be_bytes [byte_simps]:
  assumes "LENGTH('a::len) = 8 * k" "length bs = k"
  shows "to_be_bytes k (from_be_bytes bs :: 'a word) = bs"
proof -
  have "nat_of_be bs < 2 ^ LENGTH('a)"
    using nat_of_be_less [of bs] assms by (simp add: power_mult)
  then have "unat (word_of_nat (nat_of_be bs) :: 'a word) = nat_of_be bs"
    by (simp add: unat_of_nat)
  then show ?thesis
    using assms by (simp add: from_be_bytes_def to_be_bytes_def be_of_nat_of_be)
qed

lemma to_be_bytes_inject [simp]:
  assumes "LENGTH('a::len) = 8 * k"
  shows "to_be_bytes k (v :: 'a word) = to_be_bytes k w \<longleftrightarrow> v = w"
  using from_to_be_bytes [OF assms] by metis

lemma to_le_bytes_inject [simp]:
  assumes "LENGTH('a::len) = 8 * k"
  shows "to_le_bytes k (v :: 'a word) = to_le_bytes k w \<longleftrightarrow> v = w"
  by (simp add: to_le_bytes_def assms)

section \<open>Decimal rendering\<close>

text \<open>The decimal form \<^verbatim>\<open>Display\<close> gives an unsigned integer.\<close>

definition digit_char :: "nat \<Rightarrow> char" where
  "digit_char d = char_of (48 + d)"

fun show_nat :: "nat \<Rightarrow> string" where
  "show_nat n = (if n < 10 then [digit_char n] else show_nat (n div 10) @ [digit_char (n mod 10)])"

declare show_nat.simps [simp del]

definition show_word :: "'a::len word \<Rightarrow> string" where
  "show_word w = show_nat (unat w)"

end
