(* ===== verification/Rust_Array.thy ===== *)
theory Rust_Array
  imports Rust_Prelude "HOL-Library.Numeral_Type" "HOL-Library.List_Lexorder"
begin

text \<open>
  Fixed-size arrays \<^verbatim>\<open>[T; N]\<close>: lists of exactly \<open>CARD('n)\<close> elements, so that
  \<^verbatim>\<open>[u8; 32]\<close> is \<open>(u8, 32) arr\<close>. Conversion from a slice succeeds on the right length
  only, arrays compare lexicographically as their derived \<^verbatim>\<open>Ord\<close> does, and
  \<^verbatim>\<open>std::cmp::Reverse\<close> turns an order round.
\<close>

section \<open>Arrays\<close>

typedef ('a, 'n::finite) arr = "{xs :: 'a list. length xs = CARD('n)}"
  morphisms elems Arr
  by (rule exI [of _ "replicate (CARD('n)) undefined"]) simp

setup_lifting type_definition_arr

definition arr_of_list :: "'a list \<Rightarrow> ('a, 'n::finite) arr option" where
  "arr_of_list xs = (if length xs = CARD('n) then Some (Arr xs) else None)"

definition arr_repeat :: "'a \<Rightarrow> ('a, 'n::finite) arr" where
  "arr_repeat x = Arr (replicate (CARD('n)) x)"

definition arr_from_fn :: "(nat \<Rightarrow> 'a) \<Rightarrow> ('a, 'n::finite) arr" where
  "arr_from_fn f = Arr (map f [0..<CARD('n)])"

definition arr_nth :: "('a, 'n::finite) arr \<Rightarrow> nat \<Rightarrow> 'a" where
  "arr_nth a i = elems a ! i"

lemma length_elems [simp]: "length (elems (a :: ('a, 'n::finite) arr)) = CARD('n)"
  using elems [of a] by simp

lemma elems_Arr [simp]: "length xs = CARD('n::finite) \<Longrightarrow> elems (Arr xs :: ('a, 'n) arr) = xs"
  by (simp add: Arr_inverse)

lemma elems_eq_iff [simp]: "elems a = elems b \<longleftrightarrow> a = b"
  by (rule elems_inject)

lemma elems_repeat [simp]: "elems (arr_repeat x :: ('a, 'n::finite) arr) = replicate (CARD('n)) x"
  by (simp add: arr_repeat_def)

lemma elems_from_fn [simp]: "elems (arr_from_fn f :: ('a, 'n::finite) arr) = map f [0..<CARD('n)]"
  by (simp add: arr_from_fn_def)

lemma arr_of_list_elems [simp]: "arr_of_list (elems (a :: ('a, 'n::finite) arr)) = Some a"
  by (simp add: arr_of_list_def elems_inverse)

lemma arr_of_list_eq_Some:
  "arr_of_list xs = Some (a :: ('a, 'n::finite) arr) \<longleftrightarrow> xs = elems a"
  by (auto simp: arr_of_list_def elems_inverse)

lemma arr_of_list_eq_None:
  "arr_of_list xs = (None :: ('a, 'n::finite) arr option) \<longleftrightarrow> length xs \<noteq> CARD('n)"
  by (simp add: arr_of_list_def)

lemma arr_eqI: "(\<And>i. i < CARD('n) \<Longrightarrow> arr_nth a i = arr_nth b i) \<Longrightarrow> a = (b :: ('a, 'n::finite) arr)"
  unfolding arr_nth_def elems_eq_iff [symmetric] by (rule nth_equalityI) simp_all

lemma arr_nth_from_fn [simp]:
  "i < CARD('n) \<Longrightarrow> arr_nth (arr_from_fn f :: ('a, 'n::finite) arr) i = f i"
  by (simp add: arr_nth_def)

lemma arr_nth_repeat [simp]: "i < CARD('n) \<Longrightarrow> arr_nth (arr_repeat x :: ('a, 'n::finite) arr) i = x"
  by (simp add: arr_nth_def)

lemma arr_repeat_inject [simp]: "arr_repeat x = (arr_repeat y :: ('a, 'n::finite) arr) \<longleftrightarrow> x = y"
proof
  assume "arr_repeat x = (arr_repeat y :: ('a, 'n) arr)"
  then have "replicate (CARD('n)) x = replicate (CARD('n)) y"
    by (metis elems_repeat)
  then show "x = y" by simp
qed simp

text \<open>Arrays of words have decidable equality on their elements.\<close>

instantiation arr :: (equal, finite) equal
begin
definition equal_arr :: "('a, 'b) arr \<Rightarrow> ('a, 'b) arr \<Rightarrow> bool" where
  "equal_arr a b \<longleftrightarrow> elems a = elems b"
instance
  by standard (simp add: equal_arr_def)
end

section \<open>The derived order of arrays\<close>

instantiation arr :: (linorder, finite) linorder
begin
definition less_eq_arr :: "('a, 'b) arr \<Rightarrow> ('a, 'b) arr \<Rightarrow> bool" where
  "less_eq_arr a b \<longleftrightarrow> elems a \<le> elems b"
definition less_arr :: "('a, 'b) arr \<Rightarrow> ('a, 'b) arr \<Rightarrow> bool" where
  "less_arr a b \<longleftrightarrow> elems a < elems b"
instance
  by standard (auto simp: less_eq_arr_def less_arr_def less_le)
end

section \<open>Reverse\<close>

datatype 'a reverse = Reverse (reversed: 'a)

instantiation reverse :: (linorder) linorder
begin
definition less_eq_reverse :: "'a reverse \<Rightarrow> 'a reverse \<Rightarrow> bool" where
  "less_eq_reverse a b \<longleftrightarrow> reversed b \<le> reversed a"
definition less_reverse :: "'a reverse \<Rightarrow> 'a reverse \<Rightarrow> bool" where
  "less_reverse a b \<longleftrightarrow> reversed b < reversed a"
instance
  by standard (auto simp: less_eq_reverse_def less_reverse_def intro: reverse.expand)
end

lemma Reverse_less [simp]: "Reverse a < Reverse b \<longleftrightarrow> b < (a :: 'a::linorder)"
  by (simp add: less_reverse_def)

lemma Reverse_le [simp]: "Reverse a \<le> Reverse b \<longleftrightarrow> b \<le> (a :: 'a::linorder)"
  by (simp add: less_eq_reverse_def)

end
