(* ===== verification/Primitives.thy ===== *)
theory Primitives
  imports Rust_Array
begin

text \<open>
  The third-party primitives the crate calls and does not define, as parameters of the model:
  BLAKE3 (plain and derive-key mode) and the context-taking ML-DSA-65 interface of
  \<^verbatim>\<open>saorsa_pqc::api::sig\<close>. Every definition that uses one takes the record \<open>crypto\<close> as
  an argument. The predicates below it name the documented behaviour a property may rely on.
\<close>

section \<open>The parameters\<close>

type_synonym xorname = "(u8, 32) arr"

text \<open>
  \<open>pk_from_bytes\<close> and \<open>sig_from_bytes\<close> are the decoders at \<^verbatim>\<open>MlDsaVariant::MlDsa65\<close>, the
  only variant the crate passes; the error is its \<^verbatim>\<open>to_string()\<close>. Signing is randomized, and
  the first argument of \<open>sign_with_context\<close> is the randomness drawn.
\<close>

record ('pk, 'sk, 'sig) crypto =
  blake3_hash :: "bytes \<Rightarrow> xorname"
  blake3_derive_key :: "string \<Rightarrow> bytes \<Rightarrow> xorname"
  pk_from_bytes :: "bytes \<Rightarrow> ('pk, string) result"
  pk_to_bytes :: "'pk \<Rightarrow> bytes"
  sig_from_bytes :: "bytes \<Rightarrow> ('sig, string) result"
  sig_to_bytes :: "'sig \<Rightarrow> bytes"
  sign_with_context :: "nat \<Rightarrow> 'sk \<Rightarrow> bytes \<Rightarrow> bytes \<Rightarrow> ('sig, string) result"
  verify_with_context :: "'pk \<Rightarrow> bytes \<Rightarrow> 'sig \<Rightarrow> bytes \<Rightarrow> (bool, string) result"

definition ascii :: "string \<Rightarrow> bytes" where
  "ascii s = map of_char s"

lemma length_ascii [simp]: "length (ascii s) = length s"
  by (simp add: ascii_def)

section \<open>Documented behaviour of the ML-DSA-65 interface\<close>

text \<open>
  Keys and signatures of the variant have a fixed length (1952 and 3309 bytes) and their
  encoding is canonical: what decodes re-encodes to the bytes it came from.
\<close>

definition ml_dsa_65_encoding :: "('pk, 'sk, 'sig) crypto \<Rightarrow> bool" where
  "ml_dsa_65_encoding C \<longleftrightarrow>
     (\<forall>bs pk. pk_from_bytes C bs = Ok pk \<longrightarrow> length bs = 1952 \<and> pk_to_bytes C pk = bs) \<and>
     (\<forall>bs s. sig_from_bytes C bs = Ok s \<longrightarrow> length bs = 3309 \<and> sig_to_bytes C s = bs)"

text \<open>
  \<open>sk\<close> signs for \<open>pk\<close>: the key encodes and decodes back, signing under a context of at most
  255 bytes (the standard's limit) succeeds, and whatever
  randomness signing draws, its signature decodes back and verifies under \<open>pk\<close>.
\<close>

definition signs_for :: "('pk, 'sk, 'sig) crypto \<Rightarrow> 'sk \<Rightarrow> 'pk \<Rightarrow> bool" where
  "signs_for C sk pk \<longleftrightarrow>
     pk_from_bytes C (pk_to_bytes C pk) = Ok pk \<and>
     (\<forall>r msg ctx. length ctx \<le> 255 \<longrightarrow> (\<exists>s. sign_with_context C r sk msg ctx = Ok s \<and>
        sig_from_bytes C (sig_to_bytes C s) = Ok s \<and> verify_with_context C pk msg s ctx = Ok True))"

lemma pk_encodingD:
  assumes "ml_dsa_65_encoding C" "pk_from_bytes C bs = Ok pk"
  shows "length bs = 1952" "pk_to_bytes C pk = bs"
  using assms by (auto simp: ml_dsa_65_encoding_def)

lemma sig_encodingD:
  assumes "ml_dsa_65_encoding C" "sig_from_bytes C bs = Ok s"
  shows "length bs = 3309" "sig_to_bytes C s = bs"
  using assms by (auto simp: ml_dsa_65_encoding_def)

lemma signs_forE:
  assumes "signs_for C sk pk" "length ctx \<le> 255"
  obtains s where "sign_with_context C r sk msg ctx = Ok s"
    "sig_from_bytes C (sig_to_bytes C s) = Ok s" "verify_with_context C pk msg s ctx = Ok True"
  using assms unfolding signs_for_def by blast

lemma signs_for_pk: "signs_for C sk pk \<Longrightarrow> pk_from_bytes C (pk_to_bytes C pk) = Ok pk"
  by (simp add: signs_for_def)

section \<open>A concrete instance of the parameters\<close>

text \<open>
  A signature scheme and a hash with the interface above, for evaluating the model on concrete
  inputs and for showing that the predicates can hold. A key is one byte spread over 1952, a
  signature repeats the randomness it drew and ends in a checksum of the key, the message and
  the context. It is no cryptography and no statement about the real primitives rests on it.
\<close>

definition demo_sum :: "bytes \<Rightarrow> u8" where
  "demo_sum bs = foldl (\<lambda>acc b. 3 * acc + b + 1) 0 bs"

definition demo_hash :: "bytes \<Rightarrow> xorname" where
  "demo_hash bs = Arr (take 32 (bs @ replicate 32 (demo_sum bs)))"

definition demo_uniform :: "nat \<Rightarrow> string \<Rightarrow> bytes \<Rightarrow> (u8, string) result" where
  "demo_uniform n err bs =
     (if length bs = n \<and> bs = replicate n (hd bs) then Ok (hd bs) else Err err)"

definition demo_sig_from_bytes :: "bytes \<Rightarrow> (u8 \<times> u8, string) result" where
  "demo_sig_from_bytes bs =
     (if length bs = 3309 \<and> bs = replicate 3308 (hd bs) @ [last bs]
      then Ok (hd bs, last bs) else Err ''bad signature'')"

definition demo_crypto :: "(u8, u8, u8 \<times> u8) crypto" where
  "demo_crypto = \<lparr>
     blake3_hash = demo_hash,
     blake3_derive_key = (\<lambda>ctx bs. demo_hash (rev (ascii ctx @ bs))),
     pk_from_bytes = demo_uniform 1952 ''bad key'',
     pk_to_bytes = replicate 1952,
     sig_from_bytes = demo_sig_from_bytes,
     sig_to_bytes = (\<lambda>(r, c). replicate 3308 r @ [c]),
     sign_with_context = (\<lambda>r sk msg ctx. Ok (word_of_nat r, demo_sum (sk # msg @ ctx))),
     verify_with_context = (\<lambda>pk msg (r, c) ctx. Ok (c = demo_sum (pk # msg @ ctx)))\<rparr>"

lemma demo_uniform_replicate: "0 < n \<Longrightarrow> demo_uniform n err (replicate n b) = Ok b"
  by (cases n) (simp_all add: demo_uniform_def)

lemma demo_encoding: "ml_dsa_65_encoding demo_crypto"
  by (auto simp: ml_dsa_65_encoding_def demo_crypto_def demo_uniform_def demo_sig_from_bytes_def
      split: if_splits)

lemma demo_sig_decodes: "demo_sig_from_bytes (replicate 3308 r @ [c]) = Ok (r, c)"
proof -
  have "hd (replicate 3308 r @ [c]) = r"
    by (subst hd_append) simp
  then show ?thesis by (simp add: demo_sig_from_bytes_def)
qed

lemma demo_signs_for: "signs_for demo_crypto k k"
  by (simp add: signs_for_def demo_crypto_def demo_uniform_replicate demo_sig_decodes)

end
