(* ===== verification/Data_Types.thy ===== *)
theory Data_Types
  imports Primitives
begin

unbundle bit_operations_syntax

text \<open>
  Addresses and chunks: \<^verbatim>\<open>src/data_types.rs\<close>. Content addressing, the XOR distance of
  Kademlia and its order, peer identifiers read from hex, and the \<^verbatim>\<open>DataChunk\<close> container.
\<close>

section \<open>Address helpers\<close>

definition XORNAME_LEN :: nat where
  "XORNAME_LEN = 32"

definition compute_address :: "('pk, 'sk, 'sig) crypto \<Rightarrow> bytes \<Rightarrow> xorname" where
  "compute_address C content = blake3_hash C content"

definition xor_distance :: "xorname \<Rightarrow> xorname \<Rightarrow> xorname" where
  "xor_distance a b = arr_from_fn (\<lambda>i. arr_nth a i XOR arr_nth b i)"

text \<open>\<open>hex_decode\<close> stands for the \<^verbatim>\<open>hex\<close> crate's decoder.\<close>

definition peer_id_to_xor_name ::
  "(string \<Rightarrow> (bytes, string) result) \<Rightarrow> string \<Rightarrow> xorname option" where
  "peer_id_to_xor_name hex_decode peer_id =
     (case hex_decode peer_id of
        Err e \<Rightarrow> None
      | Ok bs \<Rightarrow> if length bs \<noteq> 32 then None else arr_of_list bs)"

section \<open>Chunks\<close>

record data_chunk =
  chunk_address :: xorname
  chunk_content :: bytes

definition data_chunk_new :: "xorname \<Rightarrow> bytes \<Rightarrow> data_chunk" where
  "data_chunk_new address content = \<lparr>chunk_address = address, chunk_content = content\<rparr>"

definition data_chunk_from_content :: "('pk, 'sk, 'sig) crypto \<Rightarrow> bytes \<Rightarrow> data_chunk" where
  "data_chunk_from_content C content =
     (let address = compute_address C content
      in \<lparr>chunk_address = address, chunk_content = content\<rparr>)"

definition data_chunk_size :: "data_chunk \<Rightarrow> nat" where
  "data_chunk_size c = length (chunk_content c)"

definition data_chunk_verify :: "('pk, 'sk, 'sig) crypto \<Rightarrow> data_chunk \<Rightarrow> bool" where
  "data_chunk_verify C c \<longleftrightarrow> chunk_address c = compute_address C (chunk_content c)"

record chunk_stats =
  chunks_stored :: u64
  chunks_retrieved :: u64
  cache_hits :: u64
  misses :: u64
  bytes_stored :: u64
  bytes_retrieved :: u64

section \<open>The distance is a XOR metric\<close>

lemma arr_nth_xor_distance [simp]:
  "i < 32 \<Longrightarrow> arr_nth (xor_distance a b) i = arr_nth a i XOR arr_nth b i"
  by (simp add: xor_distance_def)

lemma xor_distance_sym: "xor_distance a b = xor_distance b a"
  by (rule arr_eqI) (simp add: xor.commute)

lemma xor_distance_self: "xor_distance a a = arr_repeat 0"
  by (rule arr_eqI) simp

lemma xor_distance_cancel: "xor_distance a (xor_distance a b) = b"
  by (rule arr_eqI) (simp add: xor.assoc [symmetric])

lemma xor_distance_inject: "xor_distance a b = xor_distance a c \<longleftrightarrow> b = c"
  by (metis xor_distance_cancel)

lemma elems_xor_distance: "elems (xor_distance a b) = map2 (XOR) (elems a) (elems b)"
  by (rule nth_equalityI) (simp_all add: xor_distance_def arr_nth_def)

text \<open>An address read as the 256-bit number Kademlia compares.\<close>

definition address_nat :: "xorname \<Rightarrow> nat" where
  "address_nat a = nat_of_be (elems a)"

lemma xor_byte_step:
  fixes x y a b :: nat
  assumes "a < 256" "b < 256"
  shows "(x * 256 + a) XOR (y * 256 + b) = (x XOR y) * 256 + (a XOR b)"
proof -
  have d: "drop_bit 8 (z * 256 + c) = z" and t: "take_bit 8 (z * 256 + c) = c" if "c < 256" for z c :: nat
    using that by (simp_all add: drop_bit_eq_div take_bit_eq_mod div_mult_self3)
  have ab: "a XOR b < 256"
  proof -
    have "a XOR b = take_bit 8 (a XOR b)"
      using t [of a 0] t [of b 0] assms by (simp add: take_bit_xor)
    then show ?thesis using take_bit_nat_less_exp [of 8 "a XOR b"] by simp
  qed
  have "drop_bit 8 ((x * 256 + a) XOR (y * 256 + b)) = drop_bit 8 ((x XOR y) * 256 + (a XOR b))"
    by (simp only: drop_bit_xor d [OF assms(1)] d [OF assms(2)] d [OF ab])
  moreover have "take_bit 8 ((x * 256 + a) XOR (y * 256 + b)) = take_bit 8 ((x XOR y) * 256 + (a XOR b))"
    by (simp only: take_bit_xor t [OF assms(1)] t [OF assms(2)] t [OF ab])
  ultimately show ?thesis by (metis bits_ident)
qed

lemma nat_of_be_map2_xor:
  "length as = length bs \<Longrightarrow> nat_of_be (map2 (XOR) as bs) = nat_of_be as XOR nat_of_be bs"
proof (induction as arbitrary: bs rule: rev_induct)
  case Nil
  then show ?case by simp
next
  case (snoc a as)
  then obtain bs' b where bs: "bs = bs' @ [b]" "length as = length bs'"
    by (cases bs rule: rev_cases) auto
  then show ?case
    using snoc.IH [OF bs(2)]
    by (simp add: unsigned_xor_eq xor_byte_step)
qed

lemma address_nat_xor_distance:
  "address_nat (xor_distance a b) = address_nat a XOR address_nat b"
  by (simp add: address_nat_def elems_xor_distance nat_of_be_map2_xor)

lemma nat_of_be_Cons: "nat_of_be (b # bs) = unat b * 256 ^ length bs + nat_of_be bs"
proof (induction bs rule: rev_induct)
  case Nil
  then show ?case by (simp add: nat_of_be_def)
next
  case (snoc c bs)
  then show ?case
    by (simp add: algebra_simps flip: append_Cons)
qed

lemma mixed_radix_less:
  fixes x y u v K :: nat
  assumes "u < K" "v < K"
  shows "x * K + u < y * K + v \<longleftrightarrow> x < y \<or> x = y \<and> u < v"
proof (cases x y rule: linorder_cases)
  case less
  then have "(x + 1) * K \<le> y * K" by (intro mult_le_mono1) simp
  then show ?thesis using assms less by simp
next
  case greater
  then have "(y + 1) * K \<le> x * K" by (intro mult_le_mono1) simp
  then show ?thesis using assms greater by simp
qed simp

lemma nat_of_be_less_iff:
  "length as = length bs \<Longrightarrow> as < bs \<longleftrightarrow> nat_of_be as < nat_of_be bs"
proof (induction as arbitrary: bs)
  case Nil
  then show ?case by simp
next
  case (Cons a as)
  then obtain b bs' where bs: "bs = b # bs'" "length as = length bs'"
    by (cases bs) auto
  let ?K = "256 ^ length bs' :: nat"
  have "nat_of_be as < ?K" "nat_of_be bs' < ?K"
    using nat_of_be_less [of as] nat_of_be_less [of bs'] bs(2) by simp_all
  then have "unat a * ?K + nat_of_be as < unat b * ?K + nat_of_be bs' \<longleftrightarrow>
      unat a < unat b \<or> unat a = unat b \<and> nat_of_be as < nat_of_be bs'"
    by (rule mixed_radix_less)
  then show ?case
    using Cons.IH [OF bs(2)] bs by (simp add: nat_of_be_Cons word_less_nat_alt word_unat_eq_iff)
qed

lemma xorname_less_iff: "a < b \<longleftrightarrow> address_nat a < address_nat b"
  by (simp add: less_arr_def address_nat_def nat_of_be_less_iff)

lemma xor_nat_le_add: "(x :: nat) XOR y \<le> x + y"
proof (induction x arbitrary: y rule: less_induct)
  case (less x)
  show ?case
  proof (cases "x = 0")
    case False
    then have "x div 2 XOR y div 2 \<le> x div 2 + y div 2" by (intro less.IH) simp
    moreover have "x XOR y = of_bool (odd x \<noteq> odd y) + 2 * (x div 2 XOR y div 2)"
      by (rule xor_rec)
    ultimately show ?thesis
      by (cases "even x"; cases "even y") (auto elim!: evenE oddE)
  qed simp
qed

text \<open>The triangle inequality of the metric, on the numbers the order compares.\<close>

lemma address_nat_triangle:
  "address_nat (xor_distance a c) \<le> address_nat (xor_distance a b) + address_nat (xor_distance b c)"
proof -
  have "xor_distance a c = xor_distance (xor_distance a b) (xor_distance b c)"
    by (rule arr_eqI) (auto intro!: bit_word_eqI simp: bit_simps)
  then show ?thesis
    using xor_nat_le_add by (simp add: address_nat_xor_distance)
qed

section \<open>Properties\<close>

text \<open>
  C34: The distance is Kademlia's metric: symmetric, zero exactly between equal addresses, with the
  triangle inequality on the 256-bit numbers the order compares, and unidirectional (one address at each
  distance from a given one). Sorting addresses by their distance to a target compares those numbers.
\<close>

theorem distance_is_xor_metric:
  "xor_distance a b = xor_distance b a \<and>
   (xor_distance a b = arr_repeat 0 \<longleftrightarrow> a = b) \<and>
   address_nat (xor_distance a c) \<le> address_nat (xor_distance a b) + address_nat (xor_distance b c) \<and>
   (\<exists>!x. xor_distance a x = d) \<and>
   (xor_distance t a < xor_distance t b \<longleftrightarrow>
     (address_nat t XOR address_nat a) < (address_nat t XOR address_nat b))"
proof (intro conjI)
  show "xor_distance a b = arr_repeat 0 \<longleftrightarrow> a = b"
    by (metis xor_distance_inject xor_distance_self)
  show "\<exists>!x. xor_distance a x = d"
    by (metis xor_distance_cancel)
  show "xor_distance a b = xor_distance b a" by (rule xor_distance_sym)
  show "address_nat (xor_distance a c) \<le> address_nat (xor_distance a b) + address_nat (xor_distance b c)"
    by (rule address_nat_triangle)
  show "xor_distance t a < xor_distance t b \<longleftrightarrow>
      (address_nat t XOR address_nat a) < (address_nat t XOR address_nat b)"
    by (simp only: xorname_less_iff address_nat_xor_distance)
qed

text \<open>
  Content addressing and peer ids: a chunk made from content verifies, any chunk that verifies at
  the address of other content exhibits a BLAKE3 collision, and a peer id gives an address exactly when
  it is the hex form of 32 bytes, those bytes.
\<close>

theorem addresses_are_content:
  "data_chunk_verify C (data_chunk_from_content C content) \<and>
   (data_chunk_verify C (data_chunk_new (chunk_address (data_chunk_from_content C content)) other) \<longleftrightarrow>
      blake3_hash C content = blake3_hash C other) \<and>
   (peer_id_to_xor_name hex_decode peer_id = Some x \<longleftrightarrow> hex_decode peer_id = Ok (elems x))"
proof (intro conjI)
  show "peer_id_to_xor_name hex_decode peer_id = Some x \<longleftrightarrow> hex_decode peer_id = Ok (elems x)"
    by (auto simp: peer_id_to_xor_name_def arr_of_list_eq_Some split: result.splits)
qed (simp_all add: data_chunk_verify_def data_chunk_from_content_def data_chunk_new_def compute_address_def Let_def)

end
