(* ===== verification/Pointer_State.thy ===== *)
theory Pointer_State
  imports Data_Types
begin

text \<open>
  The first half of \<^verbatim>\<open>src/pointer.rs\<close>: the fixed-width layout, the derived identities, targets,
  the merge rank and its order, and \<^verbatim>\<open>PointerState\<close>, the unverified parse of a record's bytes.
\<close>

section \<open>Constants\<close>

definition DATA_TYPE_POINTER :: u32 where
  "DATA_TYPE_POINTER = 1"

definition POINTER_FORMAT_VERSION :: u8 where
  "POINTER_FORMAT_VERSION = 1"

definition FINAL_COUNTER :: u64 where
  "FINAL_COUNTER = - 1"

definition ML_DSA_65_PUBLIC_KEY_LEN :: nat where
  "ML_DSA_65_PUBLIC_KEY_LEN = 1952"

definition ML_DSA_65_SIGNATURE_LEN :: nat where
  "ML_DSA_65_SIGNATURE_LEN = 3309"

definition TARGET_WIRE_LEN :: nat where
  "TARGET_WIRE_LEN = 1 + XORNAME_LEN"

definition OWNER_OFFSET :: nat where
  "OWNER_OFFSET = 1"

definition COUNTER_OFFSET :: nat where
  "COUNTER_OFFSET = OWNER_OFFSET + ML_DSA_65_PUBLIC_KEY_LEN"

definition TARGET_OFFSET :: nat where
  "TARGET_OFFSET = COUNTER_OFFSET + 8"

definition POINTER_BODY_LEN :: nat where
  "POINTER_BODY_LEN = TARGET_OFFSET + TARGET_WIRE_LEN"

definition POINTER_WIRE_LEN :: nat where
  "POINTER_WIRE_LEN = POINTER_BODY_LEN + ML_DSA_65_SIGNATURE_LEN"

definition CONTEXT_ADDRESS :: string where
  "CONTEXT_ADDRESS = ''autonomi.pointer.address.v1''"

definition CONTEXT_STATE :: string where
  "CONTEXT_STATE = ''autonomi.pointer.state.v1''"

definition SIGNING_CONTEXT :: bytes where
  "SIGNING_CONTEXT = ascii ''autonomi.pointer.head.v1''"

lemmas layout_defs = XORNAME_LEN_def ML_DSA_65_PUBLIC_KEY_LEN_def ML_DSA_65_SIGNATURE_LEN_def
  TARGET_WIRE_LEN_def OWNER_OFFSET_def COUNTER_OFFSET_def TARGET_OFFSET_def POINTER_BODY_LEN_def
  POINTER_WIRE_LEN_def

section \<open>Errors\<close>

datatype pointer_error =
    WrongLength nat
  | UnknownFormatVersion u8
  | InvalidOwnerKey string
  | InvalidSignatureFormat string
  | SignatureInvalid
  | SigningFailed string
  | CounterExhausted

definition display_pointer_error :: "pointer_error \<Rightarrow> string" where
  "display_pointer_error e =
     (case e of
        WrongLength len \<Rightarrow> ''pointer must be '' @ show_nat POINTER_WIRE_LEN @ '' bytes, got '' @ show_nat len
      | UnknownFormatVersion version \<Rightarrow> ''unknown pointer format version '' @ show_word version
      | InvalidOwnerKey reason \<Rightarrow> ''invalid pointer owner key: '' @ reason
      | InvalidSignatureFormat reason \<Rightarrow> ''invalid pointer signature format: '' @ reason
      | SignatureInvalid \<Rightarrow> ''pointer signature does not verify under its owner key''
      | SigningFailed reason \<Rightarrow> ''pointer signing failed: '' @ reason
      | CounterExhausted \<Rightarrow>
          ''pointer is final: its counter is at u64::MAX, and no later state can replace it'')"

section \<open>Identities\<close>

definition pointer_address :: "('pk, 'sk, 'sig) crypto \<Rightarrow> 'pk \<Rightarrow> xorname" where
  "pointer_address C owner = blake3_derive_key C CONTEXT_ADDRESS (pk_to_bytes C owner)"

definition state_id_for_body :: "('pk, 'sk, 'sig) crypto \<Rightarrow> bytes \<Rightarrow> xorname" where
  "state_id_for_body C body = blake3_derive_key C CONTEXT_STATE body"

section \<open>Targets\<close>

datatype pointer_target_kind = Chunk_Kind | Pointer_Kind

fun kind_to_tag :: "pointer_target_kind \<Rightarrow> u8" where
  "kind_to_tag Chunk_Kind = 0"
| "kind_to_tag Pointer_Kind = 1"

definition kind_from_tag :: "u8 \<Rightarrow> pointer_target_kind option" where
  "kind_from_tag tag =
     (if tag = 0 then Some Chunk_Kind else if tag = 1 then Some Pointer_Kind else None)"

record pointer_target =
  kind_tag :: u8
  target_address :: xorname

definition target_new :: "pointer_target_kind \<Rightarrow> xorname \<Rightarrow> pointer_target" where
  "target_new kind address = \<lparr>kind_tag = kind_to_tag kind, target_address = address\<rparr>"

definition target_from_raw_tag :: "u8 \<Rightarrow> xorname \<Rightarrow> pointer_target" where
  "target_from_raw_tag tag address = \<lparr>kind_tag = tag, target_address = address\<rparr>"

definition target_kind :: "pointer_target \<Rightarrow> pointer_target_kind option" where
  "target_kind t = kind_from_tag (kind_tag t)"

type_synonym target_bytes = "(u8, 33) arr"

definition target_to_bytes :: "pointer_target \<Rightarrow> target_bytes" where
  "target_to_bytes t = Arr (kind_tag t # elems (target_address t))"

definition target_from_bytes :: "bytes \<Rightarrow> pointer_target option" where
  "target_from_bytes bs =
     (case bs of
        [] \<Rightarrow> None
      | tag # rest \<Rightarrow>
          if length rest \<noteq> XORNAME_LEN then None
          else map_option (\<lambda>address. \<lparr>kind_tag = tag, target_address = address\<rparr>) (arr_of_list rest))"

lemma kind_from_to_tag [simp]: "kind_from_tag (kind_to_tag k) = Some k"
  by (cases k) (simp_all add: kind_from_tag_def)

lemma target_kind_new [simp]: "target_kind (target_new k a) = Some k"
  by (simp add: target_kind_def target_new_def)

lemma elems_target_to_bytes [simp]:
  "elems (target_to_bytes t) = kind_tag t # elems (target_address t)"
  by (simp add: target_to_bytes_def)

lemma target_to_bytes_inject [simp]: "target_to_bytes s = target_to_bytes t \<longleftrightarrow> s = t"
proof -
  have "target_to_bytes s = target_to_bytes t \<longleftrightarrow>
      elems (target_to_bytes s) = elems (target_to_bytes t)"
    by (simp only: elems_eq_iff)
  then show ?thesis by (cases s; cases t) simp
qed

lemma target_from_to_bytes [simp]: "target_from_bytes (elems (target_to_bytes t)) = Some t"
  by (simp add: target_from_bytes_def XORNAME_LEN_def)

lemma target_from_bytes_eq_Some:
  "target_from_bytes bs = Some t \<longleftrightarrow> bs = elems (target_to_bytes t)"
  by (cases bs)
    (auto simp: target_from_bytes_def XORNAME_LEN_def arr_of_list_eq_Some split: if_splits)

lemma target_from_bytes_total: "length bs = 33 \<Longrightarrow> \<exists>t. target_from_bytes bs = Some t"
  by (cases bs) (auto simp: target_from_bytes_def XORNAME_LEN_def arr_of_list_def)

section \<open>The signed body\<close>

definition encode_body ::
  "('pk, 'sk, 'sig) crypto \<Rightarrow> u8 \<Rightarrow> 'pk \<Rightarrow> u64 \<Rightarrow> pointer_target \<Rightarrow> (bytes, pointer_error) result" where
  "encode_body C version owner counter target =
     (let owner_bytes = pk_to_bytes C owner in
      if length owner_bytes \<noteq> ML_DSA_65_PUBLIC_KEY_LEN then
        Err (InvalidOwnerKey (''owner key must be '' @ show_nat ML_DSA_65_PUBLIC_KEY_LEN @
               '' bytes, got '' @ show_nat (length owner_bytes)))
      else Ok ([version] @ owner_bytes @ to_be_bytes 8 counter @ elems (target_to_bytes target)))"

lemma encode_body_eq_Ok [result_simps]:
  "encode_body C v pk n t = Ok body \<longleftrightarrow>
     length (pk_to_bytes C pk) = 1952 \<and>
     body = [v] @ pk_to_bytes C pk @ to_be_bytes 8 n @ elems (target_to_bytes t)"
  by (auto simp: encode_body_def ML_DSA_65_PUBLIC_KEY_LEN_def Let_def)

lemma length_encode_body: "encode_body C v pk n t = Ok body \<Longrightarrow> length body = POINTER_BODY_LEN"
  by (auto simp: encode_body_eq_Ok layout_defs)

section \<open>The merge rank\<close>

text \<open>\<^verbatim>\<open>Ord\<close> derived over the fields in declaration order: the counter first, then the target
  inverted.\<close>

datatype merge_rank = MergeRank (rank_counter: u64) (rank_target: "target_bytes reverse")

instantiation merge_rank :: linorder
begin
definition less_eq_merge_rank :: "merge_rank \<Rightarrow> merge_rank \<Rightarrow> bool" where
  "less_eq_merge_rank a b \<longleftrightarrow> rank_counter a < rank_counter b \<or>
     rank_counter a = rank_counter b \<and> rank_target a \<le> rank_target b"
definition less_merge_rank :: "merge_rank \<Rightarrow> merge_rank \<Rightarrow> bool" where
  "less_merge_rank a b \<longleftrightarrow> rank_counter a < rank_counter b \<or>
     rank_counter a = rank_counter b \<and> rank_target a < rank_target b"
instance
  by standard (auto simp: less_eq_merge_rank_def less_merge_rank_def intro: merge_rank.expand)
end

lemma MergeRank_less:
  "MergeRank m (Reverse s) < MergeRank n (Reverse t) \<longleftrightarrow> m < n \<or> m = n \<and> t < s"
  by (simp add: less_merge_rank_def)

section \<open>States\<close>

record pointer_state =
  st_state_id :: xorname
  st_address :: xorname
  st_counter :: u64
  st_target :: pointer_target

definition parse_with_owner ::
  "('pk, 'sk, 'sig) crypto \<Rightarrow> bytes \<Rightarrow> (pointer_state \<times> 'pk, pointer_error) result" where
  "parse_with_owner C bs =
     (if length bs \<noteq> POINTER_WIRE_LEN then Err (WrongLength (length bs)) else
      and_then (ok_or (WrongLength (length bs)) (slice_first bs)) (\<lambda>version.
      if version \<noteq> POINTER_FORMAT_VERSION then Err (UnknownFormatVersion version) else
      and_then (ok_or (WrongLength (length bs)) (get_range OWNER_OFFSET COUNTER_OFFSET bs)) (\<lambda>owner_bytes.
      and_then (map_err InvalidOwnerKey (pk_from_bytes C owner_bytes)) (\<lambda>owner.
      and_then (ok_or (WrongLength (length bs))
        (Option.bind (get_range COUNTER_OFFSET TARGET_OFFSET bs)
          (\<lambda>slice. arr_of_list slice :: (u8, 8) arr option))) (\<lambda>counter_bytes.
      and_then (ok_or (WrongLength (length bs))
        (Option.bind (get_range TARGET_OFFSET POINTER_BODY_LEN bs) target_from_bytes)) (\<lambda>target.
      and_then (ok_or (WrongLength (length bs)) (get_range 0 POINTER_BODY_LEN bs)) (\<lambda>body.
      Ok (\<lparr>st_state_id = state_id_for_body C body,
           st_address = pointer_address C owner,
           st_counter = from_be_bytes (elems counter_bytes),
           st_target = target\<rparr>, owner))))))))"

definition parse_state ::
  "('pk, 'sk, 'sig) crypto \<Rightarrow> bytes \<Rightarrow> (pointer_state, pointer_error) result" where
  "parse_state C bs = result_map fst (parse_with_owner C bs)"

definition state_rank :: "pointer_state \<Rightarrow> merge_rank" where
  "state_rank s = MergeRank (st_counter s) (Reverse (target_to_bytes (st_target s)))"

definition state_is_terminal :: "pointer_state \<Rightarrow> bool" where
  "state_is_terminal s \<longleftrightarrow> st_counter s = FINAL_COUNTER"

definition transfer_target :: "u64 \<Rightarrow> pointer_target \<Rightarrow> xorname option" where
  "transfer_target counter target =
     (case target_kind target of
        Some Pointer_Kind \<Rightarrow> if counter = FINAL_COUNTER then Some (target_address target) else None
      | _ \<Rightarrow> None)"

definition state_transferred_to :: "pointer_state \<Rightarrow> xorname option" where
  "state_transferred_to s = transfer_target (st_counter s) (st_target s)"

definition state_replaces :: "pointer_state \<Rightarrow> pointer_state \<Rightarrow> bool" where
  "state_replaces self other \<longleftrightarrow>
     st_address self = st_address other \<and> \<not> state_is_terminal other \<and>
     state_rank other < state_rank self"

section \<open>What parsing accepts\<close>

text \<open>
  Every byte string of the wire length is a body in layout followed by 3309 bytes. The parse is
  decided by the version byte and the key bytes alone: nothing else in the body can be refused.
\<close>

lemma wire_split:
  assumes "length bs = POINTER_WIRE_LEN"
  obtains v kb and n :: u64 and t sb where
    "bs = [v] @ kb @ to_be_bytes 8 n @ elems (target_to_bytes t) @ sb"
    "length kb = 1952" "length sb = 3309"
proof -
  obtain v rest where bs: "bs = v # rest" "length rest = 5302"
    using assms by (cases bs) (auto simp: layout_defs)
  let ?kb = "take 1952 rest" and ?r1 = "drop 1952 rest"
  let ?nb = "take 8 ?r1" and ?r2 = "drop 8 ?r1"
  let ?tb = "take 33 ?r2" and ?sb = "drop 33 ?r2"
  obtain t where t: "?tb = elems (target_to_bytes t)"
    using target_from_bytes_total [of ?tb] bs(2) by (auto simp: target_from_bytes_eq_Some)
  have n: "?nb = to_be_bytes 8 (from_be_bytes ?nb :: u64)"
    using bs(2) by (simp add: to_from_be_bytes)
  have "bs = [v] @ ?kb @ ?nb @ ?tb @ ?sb"
    by (simp add: bs(1) del: drop_drop)
  then have "bs = [v] @ ?kb @ to_be_bytes 8 (from_be_bytes ?nb :: u64) @ elems (target_to_bytes t) @ ?sb"
    using n t by simp
  then show thesis
    using that [of v ?kb "from_be_bytes ?nb" t ?sb] bs(2) by simp
qed

lemma parse_layout:
  assumes "length kb = 1952" "length sb = 3309"
  shows "parse_with_owner C ([v] @ kb @ to_be_bytes 8 n @ elems (target_to_bytes t) @ sb) =
     (if v \<noteq> POINTER_FORMAT_VERSION then Err (UnknownFormatVersion v) else
      case pk_from_bytes C kb of
        Err e \<Rightarrow> Err (InvalidOwnerKey e)
      | Ok pk \<Rightarrow> Ok (\<lparr>st_state_id = state_id_for_body C
                          ([v] @ kb @ to_be_bytes 8 n @ elems (target_to_bytes t)),
                        st_address = pointer_address C pk, st_counter = n, st_target = t\<rparr>, pk))"
proof -
  let ?nb = "to_be_bytes 8 n" and ?tb = "elems (target_to_bytes t)"
  let ?bs = "[v] @ kb @ ?nb @ ?tb @ sb"
  have tl: "length ?tb = 33" by simp
  have len: "length ?bs = POINTER_WIRE_LEN"
    using assms tl by (simp add: layout_defs del: elems_target_to_bytes)
  have r1: "get_range OWNER_OFFSET COUNTER_OFFSET ?bs = Some kb"
    using assms by (intro get_range_append) (simp_all add: layout_defs)
  have r2: "get_range COUNTER_OFFSET TARGET_OFFSET ?bs = Some ?nb"
    using assms get_range_append [of "[v] @ kb" COUNTER_OFFSET ?nb TARGET_OFFSET "?tb @ sb"]
    by (simp add: layout_defs)
  have r3: "get_range TARGET_OFFSET POINTER_BODY_LEN ?bs = Some ?tb"
    using assms tl get_range_append [of "[v] @ kb @ ?nb" TARGET_OFFSET ?tb POINTER_BODY_LEN sb]
    by (simp add: layout_defs del: elems_target_to_bytes)
  have r4: "get_range 0 POINTER_BODY_LEN ?bs = Some ([v] @ kb @ ?nb @ ?tb)"
    using assms tl get_range_append [of "[]" 0 "[v] @ kb @ ?nb @ ?tb" POINTER_BODY_LEN sb]
    by (simp add: layout_defs del: elems_target_to_bytes)
  have nb: "arr_of_list ?nb = Some (Arr ?nb :: (u8, 8) arr)"
    by (simp add: arr_of_list_def)
  have n: "from_be_bytes (elems (Arr ?nb :: (u8, 8) arr)) = n"
    by (simp add: from_to_be_bytes)
  show ?thesis
    unfolding parse_with_owner_def r1 r2 r3 r4 len
    by (cases "pk_from_bytes C kb")
      (simp_all add: nb n del: elems_target_to_bytes elems_Arr)
qed

end
