(* ===== verification/Pointer_Record.thy ===== *)
theory Pointer_Record
  imports Pointer_State
begin

text \<open>
  The second half of \<^verbatim>\<open>src/pointer.rs\<close>: parsed-but-unverified records and the signed
  \<^verbatim>\<open>Pointer\<close> with its operations: signing, creation, update, finalization, transfer,
  validation, re-encoding and the accessors. Signing takes the randomness it draws.
\<close>

section \<open>Records\<close>

record 'pk parsed_pointer =
  pp_bytes :: bytes
  pp_state :: pointer_state
  pp_owner :: 'pk

record ('pk, 'sig) pointer =
  ptr_version :: u8
  ptr_owner :: 'pk
  ptr_counter :: u64
  ptr_target :: pointer_target
  ptr_sig :: 'sig

definition parsed_pointer_parse ::
  "('pk, 'sk, 'sig) crypto \<Rightarrow> bytes \<Rightarrow> ('pk parsed_pointer, pointer_error) result" where
  "parsed_pointer_parse C bs =
     and_then (parse_with_owner C bs) (\<lambda>(state, owner).
     Ok \<lparr>pp_bytes = bs, pp_state = state, pp_owner = owner\<rparr>)"

definition verify_parsed ::
  "('pk, 'sk, 'sig) crypto \<Rightarrow> 'pk parsed_pointer \<Rightarrow> (('pk, 'sig) pointer, pointer_error) result" where
  "verify_parsed C parsed =
     (let bs = pp_bytes parsed; state = pp_state parsed; owner = pp_owner parsed in
      and_then (ok_or (WrongLength (length bs)) (get_range 0 POINTER_BODY_LEN bs)) (\<lambda>body.
      and_then (ok_or (WrongLength (length bs)) (get_from POINTER_BODY_LEN bs)) (\<lambda>signature_bytes.
      and_then (map_err InvalidSignatureFormat (sig_from_bytes C signature_bytes)) (\<lambda>signature.
      and_then (map_err InvalidSignatureFormat
        (verify_with_context C owner body signature SIGNING_CONTEXT)) (\<lambda>valid.
      if \<not> valid then Err SignatureInvalid
      else Ok \<lparr>ptr_version = POINTER_FORMAT_VERSION, ptr_owner = owner,
               ptr_counter = st_counter state, ptr_target = st_target state,
               ptr_sig = signature\<rparr>)))))"

definition pointer_from_bytes ::
  "('pk, 'sk, 'sig) crypto \<Rightarrow> bytes \<Rightarrow> (('pk, 'sig) pointer, pointer_error) result" where
  "pointer_from_bytes C bs = and_then (parsed_pointer_parse C bs) (verify_parsed C)"

section \<open>Signing\<close>

definition pointer_sign ::
  "('pk, 'sk, 'sig) crypto \<Rightarrow> nat \<Rightarrow> 'sk \<Rightarrow> 'pk \<Rightarrow> u64 \<Rightarrow> pointer_target \<Rightarrow>
     (('pk, 'sig) pointer, pointer_error) result" where
  "pointer_sign C r secret_key owner counter target =
     and_then (encode_body C POINTER_FORMAT_VERSION owner counter target) (\<lambda>body.
     and_then (map_err SigningFailed (sign_with_context C r secret_key body SIGNING_CONTEXT)) (\<lambda>signature.
     pointer_from_bytes C (body @ sig_to_bytes C signature)))"

definition pointer_create ::
  "('pk, 'sk, 'sig) crypto \<Rightarrow> nat \<Rightarrow> 'sk \<Rightarrow> 'pk \<Rightarrow> pointer_target \<Rightarrow>
     (('pk, 'sig) pointer, pointer_error) result" where
  "pointer_create C r secret_key owner target = pointer_sign C r secret_key owner 0 target"

definition next_counter :: "('pk, 'sig) pointer \<Rightarrow> (u64, pointer_error) result" where
  "next_counter p = ok_or CounterExhausted (checked_add (ptr_counter p) 1)"

definition pointer_update ::
  "('pk, 'sk, 'sig) crypto \<Rightarrow> nat \<Rightarrow> ('pk, 'sig) pointer \<Rightarrow> 'sk \<Rightarrow> pointer_target \<Rightarrow>
     (('pk, 'sig) pointer, pointer_error) result" where
  "pointer_update C r p secret_key target =
     and_then (next_counter p) (\<lambda>counter. pointer_sign C r secret_key (ptr_owner p) counter target)"

definition pointer_is_terminal :: "('pk, 'sig) pointer \<Rightarrow> bool" where
  "pointer_is_terminal p \<longleftrightarrow> ptr_counter p = FINAL_COUNTER"

definition pointer_finalize ::
  "('pk, 'sk, 'sig) crypto \<Rightarrow> nat \<Rightarrow> ('pk, 'sig) pointer \<Rightarrow> 'sk \<Rightarrow> pointer_target \<Rightarrow>
     (('pk, 'sig) pointer, pointer_error) result" where
  "pointer_finalize C r p secret_key target =
     (if pointer_is_terminal p then Err CounterExhausted
      else pointer_sign C r secret_key (ptr_owner p) FINAL_COUNTER target)"

definition pointer_transfer_to ::
  "('pk, 'sk, 'sig) crypto \<Rightarrow> nat \<Rightarrow> ('pk, 'sig) pointer \<Rightarrow> 'sk \<Rightarrow> xorname \<Rightarrow>
     (('pk, 'sig) pointer, pointer_error) result" where
  "pointer_transfer_to C r p secret_key recipient =
     pointer_finalize C r p secret_key (target_new Pointer_Kind recipient)"

section \<open>Encoding and accessors\<close>

definition pointer_body :: "('pk, 'sk, 'sig) crypto \<Rightarrow> ('pk, 'sig) pointer \<Rightarrow> bytes" where
  "pointer_body C p =
     (case encode_body C (ptr_version p) (ptr_owner p) (ptr_counter p) (ptr_target p) of
        Ok body \<Rightarrow> body
      | Err e \<Rightarrow> [])"

definition pointer_to_bytes :: "('pk, 'sk, 'sig) crypto \<Rightarrow> ('pk, 'sig) pointer \<Rightarrow> bytes" where
  "pointer_to_bytes C p = pointer_body C p @ sig_to_bytes C (ptr_sig p)"

definition ptr_address :: "('pk, 'sk, 'sig) crypto \<Rightarrow> ('pk, 'sig) pointer \<Rightarrow> xorname" where
  "ptr_address C p = pointer_address C (ptr_owner p)"

definition ptr_state_id :: "('pk, 'sk, 'sig) crypto \<Rightarrow> ('pk, 'sig) pointer \<Rightarrow> xorname" where
  "ptr_state_id C p = state_id_for_body C (pointer_body C p)"

definition ptr_state :: "('pk, 'sk, 'sig) crypto \<Rightarrow> ('pk, 'sig) pointer \<Rightarrow> pointer_state" where
  "ptr_state C p = \<lparr>st_state_id = ptr_state_id C p, st_address = ptr_address C p,
     st_counter = ptr_counter p, st_target = ptr_target p\<rparr>"

text \<open>The \<^verbatim>\<open>Debug\<close> renderings: \<^verbatim>\<open>debug_struct\<close> ended by \<^verbatim>\<open>finish_non_exhaustive\<close>; a string is
  quoted, and hex digits need no escape. \<open>hex_encode\<close> stands for the \<^verbatim>\<open>hex\<close> crate.\<close>

definition quoted :: "string \<Rightarrow> string" where
  "quoted s = [CHR 0x22] @ s @ [CHR 0x22]"

definition debug_non_exhaustive :: "string \<Rightarrow> (string \<times> string) list \<Rightarrow> string" where
  "debug_non_exhaustive name shown =
     name @ '' { '' @ concat (map (\<lambda>(field, value). field @ '': '' @ value @ '', '') shown) @ ''.. }''"

definition debug_parsed_pointer :: "(bytes \<Rightarrow> string) \<Rightarrow> 'pk parsed_pointer \<Rightarrow> string" where
  "debug_parsed_pointer hex_encode p = debug_non_exhaustive ''ParsedPointer''
     [(''address'', quoted (hex_encode (elems (st_address (pp_state p))))),
      (''counter'', show_word (st_counter (pp_state p)))]"

definition debug_pointer ::
  "(bytes \<Rightarrow> string) \<Rightarrow> ('pk, 'sk, 'sig) crypto \<Rightarrow> ('pk, 'sig) pointer \<Rightarrow> string" where
  "debug_pointer hex_encode C p = debug_non_exhaustive ''Pointer''
     [(''address'', quoted (hex_encode (elems (ptr_address C p)))),
      (''counter'', show_word (ptr_counter p)),
      (''target_tag'', show_word (kind_tag (ptr_target p))),
      (''target'', quoted (hex_encode (elems (target_address (ptr_target p))))),
      (''state_id'', quoted (hex_encode (elems (ptr_state_id C p))))]"

definition pointer_transferred_to :: "('pk, 'sig) pointer \<Rightarrow> xorname option" where
  "pointer_transferred_to p = transfer_target (ptr_counter p) (ptr_target p)"

definition pointer_replaces ::
  "('pk, 'sk, 'sig) crypto \<Rightarrow> ('pk, 'sig) pointer \<Rightarrow> ('pk, 'sig) pointer \<Rightarrow> bool" where
  "pointer_replaces C self other = state_replaces (ptr_state C self) (ptr_state C other)"

section \<open>Well-formed records\<close>

text \<open>
  The type's promise ("a value of this type has been through \<^verbatim>\<open>from_bytes\<close>") as a predicate: the
  current version, a decodable key and signature, and a signature that covers exactly the body.
\<close>

definition valid_pointer :: "('pk, 'sk, 'sig) crypto \<Rightarrow> ('pk, 'sig) pointer \<Rightarrow> bool" where
  "valid_pointer C p \<longleftrightarrow>
     ptr_version p = POINTER_FORMAT_VERSION \<and>
     pk_from_bytes C (pk_to_bytes C (ptr_owner p)) = Ok (ptr_owner p) \<and>
     sig_from_bytes C (sig_to_bytes C (ptr_sig p)) = Ok (ptr_sig p) \<and>
     verify_with_context C (ptr_owner p) (pointer_body C p) (ptr_sig p) SIGNING_CONTEXT = Ok True"

lemma pointer_body_layout:
  "length (pk_to_bytes C (ptr_owner p)) = 1952 \<Longrightarrow>
   pointer_body C p = [ptr_version p] @ pk_to_bytes C (ptr_owner p) @ to_be_bytes 8 (ptr_counter p) @
     elems (target_to_bytes (ptr_target p))"
  by (simp add: pointer_body_def encode_body_def ML_DSA_65_PUBLIC_KEY_LEN_def)

lemma length_pointer_body:
  "length (pk_to_bytes C (ptr_owner p)) = 1952 \<Longrightarrow> length (pointer_body C p) = POINTER_BODY_LEN"
  by (simp add: pointer_body_layout layout_defs)

text \<open>One equation for the whole validation of a wire-length record, in the order of its checks.\<close>

lemma from_bytes_layout:
  fixes v :: u8 and kb sb :: bytes and n :: u64 and t :: pointer_target
  assumes "length kb = 1952" "length sb = 3309"
  defines "body \<equiv> [v] @ kb @ to_be_bytes 8 n @ elems (target_to_bytes t)"
  shows "pointer_from_bytes C (body @ sb) =
     (if v \<noteq> POINTER_FORMAT_VERSION then Err (UnknownFormatVersion v) else
      case pk_from_bytes C kb of Err e \<Rightarrow> Err (InvalidOwnerKey e) | Ok pk \<Rightarrow>
      case sig_from_bytes C sb of Err e \<Rightarrow> Err (InvalidSignatureFormat e) | Ok s \<Rightarrow>
      case verify_with_context C pk body s SIGNING_CONTEXT of
        Err e \<Rightarrow> Err (InvalidSignatureFormat e)
      | Ok valid \<Rightarrow> if \<not> valid then Err SignatureInvalid else
          Ok \<lparr>ptr_version = POINTER_FORMAT_VERSION, ptr_owner = pk, ptr_counter = n,
              ptr_target = t, ptr_sig = s\<rparr>)"
proof -
  have bs: "body @ sb = [v] @ kb @ to_be_bytes 8 n @ elems (target_to_bytes t) @ sb"
    by (simp add: body_def)
  have len: "length body = POINTER_BODY_LEN"
    using assms(1) by (simp add: body_def layout_defs)
  have g: "get_range 0 POINTER_BODY_LEN (body @ sb) = Some body"
    "get_from POINTER_BODY_LEN (body @ sb) = Some sb"
    by (simp_all add: get_range_def get_from_def len [symmetric])
  have p: "parse_with_owner C (body @ sb) =
     (if v \<noteq> POINTER_FORMAT_VERSION then Err (UnknownFormatVersion v) else
      case pk_from_bytes C kb of Err e \<Rightarrow> Err (InvalidOwnerKey e)
      | Ok pk \<Rightarrow> Ok (\<lparr>st_state_id = state_id_for_body C body, st_address = pointer_address C pk,
                        st_counter = n, st_target = t\<rparr>, pk))"
    unfolding bs by (simp only: parse_layout [OF assms(1,2)] body_def)
  show ?thesis
    unfolding pointer_from_bytes_def parsed_pointer_parse_def p
    by (simp add: verify_parsed_def g Let_def split: result.split)
qed

lemma from_bytes_wrong_length:
  "length bs \<noteq> POINTER_WIRE_LEN \<Longrightarrow> pointer_from_bytes C bs = Err (WrongLength (length bs))"
  by (simp add: pointer_from_bytes_def parsed_pointer_parse_def parse_with_owner_def)

lemma valid_pointer_key_lengths:
  assumes enc: "ml_dsa_65_encoding C" and v: "valid_pointer C p"
  shows "length (pk_to_bytes C (ptr_owner p)) = 1952" "length (sig_to_bytes C (ptr_sig p)) = 3309"
proof -
  have "pk_from_bytes C (pk_to_bytes C (ptr_owner p)) = Ok (ptr_owner p)"
    and "sig_from_bytes C (sig_to_bytes C (ptr_sig p)) = Ok (ptr_sig p)"
    using v by (simp_all add: valid_pointer_def)
  from pk_encodingD(1) [OF enc this(1)] sig_encodingD(1) [OF enc this(2)]
  show "length (pk_to_bytes C (ptr_owner p)) = 1952" "length (sig_to_bytes C (ptr_sig p)) = 3309"
    by simp_all
qed

text \<open>Acceptance: a byte string is accepted as \<open>p\<close> exactly when \<open>p\<close> is well formed and the
  string is its canonical encoding.\<close>

lemma from_bytes_eq_Ok:
  assumes enc: "ml_dsa_65_encoding C"
  shows "pointer_from_bytes C bs = Ok p \<longleftrightarrow> valid_pointer C p \<and> bs = pointer_to_bytes C p"
proof
  assume ok: "pointer_from_bytes C bs = Ok p"
  then have "length bs = POINTER_WIRE_LEN"
    by (rule_tac ccontr) (simp add: from_bytes_wrong_length)
  then obtain v kb and n :: u64 and t sb where
    bs: "bs = [v] @ kb @ to_be_bytes 8 n @ elems (target_to_bytes t) @ sb"
    and len: "length kb = 1952" "length sb = 3309"
    by (rule wire_split)
  let ?body = "[v] @ kb @ to_be_bytes 8 n @ elems (target_to_bytes t)"
  have "pointer_from_bytes C (?body @ sb) = Ok p"
    using ok bs by simp
  then obtain pk s where
    v: "v = POINTER_FORMAT_VERSION" and pk: "pk_from_bytes C kb = Ok pk"
    and s: "sig_from_bytes C sb = Ok s"
    and valid: "verify_with_context C pk ?body s SIGNING_CONTEXT = Ok True"
    and p: "p = \<lparr>ptr_version = POINTER_FORMAT_VERSION, ptr_owner = pk, ptr_counter = n,
      ptr_target = t, ptr_sig = s\<rparr>"
    unfolding from_bytes_layout [OF len] by (auto split: result.splits if_splits)
  note pkD = pk_encodingD [OF enc pk] and sD = sig_encodingD [OF enc s]
  have "pointer_body C p = ?body"
    using pkD v p by (simp add: pointer_body_layout)
  then show "valid_pointer C p \<and> bs = pointer_to_bytes C p"
    using pkD sD pk s valid v bs p by (simp add: valid_pointer_def pointer_to_bytes_def)
next
  assume "valid_pointer C p \<and> bs = pointer_to_bytes C p"
  then have v: "valid_pointer C p" and bs: "bs = pointer_to_bytes C p" by simp_all
  have len: "length (pk_to_bytes C (ptr_owner p)) = 1952" "length (sig_to_bytes C (ptr_sig p)) = 3309"
    by (rule valid_pointer_key_lengths [OF enc v])+
  have ver: "ptr_version p = POINTER_FORMAT_VERSION"
    using v by (simp add: valid_pointer_def)
  note body = pointer_body_layout [OF len(1), unfolded ver]
  have "verify_with_context C (ptr_owner p) ([POINTER_FORMAT_VERSION] @ pk_to_bytes C (ptr_owner p) @
      to_be_bytes 8 (ptr_counter p) @ elems (target_to_bytes (ptr_target p))) (ptr_sig p)
      SIGNING_CONTEXT = Ok True"
    using v by (simp only: valid_pointer_def body)
  then show "pointer_from_bytes C bs = Ok p"
    using v ver unfolding bs pointer_to_bytes_def body from_bytes_layout [OF len]
    by (simp add: valid_pointer_def)
qed

lemma valid_pointer_from_bytes:
  "ml_dsa_65_encoding C \<Longrightarrow> valid_pointer C p \<Longrightarrow> pointer_from_bytes C (pointer_to_bytes C p) = Ok p"
  by (simp add: from_bytes_eq_Ok)

lemma valid_pointer_lengths:
  assumes "ml_dsa_65_encoding C" "valid_pointer C p"
  shows "length (pk_to_bytes C (ptr_owner p)) = 1952" "length (sig_to_bytes C (ptr_sig p)) = 3309"
    "length (pointer_body C p) = POINTER_BODY_LEN" "length (pointer_to_bytes C p) = POINTER_WIRE_LEN"
proof -
  show k: "length (pk_to_bytes C (ptr_owner p)) = 1952" and s: "length (sig_to_bytes C (ptr_sig p)) = 3309"
    by (rule valid_pointer_key_lengths [OF assms])+
  show b: "length (pointer_body C p) = POINTER_BODY_LEN"
    using k by (rule length_pointer_body)
  show "length (pointer_to_bytes C p) = POINTER_WIRE_LEN"
    using b s by (simp add: pointer_to_bytes_def POINTER_WIRE_LEN_def ML_DSA_65_SIGNATURE_LEN_def)
qed

text \<open>Signing goes through validation, so what it returns is well formed and carries its arguments.\<close>

lemma sign_eq_Ok:
  assumes enc: "ml_dsa_65_encoding C"
    and ok: "pointer_sign C r sk pk n t = Ok p"
  shows "valid_pointer C p" "ptr_counter p = n" "ptr_target p = t"
    "pk_to_bytes C (ptr_owner p) = pk_to_bytes C pk"
proof -
  obtain body s where b: "encode_body C POINTER_FORMAT_VERSION pk n t = Ok body"
    and p: "pointer_from_bytes C (body @ sig_to_bytes C s) = Ok p"
    using ok by (auto simp: pointer_sign_def result_simps)
  from p show v: "valid_pointer C p"
    using from_bytes_eq_Ok [OF enc] by blast
  have len: "length (pointer_body C p) = length body"
    using valid_pointer_lengths(3) [OF enc v] length_encode_body [OF b] by simp
  have "pointer_body C p @ sig_to_bytes C (ptr_sig p) = body @ sig_to_bytes C s"
    using p from_bytes_eq_Ok [OF enc] by (simp add: pointer_to_bytes_def)
  then have eq: "pointer_body C p = body"
    using len by simp
  have pl: "length (pk_to_bytes C (ptr_owner p)) = 1952"
    using valid_pointer_lengths(1) [OF enc v] .
  show "ptr_counter p = n" "ptr_target p = t" "pk_to_bytes C (ptr_owner p) = pk_to_bytes C pk"
    using eq b pl by (auto simp: pointer_body_layout encode_body_eq_Ok simp del: elems_target_to_bytes)
qed

lemma sign_succeeds:
  assumes enc: "ml_dsa_65_encoding C" and kp: "signs_for C sk pk"
  obtains p where "pointer_sign C r sk pk n t = Ok p" "ptr_owner p = pk"
proof -
  note pk = signs_for_pk [OF kp]
  have len: "length (pk_to_bytes C pk) = 1952"
    by (rule pk_encodingD(1) [OF enc pk])
  define body where
    "body = [POINTER_FORMAT_VERSION] @ pk_to_bytes C pk @ to_be_bytes 8 n @ elems (target_to_bytes t)"
  have ctx: "length SIGNING_CONTEXT \<le> 255" by (simp add: SIGNING_CONTEXT_def)
  obtain s where s: "sign_with_context C r sk body SIGNING_CONTEXT = Ok s"
    "sig_from_bytes C (sig_to_bytes C s) = Ok s"
    "verify_with_context C pk body s SIGNING_CONTEXT = Ok True"
    using kp ctx by (rule signs_forE)
  have sl: "length (sig_to_bytes C s) = 3309"
    by (rule sig_encodingD(1) [OF enc s(2)])
  have "encode_body C POINTER_FORMAT_VERSION pk n t = Ok body"
    using len by (simp add: encode_body_eq_Ok body_def)
  then have "pointer_sign C r sk pk n t = Ok \<lparr>ptr_version = POINTER_FORMAT_VERSION, ptr_owner = pk,
      ptr_counter = n, ptr_target = t, ptr_sig = s\<rparr>"
    using s pk from_bytes_layout [OF len sl, of C POINTER_FORMAT_VERSION n t]
    by (simp add: pointer_sign_def body_def)
  then show thesis by (rule that) simp
qed

text \<open>The unverified parse of an accepted record is the state the record reports.\<close>

lemma parse_state_of_record:
  assumes enc: "ml_dsa_65_encoding C" and v: "valid_pointer C p"
  shows "parse_state C (pointer_to_bytes C p) = Ok (ptr_state C p)"
proof -
  note len = valid_pointer_key_lengths [OF enc v]
  have "parse_with_owner C (pointer_to_bytes C p) = Ok (ptr_state C p, ptr_owner p)"
    using parse_layout [OF len, of C "ptr_version p" "ptr_counter p" "ptr_target p"] v
    by (simp add: pointer_to_bytes_def pointer_body_layout [OF len(1)] valid_pointer_def ptr_state_def
        ptr_state_id_def ptr_address_def)
  then show ?thesis by (simp add: parse_state_def)
qed

text \<open>Two accepted records with one body carry one owner, counter and target.\<close>

lemma pointer_body_inject:
  assumes enc: "ml_dsa_65_encoding C" and p: "valid_pointer C p" and q: "valid_pointer C q"
  shows "pointer_body C p = pointer_body C q \<longleftrightarrow>
    ptr_owner p = ptr_owner q \<and> ptr_counter p = ptr_counter q \<and> ptr_target p = ptr_target q"
proof
  assume eq: "pointer_body C p = pointer_body C q"
  note lp = valid_pointer_key_lengths [OF enc p] and lq = valid_pointer_key_lengths [OF enc q]
  have keys: "pk_to_bytes C (ptr_owner p) = pk_to_bytes C (ptr_owner q)"
    and rest: "to_be_bytes 8 (ptr_counter p) @ elems (target_to_bytes (ptr_target p)) =
      to_be_bytes 8 (ptr_counter q) @ elems (target_to_bytes (ptr_target q))"
    using eq lp(1) lq(1) by (simp_all add: pointer_body_layout del: elems_target_to_bytes)
  then have "ptr_counter p = ptr_counter q" "ptr_target p = ptr_target q"
    by (simp_all del: elems_target_to_bytes)
  moreover have "Ok (ptr_owner p) = (Ok (ptr_owner q) :: (_, string) result)"
    using p q keys by (metis valid_pointer_def)
  ultimately show "ptr_owner p = ptr_owner q \<and> ptr_counter p = ptr_counter q \<and> ptr_target p = ptr_target q"
    by simp
next
  assume "ptr_owner p = ptr_owner q \<and> ptr_counter p = ptr_counter q \<and> ptr_target p = ptr_target q"
  then show "pointer_body C p = pointer_body C q"
    using p q by (simp add: pointer_body_def valid_pointer_def)
qed

text \<open>The owner that \<^verbatim>\<open>sign\<close> is given is the owner of the record.\<close>

lemma sign_owner:
  assumes enc: "ml_dsa_65_encoding C" and kp: "signs_for C sk pk"
    and ok: "pointer_sign C r sk pk n t = Ok p"
  shows "ptr_owner p = pk"
proof -
  obtain q where "pointer_sign C r sk pk n t = Ok q" "ptr_owner q = pk"
    by (rule sign_succeeds [OF enc kp])
  with ok show ?thesis by simp
qed

text \<open>Neither rendering shows a signature or the bytes it came with.\<close>

lemma debug_ignores_signature:
  "debug_pointer hex_encode C (p\<lparr>ptr_sig := s\<rparr>) = debug_pointer hex_encode C p"
  "debug_parsed_pointer hex_encode (q\<lparr>pp_bytes := bs, pp_owner := k\<rparr>) = debug_parsed_pointer hex_encode q"
  by (simp_all add: debug_pointer_def debug_parsed_pointer_def ptr_address_def ptr_state_id_def pointer_body_def)

end
