(* ===== verification/Pointer_Merge.thy ===== *)
theory Pointer_Merge
  imports Pointer_Record "HOL-Library.Multiset"
begin

text \<open>
  The merge rule of \<^verbatim>\<open>src/pointer.rs\<close> at work. A node folds \<open>replaces\<close> over arrivals; the
  interface it relies on is a strict preference with final elements, stated as locales and
  interpreted on \<^verbatim>\<open>PointerState::replaces\<close> and \<^verbatim>\<open>Pointer::replaces\<close>. From it come first-come
  finality, convergence below the final counter, and the behaviour of nodes that receive the
  same arrivals in any interleaving.
\<close>

section \<open>Folding arrivals\<close>

definition take_arrival :: "('s \<Rightarrow> 's \<Rightarrow> bool) \<Rightarrow> 's option \<Rightarrow> 's \<Rightarrow> 's option" where
  "take_arrival replaces held arrival =
     (case held of
        None \<Rightarrow> Some arrival
      | Some h \<Rightarrow> if replaces arrival h then Some arrival else Some h)"

definition fold_arrivals :: "('s \<Rightarrow> 's \<Rightarrow> bool) \<Rightarrow> 's list \<Rightarrow> 's option" where
  "fold_arrivals replaces arrivals = foldl (take_arrival replaces) None arrivals"

lemma take_arrival_simps [simp]:
  "take_arrival R None a = Some a"
  "take_arrival R (Some h) a = (if R a h then Some a else Some h)"
  by (simp_all add: take_arrival_def)

lemma fold_arrivals_Nil [simp]: "fold_arrivals R [] = None"
  by (simp add: fold_arrivals_def)

lemma fold_arrivals_snoc [simp]:
  "fold_arrivals R (xs @ [a]) = take_arrival R (fold_arrivals R xs) a"
  by (simp add: fold_arrivals_def)

lemma fold_arrivals_append:
  "fold_arrivals R (xs @ ys) = foldl (take_arrival R) (fold_arrivals R xs) ys"
  by (simp add: fold_arrivals_def)

lemma take_arrival_Some: "\<exists>h. take_arrival R held a = Some h"
  by (cases held) auto

lemma fold_arrivals_mem: "fold_arrivals R xs = Some h \<Longrightarrow> h \<in> set xs"
proof (induction xs arbitrary: h rule: rev_induct)
  case Nil
  then show ?case by simp
next
  case (snoc a xs)
  then show ?case
    by (cases "fold_arrivals R xs") (auto split: if_splits)
qed

lemma fold_arrivals_nonempty: "xs \<noteq> [] \<Longrightarrow> \<exists>h. fold_arrivals R xs = Some h"
  by (cases xs rule: rev_cases) (simp_all add: take_arrival_Some)

section \<open>The interface: a replacement rule\<close>

text \<open>
  \<open>same\<close> says that two elements make the same claim (a re-signed record makes the claim of the
  first signing). A replacement rule never replaces a claim by itself and is transitive.
\<close>

locale replacement =
  fixes replaces :: "'s \<Rightarrow> 's \<Rightarrow> bool"
    and same :: "'s \<Rightarrow> 's \<Rightarrow> bool"
  assumes same_refl: "same a a"
    and same_sym: "same a b \<Longrightarrow> same b a"
    and irrefl: "same a b \<Longrightarrow> \<not> replaces a b"
    and trans: "replaces a b \<Longrightarrow> replaces b c \<Longrightarrow> replaces a c"
    and respects: "replaces a b \<Longrightarrow> same b c \<Longrightarrow> replaces a c"
begin

lemma asym: "replaces a b \<Longrightarrow> \<not> replaces b a"
  using trans irrefl same_refl by blast

lemma held_only_improves:
  "foldl (take_arrival replaces) (Some h) xs = Some k \<Longrightarrow> k = h \<or> replaces k h"
proof (induction xs arbitrary: h)
  case Nil
  then show ?case by simp
next
  case (Cons a xs)
  then show ?case
    by (auto split: if_splits intro: trans dest: Cons.IH)
qed

end

text \<open>
  Final elements: nothing replaces one, one replaces every comparable element that is not final,
  and two comparable elements are ordered unless they make one claim or are both final.
\<close>

definition one_place :: "('s \<Rightarrow> 's \<Rightarrow> bool) \<Rightarrow> 's set \<Rightarrow> bool" where
  "one_place comparable S \<longleftrightarrow> (\<forall>a \<in> S. \<forall>b \<in> S. comparable a b)"

locale final_replacement = replacement replaces same
  for replaces :: "'s \<Rightarrow> 's \<Rightarrow> bool" and same :: "'s \<Rightarrow> 's \<Rightarrow> bool" +
  fixes final :: "'s \<Rightarrow> bool"
    and comparable :: "'s \<Rightarrow> 's \<Rightarrow> bool"
  assumes final_kept: "final b \<Longrightarrow> \<not> replaces a b"
    and final_wins: "comparable a b \<Longrightarrow> final a \<Longrightarrow> \<not> final b \<Longrightarrow> replaces a b"
    and total: "comparable a b \<Longrightarrow> replaces a b \<or> replaces b a \<or> same a b \<or> final a \<and> final b"
begin

lemma final_absorbs: "final f \<Longrightarrow> foldl (take_arrival replaces) (Some f) xs = Some f"
  by (induction xs) (simp_all add: final_kept)

lemma fold_beats_all:
  assumes "one_place comparable (set xs)" "fold_arrivals replaces xs = Some h" "a \<in> set xs"
  shows "replaces h a \<or> same h a \<or> final h \<and> final a"
  using assms
proof (induction xs arbitrary: h a rule: rev_induct)
  case Nil
  then show ?case by simp
next
  case (snoc x xs)
  show ?case
  proof (cases "fold_arrivals replaces xs")
    case None
    then have "xs = []"
      using fold_arrivals_nonempty [of xs replaces] by auto
    then show ?thesis
      using snoc.prems same_refl by (simp add: fold_arrivals_def)
  next
    case (Some k)
    have place: "one_place comparable (set xs)" "comparable x k"
      using snoc.prems(1) fold_arrivals_mem [OF Some] by (auto simp: one_place_def)
    have beats: "replaces k b \<or> same k b \<or> final k \<and> final b" if "b \<in> set xs" for b
      using snoc.IH [OF place(1) Some that] .
    show ?thesis
    proof (cases "replaces x k")
      case True
      then have h: "h = x" using snoc.prems(2) Some by simp
      show ?thesis
      proof (cases "a = x")
        case False
        then have "a \<in> set xs" using snoc.prems(3) by simp
        then have "replaces x a"
          using beats True final_kept respects trans by blast
        then show ?thesis using h by simp
      qed (simp add: h same_refl)
    next
      case False
      then have h: "h = k" using snoc.prems(2) Some by simp
      show ?thesis
      proof (cases "a = x")
        case True
        then show ?thesis
          using total [OF place(2)] False h same_sym by blast
      next
        case False
        then show ?thesis using beats snoc.prems(3) h by simp
      qed
    qed
  qed
qed

lemma fold_first_final:
  assumes "one_place comparable (set (xs @ f # ys))" "final f" "\<forall>x \<in> set xs. \<not> final x"
  shows "fold_arrivals replaces (xs @ f # ys) = Some f"
proof -
  have "take_arrival replaces (fold_arrivals replaces xs) f = Some f"
  proof (cases "fold_arrivals replaces xs")
    case (Some h)
    then have "h \<in> set xs" by (rule fold_arrivals_mem)
    then have "replaces f h"
      using assms final_wins by (auto simp: one_place_def)
    then show ?thesis using Some by simp
  qed simp
  then show ?thesis
    using final_absorbs [OF assms(2)] by (simp add: fold_arrivals_append)
qed

lemma fold_converges:
  assumes "one_place comparable (set xs)" "set xs = set ys"
    and one_final: "\<forall>a \<in> set xs. \<forall>b \<in> set xs. final a \<and> final b \<longrightarrow> same a b"
    and h: "fold_arrivals replaces xs = Some h" and k: "fold_arrivals replaces ys = Some k"
  shows "same h k"
proof -
  have mem: "h \<in> set xs" "k \<in> set xs"
    using fold_arrivals_mem [OF h] fold_arrivals_mem [OF k] assms(2) by simp_all
  have "replaces h k \<or> same h k" "replaces k h \<or> same k h"
    using fold_beats_all [OF assms(1) h mem(2)] fold_beats_all [of ys k h] assms(1,2) k mem one_final
    by auto
  then show ?thesis using asym same_sym by blast
qed

end

section \<open>The rule on states\<close>

definition same_claim :: "pointer_state \<Rightarrow> pointer_state \<Rightarrow> bool" where
  "same_claim s t \<longleftrightarrow> st_address s = st_address t \<and> st_counter s = st_counter t \<and>
     st_target s = st_target t"

definition same_place :: "pointer_state \<Rightarrow> pointer_state \<Rightarrow> bool" where
  "same_place s t \<longleftrightarrow> st_address s = st_address t"

text \<open>The rule of the comment above \<^verbatim>\<open>replaces\<close>, written out: a larger counter wins, then the
  smaller target bytes, and nothing replaces a final state.\<close>

lemma state_replaces_iff:
  "state_replaces s t \<longleftrightarrow> st_address s = st_address t \<and> st_counter t \<noteq> FINAL_COUNTER \<and>
     (st_counter t < st_counter s \<or>
      st_counter t = st_counter s \<and>
        elems (target_to_bytes (st_target s)) < elems (target_to_bytes (st_target t)))"
  by (auto simp: state_replaces_def state_is_terminal_def state_rank_def MergeRank_less less_arr_def
      simp del: elems_target_to_bytes)

lemma less_final_counter: "n < FINAL_COUNTER \<longleftrightarrow> n \<noteq> FINAL_COUNTER"
  by (simp add: FINAL_COUNTER_def word_order.not_eq_extremum)

lemma not_final_less [simp]: "\<not> FINAL_COUNTER < n"
  by (simp add: FINAL_COUNTER_def)

lemma state_rank_eq_iff:
  "state_rank s = state_rank t \<longleftrightarrow> st_counter s = st_counter t \<and> st_target s = st_target t"
  by (simp add: state_rank_def)

lemma rank_above_terminal:
  "state_rank s < state_rank t \<Longrightarrow> state_is_terminal s \<Longrightarrow> state_is_terminal t"
  by (auto simp: state_rank_def state_is_terminal_def MergeRank_less)

interpretation merge_states: final_replacement state_replaces same_claim state_is_terminal same_place
proof (unfold_locales, goal_cases)
  case (4 a b c)
  then show ?case by (auto simp: state_replaces_def dest: less_trans)
next
  case (8 a b)
  then show ?case
    using less_linear [of "state_rank a" "state_rank b"] rank_above_terminal
    by (auto simp: same_place_def same_claim_def state_replaces_def state_rank_eq_iff)
qed (auto simp: same_claim_def same_place_def state_replaces_def state_is_terminal_def state_rank_def
    MergeRank_less less_final_counter)

section \<open>The rule on records\<close>

definition same_record_claim ::
  "('pk, 'sk, 'sig) crypto \<Rightarrow> ('pk, 'sig) pointer \<Rightarrow> ('pk, 'sig) pointer \<Rightarrow> bool" where
  "same_record_claim C p q \<longleftrightarrow> same_claim (ptr_state C p) (ptr_state C q)"

lemma ptr_state_sel [simp]:
  "st_state_id (ptr_state C p) = ptr_state_id C p" "st_address (ptr_state C p) = ptr_address C p"
  "st_counter (ptr_state C p) = ptr_counter p" "st_target (ptr_state C p) = ptr_target p"
  by (simp_all add: ptr_state_def)

lemma state_is_terminal_ptr_state [simp]:
  "state_is_terminal (ptr_state C p) = pointer_is_terminal p"
  by (simp add: state_is_terminal_def pointer_is_terminal_def)

interpretation merge_records: final_replacement "pointer_replaces C" "same_record_claim C"
  pointer_is_terminal "\<lambda>p q. same_place (ptr_state C p) (ptr_state C q)"
  for C :: "('pk, 'sk, 'sig) crypto"
  by unfold_locales
    (auto simp: pointer_replaces_def same_record_claim_def
      intro: merge_states.same_refl merge_states.same_sym merge_states.trans merge_states.respects
        merge_states.final_wins
      dest: merge_states.irrefl merge_states.total merge_states.final_kept [of "ptr_state C p" for p, simplified])

section \<open>Many nodes\<close>

text \<open>
  Nodes, numbered, each with what it holds at one address; a step delivers any state to any node,
  which keeps it or not by the rule. Nothing bounds the order, repetition or origin of deliveries.
\<close>

type_synonym network = "nat \<Rightarrow> pointer_state option"

inductive net_step :: "network \<Rightarrow> network \<Rightarrow> bool" where
  deliver: "net_step N (N(i := take_arrival state_replaces (N i) s))"

inductive_cases net_stepE: "net_step N M"

inductive net_reaches :: "network \<Rightarrow> network \<Rightarrow> bool" where
  net_refl: "net_reaches N N"
| net_next: "net_reaches N M \<Longrightarrow> net_step M K \<Longrightarrow> net_reaches N K"

lemma net_step_held:
  "net_step N M \<Longrightarrow> N i = Some h \<Longrightarrow> \<exists>k. M i = Some k \<and> (k = h \<or> state_replaces k h)"
  by (erule net_stepE) auto

lemma net_reaches_held:
  "net_reaches N M \<Longrightarrow> N i = Some h \<Longrightarrow> \<exists>k. M i = Some k \<and> (k = h \<or> state_replaces k h)"
proof (induction rule: net_reaches.induct)
  case (net_refl N)
  then show ?case by simp
next
  case (net_next N M K)
  then obtain k where k: "M i = Some k" "k = h \<or> state_replaces k h" by blast
  obtain l where "K i = Some l" "l = k \<or> state_replaces l k"
    using net_step_held [OF net_next.hyps(2) k(1)] by blast
  then show ?case using k(2) merge_states.trans by blast
qed

end
