(* ===== verification/Pointer_Properties.thy ===== *)
theory Pointer_Properties
  imports Pointer_Merge
begin

text \<open>
  The properties of \<^verbatim>\<open>src/pointer.rs\<close>: what validation accepts and how it fails, canonical
  encoding, signing, the counter's life cycle, finality and transfer, and the merge rule over
  arrivals in any order and on any number of nodes.
\<close>

section \<open>Concrete records\<close>

text \<open>Records of the demonstration scheme under key 5, for the witnesses.\<close>

definition demo_pointer :: "nat \<Rightarrow> u64 \<Rightarrow> pointer_target \<Rightarrow> (u8, u8 \<times> u8) pointer" where
  "demo_pointer r n t = \<lparr>ptr_version = POINTER_FORMAT_VERSION, ptr_owner = 5, ptr_counter = n,
     ptr_target = t,
     ptr_sig = (word_of_nat r, demo_sum (5 # ([POINTER_FORMAT_VERSION] @ replicate 1952 5 @
       to_be_bytes 8 n @ elems (target_to_bytes t)) @ SIGNING_CONTEXT))\<rparr>"

definition demo_target :: "u8 \<Rightarrow> pointer_target" where
  "demo_target b = target_new Chunk_Kind (arr_repeat b)"

definition demo_state :: "u64 \<Rightarrow> u8 \<Rightarrow> pointer_state" where
  "demo_state n b = \<lparr>st_state_id = arr_repeat b, st_address = arr_repeat 0, st_counter = n,
     st_target = demo_target b\<rparr>"

lemma demo_pointer_sel [simp]:
  "ptr_owner (demo_pointer r n t) = 5" "ptr_counter (demo_pointer r n t) = n"
  "ptr_target (demo_pointer r n t) = t"
  by (simp_all add: demo_pointer_def)

lemma demo_key [simp]: "pk_to_bytes demo_crypto k = replicate 1952 k"
  by (simp add: demo_crypto_def)

lemma demo_pointer_valid: "valid_pointer demo_crypto (demo_pointer r n t)"
proof -
  have "pointer_body demo_crypto (demo_pointer r n t) = [POINTER_FORMAT_VERSION] @ replicate 1952 5 @
      to_be_bytes 8 n @ elems (target_to_bytes t)"
    by (subst pointer_body_layout) (simp_all add: demo_pointer_def)
  then show ?thesis
    by (simp add: valid_pointer_def, simp add: demo_pointer_def demo_crypto_def demo_uniform_replicate
        demo_sig_decodes)
qed

lemma demo_read: "pointer_from_bytes demo_crypto (pointer_to_bytes demo_crypto (demo_pointer r n t)) =
    Ok (demo_pointer r n t)"
  by (rule valid_pointer_from_bytes [OF demo_encoding demo_pointer_valid])

lemma demo_sign: "pointer_sign demo_crypto r 5 5 n t = Ok (demo_pointer r n t)"
proof -
  have "encode_body demo_crypto POINTER_FORMAT_VERSION 5 n t = Ok ([POINTER_FORMAT_VERSION] @
      replicate 1952 5 @ to_be_bytes 8 n @ elems (target_to_bytes t))"
    by (simp add: encode_body_eq_Ok)
  moreover have "pointer_body demo_crypto (demo_pointer r n t) = [POINTER_FORMAT_VERSION] @
      replicate 1952 5 @ to_be_bytes 8 n @ elems (target_to_bytes t)"
    by (subst pointer_body_layout) (simp_all add: demo_pointer_def)
  ultimately show ?thesis
    using demo_read [of r n t]
    by (simp add: pointer_sign_def pointer_to_bytes_def,
        simp add: demo_crypto_def demo_pointer_def)
qed

section \<open>Validation and encoding\<close>

text \<open>
  C6: Validation against the layout table of the module documentation, on every input: the
  checks run in the order length, version byte 0, owner key (bytes 1 to 1952), signature (bytes
  from 1994), verification over bytes 0 to 1993 under the pointer context, and each failure gives
  its own error; success reads the counter as the big-endian u64 at offset 1953, the kind tag at
  1961 and the target address at 1962.
\<close>

theorem from_bytes_layout_table:
  "pointer_from_bytes C bs =
     (if length bs \<noteq> 5303 then Err (WrongLength (length bs))
      else if hd bs \<noteq> 1 then Err (UnknownFormatVersion (hd bs)) else
      case pk_from_bytes C (take 1952 (drop 1 bs)) of Err e \<Rightarrow> Err (InvalidOwnerKey e) | Ok pk \<Rightarrow>
      case sig_from_bytes C (drop 1994 bs) of Err e \<Rightarrow> Err (InvalidSignatureFormat e) | Ok s \<Rightarrow>
      case verify_with_context C pk (take 1994 bs) s (ascii ''autonomi.pointer.head.v1'') of
        Err e \<Rightarrow> Err (InvalidSignatureFormat e)
      | Ok valid \<Rightarrow> if \<not> valid then Err SignatureInvalid else
          Ok \<lparr>ptr_version = 1, ptr_owner = pk,
              ptr_counter = from_be_bytes (take 8 (drop 1953 bs)),
              ptr_target = \<lparr>kind_tag = bs ! 1961, target_address = Arr (take 32 (drop 1962 bs))\<rparr>,
              ptr_sig = s\<rparr>)"
proof (cases "length bs = POINTER_WIRE_LEN")
  case False
  then show ?thesis by (simp add: from_bytes_wrong_length, simp add: layout_defs)
next
  case True
  then obtain v kb and n :: u64 and t sb where
    bs: "bs = [v] @ kb @ to_be_bytes 8 n @ elems (target_to_bytes t) @ sb"
    and len: "length kb = 1952" "length sb = 3309"
    by (rule wire_split)
  let ?body = "[v] @ kb @ to_be_bytes 8 n @ elems (target_to_bytes t)"
  have bs': "bs = ?body @ sb" using bs by simp
  have parts: "take 1952 (drop 1 bs) = kb" "drop 1994 bs = sb" "take 1994 bs = ?body"
    "take 8 (drop 1953 bs) = to_be_bytes 8 n" "bs ! 1961 = kind_tag t"
    "take 32 (drop 1962 bs) = elems (target_address t)" "hd bs = v" "length bs = 5303"
    using len by (simp_all add: bs nth_append)
  have n: "from_be_bytes (to_be_bytes 8 n) = n"
    by (rule from_to_be_bytes) simp
  have t: "\<lparr>kind_tag = kind_tag t, target_address = Arr (elems (target_address t))\<rparr> = t"
    by (simp add: elems_inverse)
  show ?thesis
    unfolding parts unfolding bs' from_bytes_layout [OF len] POINTER_FORMAT_VERSION_def
      SIGNING_CONTEXT_def n t by simp
qed

text \<open>
  C33: Encoding is canonical: a record that validates re-encodes to exactly the bytes it was read
  from, so one record has one wire form and nothing of the input is lost.
\<close>

theorem accepted_reencodes_identically:
  assumes "ml_dsa_65_encoding C" "pointer_from_bytes C bs = Ok p"
  shows "pointer_to_bytes C p = bs"
  using assms by (simp add: from_bytes_eq_Ok)

lemma accepted_reencodes_identically_witness:
  "pointer_from_bytes demo_crypto (pointer_to_bytes demo_crypto (demo_pointer 3 42 (demo_target 7))) =
     Ok (demo_pointer 3 42 (demo_target 7)) \<and>
   pointer_to_bytes demo_crypto (demo_pointer 3 42 (demo_target 7)) =
     pointer_to_bytes demo_crypto (demo_pointer 3 42 (demo_target 7))"
  using accepted_reencodes_identically [OF demo_encoding demo_read] demo_read by blast

text \<open>
  C21: Signing with a key pair always succeeds, whatever randomness it draws, gives a record with
  the owner, counter and target asked for, of 5303 bytes on the wire, and reading those bytes back
  gives the same record.
\<close>

theorem sign_then_read_back:
  assumes "ml_dsa_65_encoding C" "signs_for C sk pk"
  shows "\<exists>p. pointer_sign C r sk pk n t = Ok p \<and> ptr_owner p = pk \<and> ptr_counter p = n \<and>
    ptr_target p = t \<and> length (pointer_to_bytes C p) = 5303 \<and>
    pointer_from_bytes C (pointer_to_bytes C p) = Ok p"
proof -
  obtain p where p: "pointer_sign C r sk pk n t = Ok p" "ptr_owner p = pk"
    by (rule sign_succeeds [OF assms])
  note s = sign_eq_Ok [OF assms(1) p(1)]
  show ?thesis
    using p s valid_pointer_lengths(4) [OF assms(1) s(1)] valid_pointer_from_bytes [OF assms(1) s(1)]
    by (auto simp: layout_defs)
qed

lemma sign_then_read_back_witness:
  "\<exists>p. pointer_sign demo_crypto 9 5 5 42 (demo_target 7) = Ok p \<and> ptr_owner p = 5 \<and>
    ptr_counter p = 42 \<and> ptr_target p = demo_target 7 \<and>
    length (pointer_to_bytes demo_crypto p) = 5303 \<and>
    pointer_from_bytes demo_crypto (pointer_to_bytes demo_crypto p) = Ok p"
  by (rule sign_then_read_back [OF demo_encoding demo_signs_for])

text \<open>
  The cheap parse and the full validation agree: when a record validates, the state parsed
  from its bytes without looking at the signature is the state the validated record reports.
\<close>

theorem unverified_parse_agrees:
  assumes "ml_dsa_65_encoding C" "pointer_from_bytes C bs = Ok p"
  shows "parse_state C bs = Ok (ptr_state C p)"
  using assms by (simp add: from_bytes_eq_Ok parse_state_of_record)

lemma unverified_parse_agrees_witness:
  "parse_state demo_crypto (pointer_to_bytes demo_crypto (demo_pointer 3 42 (demo_target 7))) =
     Ok (ptr_state demo_crypto (demo_pointer 3 42 (demo_target 7)))"
  by (rule unverified_parse_agrees [OF demo_encoding demo_read])

text \<open>
  A state names the claim, not the encoding: two signings of one owner, counter and target
  have one state, hence one paid identifier, and neither replaces the other, however often the
  owner signs again.
\<close>

theorem resigned_state_never_replaces:
  assumes "ml_dsa_65_encoding C" "signs_for C sk pk"
    and "pointer_sign C r sk pk n t = Ok p" "pointer_sign C r' sk pk n t = Ok q"
  shows "ptr_state C p = ptr_state C q \<and> \<not> pointer_replaces C p q \<and> \<not> pointer_replaces C q p"
proof -
  note p = sign_eq_Ok [OF assms(1,3)] sign_owner [OF assms(1-3)]
  note q = sign_eq_Ok [OF assms(1,4)] sign_owner [OF assms(1,2,4)]
  have "pointer_body C p = pointer_body C q"
    using p q by (simp add: pointer_body_inject [OF assms(1)])
  then have eq: "ptr_state C p = ptr_state C q"
    using p q by (simp add: ptr_state_def ptr_state_id_def ptr_address_def)
  then have "same_record_claim C p q" "same_record_claim C q p"
    by (simp_all add: same_record_claim_def same_claim_def)
  then show ?thesis
    using eq merge_records.irrefl by blast
qed

lemma resigned_state_never_replaces_witness:
  "demo_pointer 1 7 (demo_target 3) \<noteq> demo_pointer 2 7 (demo_target 3) \<and>
   ptr_state demo_crypto (demo_pointer 1 7 (demo_target 3)) =
     ptr_state demo_crypto (demo_pointer 2 7 (demo_target 3)) \<and>
   \<not> pointer_replaces demo_crypto (demo_pointer 1 7 (demo_target 3)) (demo_pointer 2 7 (demo_target 3))"
proof -
  have "ptr_sig (demo_pointer 1 7 (demo_target 3)) \<noteq> ptr_sig (demo_pointer 2 7 (demo_target 3))"
    by (simp add: demo_pointer_def)
  then show ?thesis
    using resigned_state_never_replaces [OF demo_encoding demo_signs_for demo_sign demo_sign] by metis
qed

text \<open>
  C15: The paid identifier is the identifier of the claim: two valid records of one owner, counter and
  target have one state identifier, so signing again costs nothing; and two valid records with one state
  identifier have the same owner, counter and target, unless two explicit, different byte strings
  collide under BLAKE3's derive-key mode in the state context, so a payment for one state pays for no
  other.
\<close>

theorem state_id_binds_claim:
  assumes "ml_dsa_65_encoding C" "pointer_from_bytes C bs = Ok p" "pointer_from_bytes C bs' = Ok q"
  shows "(ptr_owner p = ptr_owner q \<and> ptr_counter p = ptr_counter q \<and> ptr_target p = ptr_target q \<longrightarrow>
      ptr_state_id C p = ptr_state_id C q) \<and>
    (ptr_state_id C p = ptr_state_id C q \<longrightarrow>
      ptr_owner p = ptr_owner q \<and> ptr_counter p = ptr_counter q \<and> ptr_target p = ptr_target q \<or>
      take 1994 bs \<noteq> take 1994 bs' \<and>
      blake3_derive_key C ''autonomi.pointer.state.v1'' (take 1994 bs) =
      blake3_derive_key C ''autonomi.pointer.state.v1'' (take 1994 bs'))"
proof -
  have body: "valid_pointer C x \<and> take 1994 cs = pointer_body C x"
    if "pointer_from_bytes C cs = Ok x" for cs x
    using that valid_pointer_lengths(3) [OF assms(1), of x]
    by (simp add: from_bytes_eq_Ok [OF assms(1)] pointer_to_bytes_def layout_defs)
  note p = body [OF assms(2)] and q = body [OF assms(3)]
  have "pointer_body C p = pointer_body C q \<longleftrightarrow>
      ptr_owner p = ptr_owner q \<and> ptr_counter p = ptr_counter q \<and> ptr_target p = ptr_target q"
    using p q by (intro pointer_body_inject [OF assms(1)]) simp_all
  moreover have "ptr_state_id C x = blake3_derive_key C ''autonomi.pointer.state.v1'' (pointer_body C x)" for x
    by (simp add: ptr_state_id_def state_id_for_body_def CONTEXT_STATE_def)
  ultimately show ?thesis using p q by metis
qed

lemma state_id_binds_claim_witness:
  "ptr_state_id demo_crypto (demo_pointer 1 7 (demo_target 3)) =
     ptr_state_id demo_crypto (demo_pointer 2 7 (demo_target 3))"
  using conjunct1 [OF state_id_binds_claim [OF demo_encoding demo_read demo_read],
      of 1 7 "demo_target 3" 2 7 "demo_target 3"]
  by (simp only: demo_pointer_sel simp_thms)

section \<open>The life of a pointer\<close>

text \<open>A run of updates, each signed on the record before it.\<close>

fun update_run ::
  "('pk, 'sk, 'sig) crypto \<Rightarrow> 'sk \<Rightarrow> ('pk, 'sig) pointer \<Rightarrow> (nat \<times> pointer_target) list \<Rightarrow>
     (('pk, 'sig) pointer, pointer_error) result" where
  "update_run C sk p [] = Ok p"
| "update_run C sk p ((r, t) # us) =
     and_then (pointer_update C r p sk t) (\<lambda>q. update_run C sk q us)"

lemma next_counter_below:
  "ptr_counter p \<noteq> FINAL_COUNTER \<Longrightarrow>
     next_counter p = Ok (ptr_counter p + 1) \<and> unat (ptr_counter p + 1) = Suc (unat (ptr_counter p))"
proof -
  assume "ptr_counter p \<noteq> FINAL_COUNTER"
  then have "ptr_counter p < - 1"
    by (simp add: FINAL_COUNTER_def word_order.not_eq_extremum)
  then have *: "unat (ptr_counter p) < 2 ^ 64 - 1"
    by (simp add: word_less_nat_alt unat_minus_one_exact)
  then show ?thesis
    using unat_add_exact [of "ptr_counter p" 1] by (simp add: next_counter_def checked_add_def)
qed

lemma unat_counter_final: "unat (n :: u64) = 2 ^ 64 - 1 \<longleftrightarrow> n = FINAL_COUNTER"
  by (simp add: FINAL_COUNTER_def word_unat_eq_iff unat_minus_one_exact)

lemma next_counter_final: "ptr_counter p = FINAL_COUNTER \<Longrightarrow> next_counter p = Err CounterExhausted"
  by (simp add: next_counter_def checked_add_def FINAL_COUNTER_def unat_minus_one_exact)

lemma update_step:
  assumes "ml_dsa_65_encoding C" "signs_for C sk (ptr_owner p)" "ptr_counter p \<noteq> FINAL_COUNTER"
  obtains q where "pointer_update C r p sk t = Ok q" "ptr_owner q = ptr_owner p"
    "unat (ptr_counter q) = Suc (unat (ptr_counter p))" "ptr_target q = t" "pointer_replaces C q p"
proof -
  note nc = next_counter_below [OF assms(3)]
  obtain q where q: "pointer_sign C r sk (ptr_owner p) (ptr_counter p + 1) t = Ok q"
    "ptr_owner q = ptr_owner p"
    by (rule sign_succeeds [OF assms(1,2)])
  note s = sign_eq_Ok [OF assms(1) q(1)]
  have "ptr_counter p < ptr_counter q"
    using nc s(2) by (simp add: word_less_nat_alt)
  then have "pointer_replaces C q p"
    using assms(3) q(2) by (simp add: pointer_replaces_def state_replaces_iff ptr_address_def)
  then show thesis
    using that [of q] nc q s by (simp add: pointer_update_def)
qed

text \<open>
  A run of updates signed with the owner's key counts exactly: it succeeds as long as the
  counter does not pass its maximum, each update adding one, and ends in a record at the counter
  expected that replaces the one it started from; a run that would pass the maximum is refused
  with \<open>CounterExhausted\<close>, so the counter never wraps.
\<close>

theorem update_run_counts:
  assumes "ml_dsa_65_encoding C" "signs_for C sk (ptr_owner p)"
  shows "if unat (ptr_counter p) + length us < 2 ^ 64
    then \<exists>q. update_run C sk p us = Ok q \<and> ptr_address C q = ptr_address C p \<and>
      unat (ptr_counter q) = unat (ptr_counter p) + length us \<and>
      (us = [] \<or> ptr_target q = snd (last us) \<and> pointer_replaces C q p)
    else update_run C sk p us = Err CounterExhausted"
  using assms(2)
proof (induction us arbitrary: p)
  case Nil
  then show ?case using unsigned_less [of "ptr_counter p", where ?'a = nat] by simp
next
  case (Cons u us)
  obtain r t where u: "u = (r, t)" by (cases u)
  show ?case
  proof (cases "ptr_counter p = FINAL_COUNTER")
    case True
    then have "unat (ptr_counter p) = 2 ^ 64 - 1" by (simp only: unat_counter_final)
    then show ?thesis using True by (simp add: u pointer_update_def next_counter_final)
  next
    case False
    obtain q where q: "pointer_update C r p sk t = Ok q" "ptr_owner q = ptr_owner p"
      "unat (ptr_counter q) = Suc (unat (ptr_counter p))" "ptr_target q = t" "pointer_replaces C q p"
      by (rule update_step [OF assms(1) Cons.prems False])
    have "signs_for C sk (ptr_owner q)" using q(2) Cons.prems by simp
    from Cons.IH [OF this] show ?thesis
      using q merge_records.trans [of C _ q p] by (auto simp: u ptr_address_def)
  qed
qed

lemma update_run_counts_witness:
  "(\<exists>q. update_run demo_crypto 5 (demo_pointer 0 0 (demo_target 1)) [(1, demo_target 2), (2, demo_target 3)] = Ok q \<and>
     unat (ptr_counter q) = 2 \<and> ptr_target q = demo_target 3 \<and>
     pointer_replaces demo_crypto q (demo_pointer 0 0 (demo_target 1))) \<and>
   update_run demo_crypto 5 (demo_pointer 0 FINAL_COUNTER (demo_target 1)) [(1, demo_target 2)] =
     Err CounterExhausted"
proof -
  have kp: "signs_for demo_crypto 5 (ptr_owner (demo_pointer 0 n t))" for n t
    by (simp add: demo_signs_for)
  have "unat FINAL_COUNTER = 2 ^ 64 - 1" by (simp only: unat_counter_final)
  then show ?thesis
    using update_run_counts [OF demo_encoding kp, of 0 "demo_target 1" "[(1, demo_target 2), (2, demo_target 3)]"]
      update_run_counts [OF demo_encoding kp, of FINAL_COUNTER "demo_target 1" "[(1, demo_target 2)]"]
    by auto
qed

text \<open>
  C4: Handing a pointer over: with the owner's key and a record that is not final,
  \<open>transfer_to\<close> signs a record at the same address and the final counter that replaces the
  current one and reports the recipient; from there update, finalize and transfer are refused
  with \<open>CounterExhausted\<close> and no record at all replaces it.
\<close>

theorem transfer_hands_over_for_good:
  assumes "ml_dsa_65_encoding C" "signs_for C sk (ptr_owner p)" "\<not> pointer_is_terminal p"
  shows "\<exists>q. pointer_transfer_to C r p sk recipient = Ok q \<and> ptr_address C q = ptr_address C p \<and>
    ptr_counter q = FINAL_COUNTER \<and> pointer_transferred_to q = Some recipient \<and>
    pointer_replaces C q p \<and> pointer_from_bytes C (pointer_to_bytes C q) = Ok q \<and>
    (\<forall>r' sk' t. pointer_update C r' q sk' t = Err CounterExhausted) \<and>
    (\<forall>r' sk' t. pointer_finalize C r' q sk' t = Err CounterExhausted) \<and>
    (\<forall>r' sk' a. pointer_transfer_to C r' q sk' a = Err CounterExhausted) \<and>
    (\<forall>x. \<not> pointer_replaces C x q)"
proof -
  obtain q where q: "pointer_sign C r sk (ptr_owner p) FINAL_COUNTER (target_new Pointer_Kind recipient) = Ok q"
    "ptr_owner q = ptr_owner p"
    by (rule sign_succeeds [OF assms(1,2)])
  note s = sign_eq_Ok [OF assms(1) q(1)]
  have terminal: "pointer_is_terminal q" using s(2) by (simp add: pointer_is_terminal_def)
  have "pointer_replaces C q p"
    using assms(3) s(2) q(2) by (simp add: pointer_replaces_def state_replaces_iff ptr_address_def
        pointer_is_terminal_def less_final_counter)
  moreover have "pointer_transferred_to q = Some recipient"
    using s by (simp add: pointer_transferred_to_def transfer_target_def) (simp add: target_new_def)
  ultimately show ?thesis
    using q s terminal assms(3) merge_records.final_kept [OF terminal]
      valid_pointer_from_bytes [OF assms(1) s(1)]
    by (auto simp: pointer_transfer_to_def pointer_finalize_def pointer_update_def next_counter_final
        ptr_address_def)
qed

lemma transfer_hands_over_for_good_witness:
  "\<exists>q. pointer_transfer_to demo_crypto 4 (demo_pointer 0 0 (demo_target 1)) 5 (arr_repeat 66) = Ok q \<and>
    pointer_transferred_to q = Some (arr_repeat 66) \<and>
    pointer_replaces demo_crypto q (demo_pointer 0 0 (demo_target 1)) \<and>
    (\<forall>x. \<not> pointer_replaces demo_crypto x q)"
proof -
  have "signs_for demo_crypto 5 (ptr_owner (demo_pointer 0 0 (demo_target 1)))"
    by (simp add: demo_signs_for)
  moreover have "\<not> pointer_is_terminal (demo_pointer 0 0 (demo_target 1))"
    by (simp add: pointer_is_terminal_def FINAL_COUNTER_def)
  ultimately show ?thesis
    using transfer_hands_over_for_good [OF demo_encoding] by blast
qed

text \<open>
  What counts as a transfer, for the record and for its parsed state alike: the final counter
  together with the pointer kind tag, and then the recipient is the target address. A final state
  on any other tag, or a pointer target below the final counter, transfers nothing.
\<close>

theorem transferred_to_iff:
  "(pointer_transferred_to p = Some a \<longleftrightarrow>
     ptr_counter p = - 1 \<and> kind_tag (ptr_target p) = 1 \<and> target_address (ptr_target p) = a) \<and>
   state_transferred_to (ptr_state C p) = pointer_transferred_to p"
  by (auto simp: pointer_transferred_to_def state_transferred_to_def transfer_target_def target_kind_def
      kind_from_tag_def FINAL_COUNTER_def)

section \<open>The merge rule\<close>

text \<open>
  C23: The rule is the documented one on every pair of states: the same address, the held state
  not final, and then the larger counter, or the smaller target bytes (kind tag, then address, read
  as one big-endian number) at an equal counter.
\<close>

theorem replaces_is_documented_rule:
  "state_replaces arrival held \<longleftrightarrow>
     st_address arrival = st_address held \<and> unat (st_counter held) \<noteq> 2 ^ 64 - 1 \<and>
     (unat (st_counter held) < unat (st_counter arrival) \<or>
      st_counter held = st_counter arrival \<and>
        nat_of_be (kind_tag (st_target arrival) # elems (target_address (st_target arrival))) <
        nat_of_be (kind_tag (st_target held) # elems (target_address (st_target held))))"
  unfolding unat_counter_final
  by (simp add: state_replaces_iff word_less_nat_alt nat_of_be_less_iff del: Cons_less_Cons)

text \<open>
  The rule is a strict partial order, total on the states of one address but for two different
  final states: never a state by itself, never both ways round, transitive, and any two states at
  one address that differ in counter or target are ordered unless both are final.
\<close>

theorem replaces_strict_order:
  "\<not> state_replaces s s \<and>
   \<not> (state_replaces s t \<and> state_replaces t s) \<and>
   (state_replaces s t \<and> state_replaces t u \<longrightarrow> state_replaces s u) \<and>
   (st_address s = st_address t \<and> (st_counter s, st_target s) \<noteq> (st_counter t, st_target t) \<longrightarrow>
      state_replaces s t \<or> state_replaces t s \<or> state_is_terminal s \<and> state_is_terminal t)"
proof (intro conjI)
  show "st_address s = st_address t \<and> (st_counter s, st_target s) \<noteq> (st_counter t, st_target t) \<longrightarrow>
      state_replaces s t \<or> state_replaces t s \<or> state_is_terminal s \<and> state_is_terminal t"
    using merge_states.total [of s t] by (auto simp: same_place_def same_claim_def)
qed (use merge_states.irrefl [OF merge_states.same_refl] merge_states.asym merge_states.trans
    in blast)+

lemma demo_state_sel [simp]:
  "st_address (demo_state n b) = arr_repeat 0" "st_counter (demo_state n b) = n"
  "st_target (demo_state n b) = demo_target b"
  by (simp_all add: demo_state_def)

lemma replicate_less: "0 < n \<Longrightarrow> x < y \<Longrightarrow> replicate n x < replicate n (y :: 'a :: linorder)"
  by (cases n) simp_all

lemma demo_target_inject [simp]: "demo_target b = demo_target c \<longleftrightarrow> b = c"
  by (simp add: demo_target_def target_new_def)

lemma replaces_strict_order_witness:
  "state_replaces (demo_state 5 1) (demo_state 5 9) \<and> state_replaces (demo_state 5 9) (demo_state 3 4) \<and>
   state_replaces (demo_state 5 1) (demo_state 3 4)"
proof -
  have a: "state_replaces (demo_state 5 1) (demo_state 5 9)"
    by (simp add: state_replaces_iff demo_target_def target_new_def FINAL_COUNTER_def replicate_less)
  have "state_replaces (demo_state 5 9) (demo_state 3 4) \<or> state_replaces (demo_state 3 4) (demo_state 5 9)"
    using replaces_strict_order [of "demo_state 5 9" "demo_state 3 4"]
    by (simp add: state_is_terminal_def FINAL_COUNTER_def)
  then have b: "state_replaces (demo_state 5 9) (demo_state 3 4)"
    by (simp add: state_replaces_iff)
  show ?thesis
    using a b replaces_strict_order [of "demo_state 5 1" "demo_state 5 9" "demo_state 3 4"] by blast
qed

text \<open>
  C11: First come at the end: among records of one address, whatever arrives before and after, the
  first final record to arrive is what a node ends up holding, and every final record replaces
  each record of the address that is not final.
\<close>

theorem first_final_is_kept:
  assumes "\<forall>p \<in> set (xs @ f # ys). ptr_address C p = a"
    and "pointer_is_terminal f" "\<forall>p \<in> set xs. \<not> pointer_is_terminal p"
  shows "fold_arrivals (pointer_replaces C) (xs @ f # ys) = Some f \<and>
    (\<forall>p \<in> set (xs @ f # ys). pointer_is_terminal p \<or> pointer_replaces C f p)"
proof -
  have "one_place (\<lambda>p q. same_place (ptr_state C p) (ptr_state C q)) (set (xs @ f # ys))"
    using assms(1) by (simp add: one_place_def same_place_def)
  then have "fold_arrivals (pointer_replaces C) (xs @ f # ys) = Some f"
    using assms(2,3) by (rule merge_records.fold_first_final)
  moreover have "\<forall>p \<in> set (xs @ f # ys). pointer_is_terminal p \<or> pointer_replaces C f p"
    using assms(1,2) by (auto simp: same_place_def intro: merge_records.final_wins)
  ultimately show ?thesis ..
qed

lemma demo_address [simp]: "ptr_address demo_crypto (demo_pointer r n t) = pointer_address demo_crypto 5"
  by (simp add: ptr_address_def)

lemma demo_terminal [simp]: "pointer_is_terminal (demo_pointer r n t) \<longleftrightarrow> n = FINAL_COUNTER"
  by (simp add: pointer_is_terminal_def)

lemma first_final_is_kept_witness:
  "fold_arrivals (pointer_replaces demo_crypto)
     ([demo_pointer 0 3 (demo_target 1)] @ demo_pointer 0 FINAL_COUNTER (demo_target 9) #
      [demo_pointer 0 FINAL_COUNTER (demo_target 1)]) =
   Some (demo_pointer 0 FINAL_COUNTER (demo_target 9))"
  by (rule conjunct1 [OF first_final_is_kept [where a = "pointer_address demo_crypto 5"]])
    (simp_all add: FINAL_COUNTER_def)

text \<open>
  C3: Convergence: two nodes that take the same valid records of one owner, in any order and any
  number of times, end up reporting the same state, provided the records hold no two different
  final claims; the first-come rule is the only place where arrival order shows.
\<close>

theorem arrivals_converge:
  assumes "ml_dsa_65_encoding C"
    and "\<forall>p \<in> set xs. valid_pointer C p \<and> ptr_owner p = pk" "set xs = set ys" "xs \<noteq> []"
    and "\<forall>p \<in> set xs. \<forall>q \<in> set xs. pointer_is_terminal p \<and> pointer_is_terminal q \<longrightarrow>
      ptr_target p = ptr_target q"
  shows "\<exists>h k. fold_arrivals (pointer_replaces C) xs = Some h \<and>
    fold_arrivals (pointer_replaces C) ys = Some k \<and> ptr_state C h = ptr_state C k"
proof -
  have "ys \<noteq> []" using assms(3,4) by auto
  then obtain h k where h: "fold_arrivals (pointer_replaces C) xs = Some h"
    and k: "fold_arrivals (pointer_replaces C) ys = Some k"
    using fold_arrivals_nonempty [of xs "pointer_replaces C"]
      fold_arrivals_nonempty [of ys "pointer_replaces C"] assms(4) by auto
  have mem: "h \<in> set xs" "k \<in> set xs"
    using fold_arrivals_mem [OF h] fold_arrivals_mem [OF k] assms(3) by simp_all
  have "one_place (\<lambda>p q. same_place (ptr_state C p) (ptr_state C q)) (set xs)"
    using assms(2) by (simp add: one_place_def same_place_def ptr_address_def)
  moreover have "\<forall>p \<in> set xs. \<forall>q \<in> set xs. pointer_is_terminal p \<and> pointer_is_terminal q \<longrightarrow>
      same_record_claim C p q"
  proof (intro ballI impI)
    fix p q
    assume pq: "p \<in> set xs" "q \<in> set xs" "pointer_is_terminal p \<and> pointer_is_terminal q"
    then have "ptr_target p = ptr_target q" "ptr_owner p = pk" "ptr_owner q = pk"
      using assms(2,5) by blast+
    then show "same_record_claim C p q"
      using pq(3) by (simp add: same_record_claim_def same_claim_def ptr_address_def
          pointer_is_terminal_def)
  qed
  ultimately have "same_record_claim C h k"
    using merge_records.fold_converges [OF _ assms(3) _ h k] by blast
  then have "pointer_body C h = pointer_body C k"
    using pointer_body_inject [OF assms(1)] assms(2) mem
    by (simp add: same_record_claim_def same_claim_def)
  then have "ptr_state C h = ptr_state C k"
    using \<open>same_record_claim C h k\<close>
    by (simp add: same_record_claim_def same_claim_def ptr_state_def ptr_state_id_def)
  then show ?thesis using h k by blast
qed

lemma arrivals_converge_witness:
  "\<exists>h k. fold_arrivals (pointer_replaces demo_crypto)
       [demo_pointer 0 5 (demo_target 9), demo_pointer 1 5 (demo_target 1), demo_pointer 0 2 (demo_target 4)] = Some h \<and>
     fold_arrivals (pointer_replaces demo_crypto)
       [demo_pointer 0 2 (demo_target 4), demo_pointer 1 5 (demo_target 1), demo_pointer 0 5 (demo_target 9)] = Some k \<and>
     ptr_state demo_crypto h = ptr_state demo_crypto k"
  by (rule arrivals_converge [OF demo_encoding, where pk = 5])
    (auto simp: demo_pointer_valid FINAL_COUNTER_def)

text \<open>Finalizing an open record with the owner's key.\<close>

lemma finalize_open:
  assumes "ml_dsa_65_encoding C" "signs_for C sk (ptr_owner p)" "\<not> pointer_is_terminal p"
  obtains q where "pointer_finalize C r p sk t = Ok q" "pointer_is_terminal q" "ptr_target q = t"
    "pointer_replaces C q p"
proof -
  obtain q where q: "pointer_sign C r sk (ptr_owner p) FINAL_COUNTER t = Ok q" "ptr_owner q = ptr_owner p"
    by (rule sign_succeeds [OF assms(1,2)])
  note s = sign_eq_Ok [OF assms(1) q(1)]
  show thesis
    by (rule that [of q]) (use assms(3) q s in \<open>simp_all add: pointer_finalize_def pointer_is_terminal_def
      pointer_replaces_def state_replaces_iff ptr_address_def less_final_counter\<close>)
qed

text \<open>
  C12: The exception to convergence is real: from any one open record the owner can finalize twice, towards
  different targets; both records replace it and neither replaces the other, so two nodes that meet
  them in different orders keep different final targets, for good.
\<close>

theorem two_finals_diverge:
  assumes "ml_dsa_65_encoding C" "signs_for C sk (ptr_owner p)" "\<not> pointer_is_terminal p" "t \<noteq> t'"
  shows "\<exists>q q'. pointer_finalize C r p sk t = Ok q \<and> pointer_finalize C r' p sk t' = Ok q' \<and>
    pointer_replaces C q p \<and> pointer_replaces C q' p \<and>
    fold_arrivals (pointer_replaces C) [p, q, q'] = Some q \<and> ptr_target q = t \<and>
    fold_arrivals (pointer_replaces C) [p, q', q] = Some q' \<and> ptr_target q' = t' \<and>
    (\<forall>x. \<not> pointer_replaces C x q \<and> \<not> pointer_replaces C x q')"
proof -
  obtain q where q: "pointer_finalize C r p sk t = Ok q" "pointer_is_terminal q" "ptr_target q = t"
    "pointer_replaces C q p"
    by (rule finalize_open [OF assms(1-3)])
  obtain q' where q': "pointer_finalize C r' p sk t' = Ok q'" "pointer_is_terminal q'" "ptr_target q' = t'"
    "pointer_replaces C q' p"
    by (rule finalize_open [OF assms(1-3)])
  show ?thesis
    using q q' merge_records.final_kept [OF q(2)] merge_records.final_kept [OF q'(2)]
    by (auto simp: fold_arrivals_def)
qed

lemma two_finals_diverge_witness:
  "\<exists>q q'. pointer_finalize demo_crypto 1 (demo_pointer 0 4 (demo_target 1)) 5 (demo_target 2) = Ok q \<and>
    pointer_finalize demo_crypto 2 (demo_pointer 0 4 (demo_target 1)) 5 (demo_target 3) = Ok q' \<and>
    fold_arrivals (pointer_replaces demo_crypto) [demo_pointer 0 4 (demo_target 1), q, q'] = Some q \<and>
    fold_arrivals (pointer_replaces demo_crypto) [demo_pointer 0 4 (demo_target 1), q', q] = Some q'"
proof -
  have "signs_for demo_crypto 5 (ptr_owner (demo_pointer 0 4 (demo_target 1)))"
    "\<not> pointer_is_terminal (demo_pointer 0 4 (demo_target 1))" "demo_target 2 \<noteq> demo_target 3"
    by (simp_all add: demo_signs_for FINAL_COUNTER_def)
  from two_finals_diverge [OF demo_encoding this, of 1 2] show ?thesis by blast
qed

text \<open>
  No node ever gives up a final state it holds, and what a node holds only ever improves: over
  every sequence of deliveries of any states to any nodes, a node's final state stays, and a state
  it holds that is not final is kept or replaced by one that the rule prefers.
\<close>

theorem network_keeps_final:
  assumes "net_reaches N M" "N i = Some h"
  shows "(state_is_terminal h \<longrightarrow> M i = Some h) \<and>
    (\<exists>k. M i = Some k \<and> (k = h \<or> state_replaces k h))"
  using net_reaches_held [OF assms] merge_states.final_kept by blast

lemma network_keeps_final_witness:
  "net_reaches ((\<lambda>_. None)(0 := Some (demo_state FINAL_COUNTER 9)))
     (((\<lambda>_. None)(0 := Some (demo_state FINAL_COUNTER 9)))(0 := take_arrival state_replaces
        (Some (demo_state FINAL_COUNTER 9)) (demo_state FINAL_COUNTER 1))) \<and>
   take_arrival state_replaces (Some (demo_state FINAL_COUNTER 9)) (demo_state FINAL_COUNTER 1) =
     Some (demo_state FINAL_COUNTER 9)"
proof -
  define N :: network where "N = (\<lambda>_. None)(0 := Some (demo_state FINAL_COUNTER 9))"
  have at: "N 0 = Some (demo_state FINAL_COUNTER 9)" by (simp add: N_def)
  have reach: "net_reaches N (N(0 := take_arrival state_replaces (N 0) (demo_state FINAL_COUNTER 1)))"
    by (rule net_next [OF net_refl deliver])
  have "state_is_terminal (demo_state FINAL_COUNTER 9)"
    by (simp only: state_is_terminal_def demo_state_sel)
  then have "(N(0 := take_arrival state_replaces (N 0) (demo_state FINAL_COUNTER 1))) 0 =
      Some (demo_state FINAL_COUNTER 9)"
    using network_keeps_final [OF reach at] by (rule_tac mp [OF conjunct1])
  then show ?thesis
    using reach by (simp only: at fun_upd_same, simp only: N_def simp_thms)
qed

end
