(* ===== verification/Refinement.thy ===== *)
theory Refinement
  imports Rust_Prelude
begin

text \<open>
  Functional refinement of a state machine whose steps may fail: an abstraction that commutes with
  every step commutes with every run, errors included, and the invariant it needs is kept.
\<close>

fun run_steps :: "('s \<Rightarrow> 'c \<Rightarrow> ('s, 'e) result) \<Rightarrow> 's \<Rightarrow> 'c list \<Rightarrow> ('s, 'e) result" where
  "run_steps step s [] = Ok s"
| "run_steps step s (c # cs) = and_then (step s c) (\<lambda>t. run_steps step t cs)"

lemma run_steps_append:
  "run_steps step s (cs @ ds) = and_then (run_steps step s cs) (\<lambda>t. run_steps step t ds)"
proof (induction cs arbitrary: s)
  case (Cons c cs)
  then show ?case by (cases "step s c") simp_all
qed simp

locale functional_refinement =
  fixes inv :: "'s \<Rightarrow> bool"
    and abs :: "'s \<Rightarrow> 'a"
    and event :: "'c \<Rightarrow> 'd"
    and step :: "'s \<Rightarrow> 'c \<Rightarrow> ('s, 'e) result"
    and abs_step :: "'a \<Rightarrow> 'd \<Rightarrow> ('a, 'e) result"
  assumes step_abs: "inv s \<Longrightarrow> result_map abs (step s c) = abs_step (abs s) (event c)"
    and step_inv: "inv s \<Longrightarrow> step s c = Ok t \<Longrightarrow> inv t"
begin

lemma run_inv: "inv s \<Longrightarrow> run_steps step s cs = Ok t \<Longrightarrow> inv t"
proof (induction cs arbitrary: s)
  case (Cons c cs)
  then obtain u where "step s c = Ok u" "run_steps step u cs = Ok t"
    by (auto simp: result_simps)
  then show ?case using Cons step_inv by blast
qed simp

lemma run_abs: "inv s \<Longrightarrow> result_map abs (run_steps step s cs) = run_steps abs_step (abs s) (map event cs)"
proof (induction cs arbitrary: s)
  case (Cons c cs)
  note step = step_abs [OF Cons.prems, of c]
  show ?case
  proof (cases "step s c")
    case (Ok t)
    then have "result_map abs (run_steps step t cs) = run_steps abs_step (abs t) (map event cs)"
      using Cons step_inv by blast
    then show ?thesis using step Ok by (metis and_then.simps(1) list.simps(9) result_map.simps(1) run_steps.simps(2))
  next
    case (Err e)
    then show ?thesis using step by (metis and_then.simps(2) list.simps(9) result_map.simps(2) run_steps.simps(2))
  qed
qed simp

text \<open>What the abstraction shows of a run that succeeds.\<close>

lemma run_Ok: "inv s \<Longrightarrow> run_steps step s cs = Ok t \<Longrightarrow> run_steps abs_step (abs s) (map event cs) = Ok (abs t)"
  using run_abs [of s cs] by simp

end

end
