(* ===== verification/Pointer_Lifecycle.thy ===== *)
theory Pointer_Lifecycle
  imports Pointer_Properties Refinement
begin

text \<open>
  What a pointer promises, without bytes, keys or words: an abstract life that is open at a counter,
  retired, or handed over, the owner's commands on it, and the order between lives. The records of
  \<^verbatim>\<open>src/pointer.rs\<close> refine it: the abstraction commutes with every operation and with the merge rule,
  and a store fed with raw bytes refines a store of lives.
\<close>

section \<open>The abstract pointer\<close>

datatype life = Open nat pointer_target | Retired pointer_target | Handed_Over xorname

datatype owner_command = Update pointer_target | Finalize pointer_target | Transfer xorname

definition closed :: "pointer_target \<Rightarrow> life" where
  "closed t = (if kind_tag t = 1 then Handed_Over (target_address t) else Retired t)"

text \<open>The largest open counter is the one before the final one.\<close>

fun life_step :: "life \<Rightarrow> owner_command \<Rightarrow> (life, pointer_error) result" where
  "life_step (Open n _) (Update t) = Ok (if n + 2 < 2 ^ 64 then Open (n + 1) t else closed t)"
| "life_step (Open n _) (Finalize t) = Ok (closed t)"
| "life_step (Open n _) (Transfer a) = Ok (Handed_Over a)"
| "life_step (Retired _) _ = Err CounterExhausted"
| "life_step (Handed_Over _) _ = Err CounterExhausted"

definition target_number :: "pointer_target \<Rightarrow> nat" where
  "target_number t = nat_of_be (kind_tag t # elems (target_address t))"

fun supersedes :: "life \<Rightarrow> life \<Rightarrow> bool" where
  "supersedes (Open m s) (Open n t) \<longleftrightarrow> n < m \<or> n = m \<and> target_number s < target_number t"
| "supersedes _ (Open _ _) \<longleftrightarrow> True"
| "supersedes _ _ \<longleftrightarrow> False"

section \<open>The abstraction\<close>

definition life_at :: "u64 \<Rightarrow> pointer_target \<Rightarrow> life" where
  "life_at n t = (if n = FINAL_COUNTER then closed t else Open (unat n) t)"

definition life_of :: "('pk, 'sig) pointer \<Rightarrow> life" where
  "life_of p = life_at (ptr_counter p) (ptr_target p)"

fun owner_does ::
  "('pk, 'sk, 'sig) crypto \<Rightarrow> 'sk \<Rightarrow> ('pk, 'sig) pointer \<Rightarrow> nat \<times> owner_command \<Rightarrow>
     (('pk, 'sig) pointer, pointer_error) result" where
  "owner_does C sk p (r, Update t) = pointer_update C r p sk t"
| "owner_does C sk p (r, Finalize t) = pointer_finalize C r p sk t"
| "owner_does C sk p (r, Transfer a) = pointer_transfer_to C r p sk a"

lemma life_at_final [simp]: "life_at FINAL_COUNTER t = closed t"
  by (simp add: life_at_def)

lemma life_at_open [simp]: "n \<noteq> FINAL_COUNTER \<Longrightarrow> life_at n t = Open (unat n) t"
  by (simp add: life_at_def)

lemma closed_step [simp]: "life_step (closed t) c = Err CounterExhausted"
  by (cases c) (simp_all add: closed_def)

lemma closed_new_pointer [simp]: "closed (target_new Pointer_Kind a) = Handed_Over a"
  by (simp add: closed_def target_new_def)

lemma supersedes_closed [simp]: "\<not> supersedes l (closed t)"
  by (cases l) (simp_all add: closed_def)

lemma closed_supersedes [simp]: "supersedes (closed t) (Open n s)"
  by (simp add: closed_def)

lemma unat_open: "n \<noteq> FINAL_COUNTER \<Longrightarrow> unat n < 2 ^ 64 - 1"
  using unat_counter_final [of n] unsigned_less [of n, where ?'a = nat] by simp

lemma life_after_next:
  assumes "n \<noteq> FINAL_COUNTER" "unat m = Suc (unat n)"
  shows "life_at m t = (if unat n + 2 < 2 ^ 64 then Open (unat n + 1) t else closed t)"
  using assms unat_open [OF assms(1)] unat_counter_final [of m]
  by (cases "m = FINAL_COUNTER") (simp_all add: life_at_def)

text \<open>Signing with the owner's key gives a record of the life asked for, with the owner kept.\<close>

lemma signed_life:
  assumes "ml_dsa_65_encoding C" "signs_for C sk pk"
  shows "\<exists>q. pointer_sign C r sk pk n t = Ok q \<and> ptr_owner q = pk \<and> life_of q = life_at n t"
proof -
  obtain q where q: "pointer_sign C r sk pk n t = Ok q" "ptr_owner q = pk"
    by (rule sign_succeeds [OF assms])
  then show ?thesis
    using sign_eq_Ok [OF assms(1) q(1)] by (auto simp: life_of_def)
qed

definition owned :: "('pk, 'sk, 'sig) crypto \<Rightarrow> 'sk \<Rightarrow> ('pk, 'sig) pointer \<Rightarrow> bool" where
  "owned C sk p \<longleftrightarrow> ml_dsa_65_encoding C \<and> signs_for C sk (ptr_owner p)"


lemma owner_step_refines:
  assumes "owned C sk p"
  shows "result_map life_of (owner_does C sk p rc) = life_step (life_of p) (snd rc) \<and>
    (\<forall>q. owner_does C sk p rc = Ok q \<longrightarrow> ptr_owner q = ptr_owner p)"
proof -
  obtain r c where rc: "rc = (r, c)" by (cases rc)
  have enc: "ml_dsa_65_encoding C" and kp: "signs_for C sk (ptr_owner p)"
    using assms by (simp_all add: owned_def)
  show ?thesis
  proof (cases "ptr_counter p = FINAL_COUNTER")
    case True
    then show ?thesis
      by (cases c) (simp_all add: rc life_of_def pointer_update_def next_counter_final
          pointer_finalize_def pointer_transfer_to_def pointer_is_terminal_def)
  next
    case False
    note nc = next_counter_below [OF False]
    have l: "life_of p = Open (unat (ptr_counter p)) (ptr_target p)"
      using False by (simp add: life_of_def)
    have "owner_does C sk p (r, c) = pointer_sign C r sk (ptr_owner p)
        (case c of Update t \<Rightarrow> ptr_counter p + 1 | _ \<Rightarrow> FINAL_COUNTER)
        (case c of Update t \<Rightarrow> t | Finalize t \<Rightarrow> t | Transfer a \<Rightarrow> target_new Pointer_Kind a)"
      using nc False by (cases c) (simp_all add: pointer_update_def pointer_finalize_def
          pointer_transfer_to_def pointer_is_terminal_def)
    moreover have "life_step (life_of p) c = Ok (life_at
        (case c of Update t \<Rightarrow> ptr_counter p + 1 | _ \<Rightarrow> FINAL_COUNTER)
        (case c of Update t \<Rightarrow> t | Finalize t \<Rightarrow> t | Transfer a \<Rightarrow> target_new Pointer_Kind a))"
      using life_after_next [OF False] nc by (cases c) (simp_all add: l)
    ultimately show ?thesis
      using signed_life [OF enc kp] unfolding rc by (metis result.inject(1) result_map.simps(1) snd_conv)
  qed
qed

lemma owner_step_keeps: "owned C sk p \<Longrightarrow> owner_does C sk p rc = Ok q \<Longrightarrow> ptr_owner q = ptr_owner p"
  using owner_step_refines [of C sk p rc] by simp

interpretation owner_life: functional_refinement "owned C sk" life_of snd "owner_does C sk" life_step
  for C :: "('pk, 'sk, 'sig) crypto" and sk :: 'sk
proof
  show "result_map life_of (owner_does C sk p rc) = life_step (life_of p) (snd rc)" if "owned C sk p" for p rc
    using owner_step_refines [OF that] ..
  show "owned C sk q" if "owned C sk p" "owner_does C sk p rc = Ok q" for p rc q
    using owner_step_keeps [OF that] that(1) by (simp add: owned_def)
qed

section \<open>The order between lives\<close>

lemma target_number_less:
  "target_number s < target_number t \<longleftrightarrow> elems (target_to_bytes s) < elems (target_to_bytes t)"
  by (simp add: target_number_def nat_of_be_less_iff del: Cons_less_Cons)

text \<open>The merge rule is the order on lives at one address.\<close>

lemma state_replaces_life:
  "state_replaces s t \<longleftrightarrow> st_address s = st_address t \<and>
     supersedes (life_at (st_counter s) (st_target s)) (life_at (st_counter t) (st_target t))"
proof -
  note target_number_less [of "st_target s" "st_target t"]
  then show ?thesis
    by (cases "st_counter t = FINAL_COUNTER"; cases "st_counter s = FINAL_COUNTER")
      (auto simp: state_replaces_iff less_final_counter simp flip: word_less_nat_alt word_unat_eq_iff
        simp del: elems_target_to_bytes)
qed

lemma pointer_replaces_life:
  "pointer_replaces C p q \<longleftrightarrow> ptr_address C p = ptr_address C q \<and> supersedes (life_of p) (life_of q)"
  by (simp add: pointer_replaces_def state_replaces_life life_of_def)

lemma transferred_to_life:
  "pointer_transferred_to p = (case life_of p of Handed_Over a \<Rightarrow> Some a | _ \<Rightarrow> None)"
  by (cases "ptr_counter p = FINAL_COUNTER")
    (auto simp: life_of_def closed_def pointer_transferred_to_def transfer_target_def target_kind_def
      kind_from_tag_def)

section \<open>A store fed with bytes\<close>

text \<open>
  A store holds one record per address. It takes any bytes: what does not validate is dropped, what
  does goes to the address of its owner by the merge rule. Its abstraction takes claims, an address
  and a life, and keeps the life the order prefers.
\<close>

type_synonym ('pk, 'sig) pointer_store = "xorname \<Rightarrow> ('pk, 'sig) pointer option"
type_synonym life_store = "xorname \<Rightarrow> life option"

definition take_record ::
  "('pk, 'sk, 'sig) crypto \<Rightarrow> ('pk, 'sig) pointer_store \<Rightarrow> ('pk, 'sig) pointer \<Rightarrow> ('pk, 'sig) pointer_store" where
  "take_record C S p = S(ptr_address C p := take_arrival (pointer_replaces C) (S (ptr_address C p)) p)"

definition take_bytes ::
  "('pk, 'sk, 'sig) crypto \<Rightarrow> ('pk, 'sig) pointer_store \<Rightarrow> bytes \<Rightarrow>
     (('pk, 'sig) pointer_store, pointer_error) result" where
  "take_bytes C S bs =
     (case pointer_from_bytes C bs of Err e \<Rightarrow> Ok S | Ok p \<Rightarrow> Ok (take_record C S p))"

definition claim_in :: "('pk, 'sk, 'sig) crypto \<Rightarrow> bytes \<Rightarrow> (xorname \<times> life) option" where
  "claim_in C bs = (case pointer_from_bytes C bs of Err e \<Rightarrow> None | Ok p \<Rightarrow> Some (ptr_address C p, life_of p))"

definition take_claim :: "life_store \<Rightarrow> (xorname \<times> life) option \<Rightarrow> (life_store, pointer_error) result" where
  "take_claim A c = Ok (case c of None \<Rightarrow> A | Some (a, l) \<Rightarrow> A(a := take_arrival supersedes (A a) l))"

definition lives :: "('pk, 'sig) pointer_store \<Rightarrow> life_store" where
  "lives S a = map_option life_of (S a)"

text \<open>The invariant of a store: it holds valid records, each at the address of its owner.\<close>

definition sound_store :: "('pk, 'sk, 'sig) crypto \<Rightarrow> ('pk, 'sig) pointer_store \<Rightarrow> bool" where
  "sound_store C S \<longleftrightarrow> ml_dsa_65_encoding C \<and>
     (\<forall>a p. S a = Some p \<longrightarrow> valid_pointer C p \<and> ptr_address C p = a)"

lemma sound_store_take:
  assumes "sound_store C S" "pointer_from_bytes C bs = Ok p"
  shows "sound_store C (take_record C S p)"
proof -
  have "valid_pointer C p"
    using assms from_bytes_eq_Ok by (auto simp: sound_store_def)
  then show ?thesis
    using assms(1) by (cases "S (ptr_address C p)") (auto simp: sound_store_def take_record_def)
qed

interpretation byte_store: functional_refinement "sound_store C" lives "claim_in C" "take_bytes C" take_claim
  for C :: "('pk, 'sk, 'sig) crypto"
proof
  show "result_map lives (take_bytes C S bs) = take_claim (lives S) (claim_in C bs)" if "sound_store C S" for S bs
  proof (cases "pointer_from_bytes C bs")
    case (Ok p)
    have "lives (take_record C S p) = (lives S)(ptr_address C p :=
        take_arrival supersedes (lives S (ptr_address C p)) (life_of p))"
      using that by (cases "S (ptr_address C p)")
        (auto simp: lives_def take_record_def pointer_replaces_life sound_store_def)
    then show ?thesis by (simp add: Ok take_bytes_def take_claim_def claim_in_def)
  qed (simp add: take_bytes_def take_claim_def claim_in_def)
qed (auto simp: take_bytes_def sound_store_take split: result.splits)


section \<open>Lives as a replacement rule\<close>

definition is_open :: "life \<Rightarrow> bool" where
  "is_open l \<longleftrightarrow> (\<exists>n t. l = Open n t)"

lemma target_number_inject: "target_number s = target_number t \<longleftrightarrow> s = t"
proof
  assume "target_number s = target_number t"
  then have "\<not> elems (target_to_bytes s) < elems (target_to_bytes t)"
    "\<not> elems (target_to_bytes t) < elems (target_to_bytes s)"
    using target_number_less [of s t] target_number_less [of t s] by linarith+
  then have "elems (target_to_bytes s) = elems (target_to_bytes t)"
    using less_linear by blast
  then show "s = t" by (simp only: elems_eq_iff target_to_bytes_inject)
qed simp

lemma supersedes_cases:
  "supersedes l k \<longleftrightarrow> is_open k \<and> (is_open l \<longrightarrow> (\<exists>m s n t. l = Open m s \<and> k = Open n t \<and>
     (n < m \<or> n = m \<and> target_number s < target_number t)))"
  by (cases l; cases k) (auto simp: is_open_def)

interpretation life_order: final_replacement supersedes "(=)" "\<lambda>l. \<not> is_open l" "\<lambda>_ _. True"
proof (unfold_locales, goal_cases)
  case (4 l k j)
  then show ?case by (cases l; cases k; cases j) auto
next
  case (8 l k)
  show ?case
    by (cases l; cases k)
      (auto simp: is_open_def target_number_inject not_less_iff_gr_or_eq)
qed (auto simp: supersedes_cases is_open_def)

fun claims_at :: "xorname \<Rightarrow> (xorname \<times> life) option list \<Rightarrow> life list" where
  "claims_at a [] = []"
| "claims_at a (None # cs) = claims_at a cs"
| "claims_at a (Some (b, l) # cs) = (if b = a then l # claims_at a cs else claims_at a cs)"

lemma set_claims_at: "set (claims_at a cs) = {l. Some (a, l) \<in> set cs}"
  by (induction a cs rule: claims_at.induct) auto

lemma run_take_claim:
  "\<exists>A'. run_steps take_claim A cs = Ok A' \<and> A' a = foldl (take_arrival supersedes) (A a) (claims_at a cs)"
proof (induction cs arbitrary: A)
  case (Cons c cs)
  obtain B where B: "take_claim A c = Ok B"
    by (simp add: take_claim_def)
  then have "foldl (take_arrival supersedes) (A a) (claims_at a (c # cs)) =
      foldl (take_arrival supersedes) (B a) (claims_at a cs)"
    by (auto simp: take_claim_def split: option.splits prod.splits)
  then show ?case using Cons.IH [of B] B by simp
qed simp

lemma claims_converge:
  assumes "set cs = set ds"
    and "\<forall>l k. Some (a, l) \<in> set cs \<and> Some (a, k) \<in> set cs \<and> \<not> is_open l \<and> \<not> is_open k \<longrightarrow> l = k"
  shows "fold_arrivals supersedes (claims_at a cs) = fold_arrivals supersedes (claims_at a ds)"
proof -
  have same: "set (claims_at a cs) = set (claims_at a ds)"
    using assms(1) by (simp add: set_claims_at)
  show ?thesis
  proof (cases "claims_at a cs = []")
    case True
    then show ?thesis using same by simp
  next
    case False
    then obtain h k where h: "fold_arrivals supersedes (claims_at a cs) = Some h"
      and k: "fold_arrivals supersedes (claims_at a ds) = Some k"
      using same fold_arrivals_nonempty by (metis set_empty)
    have "h = k"
      using assms(2) by (intro life_order.fold_converges [OF _ same _ h k])
        (auto simp: one_place_def set_claims_at)
    then show ?thesis using h k by simp
  qed
qed


section \<open>Values of the type\<close>

text \<open>
  Every way the public interface has of making a record: signing, creation, the owner's operations
  on a record made before, reading bytes, and verifying a parse.
\<close>

inductive public_pointer :: "('pk, 'sk, 'sig) crypto \<Rightarrow> ('pk, 'sig) pointer \<Rightarrow> bool" for C where
  signed: "pointer_sign C r sk pk n t = Ok p \<Longrightarrow> public_pointer C p"
| created: "pointer_create C r sk pk t = Ok p \<Longrightarrow> public_pointer C p"
| updated: "public_pointer C p \<Longrightarrow> pointer_update C r p sk t = Ok q \<Longrightarrow> public_pointer C q"
| finalized: "public_pointer C p \<Longrightarrow> pointer_finalize C r p sk t = Ok q \<Longrightarrow> public_pointer C q"
| transferred: "public_pointer C p \<Longrightarrow> pointer_transfer_to C r p sk a = Ok q \<Longrightarrow> public_pointer C q"
| read: "pointer_from_bytes C bs = Ok p \<Longrightarrow> public_pointer C p"
| verified: "parsed_pointer_parse C bs = Ok pp \<Longrightarrow> verify_parsed C pp = Ok p \<Longrightarrow> public_pointer C p"

lemma public_pointer_valid:
  assumes "ml_dsa_65_encoding C"
  shows "public_pointer C p \<Longrightarrow> valid_pointer C p"
proof (induction rule: public_pointer.induct)
  case (verified bs pp p)
  then have "pointer_from_bytes C bs = Ok p" by (simp add: pointer_from_bytes_def)
  then show ?case using from_bytes_eq_Ok [OF assms] by blast
qed (auto simp: pointer_create_def pointer_update_def pointer_finalize_def pointer_transfer_to_def
    result_simps from_bytes_eq_Ok [OF assms] split: if_splits intro: sign_eq_Ok(1) [OF assms])

section \<open>Properties\<close>

lemma is_open_life_of: "is_open (life_of p) \<longleftrightarrow> \<not> pointer_is_terminal p"
  by (cases "ptr_counter p = FINAL_COUNTER")
    (auto simp: is_open_def life_of_def pointer_is_terminal_def closed_def)

lemma terminal_life: "pointer_is_terminal p \<Longrightarrow> life_of p = closed (ptr_target p)"
  by (simp add: life_of_def pointer_is_terminal_def)

lemma claim_in_eq_Some:
  "claim_in C bs = Some (a, l) \<longleftrightarrow> (\<exists>p. pointer_from_bytes C bs = Ok p \<and> ptr_address C p = a \<and> life_of p = l)"
  by (auto simp: claim_in_def split: result.splits)

lemma claims_from:
  assumes "Some (a, l) \<in> set (map (claim_in C) bss)"
  obtains bs p where "bs \<in> set bss" "pointer_from_bytes C bs = Ok p" "ptr_address C p = a" "life_of p = l"
proof -
  obtain bs where "bs \<in> set bss" "claim_in C bs = Some (a, l)"
    using assms by auto
  then show thesis using that by (auto simp: claim_in_eq_Some)
qed

text \<open>From an empty store, the lives at an address are the fold of the claims made there.\<close>

lemma byte_store_run:
  assumes "ml_dsa_65_encoding C"
  shows "\<exists>S. run_steps (take_bytes C) (\<lambda>_. None) bss = Ok S \<and> sound_store C S \<and>
    (\<forall>a. lives S a = fold_arrivals supersedes (claims_at a (map (claim_in C) bss)))"
proof -
  let ?E = "\<lambda>_. None"
  have sound: "sound_store C ?E" using assms by (simp add: sound_store_def)
  have none: "lives ?E = (\<lambda>_. None)" by (simp add: fun_eq_iff lives_def)
  note run = byte_store.run_abs [OF sound, of bss, unfolded none]
  obtain A where "run_steps take_claim (\<lambda>_. None) (map (claim_in C) bss) = Ok A"
    using run_take_claim by blast
  moreover have "A a = fold_arrivals supersedes (claims_at a (map (claim_in C) bss))" for a
    using run_take_claim [of "\<lambda>_. None" "map (claim_in C) bss" a] calculation
    by (simp add: fold_arrivals_def)
  ultimately obtain S where S: "run_steps (take_bytes C) ?E bss = Ok S"
    "\<forall>a. lives S a = fold_arrivals supersedes (claims_at a (map (claim_in C) bss))"
    using run by (auto simp: result_simps)
  then show ?thesis
    using byte_store.run_inv [OF sound S(1)] by blast
qed

lemma life_step_supersedes: "life_step l c = Ok k \<Longrightarrow> supersedes k l"
  by (cases l; cases c) (auto simp: closed_def)

lemma owner_step_replaces:
  assumes "owned C sk p" "owner_does C sk p rc = Ok q"
  shows "pointer_replaces C q p"
proof -
  have "life_step (life_of p) (snd rc) = Ok (life_of q)"
    using owner_life.step_abs [OF assms(1), of rc] assms(2) by simp
  then show ?thesis
    using owner_step_keeps [OF assms] life_step_supersedes
    by (simp add: pointer_replaces_life ptr_address_def)
qed

lemma owner_run_replaces:
  "owned C sk p \<Longrightarrow> run_steps (owner_does C sk) p cs = Ok q \<Longrightarrow>
     ptr_address C q = ptr_address C p \<and> (cs = [] \<or> pointer_replaces C q p)"
proof (induction cs arbitrary: p)
  case (Cons rc cs)
  then obtain u where u: "owner_does C sk p rc = Ok u" "run_steps (owner_does C sk) u cs = Ok q"
    by (auto simp: result_simps)
  have "pointer_replaces C u p" "owned C sk u" "ptr_address C u = ptr_address C p"
    using owner_step_replaces [OF Cons.prems(1) u(1)] owner_life.step_inv [OF Cons.prems(1) u(1)]
      owner_step_keeps [OF Cons.prems(1) u(1)] by (simp_all add: ptr_address_def)
  then show ?case
    using Cons.IH [OF _ u(2)] u(2) merge_records.trans [of C q u p] by auto
qed simp

text \<open>
  C1: Records refine the abstract life of a pointer: with the owner's key, any sequence of updates,
  finalizations and transfers, whatever randomness signing draws, gives exactly the life the abstract
  commands give, refusals included; and a record it ends in stands at the same address and replaces
  the one it began with.
\<close>

theorem owner_commands_refine_life:
  assumes "ml_dsa_65_encoding C" "signs_for C sk (ptr_owner p)"
  shows "result_map life_of (run_steps (owner_does C sk) p cs) =
      run_steps life_step (life_of p) (map snd cs) \<and>
    (\<forall>q. run_steps (owner_does C sk) p cs = Ok q \<longrightarrow>
      ptr_address C q = ptr_address C p \<and> (cs = [] \<or> pointer_replaces C q p))"
proof -
  have o: "owned C sk p" using assms by (simp add: owned_def)
  show ?thesis
    using owner_life.run_abs [OF o] owner_run_replaces [OF o] by blast
qed

lemma owner_commands_refine_life_witness:
  "result_map life_of (run_steps (owner_does demo_crypto 5) (demo_pointer 0 0 (demo_target 1))
      [(1, Update (demo_target 2)), (2, Transfer (arr_repeat 66))]) = Ok (Handed_Over (arr_repeat 66)) \<and>
   result_map life_of (run_steps (owner_does demo_crypto 5) (demo_pointer 0 0 (demo_target 1))
      [(1, Update (demo_target 2)), (2, Transfer (arr_repeat 66)), (3, Update (demo_target 2))]) =
     Err CounterExhausted"
proof -
  have kp: "signs_for demo_crypto 5 (ptr_owner (demo_pointer 0 0 (demo_target 1)))"
    by (simp add: demo_signs_for)
  have l: "life_of (demo_pointer 0 0 (demo_target 1)) = Open 0 (demo_target 1)"
    by (simp add: life_of_def life_at_def FINAL_COUNTER_def)
  show ?thesis
    using owner_commands_refine_life [OF demo_encoding kp,
        of "[(1, Update (demo_target 2)), (2, Transfer (arr_repeat 66))]"]
      owner_commands_refine_life [OF demo_encoding kp,
        of "[(1, Update (demo_target 2)), (2, Transfer (arr_repeat 66)), (3, Update (demo_target 2))]"]
    by (simp add: l)
qed

text \<open>
  C5: Whole stores converge on raw input: two stores, empty at first, that take the same byte
  strings in any order and any number of times, valid records and garbage mixed, hold the same
  counter and target at every address, and only valid records, each at the address of its owner;
  the one proviso is that no two different final states of one address are among the input.
\<close>

theorem byte_stores_converge:
  assumes "ml_dsa_65_encoding C" "set bss = set css"
    and "\<forall>bs \<in> set bss. \<forall>cs \<in> set bss. \<forall>p q. pointer_from_bytes C bs = Ok p \<and>
      pointer_from_bytes C cs = Ok q \<and> ptr_address C p = ptr_address C q \<and>
      pointer_is_terminal p \<and> pointer_is_terminal q \<longrightarrow> ptr_target p = ptr_target q"
  shows "\<exists>S T. run_steps (take_bytes C) (\<lambda>_. None) bss = Ok S \<and>
    run_steps (take_bytes C) (\<lambda>_. None) css = Ok T \<and> lives S = lives T \<and>
    sound_store C S \<and> sound_store C T"
proof -
  obtain S where S: "run_steps (take_bytes C) (\<lambda>_. None) bss = Ok S" "sound_store C S"
    "\<forall>a. lives S a = fold_arrivals supersedes (claims_at a (map (claim_in C) bss))"
    using byte_store_run [OF assms(1)] by blast
  obtain T where T: "run_steps (take_bytes C) (\<lambda>_. None) css = Ok T" "sound_store C T"
    "\<forall>a. lives T a = fold_arrivals supersedes (claims_at a (map (claim_in C) css))"
    using byte_store_run [OF assms(1)] by blast
  have "lives S a = lives T a" for a
  proof -
    have "l = k" if lk: "Some (a, l) \<in> set (map (claim_in C) bss)" "Some (a, k) \<in> set (map (claim_in C) bss)"
      "\<not> is_open l" "\<not> is_open k" for l k
    proof -
      obtain bs p where p: "bs \<in> set bss" "pointer_from_bytes C bs = Ok p" "ptr_address C p = a" "life_of p = l"
        using lk(1) by (rule claims_from)
      obtain cs q where q: "cs \<in> set bss" "pointer_from_bytes C cs = Ok q" "ptr_address C q = a" "life_of q = k"
        using lk(2) by (rule claims_from)
      have "pointer_is_terminal p" "pointer_is_terminal q"
        using lk(3,4) p(4) q(4) is_open_life_of by blast+
      moreover have "ptr_address C p = ptr_address C q"
        using p(3) q(3) by simp
      ultimately have "pointer_is_terminal p" "pointer_is_terminal q" "ptr_target p = ptr_target q"
        using assms(3) p(1,2) q(1,2) by blast+
      then show "l = k" using p(4) q(4) by (simp add: terminal_life)
    qed
    then have "fold_arrivals supersedes (claims_at a (map (claim_in C) bss)) =
        fold_arrivals supersedes (claims_at a (map (claim_in C) css))"
      using assms(2) by (intro claims_converge) auto
    then show ?thesis using S(3) T(3) by simp
  qed
  then show ?thesis using S T by blast
qed

lemma byte_stores_converge_witness:
  "\<exists>S T. run_steps (take_bytes demo_crypto) (\<lambda>_. None) [[1, 2], pointer_to_bytes demo_crypto (demo_pointer 0 5 (demo_target 9)),
        pointer_to_bytes demo_crypto (demo_pointer 1 6 (demo_target 1))] = Ok S \<and>
     run_steps (take_bytes demo_crypto) (\<lambda>_. None) [pointer_to_bytes demo_crypto (demo_pointer 1 6 (demo_target 1)),
        pointer_to_bytes demo_crypto (demo_pointer 0 5 (demo_target 9)), [1, 2]] = Ok T \<and>
     lives S = lives T"
proof -
  have junk: "pointer_from_bytes demo_crypto [1, 2] = Err (WrongLength 2)"
    by (simp add: from_bytes_wrong_length layout_defs)
  let ?bss = "[[1, 2], pointer_to_bytes demo_crypto (demo_pointer 0 5 (demo_target 9)),
        pointer_to_bytes demo_crypto (demo_pointer 1 6 (demo_target 1))]"
  let ?css = "[pointer_to_bytes demo_crypto (demo_pointer 1 6 (demo_target 1)),
        pointer_to_bytes demo_crypto (demo_pointer 0 5 (demo_target 9)), [1, 2]]"
  have same: "set ?bss = set ?css" by auto
  have not_final: "\<not> pointer_is_terminal p" if "pointer_from_bytes demo_crypto bs = Ok p" "bs \<in> set ?bss" for bs p
    using that by (auto simp: junk demo_read FINAL_COUNTER_def)
  show ?thesis
    using byte_stores_converge [OF demo_encoding same] not_final by blast
qed

text \<open>
  C13: What the type promises of its values: every record the public interface can make, by any
  chain of signing, creation, update, finalization, transfer, reading and verification, carries the
  current version and a signature that covers exactly its body, encodes to 5303 bytes and reads
  back as itself, and the state parsed from its bytes is the state it reports.
\<close>

theorem public_values_are_valid:
  assumes "ml_dsa_65_encoding C" "public_pointer C p"
  shows "valid_pointer C p \<and> length (pointer_to_bytes C p) = 5303 \<and>
    pointer_from_bytes C (pointer_to_bytes C p) = Ok p \<and>
    parse_state C (pointer_to_bytes C p) = Ok (ptr_state C p)"
proof -
  note v = public_pointer_valid [OF assms]
  show ?thesis
    using v valid_pointer_lengths(4) [OF assms(1) v] valid_pointer_from_bytes [OF assms(1) v]
      parse_state_of_record [OF assms(1) v] by (simp add: layout_defs)
qed

lemma public_values_are_valid_witness:
  "valid_pointer demo_crypto (demo_pointer 1 7 (demo_target 3)) \<and>
   pointer_from_bytes demo_crypto (pointer_to_bytes demo_crypto (demo_pointer 1 7 (demo_target 3))) =
     Ok (demo_pointer 1 7 (demo_target 3))"
  using public_values_are_valid [OF demo_encoding public_pointer.signed [OF demo_sign]] by simp

end
