(* ===== verification/Pointer_World.thy ===== *)
theory Pointer_World
  imports Pointer_Lifecycle
begin

text \<open>
  One owner, any number of nodes, and a network that anyone can write to. The owner signs whatever it
  likes with the operations of \<^verbatim>\<open>src/pointer.rs\<close>: it creates, signs at any counter, and updates, finalizes or
  transfers any record that carries its key, earlier ones included, so it may sign two different final
  records. A spy replays, reorders, drops and injects any bytes; a node takes whatever is delivered to it.
  A byte string breaks a primitive when its key field is another key with the owner's address, or when
  its signature field verifies under the owner's key over body bytes the owner never signed.
\<close>

section \<open>The world\<close>

record ('pk, 'sig, 'node) world =
  issued :: "('pk, 'sig) pointer list"
  wire :: "bytes set"
  seen :: "'node \<Rightarrow> bytes set"
  held :: "'node \<Rightarrow> ('pk, 'sig) pointer_store"

inductive world_of ::
  "('pk, 'sk, 'sig) crypto \<Rightarrow> 'sk \<Rightarrow> 'pk \<Rightarrow> ('pk, 'sig, 'node) world \<Rightarrow> bool" for C sk pk where
  started: "world_of C sk pk \<lparr>issued = [], wire = {}, seen = (\<lambda>i. {}), held = (\<lambda>i a. None)\<rparr>"
| created: "world_of C sk pk w \<Longrightarrow> pointer_create C r sk pk t = Ok p \<Longrightarrow>
    world_of C sk pk (w\<lparr>issued := p # issued w, wire := insert (pointer_to_bytes C p) (wire w)\<rparr>)"
| signed_at: "world_of C sk pk w \<Longrightarrow> pointer_sign C r sk pk n t = Ok p \<Longrightarrow>
    world_of C sk pk (w\<lparr>issued := p # issued w, wire := insert (pointer_to_bytes C p) (wire w)\<rparr>)"
| commanded: "world_of C sk pk w \<Longrightarrow> ptr_owner x = pk \<Longrightarrow> owner_does C sk x rc = Ok p \<Longrightarrow>
    world_of C sk pk (w\<lparr>issued := p # issued w, wire := insert (pointer_to_bytes C p) (wire w)\<rparr>)"
| injected: "world_of C sk pk w \<Longrightarrow> world_of C sk pk (w\<lparr>wire := insert bs (wire w)\<rparr>)"
| delivered: "world_of C sk pk w \<Longrightarrow> bs \<in> wire w \<Longrightarrow> take_bytes C (held w i) bs = Ok S \<Longrightarrow>
    world_of C sk pk (w\<lparr>seen := (seen w)(i := insert bs (seen w i)), held := (held w)(i := S)\<rparr>)"

definition key_collides :: "('pk, 'sk, 'sig) crypto \<Rightarrow> 'pk \<Rightarrow> bytes \<Rightarrow> bool" where
  "key_collides C pk bs \<longleftrightarrow>
     (let k = take ML_DSA_65_PUBLIC_KEY_LEN (drop OWNER_OFFSET bs)
      in length k = ML_DSA_65_PUBLIC_KEY_LEN \<and> k \<noteq> pk_to_bytes C pk \<and>
         blake3_derive_key C CONTEXT_ADDRESS k = blake3_derive_key C CONTEXT_ADDRESS (pk_to_bytes C pk))"

definition signature_forged :: "('pk, 'sk, 'sig) crypto \<Rightarrow> 'pk \<Rightarrow> ('pk, 'sig) pointer list \<Rightarrow> bytes \<Rightarrow> bool" where
  "signature_forged C pk ps bs \<longleftrightarrow>
     take POINTER_BODY_LEN bs \<notin> pointer_body C ` set ps \<and>
     (case sig_from_bytes C (drop POINTER_BODY_LEN bs) of
        Err e \<Rightarrow> False
      | Ok s \<Rightarrow> verify_with_context C pk (take POINTER_BODY_LEN bs) s SIGNING_CONTEXT = Ok True)"

section \<open>What holds in every world\<close>

lemma commanded_signs:
  assumes "owner_does C sk x rc = Ok p"
  obtains r n t where "pointer_sign C r sk (ptr_owner x) n t = Ok p"
proof -
  obtain r c where "rc = (r, c)" by (cases rc)
  then show thesis
    using assms that by (cases c)
      (auto simp: pointer_update_def pointer_finalize_def pointer_transfer_to_def result_simps
        split: if_splits)
qed

lemma issued_own:
  assumes "ml_dsa_65_encoding C" "signs_for C sk pk"
  shows "world_of C sk pk w \<Longrightarrow> p \<in> set (issued w) \<Longrightarrow> valid_pointer C p \<and> ptr_owner p = pk"
proof (induction rule: world_of.induct)
  case (commanded w x rc q)
  then obtain r n t where "pointer_sign C r sk pk n t = Ok q" by (metis commanded_signs)
  then show ?case
    using commanded.IH commanded.prems sign_eq_Ok(1) [OF assms(1)] sign_owner [OF assms] by auto
qed (auto simp: pointer_create_def dest: sign_eq_Ok(1) [OF assms(1)] sign_owner [OF assms])

lemma take_record_cases:
  assumes "take_record C S x a = Some h"
  obtains "S a = Some h" | "h = x" "a = ptr_address C x"
  using assms by (cases "S (ptr_address C x)") (auto simp: take_record_def split: if_splits)

text \<open>Whatever a node holds came over the wire, and is held at the address of its own key.\<close>

lemma held_from_wire:
  "world_of C sk pk w \<Longrightarrow> held w i a = Some h \<Longrightarrow>
     \<exists>bs \<in> wire w. pointer_from_bytes C bs = Ok h \<and> ptr_address C h = a"
proof (induction arbitrary: i rule: world_of.induct)
  case (delivered w bs j S)
  show ?case
  proof (cases "held w i a = Some h")
    case True
    then show ?thesis using delivered.IH by simp
  next
    case False
    then have "S a = Some h" and new: "i = j"
      using delivered.prems by (simp_all split: if_splits)
    then obtain x where "pointer_from_bytes C bs = Ok x" "take_record C (held w j) x a = Some h"
      using delivered.hyps(3) False by (auto simp: take_bytes_def split: result.splits)
    then show ?thesis
      using False new delivered.hyps(2) by (auto elim!: take_record_cases)
  qed
qed auto

text \<open>A record held at the owner's address has the owner's key and a body the owner signed, or a
  primitive is broken.\<close>

lemma valid_or_broken:
  assumes "ml_dsa_65_encoding C" "pk_from_bytes C (pk_to_bytes C pk) = Ok pk"
    and "pointer_from_bytes C bs = Ok h" "ptr_address C h = pointer_address C pk"
    and "\<not> key_collides C pk bs" "\<not> signature_forged C pk ps bs"
  shows "ptr_owner h = pk" "pointer_body C h \<in> pointer_body C ` set ps"
proof -
  have v: "valid_pointer C h" and bs: "bs = pointer_body C h @ sig_to_bytes C (ptr_sig h)"
    using assms(3) by (simp_all add: from_bytes_eq_Ok [OF assms(1)] pointer_to_bytes_def)
  note len = valid_pointer_lengths [OF assms(1) v]
  have body: "take POINTER_BODY_LEN bs = pointer_body C h" "drop POINTER_BODY_LEN bs = sig_to_bytes C (ptr_sig h)"
    using len(3) by (simp_all add: bs)
  have key: "take ML_DSA_65_PUBLIC_KEY_LEN (drop OWNER_OFFSET bs) = pk_to_bytes C (ptr_owner h)"
    using len(1) by (simp add: bs pointer_body_layout layout_defs)
  have "pk_to_bytes C (ptr_owner h) = pk_to_bytes C pk"
    using assms(4,5) len(1) unfolding key_collides_def Let_def key
    by (simp add: ptr_address_def pointer_address_def layout_defs)
  then show own: "ptr_owner h = pk"
    using v assms(2) by (metis valid_pointer_def result.inject(1))
  show "pointer_body C h \<in> pointer_body C ` set ps"
    using assms(6) v own by (auto simp: signature_forged_def body valid_pointer_def)
qed

lemma own_unbroken:
  assumes "ml_dsa_65_encoding C" "valid_pointer C x" "ptr_owner x = pk" "x \<in> set ps"
  shows "\<not> key_collides C pk (pointer_to_bytes C x) \<and> \<not> signature_forged C pk ps (pointer_to_bytes C x)"
proof -
  note len = valid_pointer_lengths [OF assms(1,2)]
  have "take POINTER_BODY_LEN (pointer_to_bytes C x) = pointer_body C x"
    using len(3) by (simp add: pointer_to_bytes_def)
  moreover have "take ML_DSA_65_PUBLIC_KEY_LEN (drop OWNER_OFFSET (pointer_to_bytes C x)) = pk_to_bytes C pk"
    using len(1) assms(3) by (simp add: pointer_to_bytes_def pointer_body_layout layout_defs)
  ultimately show ?thesis using assms(4) by (simp add: key_collides_def signature_forged_def)
qed

lemma held_issued:
  assumes "ml_dsa_65_encoding C" "signs_for C sk pk" "world_of C sk pk w"
    and "\<forall>bs \<in> wire w. \<not> key_collides C pk bs \<and> \<not> signature_forged C pk (issued w) bs"
    and "held w i (pointer_address C pk) = Some h"
  obtains p where "p \<in> set (issued w)" "ptr_owner h = ptr_owner p" "ptr_counter h = ptr_counter p"
    "ptr_target h = ptr_target p"
proof -
  obtain bs where bs: "bs \<in> wire w" "pointer_from_bytes C bs = Ok h" "ptr_address C h = pointer_address C pk"
    using held_from_wire [OF assms(3,5)] by blast
  then obtain p where p: "p \<in> set (issued w)" "pointer_body C h = pointer_body C p"
    using valid_or_broken(2) [OF assms(1) signs_for_pk [OF assms(2)] bs(2,3)] assms(4) by blast
  have "valid_pointer C h" "valid_pointer C p"
    using bs(2) issued_own [OF assms(1,2,3) p(1)] by (simp_all add: from_bytes_eq_Ok [OF assms(1)])
  then show thesis using that p pointer_body_inject [OF assms(1)] by blast
qed

text \<open>A node never goes back behind a record it has seen, whatever the network does.\<close>

definition at_least :: "life \<Rightarrow> life \<Rightarrow> bool" where
  "at_least l k \<longleftrightarrow> l = k \<or> supersedes l k \<or> \<not> is_open l \<and> \<not> is_open k"

lemma at_least_trans: "supersedes j l \<Longrightarrow> at_least l k \<Longrightarrow> at_least j k"
  using life_order.trans life_order.final_kept by (auto simp: at_least_def)

lemma take_arrival_at_least:
  "take_arrival supersedes l k = Some j \<Longrightarrow> at_least j k"
  using life_order.total [of k] by (cases l) (auto simp: at_least_def split: if_splits)

lemma take_claim_at_least:
  assumes "take_claim A c = Ok B"
  shows "A a = Some l \<Longrightarrow> at_least l k \<Longrightarrow> \<exists>j. B a = Some j \<and> at_least j k"
    "c = Some (a, k) \<Longrightarrow> \<exists>j. B a = Some j \<and> at_least j k"
proof -
  have B: "B = (case c of None \<Rightarrow> A | Some (b, j) \<Rightarrow> A(b := take_arrival supersedes (A b) j))"
    using assms by (simp add: take_claim_def)
  show "\<exists>j. B a = Some j \<and> at_least j k" if "A a = Some l" "at_least l k"
    using that at_least_trans by (auto simp: B split: option.splits)
  show "\<exists>j. B a = Some j \<and> at_least j k" if "c = Some (a, k)"
    using that take_arrival_at_least take_arrival_Some [of supersedes "A a" k] by (auto simp: B)
qed

lemma seen_held:
  "world_of C sk pk w \<Longrightarrow> ml_dsa_65_encoding C \<Longrightarrow> sound_store C (held w i) \<and>
    (\<forall>bs x. bs \<in> seen w i \<and> pointer_from_bytes C bs = Ok x \<longrightarrow>
      (\<exists>l. lives (held w i) (ptr_address C x) = Some l \<and> at_least l (life_of x)))"
proof (induction arbitrary: i rule: world_of.induct)
  case (delivered w bs j S)
  note IH = delivered.IH [OF delivered.prems]
  have sound: "sound_store C (held w j)" using IH ..
  have claim: "take_claim (lives (held w j)) (claim_in C bs) = Ok (lives S)"
    using byte_store.step_abs [OF sound, of bs] delivered.hyps(3) by simp
  have new: "\<exists>l. lives S (ptr_address C x) = Some l \<and> at_least l (life_of x)"
    if "cs = bs \<or> cs \<in> seen w j" "pointer_from_bytes C cs = Ok x" for cs x
  proof (cases "cs = bs")
    case True
    then show ?thesis
      using that(2) take_claim_at_least(2) [OF claim] by (simp add: claim_in_def)
  next
    case False
    then show ?thesis
      using that IH [of j] take_claim_at_least(1) [OF claim] by blast
  qed
  then show ?case
    using IH [of i] byte_store.step_inv [OF sound delivered.hyps(3)] by (simp; blast)
qed (simp_all add: sound_store_def)

lemma same_claim_life: "ptr_counter h = ptr_counter p \<Longrightarrow> ptr_target h = ptr_target p \<Longrightarrow>
    life_of h = life_of p \<and> (pointer_is_terminal h \<longleftrightarrow> pointer_is_terminal p)"
  by (simp add: life_of_def pointer_is_terminal_def)

lemma latest_least:
  assumes "life_of p = l \<or> supersedes (life_of p) l" "at_least l (life_of p)"
  shows "l = life_of p"
  using assms life_order.asym life_order.final_kept by (auto simp: at_least_def)

section \<open>Properties\<close>

text \<open>
  C2: What a spy who replays, reorders, drops and injects at will can and cannot do to a pointer, in any
  world, whatever the owner signs (two different final records included). Without any assumption on
  the signatures: a node that has seen a valid record holds, at that record's address, the same state,
  one that supersedes it, or, when both are final, a final one. And unless some byte string on the
  wire carries another key with the owner's address, or a signature that verifies under the owner's
  key over a body the owner never signed: every record held at the owner's address states the
  counter and target of a record the owner issued; a node that has seen an issued record that
  replaces every issued record of another claim holds its counter and target; and if the owner never
  issued two final records with different targets, no two nodes hold different final states.
\<close>

theorem spy_cannot_roll_back:
  assumes "ml_dsa_65_encoding C" "signs_for C sk pk" "world_of C sk pk w"
  shows "(\<forall>i bs x. bs \<in> seen w i \<and> pointer_from_bytes C bs = Ok x \<longrightarrow>
      (\<exists>h. held w i (ptr_address C x) = Some h \<and> at_least (life_of h) (life_of x))) \<and>
    ((\<exists>bs \<in> wire w. key_collides C pk bs \<or> signature_forged C pk (issued w) bs) \<or>
     (\<forall>i h. held w i (pointer_address C pk) = Some h \<longrightarrow>
        (\<exists>p \<in> set (issued w). ptr_owner h = pk \<and> ptr_counter h = ptr_counter p \<and> ptr_target h = ptr_target p)) \<and>
     (\<forall>i p. p \<in> set (issued w) \<and> pointer_to_bytes C p \<in> seen w i \<and>
        (\<forall>q \<in> set (issued w). life_of p = life_of q \<or> supersedes (life_of p) (life_of q)) \<longrightarrow>
        (\<exists>h. held w i (pointer_address C pk) = Some h \<and> life_of h = life_of p)) \<and>
     ((\<forall>p \<in> set (issued w). \<forall>q \<in> set (issued w).
          pointer_is_terminal p \<and> pointer_is_terminal q \<longrightarrow> ptr_target p = ptr_target q) \<longrightarrow>
       (\<forall>i j x y. held w i (pointer_address C pk) = Some x \<and> held w j (pointer_address C pk) = Some y \<and>
          pointer_is_terminal x \<and> pointer_is_terminal y \<longrightarrow> ptr_target x = ptr_target y)))"
proof -
  let ?a = "pointer_address C pk"
  have kept: "\<exists>h. held w i (ptr_address C x) = Some h \<and> at_least (life_of h) (life_of x)"
    if "bs \<in> seen w i" "pointer_from_bytes C bs = Ok x" for i bs x
    using seen_held [OF assms(3,1), of i] that by (fastforce simp: lives_def)
  have rest: ?thesis if sound: "\<forall>bs \<in> wire w. \<not> key_collides C pk bs \<and> \<not> signature_forged C pk (issued w) bs"
  proof -
    have mine: "\<exists>p \<in> set (issued w). ptr_owner h = pk \<and> ptr_counter h = ptr_counter p \<and> ptr_target h = ptr_target p"
      if "held w i ?a = Some h" for i h
      using held_issued [OF assms(1-3) sound that] issued_own [OF assms] by metis
    have latest: "\<exists>h. held w i ?a = Some h \<and> life_of h = life_of p"
      if "p \<in> set (issued w)" "pointer_to_bytes C p \<in> seen w i"
        "\<forall>q \<in> set (issued w). life_of p = life_of q \<or> supersedes (life_of p) (life_of q)" for i p
    proof -
      note got = that(2) and last = that(3)
      have "pointer_from_bytes C (pointer_to_bytes C p) = Ok p" "ptr_address C p = ?a"
        using issued_own [OF assms that(1)] valid_pointer_from_bytes [OF assms(1)] by (simp_all add: ptr_address_def)
      then obtain h where h: "held w i ?a = Some h" "at_least (life_of h) (life_of p)"
        using kept [OF got] by metis
      then obtain q where "q \<in> set (issued w)" "life_of h = life_of q"
        using mine [OF h(1)] same_claim_life by blast
      then show ?thesis using h last latest_least by metis
    qed
    have "ptr_target x = ptr_target y"
      if "\<forall>p \<in> set (issued w). \<forall>q \<in> set (issued w).
          pointer_is_terminal p \<and> pointer_is_terminal q \<longrightarrow> ptr_target p = ptr_target q"
        "held w i ?a = Some x" "held w j ?a = Some y" "pointer_is_terminal x" "pointer_is_terminal y" for i j x y
      using mine [OF that(2)] mine [OF that(3)] that(1,4,5) same_claim_life by metis
    then show ?thesis using kept mine latest by blast
  qed
  show ?thesis
  proof (cases "\<exists>bs \<in> wire w. key_collides C pk bs \<or> signature_forged C pk (issued w) bs")
    case True
    then show ?thesis using kept by blast
  next
    case False
    then show ?thesis using rest by blast
  qed
qed

text \<open>The witness: the owner finalizes its first record twice, towards different targets; junk is
  injected; one node sees both final records and the first one again.\<close>

lemma spy_cannot_roll_back_witness:
  "\<exists>w. world_of demo_crypto 5 5 w \<and>
     issued w = [demo_pointer 2 FINAL_COUNTER (demo_target 3), demo_pointer 1 FINAL_COUNTER (demo_target 2),
       demo_pointer 0 0 (demo_target 1)] \<and> [1, 2] \<in> wire w \<and>
     (\<exists>h p. held w (0 :: nat) (pointer_address demo_crypto 5) = Some h \<and> p \<in> set (issued w) \<and>
       ptr_counter h = ptr_counter p \<and> ptr_target h = ptr_target p \<and>
       at_least (life_of h) (life_of (demo_pointer 0 0 (demo_target 1))))"
proof -
  let ?p = "demo_pointer 0 0 (demo_target 1)" and ?q = "demo_pointer 1 FINAL_COUNTER (demo_target 2)"
    and ?r = "demo_pointer 2 FINAL_COUNTER (demo_target 3)"
  let ?b = "pointer_to_bytes demo_crypto" and ?S = "take_record demo_crypto"
  have fin: "owner_does demo_crypto 5 ?p (r, Finalize t) = Ok (demo_pointer r FINAL_COUNTER t)" for r t
    using demo_sign [of r FINAL_COUNTER t]
    by (simp add: pointer_finalize_def pointer_is_terminal_def FINAL_COUNTER_def)
  have "pointer_create demo_crypto 0 5 5 (demo_target 1) = Ok ?p"
    using demo_sign [of 0 0 "demo_target 1"] by (simp add: pointer_create_def)
  from world_of.created [OF world_of.started this]
  have w1: "world_of demo_crypto 5 5 \<lparr>issued = [?p], wire = {?b ?p}, seen = (\<lambda>i :: nat. {}), held = (\<lambda>i a. None)\<rparr>"
    by simp
  from world_of.commanded [OF w1 _ fin [of 1 "demo_target 2"]]
  have w2: "world_of demo_crypto 5 5 \<lparr>issued = [?q, ?p], wire = {?b ?q, ?b ?p}, seen = (\<lambda>i :: nat. {}),
      held = (\<lambda>i a. None)\<rparr>"
    by simp
  from world_of.injected [OF world_of.commanded [OF w2 _ fin [of 2 "demo_target 3"]], of "[1, 2]"]
  have w3: "world_of demo_crypto 5 5 \<lparr>issued = [?r, ?q, ?p], wire = {[1, 2], ?b ?r, ?b ?q, ?b ?p},
      seen = (\<lambda>i :: nat. {}), held = (\<lambda>i a. None)\<rparr>"
    by simp
  from world_of.delivered [OF w3, of "?b ?q" 0 "?S (\<lambda>a. None) ?q"]
  have w4: "world_of demo_crypto 5 5 \<lparr>issued = [?r, ?q, ?p], wire = {[1, 2], ?b ?r, ?b ?q, ?b ?p},
      seen = (\<lambda>i :: nat. {})(0 := {?b ?q}), held = (\<lambda>i a. None)(0 := ?S (\<lambda>a. None) ?q)\<rparr>"
    by (simp add: take_bytes_def demo_read)
  from world_of.delivered [OF w4, of "?b ?p" 0 "?S (?S (\<lambda>a. None) ?q) ?p"]
  have w: "world_of demo_crypto 5 5 \<lparr>issued = [?r, ?q, ?p], wire = {[1, 2], ?b ?r, ?b ?q, ?b ?p},
      seen = (\<lambda>i :: nat. {})(0 := {?b ?p, ?b ?q}), held = (\<lambda>i a. None)(0 := ?S (?S (\<lambda>a. None) ?q) ?p)\<rparr>"
    (is "world_of _ _ _ ?w")
    by (simp add: take_bytes_def demo_read)
  have a: "ptr_address demo_crypto ?p = pointer_address demo_crypto 5"
    by (simp add: ptr_address_def demo_pointer_def)
  note T = spy_cannot_roll_back [OF demo_encoding demo_signs_for w]
  have unbroken: "\<forall>bs \<in> wire ?w. \<not> key_collides demo_crypto 5 bs \<and> \<not> signature_forged demo_crypto 5 (issued ?w) bs"
  proof -
    have "\<not> key_collides demo_crypto 5 (?b x) \<and> \<not> signature_forged demo_crypto 5 (issued ?w) (?b x)"
      if "x \<in> set (issued ?w)" for x
    proof -
      have "valid_pointer demo_crypto x" "ptr_owner x = 5"
        using that by (auto simp: demo_pointer_valid)
      from own_unbroken [OF demo_encoding this that] show ?thesis .
    qed
    moreover have "\<not> key_collides demo_crypto 5 [1, 2] \<and> \<not> signature_forged demo_crypto 5 (issued ?w) [1, 2]"
      by (simp add: key_collides_def signature_forged_def layout_defs demo_crypto_def demo_sig_from_bytes_def)
    ultimately show ?thesis by simp
  qed
  have "?b ?p \<in> seen ?w 0 \<and> pointer_from_bytes demo_crypto (?b ?p) = Ok ?p" by (simp add: demo_read)
  from T [THEN conjunct1, rule_format, OF this]
  obtain h where h: "held ?w 0 (pointer_address demo_crypto 5) = Some h" "at_least (life_of h) (life_of ?p)"
    using a by auto
  have "\<exists>p \<in> set (issued ?w). ptr_owner h = 5 \<and> ptr_counter h = ptr_counter p \<and> ptr_target h = ptr_target p"
    using T [THEN conjunct2] unbroken h(1) by blast
  then show ?thesis
    using w h by (intro exI [of _ ?w]) auto
qed

end
