(* ===== verification/Pointer_Tests.thy ===== *)
theory Pointer_Tests
  imports Pointer_Lifecycle
begin

text \<open>
  The unit tests of \<^verbatim>\<open>src/pointer.rs\<close> as definitions over the model: a test is true when no assertion
  fails and no \<^verbatim>\<open>expect\<close> panics. They run on any key pairs of any lawful primitives, whatever
  randomness each signing draws, where the tests themselves run on one.
\<close>

section \<open>The test fixtures\<close>

text \<open>\<open>kp\<close> is \<^verbatim>\<open>keypair(seed)\<close>, the public key first; \<open>r\<close> gives each signing its randomness.\<close>

definition chunk_target :: "u8 \<Rightarrow> pointer_target" where
  "chunk_target b = target_new Chunk_Kind (arr_repeat b)"

definition pointer_to :: "u8 \<Rightarrow> pointer_target" where
  "pointer_to b = target_new Pointer_Kind (arr_repeat b)"

definition sign_as ::
  "('pk, 'sk, 'sig) crypto \<Rightarrow> (u8 \<Rightarrow> 'pk \<times> 'sk) \<Rightarrow> nat \<Rightarrow> u8 \<Rightarrow> u64 \<Rightarrow> pointer_target \<Rightarrow>
     (('pk, 'sig) pointer, pointer_error) result" where
  "sign_as C kp r seed counter target = pointer_sign C r (snd (kp seed)) (fst (kp seed)) counter target"

definition signed ::
  "('pk, 'sk, 'sig) crypto \<Rightarrow> (u8 \<Rightarrow> 'pk \<times> 'sk) \<Rightarrow> nat \<Rightarrow> u8 \<Rightarrow> u64 \<Rightarrow> u8 \<Rightarrow>
     (('pk, 'sig) pointer, pointer_error) result" where
  "signed C kp r seed counter target_byte = sign_as C kp r seed counter (chunk_target target_byte)"

definition lawful :: "('pk, 'sk, 'sig) crypto \<Rightarrow> (u8 \<Rightarrow> 'pk \<times> 'sk) \<Rightarrow> bool" where
  "lawful C kp \<longleftrightarrow> ml_dsa_65_encoding C \<and> (\<forall>seed. signs_for C (snd (kp seed)) (fst (kp seed)))"

text \<open>A record of the key of a seed.\<close>

definition record_of ::
  "('pk, 'sk, 'sig) crypto \<Rightarrow> (u8 \<Rightarrow> 'pk \<times> 'sk) \<Rightarrow> u8 \<Rightarrow> u64 \<Rightarrow> pointer_target \<Rightarrow> ('pk, 'sig) pointer \<Rightarrow> bool" where
  "record_of C kp seed n t p \<longleftrightarrow>
     valid_pointer C p \<and> ptr_owner p = fst (kp seed) \<and> ptr_counter p = n \<and> ptr_target p = t"

lemma expect_sign:
  assumes "lawful C kp" "\<And>p. record_of C kp seed n t p \<Longrightarrow> P p"
  shows "expect (sign_as C kp r seed n t) P"
proof -
  have enc: "ml_dsa_65_encoding C" and k: "signs_for C (snd (kp seed)) (fst (kp seed))"
    using assms(1) by (simp_all add: lawful_def)
  obtain p where p: "pointer_sign C r (snd (kp seed)) (fst (kp seed)) n t = Ok p" "ptr_owner p = fst (kp seed)"
    by (rule sign_succeeds [OF enc k])
  then have "record_of C kp seed n t p"
    using sign_eq_Ok [OF enc p(1)] by (simp add: record_of_def)
  then show ?thesis using p assms(2) by (simp add: sign_as_def)
qed

lemma expect_signed:
  "lawful C kp \<Longrightarrow> (\<And>p. record_of C kp seed n (chunk_target b) p \<Longrightarrow> P p) \<Longrightarrow>
     expect (signed C kp r seed n b) P"
  unfolding signed_def by (rule expect_sign)

lemma expect_create:
  "lawful C kp \<Longrightarrow> (\<And>p. record_of C kp seed 0 t p \<Longrightarrow> P p) \<Longrightarrow>
     expect (pointer_create C r (snd (kp seed)) (fst (kp seed)) t) P"
  unfolding pointer_create_def sign_as_def [symmetric] by (rule expect_sign)

lemma expect_update:
  assumes "lawful C kp" "record_of C kp seed n u q" "n \<noteq> FINAL_COUNTER"
    "\<And>p. record_of C kp seed (n + 1) t p \<Longrightarrow> P p"
  shows "expect (pointer_update C r q (snd (kp seed)) t) P"
proof -
  have "pointer_update C r q (snd (kp seed)) t = sign_as C kp r seed (n + 1) t"
    using assms(2) next_counter_below [of q] assms(3)
    by (simp add: record_of_def pointer_update_def sign_as_def)
  then show ?thesis using expect_sign [OF assms(1,4)] by simp
qed

lemma expect_transfer:
  assumes "lawful C kp" "record_of C kp seed n u q" "n \<noteq> FINAL_COUNTER"
    "\<And>p. record_of C kp seed FINAL_COUNTER (target_new Pointer_Kind a) p \<Longrightarrow> P p"
  shows "expect (pointer_transfer_to C r q (snd (kp seed)) a) P"
proof -
  have "pointer_transfer_to C r q (snd (kp seed)) a =
      sign_as C kp r seed FINAL_COUNTER (target_new Pointer_Kind a)"
    using assms(2,3) by (simp add: record_of_def pointer_transfer_to_def pointer_finalize_def
        pointer_is_terminal_def sign_as_def)
  then show ?thesis using expect_sign [OF assms(1,4)] by simp
qed

lemma expect_read:
  assumes "lawful C kp" "record_of C kp seed n t p"
  shows "expect (pointer_from_bytes C (pointer_to_bytes C p)) P = P p"
  using assms valid_pointer_from_bytes [of C p] by (simp add: lawful_def record_of_def)

section \<open>The tests\<close>

type_synonym ('pk, 'sk, 'sig) pointer_test =
  "('pk, 'sk, 'sig) crypto \<Rightarrow> (u8 \<Rightarrow> 'pk \<times> 'sk) \<Rightarrow> (nat \<Rightarrow> nat) \<Rightarrow> bool"

definition sizes_match_the_design :: "('pk, 'sk, 'sig) pointer_test" where
  "sizes_match_the_design C kp r \<longleftrightarrow>
     POINTER_BODY_LEN = 1994 \<and> POINTER_WIRE_LEN = 5303 \<and>
     expect (signed C kp (r 0) 1 0 0) (\<lambda>record. length (pointer_to_bytes C record) = POINTER_WIRE_LEN)"

definition roundtrips_and_validates :: "('pk, 'sk, 'sig) pointer_test" where
  "roundtrips_and_validates C kp r \<longleftrightarrow>
     expect (signed C kp (r 0) 1 42 7) (\<lambda>record.
     expect (pointer_from_bytes C (pointer_to_bytes C record)) (\<lambda>parsed.
       ptr_counter parsed = 42 \<and> ptr_address C parsed = ptr_address C record \<and>
       ptr_state_id C parsed = ptr_state_id C record))"

definition an_unknown_format_version_is_refused :: "('pk, 'sk, 'sig) pointer_test" where
  "an_unknown_format_version_is_refused C kp r \<longleftrightarrow>
     expect (signed C kp (r 0) 1 1 1) (\<lambda>record.
       let bytes = (case pointer_to_bytes C record of [] \<Rightarrow> [] | byte # rest \<Rightarrow> 2 # rest)
       in pointer_from_bytes C bytes = Err (UnknownFormatVersion 2))"

definition different_owners_are_not_comparable :: "('pk, 'sk, 'sig) pointer_test" where
  "different_owners_are_not_comparable C kp r \<longleftrightarrow>
     expect (signed C kp (r 0) 1 1 9) (\<lambda>mine.
     expect (signed C kp (r 1) 2 500 0) (\<lambda>theirs.
       \<not> pointer_replaces C mine theirs \<and> \<not> pointer_replaces C theirs mine))"

definition the_counter_is_terminal_at_its_maximum :: "('pk, 'sk, 'sig) pointer_test" where
  "the_counter_is_terminal_at_its_maximum C kp r \<longleftrightarrow>
     expect (signed C kp (r 0) 1 0 0) (\<lambda>ordinary.
       \<not> pointer_is_terminal ordinary \<and> expect (next_counter ordinary) (\<lambda>n. n = 1) \<and>
     expect (signed C kp (r 1) 1 (- 1) 0) (\<lambda>terminal.
       pointer_is_terminal terminal \<and> next_counter terminal = Err CounterExhausted \<and>
       \<not> is_ok (next_counter terminal)))"

definition nothing_out_ranks_a_terminal_counter :: "('pk, 'sk, 'sig) pointer_test" where
  "nothing_out_ranks_a_terminal_counter C kp r \<longleftrightarrow>
     expect (signed C kp (r 0) 1 (- 1) 5) (\<lambda>terminal.
       \<forall>counter \<in> set [0, 1, 42, - 2].
         expect (signed C kp (r 1) 1 counter 0) (\<lambda>earlier.
           \<not> pointer_replaces C earlier terminal \<and> pointer_replaces C terminal earlier))"

definition a_final_state_is_replaced_by_nothing_not_even_a_smaller_target ::
  "('pk, 'sk, 'sig) pointer_test" where
  "a_final_state_is_replaced_by_nothing_not_even_a_smaller_target C kp r \<longleftrightarrow>
     expect (signed C kp (r 0) 1 FINAL_COUNTER 9) (\<lambda>first.
     expect (signed C kp (r 1) 1 FINAL_COUNTER 1) (\<lambda>smaller_target.
       \<not> pointer_replaces C smaller_target first \<and> \<not> pointer_replaces C first smaller_target \<and>
     expect (signed C kp (r 2) 1 7 1) (\<lambda>low.
     expect (signed C kp (r 3) 1 7 9) (\<lambda>high.
       pointer_replaces C low high))))"

definition a_state_at_the_final_counter_is_final_whatever_it_targets :: "('pk, 'sk, 'sig) pointer_test" where
  "a_state_at_the_final_counter_is_final_whatever_it_targets C kp r \<longleftrightarrow>
     (let targets = [chunk_target 4, pointer_to 5, target_from_raw_tag 200 (arr_repeat 6)]
      in \<forall>target \<in> set targets.
        expect (sign_as C kp (r 0) 40 FINAL_COUNTER target) (\<lambda>held.
          pointer_is_terminal held \<and> state_is_terminal (ptr_state C held) \<and>
          (\<forall>other \<in> set targets. \<forall>counter \<in> set [0, 1, FINAL_COUNTER - 1, FINAL_COUNTER].
             expect (sign_as C kp (r 1) 40 counter other) (\<lambda>arrival. \<not> pointer_replaces C arrival held))))"

definition a_transfer_is_a_final_state_that_targets_the_recipient_pointer ::
  "('pk, 'sk, 'sig) pointer_test" where
  "a_transfer_is_a_final_state_that_targets_the_recipient_pointer C kp r \<longleftrightarrow>
     (let (pk, sk) = kp 41; recipient = arr_repeat 0x42 in
      expect (pointer_create C (r 0) sk pk (chunk_target 1)) (\<lambda>current.
        pointer_transferred_to current = None \<and>
      expect (pointer_transfer_to C (r 1) current sk recipient) (\<lambda>transfer.
        ptr_counter transfer = FINAL_COUNTER \<and> ptr_address C transfer = ptr_address C current \<and>
        ptr_target transfer = target_new Pointer_Kind recipient \<and>
        pointer_transferred_to transfer = Some recipient \<and>
        state_transferred_to (ptr_state C transfer) = Some recipient \<and>
        pointer_replaces C transfer current \<and>
        pointer_update C (r 2) transfer sk (ptr_target current) = Err CounterExhausted \<and>
        pointer_transfer_to C (r 3) transfer sk (arr_repeat 0) = Err CounterExhausted \<and>
      expect (pointer_sign C (r 4) sk pk FINAL_COUNTER (pointer_to 0)) (\<lambda>grinded.
        \<not> pointer_replaces C grinded transfer))))"

definition an_earlier_record_can_be_finalized_twice_and_neither_replaces_the_other ::
  "('pk, 'sk, 'sig) pointer_test" where
  "an_earlier_record_can_be_finalized_twice_and_neither_replaces_the_other C kp r \<longleftrightarrow>
     (let (pk, sk) = kp 44 in
      expect (pointer_create C (r 0) sk pk (chunk_target 1)) (\<lambda>current.
      expect (pointer_transfer_to C (r 1) current sk (arr_repeat 0xA)) (\<lambda>to_a.
      expect (pointer_transfer_to C (r 2) current sk (arr_repeat 0xB)) (\<lambda>to_b.
        st_state_id (ptr_state C to_a) \<noteq> st_state_id (ptr_state C to_b) \<and>
        (pointer_replaces C to_a current \<and> pointer_replaces C to_b current) \<and>
        \<not> pointer_replaces C to_a to_b \<and> \<not> pointer_replaces C to_b to_a))))"

definition only_a_final_pointer_target_is_a_transfer :: "('pk, 'sk, 'sig) pointer_test" where
  "only_a_final_pointer_target_is_a_transfer C kp r \<longleftrightarrow>
     expect (sign_as C kp (r 0) 43 (FINAL_COUNTER - 1) (pointer_to 7)) (\<lambda>forwarding.
       pointer_transferred_to forwarding = None \<and>
     expect (sign_as C kp (r 1) 43 FINAL_COUNTER (chunk_target 7)) (\<lambda>frozen.
       pointer_transferred_to frozen = None \<and>
     expect (sign_as C kp (r 2) 43 FINAL_COUNTER (pointer_to 7)) (\<lambda>handed_on.
       pointer_transferred_to handed_on = Some (arr_repeat 7))))"

definition fold_state_id ::
  "('pk, 'sk, 'sig) crypto \<Rightarrow> ('pk, 'sig) pointer list \<Rightarrow> xorname option" where
  "fold_state_id C arrivals = map_option (ptr_state_id C) (fold_arrivals (pointer_replaces C) arrivals)"

definition with_final_states_a_fold_keeps_the_first_final_it_meets :: "('pk, 'sk, 'sig) pointer_test" where
  "with_final_states_a_fold_keeps_the_first_final_it_meets C kp r \<longleftrightarrow>
     expect (signed C kp (r 0) 44 3 1) (\<lambda>early.
     expect (signed C kp (r 1) 44 FINAL_COUNTER 9) (\<lambda>final_a.
     expect (signed C kp (r 2) 44 FINAL_COUNTER 1) (\<lambda>final_b.
       fold_state_id C [early, final_a, final_b] = Some (ptr_state_id C final_a) \<and>
       fold_state_id C [final_b, early, final_a] = Some (ptr_state_id C final_b) \<and>
       fold_state_id C [final_a, final_b, early] = Some (ptr_state_id C final_a) \<and>
       fold_state_id C [early, final_b] = Some (ptr_state_id C final_b))))"

definition create_starts_at_zero_and_update_adds_one :: "('pk, 'sk, 'sig) pointer_test" where
  "create_starts_at_zero_and_update_adds_one C kp r \<longleftrightarrow>
     (let (pk, sk) = kp 20 in
      expect (pointer_create C (r 0) sk pk (chunk_target 1)) (\<lambda>created.
        ptr_counter created = 0 \<and>
      expect (pointer_update C (r 1) created sk (chunk_target 2)) (\<lambda>first.
        ptr_counter first = 1 \<and> pointer_replaces C first created \<and>
      expect (pointer_update C (r 2) first sk (chunk_target 3)) (\<lambda>second.
        ptr_counter second = 2 \<and> pointer_replaces C second first))))"

definition any_larger_counter_replaces_so_counters_may_skip :: "('pk, 'sk, 'sig) pointer_test" where
  "any_larger_counter_replaces_so_counters_may_skip C kp r \<longleftrightarrow>
     expect (signed C kp (r 0) 21 5 7) (\<lambda>held.
       (\<forall>later \<in> set [6, 7, 99, - 1].
          expect (signed C kp (r 1) 21 later 7) (\<lambda>p. pointer_replaces C p held)) \<and>
       (\<forall>earlier \<in> set [0, 4].
          expect (signed C kp (r 2) 21 earlier 7) (\<lambda>p. \<not> pointer_replaces C p held)))"

definition a_fork_at_one_counter_resolves_by_target_and_any_later_counter_heals_it ::
  "('pk, 'sk, 'sig) pointer_test" where
  "a_fork_at_one_counter_resolves_by_target_and_any_later_counter_heals_it C kp r \<longleftrightarrow>
     expect (signed C kp (r 0) 25 5 1) (\<lambda>smaller.
     expect (signed C kp (r 1) 25 5 9) (\<lambda>larger.
       pointer_replaces C smaller larger \<and> \<not> pointer_replaces C larger smaller \<and>
       (\<forall>later \<in> set [6, 50].
          expect (signed C kp (r 2) 25 later 9) (\<lambda>healed.
            pointer_replaces C healed smaller \<and> pointer_replaces C healed larger))))"

definition a_terminal_pointer_cannot_be_updated :: "('pk, 'sk, 'sig) pointer_test" where
  "a_terminal_pointer_cannot_be_updated C kp r \<longleftrightarrow>
     expect (sign_as C kp (r 0) 24 (- 1) (chunk_target 1)) (\<lambda>terminal.
       \<not> is_ok (pointer_update C (r 1) terminal (snd (kp 24)) (chunk_target 1)))"

definition re_encoding_is_byte_identical :: "('pk, 'sk, 'sig) pointer_test" where
  "re_encoding_is_byte_identical C kp r \<longleftrightarrow>
     (\<forall>counter \<in> set [0, 1, 42, - 1]. \<forall>tag \<in> set [0, 1, 200].
        expect (sign_as C kp (r 0) 30 counter (target_from_raw_tag tag (arr_repeat tag))) (\<lambda>signed.
          let wire = pointer_to_bytes C signed in
          expect (pointer_from_bytes C wire) (\<lambda>parsed.
            pointer_to_bytes C parsed = wire \<and> is_ok (pointer_from_bytes C (pointer_to_bytes C parsed)))))"

text \<open>The eight signings of the loop, each with its own randomness.\<close>

definition equal_state_never_replaces :: "('pk, 'sk, 'sig) pointer_test" where
  "equal_state_never_replaces C kp r \<longleftrightarrow>
     (\<forall>i < 8. \<forall>j < 8.
        expect (signed C kp (r i) 1 7 3) (\<lambda>a.
        expect (signed C kp (r j) 1 7 3) (\<lambda>b.
          \<not> pointer_replaces C a b \<and> ptr_state_id C a = ptr_state_id C b)))"

definition strict_order_cases :: "(u64 \<times> u8) list" where
  "strict_order_cases = [(0, 9), (2, 1), (5, 1), (5, 2), (FINAL_COUNTER, 3), (FINAL_COUNTER, 4)]"

definition the_rule_is_a_strict_order_so_only_final_states_depend_on_arrival_order ::
  "('pk, 'sk, 'sig) pointer_test" where
  "the_rule_is_a_strict_order_so_only_final_states_depend_on_arrival_order C kp r \<longleftrightarrow>
     (\<forall>(m, x) \<in> set strict_order_cases. \<forall>(n, y) \<in> set strict_order_cases. \<forall>(k, z) \<in> set strict_order_cases.
        expect (signed C kp (r 0) 1 m x) (\<lambda>a.
        expect (signed C kp (r 1) 1 n y) (\<lambda>b.
        expect (signed C kp (r 2) 1 k z) (\<lambda>c.
          \<not> pointer_replaces C a a \<and>
          \<not> (pointer_replaces C a b \<and> pointer_replaces C b a) \<and>
          (pointer_replaces C a b \<or> pointer_replaces C b a \<or> ptr_state_id C a = ptr_state_id C b \<or>
             pointer_is_terminal a \<and> pointer_is_terminal b) \<and>
          (\<not> (pointer_replaces C a b \<and> pointer_replaces C b c) \<or> pointer_replaces C a c)))))"

section \<open>They pass\<close>

lemma target_number_repeat:
  "target_number (target_new k (arr_repeat b)) < target_number (target_new k (arr_repeat c)) \<longleftrightarrow> b < c"
proof -
  have "replicate 32 b < replicate 32 c \<longleftrightarrow> b < c"
    by (metis less_irrefl less_linear order_less_asym' replicate_less zero_less_numeral)
  then show ?thesis by (simp add: target_number_less target_new_def)
qed

lemma record_replaces:
  assumes "record_of C kp s m t p" "record_of C kp s n u q"
  shows "pointer_replaces C p q \<longleftrightarrow> supersedes (life_at m t) (life_at n u)"
  using assms by (simp add: record_of_def pointer_replaces_life life_of_def ptr_address_def)

lemma record_sel:
  assumes "record_of C kp s n t p"
  shows "ptr_counter p = n" "ptr_target p = t" "ptr_owner p = fst (kp s)" "valid_pointer C p"
    "pointer_is_terminal p \<longleftrightarrow> n = FINAL_COUNTER"
    "pointer_transferred_to p = transfer_target n t"
    "ptr_address C p = pointer_address C (fst (kp s))"
  using assms by (simp_all add: record_of_def pointer_is_terminal_def pointer_transferred_to_def ptr_address_def)

lemma record_state_id:
  assumes "lawful C kp" "record_of C kp s n t p" "record_of C kp s n t q"
  shows "ptr_state_id C p = ptr_state_id C q"
  using assms pointer_body_inject [of C p q]
  by (simp add: record_of_def lawful_def ptr_state_id_def)

lemma test_sizes: "lawful C kp \<Longrightarrow> sizes_match_the_design C kp r"
  unfolding sizes_match_the_design_def
  by (intro conjI expect_signed) (auto simp: layout_defs dest!: record_sel(4)
      dest: valid_pointer_lengths(4) simp: lawful_def)

lemma test_roundtrips: "lawful C kp \<Longrightarrow> roundtrips_and_validates C kp r"
  unfolding roundtrips_and_validates_def
  by (rule expect_signed, assumption) (auto simp: expect_read record_of_def)

lemma test_maximum: "lawful C kp \<Longrightarrow> the_counter_is_terminal_at_its_maximum C kp r"
  unfolding the_counter_is_terminal_at_its_maximum_def
  by (intro conjI expect_signed)
    (auto simp: record_sel next_counter_def checked_add_def FINAL_COUNTER_def unat_minus_one_exact)

lemma test_out_ranks: "lawful C kp \<Longrightarrow> nothing_out_ranks_a_terminal_counter C kp r"
  unfolding nothing_out_ranks_a_terminal_counter_def
  by (intro ballI conjI expect_signed) (auto simp: record_replaces life_at_def FINAL_COUNTER_def)

lemma test_smaller_target:
  "lawful C kp \<Longrightarrow> a_final_state_is_replaced_by_nothing_not_even_a_smaller_target C kp r"
  unfolding a_final_state_is_replaced_by_nothing_not_even_a_smaller_target_def
  by (intro conjI expect_signed)
    (auto simp: record_replaces life_at_def FINAL_COUNTER_def target_number_repeat chunk_target_def)

lemma test_whatever_target:
  "lawful C kp \<Longrightarrow> a_state_at_the_final_counter_is_final_whatever_it_targets C kp r"
  unfolding a_state_at_the_final_counter_is_final_whatever_it_targets_def Let_def
  by (intro ballI conjI expect_sign) (auto simp: record_replaces record_sel)

lemma test_create_update:
  assumes "lawful C kp"
  shows "create_starts_at_zero_and_update_adds_one C kp r"
proof -
  have z: "(0 :: u64) \<noteq> FINAL_COUNTER" "(0 + 1 :: u64) \<noteq> FINAL_COUNTER"
    by (simp_all add: FINAL_COUNTER_def)
  show ?thesis
    unfolding create_starts_at_zero_and_update_adds_one_def Let_def case_prod_beta
    using z by (intro conjI expect_create [OF assms] expect_update [OF assms _ z(1)] expect_update [OF assms _ z(2)])
      (assumption | auto simp: record_replaces record_of_def life_at_def)+
qed

lemma test_unknown_version:
  assumes "lawful C kp"
  shows "an_unknown_format_version_is_refused C kp r"
  unfolding an_unknown_format_version_is_refused_def Let_def
proof (rule expect_signed [OF assms])
  fix p
  assume p: "record_of C kp 1 1 (chunk_target 1) p"
  have len: "length (pk_to_bytes C (ptr_owner p)) = 1952" "length (sig_to_bytes C (ptr_sig p)) = 3309"
    using valid_pointer_key_lengths [of C p] p assms by (simp_all add: record_of_def lawful_def)
  show "pointer_from_bytes C (case pointer_to_bytes C p of [] \<Rightarrow> [] | byte # rest \<Rightarrow> 2 # rest) =
      Err (UnknownFormatVersion 2)"
    using from_bytes_layout [OF len, of C 2 "ptr_counter p" "ptr_target p"]
    by (simp add: pointer_to_bytes_def pointer_body_layout [OF len(1)] POINTER_FORMAT_VERSION_def)
qed

lemma test_not_comparable:
  assumes "lawful C kp" "pointer_address C (fst (kp 1)) \<noteq> pointer_address C (fst (kp 2))"
  shows "different_owners_are_not_comparable C kp r"
  unfolding different_owners_are_not_comparable_def
  by (intro conjI expect_signed [OF assms(1)])
    (use assms(2) in \<open>auto simp: record_of_def pointer_replaces_life ptr_address_def\<close>)

lemma test_only_final_pointer:
  "lawful C kp \<Longrightarrow> only_a_final_pointer_target_is_a_transfer C kp r"
  unfolding only_a_final_pointer_target_is_a_transfer_def
  by (intro conjI expect_sign) (auto simp: record_sel transfer_target_def FINAL_COUNTER_def pointer_to_def
      chunk_target_def, auto simp: target_new_def)

lemma test_may_skip: "lawful C kp \<Longrightarrow> any_larger_counter_replaces_so_counters_may_skip C kp r"
  unfolding any_larger_counter_replaces_so_counters_may_skip_def
  by (intro ballI conjI expect_signed) (auto simp: record_replaces life_at_def FINAL_COUNTER_def)

lemma test_fork:
  "lawful C kp \<Longrightarrow> a_fork_at_one_counter_resolves_by_target_and_any_later_counter_heals_it C kp r"
  unfolding a_fork_at_one_counter_resolves_by_target_and_any_later_counter_heals_it_def
  by (intro ballI conjI expect_signed)
    (auto simp: record_replaces life_at_def FINAL_COUNTER_def target_number_repeat chunk_target_def)

lemma test_terminal_update: "lawful C kp \<Longrightarrow> a_terminal_pointer_cannot_be_updated C kp r"
  unfolding a_terminal_pointer_cannot_be_updated_def
  by (intro expect_sign) (auto simp: record_of_def pointer_update_def next_counter_final FINAL_COUNTER_def)

lemma test_re_encoding: "lawful C kp \<Longrightarrow> re_encoding_is_byte_identical C kp r"
  unfolding re_encoding_is_byte_identical_def Let_def
  by (intro ballI expect_sign)
    (auto simp: expect_read record_of_def lawful_def valid_pointer_from_bytes)

lemma test_equal_state: "lawful C kp \<Longrightarrow> equal_state_never_replaces C kp r"
  unfolding equal_state_never_replaces_def
  by (intro allI impI expect_signed conjI)
    (auto simp: record_replaces life_at_def FINAL_COUNTER_def intro: record_state_id)

lemma records_ordered:
  assumes "lawful C kp" "record_of C kp s m t a" "record_of C kp s n u b"
  shows "pointer_replaces C a b \<or> pointer_replaces C b a \<or> ptr_state_id C a = ptr_state_id C b \<or>
    pointer_is_terminal a \<and> pointer_is_terminal b"
proof -
  have "same_place (ptr_state C a) (ptr_state C b)"
    using assms(2,3) by (simp add: same_place_def record_of_def ptr_address_def)
  then consider "pointer_replaces C a b" | "pointer_replaces C b a" | "same_record_claim C a b"
    | "pointer_is_terminal a \<and> pointer_is_terminal b"
    using merge_records.total by blast
  then show ?thesis
  proof cases
    case 3
    then have "record_of C kp s m t b"
      using assms(2,3) by (simp add: same_record_claim_def same_claim_def record_of_def)
    then show ?thesis using record_state_id [OF assms(1,2)] by blast
  qed simp_all
qed

lemma test_strict_order:
  assumes "lawful C kp"
  shows "the_rule_is_a_strict_order_so_only_final_states_depend_on_arrival_order C kp r"
  unfolding the_rule_is_a_strict_order_so_only_final_states_depend_on_arrival_order_def case_prod_beta
proof (intro ballI expect_signed [OF assms], goal_cases)
  case (1 x y z a b c)
  have "\<not> pointer_replaces C a a"
    by (rule merge_records.irrefl [OF merge_records.same_refl])
  then show ?case
    using records_ordered [OF assms 1(4,5)] merge_records.asym merge_records.trans by blast
qed

lemma test_fold:
  assumes "lawful C kp"
  shows "with_final_states_a_fold_keeps_the_first_final_it_meets C kp r"
  unfolding with_final_states_a_fold_keeps_the_first_final_it_meets_def
proof (intro expect_signed [OF assms], goal_cases)
  case (1 early final_a final_b)
  have "(3 :: u64) \<noteq> FINAL_COUNTER" by (simp add: FINAL_COUNTER_def)
  then have "pointer_replaces C final_a early" "pointer_replaces C final_b early"
    "\<not> pointer_replaces C final_a final_b" "\<not> pointer_replaces C final_b final_a"
    "\<not> pointer_replaces C early final_a" "\<not> pointer_replaces C early final_b"
    using 1 by (simp_all add: record_replaces)
  then show ?case
    by (simp add: fold_state_id_def fold_arrivals_def)
qed

lemma test_transfer:
  assumes "lawful C kp"
  shows "a_transfer_is_a_final_state_that_targets_the_recipient_pointer C kp r"
proof -
  have z: "(0 :: u64) \<noteq> FINAL_COUNTER" by (simp add: FINAL_COUNTER_def)
  show ?thesis
    unfolding a_transfer_is_a_final_state_that_targets_the_recipient_pointer_def Let_def case_prod_beta
  proof (rule expect_create [OF assms], rule conjI)
    fix current
    assume c: "record_of C kp 41 0 (chunk_target 1) current"
    show "pointer_transferred_to current = None"
      using c z by (simp add: record_sel transfer_target_def split: option.split pointer_target_kind.split)
    show "expect (pointer_transfer_to C (r 1) current (snd (kp 41)) (arr_repeat 66)) (\<lambda>transfer.
        ptr_counter transfer = FINAL_COUNTER \<and> ptr_address C transfer = ptr_address C current \<and>
        ptr_target transfer = target_new Pointer_Kind (arr_repeat 66) \<and>
        pointer_transferred_to transfer = Some (arr_repeat 66) \<and>
        state_transferred_to (ptr_state C transfer) = Some (arr_repeat 66) \<and>
        pointer_replaces C transfer current \<and>
        pointer_update C (r 2) transfer (snd (kp 41)) (ptr_target current) = Err CounterExhausted \<and>
        pointer_transfer_to C (r 3) transfer (snd (kp 41)) (arr_repeat 0) = Err CounterExhausted \<and>
        expect (pointer_sign C (r 4) (snd (kp 41)) (fst (kp 41)) FINAL_COUNTER (pointer_to 0))
          (\<lambda>grinded. \<not> pointer_replaces C grinded transfer))"
    proof (rule expect_transfer [OF assms c z], intro conjI)
      fix t
      assume t: "record_of C kp 41 FINAL_COUNTER (target_new Pointer_Kind (arr_repeat 66)) t"
      show "ptr_counter t = FINAL_COUNTER" "ptr_target t = target_new Pointer_Kind (arr_repeat 66)"
        "ptr_address C t = ptr_address C current"
        using t c by (auto simp: record_of_def ptr_address_def)
      show "pointer_transferred_to t = Some (arr_repeat 66)"
        "state_transferred_to (ptr_state C t) = Some (arr_repeat 66)"
        using t by (simp_all add: record_of_def pointer_transferred_to_def state_transferred_to_def
            transfer_target_def, simp_all add: target_new_def)
      show "pointer_replaces C t current" using t c z by (simp add: record_replaces)
      show "pointer_update C (r 2) t (snd (kp 41)) (ptr_target current) = Err CounterExhausted"
        using t by (simp add: record_of_def pointer_update_def next_counter_final)
      show "pointer_transfer_to C (r 3) t (snd (kp 41)) (arr_repeat 0) = Err CounterExhausted"
        using t by (simp add: record_of_def pointer_transfer_to_def pointer_finalize_def pointer_is_terminal_def)
      show "expect (pointer_sign C (r 4) (snd (kp 41)) (fst (kp 41)) FINAL_COUNTER (pointer_to 0))
          (\<lambda>grinded. \<not> pointer_replaces C grinded t)"
        using expect_sign [OF assms, of 41 FINAL_COUNTER "pointer_to 0" "\<lambda>g. \<not> pointer_replaces C g t" "r 4"] t
        by (simp add: sign_as_def record_replaces)
    qed
  qed
qed

lemma record_id_of_body:
  assumes "lawful C kp" "record_of C kp s n t p"
    and "encode_body C POINTER_FORMAT_VERSION (fst (kp s)) n t = Ok body"
  shows "ptr_state_id C p = state_id_for_body C body"
  using assms(2,3) by (simp add: record_of_def valid_pointer_def ptr_state_id_def pointer_body_def)

lemma test_finalized_twice:
  assumes "lawful C kp"
    and "encode_body C POINTER_FORMAT_VERSION (fst (kp 44)) FINAL_COUNTER (pointer_to 0xA) = Ok body_a"
    and "encode_body C POINTER_FORMAT_VERSION (fst (kp 44)) FINAL_COUNTER (pointer_to 0xB) = Ok body_b"
    and "state_id_for_body C body_a \<noteq> state_id_for_body C body_b"
  shows "an_earlier_record_can_be_finalized_twice_and_neither_replaces_the_other C kp r"
proof -
  have z: "(0 :: u64) \<noteq> FINAL_COUNTER" by (simp add: FINAL_COUNTER_def)
  show ?thesis
    unfolding an_earlier_record_can_be_finalized_twice_and_neither_replaces_the_other_def Let_def case_prod_beta
  proof (rule expect_create [OF assms(1)])
    fix current
    assume c: "record_of C kp 44 0 (chunk_target 1) current"
    show "expect (pointer_transfer_to C (r 1) current (snd (kp 44)) (arr_repeat 0xA)) (\<lambda>to_a.
        expect (pointer_transfer_to C (r 2) current (snd (kp 44)) (arr_repeat 0xB)) (\<lambda>to_b.
          st_state_id (ptr_state C to_a) \<noteq> st_state_id (ptr_state C to_b) \<and>
          (pointer_replaces C to_a current \<and> pointer_replaces C to_b current) \<and>
          \<not> pointer_replaces C to_a to_b \<and> \<not> pointer_replaces C to_b to_a))"
    proof (rule expect_transfer [OF assms(1) c z], rule expect_transfer [OF assms(1) c z])
      fix a b
      assume a: "record_of C kp 44 FINAL_COUNTER (target_new Pointer_Kind (arr_repeat 0xA)) a"
        and b: "record_of C kp 44 FINAL_COUNTER (target_new Pointer_Kind (arr_repeat 0xB)) b"
      have "ptr_state_id C a \<noteq> ptr_state_id C b"
        using assms(4) record_id_of_body [OF assms(1) a assms(2) [unfolded pointer_to_def]]
          record_id_of_body [OF assms(1) b assms(3) [unfolded pointer_to_def]] by simp
      then show "st_state_id (ptr_state C a) \<noteq> st_state_id (ptr_state C b) \<and>
          (pointer_replaces C a current \<and> pointer_replaces C b current) \<and>
          \<not> pointer_replaces C a b \<and> \<not> pointer_replaces C b a"
        using a b c z by (simp add: record_replaces)
    qed
  qed
qed

text \<open>
  Nineteen tests of the module on any lawful primitives, keys and draws. The tests of two owners and of
  two final records assert that the addresses and the paid identifiers of different inputs differ; of
  BLAKE3 as a parameter that is assumed here. The tests that tamper with signed bytes are in
  \<open>Tamper_Tests\<close>.
\<close>

lemma pointer_tests_pass:
  assumes "lawful C kp" "pointer_address C (fst (kp 1)) \<noteq> pointer_address C (fst (kp 2))"
    and "encode_body C POINTER_FORMAT_VERSION (fst (kp 44)) FINAL_COUNTER (pointer_to 0xA) = Ok body_a"
    and "encode_body C POINTER_FORMAT_VERSION (fst (kp 44)) FINAL_COUNTER (pointer_to 0xB) = Ok body_b"
    and "state_id_for_body C body_a \<noteq> state_id_for_body C body_b"
  shows "sizes_match_the_design C kp r \<and> roundtrips_and_validates C kp r \<and>
    an_unknown_format_version_is_refused C kp r \<and> different_owners_are_not_comparable C kp r \<and>
    the_counter_is_terminal_at_its_maximum C kp r \<and> nothing_out_ranks_a_terminal_counter C kp r \<and>
    a_final_state_is_replaced_by_nothing_not_even_a_smaller_target C kp r \<and>
    a_state_at_the_final_counter_is_final_whatever_it_targets C kp r \<and>
    a_transfer_is_a_final_state_that_targets_the_recipient_pointer C kp r \<and>
    an_earlier_record_can_be_finalized_twice_and_neither_replaces_the_other C kp r \<and>
    only_a_final_pointer_target_is_a_transfer C kp r \<and>
    with_final_states_a_fold_keeps_the_first_final_it_meets C kp r \<and>
    create_starts_at_zero_and_update_adds_one C kp r \<and>
    any_larger_counter_replaces_so_counters_may_skip C kp r \<and>
    a_fork_at_one_counter_resolves_by_target_and_any_later_counter_heals_it C kp r \<and>
    a_terminal_pointer_cannot_be_updated C kp r \<and> re_encoding_is_byte_identical C kp r \<and>
    equal_state_never_replaces C kp r \<and>
    the_rule_is_a_strict_order_so_only_final_states_depend_on_arrival_order C kp r"
  by (intro conjI test_sizes test_roundtrips test_unknown_version test_not_comparable test_maximum
      test_out_ranks test_smaller_target test_whatever_target test_transfer
      test_finalized_twice [OF assms(1,3-5)] test_only_final_pointer test_fold test_create_update
      test_may_skip test_fork test_terminal_update test_re_encoding test_equal_state test_strict_order
      assms(1,2))

lemma demo_lawful: "lawful demo_crypto (\<lambda>seed. (seed, seed))"
  by (simp add: lawful_def demo_encoding demo_signs_for)

lemma demo_derive:
  "32 \<le> length bs \<Longrightarrow> blake3_derive_key demo_crypto ctx bs = Arr (rev (drop (length bs - 32) bs))"
  by (simp add: demo_crypto_def demo_hash_def rev_drop)

lemma pointer_tests_pass_witness:
  "with_final_states_a_fold_keeps_the_first_final_it_meets demo_crypto (\<lambda>seed. (seed, seed)) id \<and>
   an_earlier_record_can_be_finalized_twice_and_neither_replaces_the_other demo_crypto (\<lambda>seed. (seed, seed)) id"
proof -
  let ?body = "\<lambda>b. [POINTER_FORMAT_VERSION] @ replicate 1952 44 @ to_be_bytes 8 FINAL_COUNTER @
    elems (target_to_bytes (pointer_to b))"
  have enc: "encode_body demo_crypto POINTER_FORMAT_VERSION (fst (44, 44)) FINAL_COUNTER (pointer_to b) = Ok (?body b)" for b
    by (simp add: encode_body_eq_Ok)
  have "state_id_for_body demo_crypto (?body b) = Arr (replicate 32 b)" for b
    by (simp add: state_id_for_body_def demo_derive pointer_to_def target_new_def)
  then have ids: "state_id_for_body demo_crypto (?body 0xA) \<noteq> state_id_for_body demo_crypto (?body 0xB)"
    by (simp add: Arr_inject)
  have "pointer_address demo_crypto k = Arr (replicate 32 k)" for k
    by (simp add: pointer_address_def demo_derive)
  then have addr: "pointer_address demo_crypto (fst (1 :: u8, 1 :: u8)) \<noteq> pointer_address demo_crypto (fst (2 :: u8, 2 :: u8))"
    by (simp add: Arr_inject)
  show ?thesis
    using pointer_tests_pass [OF demo_lawful addr enc enc ids, of id] by blast
qed

end
