(* ===== verification/Rust_String.thy ===== *)
theory Rust_String
  imports Rust_Prelude
begin

text \<open>
  Strings of the source: sequences of Unicode scalar values, with the standard library's
  \<^verbatim>\<open>char::is_whitespace\<close> and \<^verbatim>\<open>str::split_whitespace\<close>, and literals written as HOL strings.
\<close>

section \<open>Characters\<close>

definition scalar_value :: "nat \<Rightarrow> bool" where
  "scalar_value n \<longleftrightarrow> n < 55296 \<or> 57344 \<le> n \<and> n < 1114112"

typedef uchar = "{n. scalar_value n}"
  morphisms code_point Uchar
proof
  show "0 \<in> {n. scalar_value n}" by (simp add: scalar_value_def)
qed

setup_lifting type_definition_uchar

type_synonym ustring = "uchar list"

definition uchar_of_nat :: "nat \<Rightarrow> uchar option" where
  "uchar_of_nat n = (if scalar_value n then Some (Uchar n) else None)"

definition ustr :: "string \<Rightarrow> ustring" where
  "ustr s = map (\<lambda>c. Uchar (of_char c)) s"

lemma of_char_less: "(of_char c :: nat) < 256"
  by (cases c) (auto simp: of_char_def horner_sum_simps split: bool.splits)

lemma code_point_literal [simp]: "code_point (Uchar (of_char c)) = of_char c"
proof -
  have "of_char c < (55296 :: nat)"
    using of_char_less [of c] by linarith
  then show ?thesis by (intro Uchar_inverse) (simp add: scalar_value_def)
qed

lemma ustr_Nil [simp]: "ustr [] = []"
  by (simp add: ustr_def)

lemma ustr_Cons: "ustr (c # s) = Uchar (of_char c) # ustr s"
  by (simp add: ustr_def)

lemma ustr_inject [simp]: "ustr s = ustr t \<longleftrightarrow> s = t"
proof -
  have "inj (\<lambda>c. Uchar (of_char c))"
  proof (rule injI)
    fix c d
    assume "Uchar (of_char c) = Uchar (of_char d)"
    then have "code_point (Uchar (of_char c)) = code_point (Uchar (of_char d))" by simp
    then show "c = d" by simp
  qed
  then show ?thesis by (simp add: ustr_def inj_eq [OF inj_mapI])
qed

lemma uchar_of_code_point [simp]: "uchar_of_nat (code_point c) = Some c"
  using code_point [of c] by (simp add: uchar_of_nat_def code_point_inverse)

section \<open>White space\<close>

text \<open>The Unicode property \<^verbatim>\<open>White_Space\<close>, which \<^verbatim>\<open>char::is_whitespace\<close> tests.\<close>

definition is_whitespace :: "uchar \<Rightarrow> bool" where
  "is_whitespace c \<longleftrightarrow>
     (let n = code_point c in
      9 \<le> n \<and> n \<le> 13 \<or> n = 32 \<or> n = 133 \<or> n = 160 \<or> n = 5760 \<or> 8192 \<le> n \<and> n \<le> 8202 \<or>
      n = 8232 \<or> n = 8233 \<or> n = 8239 \<or> n = 8287 \<or> n = 12288)"

lemma is_whitespace_low:
  "n < 256 \<Longrightarrow> is_whitespace (Uchar n) \<longleftrightarrow> 9 \<le> n \<and> n \<le> 13 \<or> n = 32 \<or> n = 133 \<or> n = 160"
  by (subst is_whitespace_def, subst (1) Uchar_inverse) (auto simp: scalar_value_def)

text \<open>\<open>words_from acc s\<close>: the tokens of \<open>s\<close> when the token read so far is \<open>acc\<close>; empty tokens are
  dropped.\<close>

fun words_from :: "ustring \<Rightarrow> ustring \<Rightarrow> ustring list" where
  "words_from acc [] = (if acc = [] then [] else [acc])"
| "words_from acc (c # s) =
     (if is_whitespace c then (if acc = [] then words_from [] s else acc # words_from [] s)
      else words_from (acc @ [c]) s)"

definition split_whitespace :: "ustring \<Rightarrow> ustring list" where
  "split_whitespace s = words_from [] s"

text \<open>A token is a maximal run of other characters.\<close>

definition token_in :: "ustring \<Rightarrow> ustring \<Rightarrow> bool" where
  "token_in t s \<longleftrightarrow> t \<noteq> [] \<and> (\<forall>c \<in> set t. \<not> is_whitespace c) \<and>
     (\<exists>pre post. s = pre @ t @ post \<and> (pre = [] \<or> is_whitespace (last pre)) \<and>
        (post = [] \<or> is_whitespace (hd post)))"

lemma words_from_run:
  "\<forall>c \<in> set t. \<not> is_whitespace c \<Longrightarrow> words_from acc (t @ s) = words_from (acc @ t) s"
  by (induction t arbitrary: acc) auto

lemma words_from_break:
  "s = [] \<or> is_whitespace (hd s) \<Longrightarrow> acc \<noteq> [] \<Longrightarrow> acc \<in> set (words_from acc s)"
  by (cases s) auto

lemma words_from_later:
  "is_whitespace c \<Longrightarrow> set (words_from [] s) \<subseteq> set (words_from acc (p @ c # s))"
proof (induction p arbitrary: acc)
  case Nil
  then show ?case by auto
next
  case (Cons d p)
  then show ?case using Cons.IH by (cases "is_whitespace d"; cases "acc = []") (simp_all, blast+)
qed

lemma words_from_sound:
  "t \<in> set (words_from acc s) \<Longrightarrow> \<forall>c \<in> set acc. \<not> is_whitespace c \<Longrightarrow>
   t \<noteq> [] \<and> (\<forall>c \<in> set t. \<not> is_whitespace c) \<and>
   (\<exists>pre post. acc @ s = pre @ t @ post \<and> (pre = [] \<or> is_whitespace (last pre)) \<and>
      (post = [] \<or> is_whitespace (hd post)))"
proof (induction acc s rule: words_from.induct)
  case (1 acc)
  then have "t = acc" "acc \<noteq> []" by (simp_all split: if_splits)
  then show ?case
    using 1(2) by (intro conjI exI [of _ "[]"]) simp_all
next
  case (2 acc c s)
  show ?case
  proof (cases "is_whitespace c")
    case False
    have run: "t \<in> set (words_from (acc @ [c]) s)" "\<forall>d \<in> set (acc @ [c]). \<not> is_whitespace d"
      using 2(4,5) False by simp_all
    show ?thesis using 2(3) [OF False run] by simp
  next
    case True
    show ?thesis
    proof (cases "t = acc \<and> acc \<noteq> []")
      case True
      then show ?thesis
        using 2(5) \<open>is_whitespace c\<close> by (intro conjI exI [of _ "[]"] exI [of _ "c # s"]) auto
    next
      case False
      then have later: "t \<in> set (words_from [] s)"
        using 2(4) True by (auto split: if_splits)
      have none: "\<forall>c \<in> set []. \<not> is_whitespace c" by simp
      have "t \<noteq> [] \<and> (\<forall>c \<in> set t. \<not> is_whitespace c) \<and>
          (\<exists>pre post. [] @ s = pre @ t @ post \<and> (pre = [] \<or> is_whitespace (last pre)) \<and>
            (post = [] \<or> is_whitespace (hd post)))"
        using 2(1) [OF True _ later none] 2(2) [OF True _ later none] by blast
      then obtain pre post where t: "t \<noteq> []" "\<forall>c \<in> set t. \<not> is_whitespace c"
        and s: "s = pre @ t @ post" "pre = [] \<or> is_whitespace (last pre)"
        "post = [] \<or> is_whitespace (hd post)" by auto
      then show ?thesis
        using True by (intro conjI exI [of _ "acc @ c # pre"] exI [of _ post]) auto
    qed
  qed
qed

lemma split_whitespace_tokens: "t \<in> set (split_whitespace s) \<longleftrightarrow> token_in t s"
proof
  assume "t \<in> set (split_whitespace s)"
  then show "token_in t s"
    using words_from_sound [of t "[]" s] by (simp add: split_whitespace_def token_in_def)
next
  assume "token_in t s"
  then obtain pre post where t: "t \<noteq> []" "\<forall>c \<in> set t. \<not> is_whitespace c"
    and s: "s = pre @ t @ post" "pre = [] \<or> is_whitespace (last pre)"
    "post = [] \<or> is_whitespace (hd post)" by (auto simp: token_in_def)
  have here: "t \<in> set (words_from [] (t @ post))"
    using words_from_run [OF t(2), of "[]" post] words_from_break [OF s(3) t(1)] by simp
  show "t \<in> set (split_whitespace s)"
  proof (cases pre rule: rev_cases)
    case Nil
    then show ?thesis using here s(1) by (simp add: split_whitespace_def)
  next
    case (snoc p c)
    then show ?thesis
      using here s words_from_later [of c "t @ post" "[]" p] by (auto simp: split_whitespace_def)
  qed
qed

section \<open>Substrings\<close>

text \<open>\<^verbatim>\<open>str::contains\<close>.\<close>

fun str_contains :: "'a list \<Rightarrow> 'a list \<Rightarrow> bool" where
  "str_contains s pat = (take (length pat) s = pat \<or> (case s of [] \<Rightarrow> False | _ # rest \<Rightarrow> str_contains rest pat))"

declare str_contains.simps [simp del]

text \<open>A literal is found in a literal as its HOL string is found in the other.\<close>

lemma length_ustr: "length (ustr s) = length s"
  by (simp add: ustr_def)

lemma take_ustr: "take n (ustr s) = ustr (take n s)"
  by (simp add: ustr_def take_map)

lemma contains_ustr: "str_contains (ustr s) (ustr t) \<longleftrightarrow> str_contains s t"
proof (induction s)
  case (Cons c s)
  have "take (length (ustr t)) (ustr (c # s)) = ustr t \<longleftrightarrow> take (length t) (c # s) = t"
    by (simp only: take_ustr ustr_inject length_ustr)
  then show ?case
    using Cons.IH by (subst (1 2) str_contains.simps) (simp add: ustr_Cons)
qed (subst (1 2) str_contains.simps, auto simp: ustr_def)

lemma contains_prefix: "str_contains (t @ u) t"
  by (subst str_contains.simps) simp

text \<open>Characters and digits of literals, for evaluating renderings.\<close>

lemma Uchar_low: "m < 256 \<Longrightarrow> n < 256 \<Longrightarrow> Uchar m = Uchar n \<longleftrightarrow> m = n"
  by (subst Uchar_inject) (auto simp: scalar_value_def)

lemma digit_chars:
  "char_of (48 :: nat) = CHR ''0''" "char_of (49 :: nat) = CHR ''1''" "char_of (50 :: nat) = CHR ''2''"
  "char_of (51 :: nat) = CHR ''3''" "char_of (52 :: nat) = CHR ''4''" "char_of (53 :: nat) = CHR ''5''"
  "char_of (57 :: nat) = CHR ''9''"
  by code_simp+

end
