(* ===== verification/Chunk_Types.thy ===== *)
theory Chunk_Types
  imports Data_Types Rust_String
begin

text \<open>
  \<^verbatim>\<open>src/chunk.rs\<close> without its encoding: the protocol constants, settlement versions, the user
  agent token, \<^verbatim>\<open>ProtocolError\<close>, and every request and response with its constructors.
\<close>

section \<open>Constants\<close>

definition CHUNK_PROTOCOL_ID :: ustring where
  "CHUNK_PROTOCOL_ID = ustr ''autonomi.ant.chunk.v1''"

definition PROTOCOL_VERSION :: u16 where
  "PROTOCOL_VERSION = 1"

definition MAX_CHUNK_SIZE :: nat where
  "MAX_CHUNK_SIZE = 4 * 1024 * 1024"

definition MAX_WIRE_MESSAGE_SIZE :: nat where
  "MAX_WIRE_MESSAGE_SIZE = 5 * 1024 * 1024"

definition DATA_TYPE_CHUNK :: u32 where
  "DATA_TYPE_CHUNK = 0"

definition GET_OR_CLOSER_AGENT_TOKEN :: ustring where
  "GET_OR_CLOSER_AGENT_TOKEN = ustr ''get-or-closer/1''"

definition CURRENT_SETTLEMENT_VERSION :: u32 where
  "CURRENT_SETTLEMENT_VERSION = 1"

definition MIN_SUPPORTED_SETTLEMENT_VERSION :: u32 where
  "MIN_SUPPORTED_SETTLEMENT_VERSION = 1"

definition CLOSE_GROUP_SIZE :: nat where
  "CLOSE_GROUP_SIZE = 7"

definition CLOSE_GROUP_MAJORITY :: nat where
  "CLOSE_GROUP_MAJORITY = (CLOSE_GROUP_SIZE div 2) + 1"

definition PROOF_TAG_SINGLE_NODE :: u8 where
  "PROOF_TAG_SINGLE_NODE = 1"

definition PROOF_TAG_MERKLE :: u8 where
  "PROOF_TAG_MERKLE = 2"

section \<open>Settlement versions and the agent token\<close>

datatype settlement_verdict = Compatible | ClientTooOld | NodeTooOld

definition settlement_compatibility :: "u32 \<Rightarrow> settlement_verdict" where
  "settlement_compatibility client_version =
     (if client_version < MIN_SUPPORTED_SETTLEMENT_VERSION then ClientTooOld
      else if client_version > CURRENT_SETTLEMENT_VERSION then NodeTooOld
      else Compatible)"

definition advertises_get_or_closer :: "ustring \<Rightarrow> bool" where
  "advertises_get_or_closer user_agent \<longleftrightarrow>
     list_ex (\<lambda>token. token = GET_OR_CLOSER_AGENT_TOKEN) (split_whitespace user_agent)"

section \<open>Protocol errors\<close>

datatype protocol_error =
    SerializationFailed ustring
  | DeserializationFailed ustring
  | MessageTooLarge usize usize
  | ChunkTooLarge usize usize
  | AddressMismatch xorname xorname
  | StorageFailed ustring
  | PaymentFailed ustring
  | QuoteFailed ustring
  | Internal ustring
  | ClientUpdateRequired u32 u32
  | StorerUpdateRequired u32 u32

definition client_update_required_message :: "u32 \<Rightarrow> u32 \<Rightarrow> ustring" where
  "client_update_required_message client_settlement_version min_settlement_version =
     ustr (''your client is too old to pay the current storage rate (it settles under version '' @
       show_word client_settlement_version @ '', this node requires at least '' @
       show_word min_settlement_version @ ''), so no quote was issued and nothing was charged. '' @
       ''Run `ant update` to upgrade, or reinstall from '' @
       ''https://github.com/WithAutonomi/ant-client/releases/latest'')"

text \<open>\<open>hex_encode\<close> stands for \<^verbatim>\<open>hex::encode\<close>.\<close>

definition display_protocol_error :: "(bytes \<Rightarrow> ustring) \<Rightarrow> protocol_error \<Rightarrow> ustring" where
  "display_protocol_error hex_encode e =
     (case e of
        SerializationFailed msg \<Rightarrow> ustr ''serialization failed: '' @ msg
      | DeserializationFailed msg \<Rightarrow> ustr ''deserialization failed: '' @ msg
      | MessageTooLarge sz max_size \<Rightarrow>
          ustr (''message size '' @ show_word sz @ '' exceeds maximum '' @ show_word max_size)
      | ChunkTooLarge sz max_size \<Rightarrow>
          ustr (''chunk size '' @ show_word sz @ '' exceeds maximum '' @ show_word max_size)
      | AddressMismatch expected actual \<Rightarrow>
          ustr ''address mismatch: expected '' @ hex_encode (elems expected) @ ustr '', got '' @
            hex_encode (elems actual)
      | StorageFailed msg \<Rightarrow> ustr ''storage failed: '' @ msg
      | PaymentFailed msg \<Rightarrow> ustr ''payment failed: '' @ msg
      | QuoteFailed msg \<Rightarrow> ustr ''quote failed: '' @ msg
      | Internal msg \<Rightarrow> ustr ''internal error: '' @ msg
      | ClientUpdateRequired client_settlement_version min_settlement_version \<Rightarrow>
          client_update_required_message client_settlement_version min_settlement_version
      | StorerUpdateRequired client_settlement_version node_settlement_version \<Rightarrow>
          ustr (''this node settles under version '' @ show_word node_settlement_version @
            '' and cannot promise to accept a version '' @ show_word client_settlement_version @
            '' payment, so it issued no quote. Nothing was charged; use a different storer.''))"

section \<open>Chunk requests and responses\<close>

record chunk_put_request =
  put_address :: xorname
  put_content :: bytes
  put_payment_proof :: "bytes option"

definition chunk_put_request_new :: "xorname \<Rightarrow> bytes \<Rightarrow> chunk_put_request" where
  "chunk_put_request_new address content =
     \<lparr>put_address = address, put_content = content, put_payment_proof = None\<rparr>"

definition chunk_put_request_with_payment :: "xorname \<Rightarrow> bytes \<Rightarrow> bytes \<Rightarrow> chunk_put_request" where
  "chunk_put_request_with_payment address content payment_proof =
     \<lparr>put_address = address, put_content = content, put_payment_proof = Some payment_proof\<rparr>"

datatype chunk_put_response =
    Put_Success xorname
  | Put_AlreadyExists xorname
  | Put_PaymentRequired ustring
  | Put_Error protocol_error

datatype chunk_get_request = ChunkGetRequest (get_address: xorname)

datatype chunk_get_response =
    Get_Success xorname bytes
  | Get_NotFound xorname
  | Get_Error protocol_error

datatype chunk_get_or_closer_request = ChunkGetOrCloserRequest (closer_address: xorname)

datatype chunk_get_or_closer_response =
    Closer_Found xorname bytes
  | Closer_Closer xorname bytes
  | Closer_Error protocol_error

definition chunk_get_request_new :: "xorname \<Rightarrow> chunk_get_request" where
  "chunk_get_request_new address = ChunkGetRequest address"

definition chunk_get_or_closer_request_new :: "xorname \<Rightarrow> chunk_get_or_closer_request" where
  "chunk_get_or_closer_request_new address = ChunkGetOrCloserRequest address"

section \<open>Quote requests and responses\<close>

record chunk_quote_request =
  quote_address :: xorname
  quote_data_size :: u64
  quote_data_type :: u32

definition chunk_quote_request_new :: "xorname \<Rightarrow> u64 \<Rightarrow> chunk_quote_request" where
  "chunk_quote_request_new address data_size =
     \<lparr>quote_address = address, quote_data_size = data_size, quote_data_type = DATA_TYPE_CHUNK\<rparr>"

record chunk_quote_request_v2 =
  quote2_address :: xorname
  quote2_data_size :: u64
  quote2_data_type :: u32
  quote2_settlement_version :: u32

definition chunk_quote_request_v2_new :: "xorname \<Rightarrow> u64 \<Rightarrow> chunk_quote_request_v2" where
  "chunk_quote_request_v2_new address data_size =
     \<lparr>quote2_address = address, quote2_data_size = data_size, quote2_data_type = DATA_TYPE_CHUNK,
      quote2_settlement_version = CURRENT_SETTLEMENT_VERSION\<rparr>"

datatype chunk_quote_response =
    Quote_Success bytes bool "bytes option"
  | Quote_Error protocol_error

record merkle_candidate_quote_request =
  merkle_address :: xorname
  merkle_data_type :: u32
  merkle_data_size :: u64
  merkle_timestamp :: u64

record merkle_candidate_quote_request_v2 =
  merkle2_address :: xorname
  merkle2_data_type :: u32
  merkle2_data_size :: u64
  merkle2_timestamp :: u64
  merkle2_settlement_version :: u32

definition merkle_candidate_quote_request_v2_new ::
  "xorname \<Rightarrow> u64 \<Rightarrow> u64 \<Rightarrow> merkle_candidate_quote_request_v2" where
  "merkle_candidate_quote_request_v2_new address data_size merkle_payment_timestamp =
     \<lparr>merkle2_address = address, merkle2_data_type = DATA_TYPE_CHUNK, merkle2_data_size = data_size,
      merkle2_timestamp = merkle_payment_timestamp,
      merkle2_settlement_version = CURRENT_SETTLEMENT_VERSION\<rparr>"

datatype merkle_candidate_quote_response =
    Candidate_Success bytes "bytes option"
  | Candidate_Error protocol_error

section \<open>Pointer requests and responses\<close>

record pointer_put_request =
  pput_record :: bytes
  pput_payment_proof :: "bytes option"

definition pointer_put_request_new :: "bytes \<Rightarrow> pointer_put_request" where
  "pointer_put_request_new bs = \<lparr>pput_record = bs, pput_payment_proof = None\<rparr>"

definition pointer_put_request_with_payment :: "bytes \<Rightarrow> bytes \<Rightarrow> pointer_put_request" where
  "pointer_put_request_with_payment bs payment_proof =
     \<lparr>pput_record = bs, pput_payment_proof = Some payment_proof\<rparr>"

datatype pointer_put_response =
    Pointer_Put_Success xorname xorname
  | Pointer_Put_Unchanged xorname xorname
  | Pointer_Put_Stale xorname xorname
  | Pointer_Put_PaymentRequired ustring
  | Pointer_Put_Error protocol_error

datatype pointer_get_request = PointerGetRequest (pget_address: xorname)

definition pointer_get_request_new :: "xorname \<Rightarrow> pointer_get_request" where
  "pointer_get_request_new address = PointerGetRequest address"

datatype pointer_get_response =
    Pointer_Get_Success bytes
  | Pointer_Get_NotFound xorname
  | Pointer_Get_Error protocol_error

section \<open>Messages\<close>

text \<open>The variants in declaration order, which is the order of their wire discriminants.\<close>

datatype chunk_message_body =
    PutRequest chunk_put_request
  | PutResponse chunk_put_response
  | GetRequest chunk_get_request
  | GetResponse chunk_get_response
  | QuoteRequest chunk_quote_request
  | QuoteResponse chunk_quote_response
  | MerkleCandidateQuoteRequest merkle_candidate_quote_request
  | MerkleCandidateQuoteResponse merkle_candidate_quote_response
  | QuoteRequestV2 chunk_quote_request_v2
  | MerkleCandidateQuoteRequestV2 merkle_candidate_quote_request_v2
  | PointerPutRequest pointer_put_request
  | PointerPutResponse pointer_put_response
  | PointerGetRequest_Body pointer_get_request
  | PointerGetResponse pointer_get_response
  | GetOrCloserRequest chunk_get_or_closer_request
  | GetOrCloserResponse chunk_get_or_closer_response

record chunk_message =
  msg_request_id :: u64
  msg_body :: chunk_message_body

section \<open>Properties\<close>

text \<open>
  A user agent advertises the get-or-closer request exactly when the token stands in it on its
  own: between white space or the ends of the string. A longer token that contains it, or a
  different version number after the slash, does not count.
\<close>

theorem advertises_iff_token:
  "advertises_get_or_closer user_agent \<longleftrightarrow>
     (\<exists>pre post. user_agent = pre @ ustr ''get-or-closer/1'' @ post \<and>
        (pre = [] \<or> is_whitespace (last pre)) \<and> (post = [] \<or> is_whitespace (hd post)))"
proof -
  have "advertises_get_or_closer user_agent \<longleftrightarrow> token_in (ustr ''get-or-closer/1'') user_agent"
    by (simp add: advertises_get_or_closer_def GET_OR_CLOSER_AGENT_TOKEN_def list_ex_iff
        split_whitespace_tokens [symmetric])
  moreover have "ustr ''get-or-closer/1'' \<noteq> []" "\<forall>c \<in> set (ustr ''get-or-closer/1''). \<not> is_whitespace c"
    by (simp_all add: ustr_def is_whitespace_low)
  ultimately show ?thesis by (simp add: token_in_def)
qed

text \<open>
  A storer quotes a client exactly when it can promise to accept the payment: the version lies
  between the oldest supported and the current one, a refusal for age and a refusal for newness
  are told apart, and every versioned request this build constructs declares a version that this
  build quotes.
\<close>

theorem settlement_gate:
  "(settlement_compatibility v = Compatible \<longleftrightarrow>
      MIN_SUPPORTED_SETTLEMENT_VERSION \<le> v \<and> v \<le> CURRENT_SETTLEMENT_VERSION) \<and>
   (settlement_compatibility v = ClientTooOld \<longleftrightarrow> v = 0) \<and>
   (settlement_compatibility v = NodeTooOld \<longleftrightarrow> 2 \<le> unat v) \<and>
   settlement_compatibility (quote2_settlement_version (chunk_quote_request_v2_new a n)) = Compatible \<and>
   settlement_compatibility
     (merkle2_settlement_version (merkle_candidate_quote_request_v2_new a n ts)) = Compatible"
proof -
  have "1 < v \<longleftrightarrow> 2 \<le> unat v" "v < 1 \<longleftrightarrow> v = 0" "1 \<le> v \<longleftrightarrow> v \<noteq> 0" "v \<le> 1 \<longleftrightarrow> \<not> 2 \<le> unat v"
    by (auto simp: word_less_nat_alt word_le_nat_alt unat_eq_zero Suc_le_eq unat_gt_0)
  moreover have "v = 0 \<Longrightarrow> \<not> 2 \<le> unat v" by simp
  ultimately show ?thesis
    by (auto simp: settlement_compatibility_def chunk_quote_request_v2_new_def
        merkle_candidate_quote_request_v2_new_def CURRENT_SETTLEMENT_VERSION_def
        MIN_SUPPORTED_SETTLEMENT_VERSION_def simp del: word_not_simps)
qed

end
