(* ===== verification/Errors.thy ===== *)
theory Errors
  imports Rust_String
begin

text \<open>\<^verbatim>\<open>src/error.rs\<close>: the crate's own error type and its rendering.\<close>

datatype ant_error = Payment ustring | Crypto ustring

definition display_ant_error :: "ant_error \<Rightarrow> ustring" where
  "display_ant_error e =
     (case e of
        Payment msg \<Rightarrow> ustr ''payment error: '' @ msg
      | Crypto msg \<Rightarrow> ustr ''crypto error: '' @ msg)"

end
