(* ===== verification/Pricing.thy ===== *)
theory Pricing
  imports Rust_Prelude
begin

text \<open>
  \<^verbatim>\<open>src/payment/pricing.rs\<close>: the quadratic price of a chunk and its inverse. The amounts are
  256-bit words with \<^verbatim>\<open>ruint\<close>'s saturating and wrapping operations written out; its integer
  root is a parameter. A panic of the source is the value \<open>None\<close>.
\<close>

section \<open>Constants\<close>

type_synonym amount = "256 word"

definition PRICING_DIVISOR :: u128 where
  "PRICING_DIVISOR = 6000"

definition DIVISOR_SQUARED :: u128 where
  "DIVISOR_SQUARED = PRICING_DIVISOR * PRICING_DIVISOR"

definition PRICE_BASELINE_WEI :: u128 where
  "PRICE_BASELINE_WEI = 3906250000000000"

definition PRICE_COEFFICIENT_WEI :: u128 where
  "PRICE_COEFFICIENT_WEI = 35156250000000000"

definition PRICE_PER_RECORD_SQUARED_WEI :: u128 where
  "PRICE_PER_RECORD_SQUARED_WEI = PRICE_COEFFICIENT_WEI div DIVISOR_SQUARED"

text \<open>\<open>amount_from\<close> is the lossless \<^verbatim>\<open>Amount::from\<close> of the narrower unsigned types, and
  \<open>amount_to_u64\<close> is \<^verbatim>\<open>to::<u64>()\<close>, which panics on a value that does not fit.\<close>

definition amount_from :: "'a::len word \<Rightarrow> amount" where
  "amount_from w = word_of_nat (unat w)"

definition amount_to_u64 :: "amount \<Rightarrow> u64 option" where
  "amount_to_u64 a = (if unat a < 2 ^ 64 then Some (word_of_nat (unat a)) else None)"

section \<open>The price and its inverse\<close>

definition calculate_price :: "usize \<Rightarrow> amount" where
  "calculate_price close_records_stored =
     (let n = amount_from close_records_stored;
          n_squared = saturating_mul n n;
          quadratic_wei = saturating_mul n_squared (amount_from PRICE_COEFFICIENT_WEI) div
            amount_from DIVISOR_SQUARED
      in saturating_add (amount_from PRICE_BASELINE_WEI) quadratic_wei)"

definition derive_records_stored_from_price :: "(amount \<Rightarrow> nat \<Rightarrow> amount) \<Rightarrow> amount \<Rightarrow> u64 option" where
  "derive_records_stored_from_price root price =
     (let baseline = amount_from PRICE_BASELINE_WEI in
      if price \<le> baseline then Some 0
      else
        (let excess = price - baseline;
             n_squared = excess div amount_from PRICE_PER_RECORD_SQUARED_WEI;
             r = root n_squared 2
         in if r > amount_from (- 1 :: u64) then Some (- 1) else amount_to_u64 r))"

text \<open>The helper of the tests, in plain wrapping arithmetic.\<close>

definition expected_price :: "u64 \<Rightarrow> amount" where
  "expected_price n =
     (let n_amt = amount_from n;
          quad = n_amt * n_amt * amount_from PRICE_COEFFICIENT_WEI div amount_from DIVISOR_SQUARED
      in amount_from PRICE_BASELINE_WEI + quad)"

section \<open>The root parameter\<close>

text \<open>What \<^verbatim>\<open>ruint\<close> documents of \<^verbatim>\<open>Uint::root\<close>: the floor of the root of the given degree.\<close>

definition floor_root :: "(amount \<Rightarrow> nat \<Rightarrow> amount) \<Rightarrow> bool" where
  "floor_root root \<longleftrightarrow>
     (\<forall>x d. 0 < d \<longrightarrow> unat (root x d) ^ d \<le> unat x \<and> unat x < (unat (root x d) + 1) ^ d)"

text \<open>A concrete root, bit by bit from the top.\<close>

fun root_bits :: "nat \<Rightarrow> nat \<Rightarrow> nat \<Rightarrow> nat \<Rightarrow> nat" where
  "root_bits d x 0 r = r"
| "root_bits d x (Suc k) r = root_bits d x k (if (r + 2 ^ k) ^ d \<le> x then r + 2 ^ k else r)"

definition bitwise_root :: "amount \<Rightarrow> nat \<Rightarrow> amount" where
  "bitwise_root x d = word_of_nat (root_bits d (unat x) 256 0)"

lemma root_bits_floor:
  "r ^ d \<le> x \<Longrightarrow> x < (r + 2 ^ k) ^ d \<Longrightarrow>
     root_bits d x k r ^ d \<le> x \<and> x < (root_bits d x k r + 1) ^ d"
  by (induction k arbitrary: r) (simp_all add: mult_2 add.assoc [symmetric])

lemma floor_root_bitwise: "floor_root bitwise_root"
  unfolding floor_root_def
proof (intro allI impI)
  fix x :: amount and d :: nat
  assume d: "0 < d"
  let ?r = "root_bits d (unat x) 256 0"
  have x: "unat x < 2 ^ 256"
    using unsigned_less [of x, where ?'a = nat] by simp
  also have "(2::nat) ^ 256 \<le> (0 + 2 ^ 256) ^ d"
    using d power_increasing [of 1 d "2 ^ 256 :: nat"] by simp
  finally have r: "?r ^ d \<le> unat x" "unat x < (?r + 1) ^ d"
    using root_bits_floor [of 0 d "unat x" 256] d zero_power [OF d, where ?'a = nat] by simp_all
  have "?r \<le> ?r ^ d"
    using d by (cases "?r = 0") (simp_all add: self_le_power)
  then have "?r < 2 ^ 256" using r(1) x by linarith
  then have "unat (bitwise_root x d) = ?r"
    by (simp add: bitwise_root_def unat_of_nat)
  then show "unat (bitwise_root x d) ^ d \<le> unat x \<and> unat x < (unat (bitwise_root x d) + 1) ^ d"
    using r by simp
qed

section \<open>The arithmetic behind the formula\<close>

lemma unat_amount_from:
  "LENGTH('a::len) \<le> 256 \<Longrightarrow> unat (amount_from (w :: 'a word)) = unat w"
proof -
  assume "LENGTH('a) \<le> 256"
  then have "(2::nat) ^ LENGTH('a) \<le> 2 ^ 256" by (rule power_increasing) simp
  then have "unat w < 2 ^ 256"
    using unsigned_less [of w, where ?'a = nat] by linarith
  then show ?thesis
    by (simp add: amount_from_def unsigned_ucast_eq take_bit_nat_eq_self)
qed

lemma price_constants:
  "unat (amount_from PRICE_BASELINE_WEI) = 3906250000000000"
  "unat (amount_from PRICE_COEFFICIENT_WEI) = 35156250000000000"
  "unat (amount_from DIVISOR_SQUARED) = 36000000"
  "unat (amount_from PRICE_PER_RECORD_SQUARED_WEI) = 976562500"
  "unat (amount_from (- 1 :: u64)) = 2 ^ 64 - 1"
  by (simp_all add: unat_amount_from unat_minus_one_exact PRICE_BASELINE_WEI_def
      PRICE_COEFFICIENT_WEI_def DIVISOR_SQUARED_def PRICING_DIVISOR_def
      PRICE_PER_RECORD_SQUARED_WEI_def unat_div)

lemma square_bound: "(unat (n :: u64))\<^sup>2 * c \<le> (2 ^ 64 - 1)\<^sup>2 * c"
  using unsigned_less [of n, where ?'a = nat] by (intro mult_right_mono power_mono) simp_all

lemma unat_calculate_price:
  "unat (calculate_price n) = 3906250000000000 + 976562500 * (unat n)\<^sup>2"
proof -
  have b1: "unat (amount_from n) * unat (amount_from n) < 2 ^ 256"
    using square_bound [of n 1] by (simp add: unat_amount_from power2_eq_square)
  have b2: "(unat n)\<^sup>2 * 35156250000000000 < 2 ^ 256"
    using square_bound [of n 35156250000000000] by simp
  have sq: "unat (saturating_mul (amount_from n) (amount_from n)) = (unat n)\<^sup>2"
    using b1 by (simp add: unat_saturating_mul unat_amount_from power2_eq_square)
  have "unat (saturating_mul s (amount_from PRICE_COEFFICIENT_WEI) div amount_from DIVISOR_SQUARED) =
      976562500 * (unat n)\<^sup>2" if "unat s = (unat n)\<^sup>2" for s :: amount
    using b2 by (simp add: unat_div unat_saturating_mul that price_constants)
  note quad = this [OF sq]
  have "3906250000000000 + 976562500 * (unat n)\<^sup>2 < 2 ^ 256"
    using square_bound [of n 976562500] by simp
  then show ?thesis
    by (simp add: calculate_price_def Let_def unat_saturating_add quad price_constants)
qed

lemma derive_total:
  assumes "floor_root root"
  obtains m where "derive_records_stored_from_price root p = Some m"
    "p \<le> amount_from PRICE_BASELINE_WEI \<Longrightarrow> m = 0"
    "\<And>n. amount_from PRICE_BASELINE_WEI \<le> p \<Longrightarrow> n \<le> m \<longleftrightarrow> calculate_price n \<le> p"
proof (cases "p \<le> amount_from PRICE_BASELINE_WEI")
  case True
  have "n \<le> 0 \<longleftrightarrow> calculate_price n \<le> p" if "amount_from PRICE_BASELINE_WEI \<le> p" for n
  proof -
    have "unat p = 3906250000000000"
      using that True price_constants(1) by (metis antisym)
    then show ?thesis
      by (simp add: word_le_nat_alt unat_calculate_price unat_eq_zero)
  qed
  then show ?thesis
    using that [of 0] True by (simp add: derive_records_stored_from_price_def)
next
  case False
  define q where "q = (p - amount_from PRICE_BASELINE_WEI) div amount_from PRICE_PER_RECORD_SQUARED_WEI"
  define r where "r = root q 2"
  have base: "3906250000000000 < unat p"
    using False price_constants(1) by (simp add: word_le_nat_alt)
  have q: "unat q = (unat p - 3906250000000000) div 976562500"
    using False by (simp add: q_def unat_div price_constants unat_sub)
  have r: "(unat r)\<^sup>2 \<le> unat q" "unat q < (unat r + 1)\<^sup>2"
    using assms by (simp_all add: floor_root_def r_def)
  have below: "unat n \<le> unat r \<longleftrightarrow> calculate_price n \<le> p" for n :: u64
  proof -
    have "unat n \<le> unat r \<longleftrightarrow> (unat n)\<^sup>2 \<le> unat q"
    proof
      assume "unat n \<le> unat r"
      then have "(unat n)\<^sup>2 \<le> (unat r)\<^sup>2" by (rule power_mono) simp
      then show "(unat n)\<^sup>2 \<le> unat q" using r(1) by linarith
    next
      assume "(unat n)\<^sup>2 \<le> unat q"
      then have "(unat n)\<^sup>2 < (unat r + 1)\<^sup>2" using r(2) by linarith
      then have "unat n < unat r + 1" by (rule power_less_imp_less_base) simp
      then show "unat n \<le> unat r" by simp
    qed
    also have "\<dots> \<longleftrightarrow> 976562500 * (unat n)\<^sup>2 \<le> unat p - 3906250000000000"
      by (simp add: q less_eq_div_iff_mult_less_eq mult.commute)
    also have "\<dots> \<longleftrightarrow> calculate_price n \<le> p"
      using base by (simp add: word_le_nat_alt unat_calculate_price le_diff_conv2 add.commute)
    finally show ?thesis .
  qed
  show ?thesis
  proof (cases "r > amount_from (- 1 :: u64)")
    case True
    then have "2 ^ 64 - 1 < unat r" by (simp add: word_less_nat_alt price_constants)
    then have "unat n \<le> unat r" for n :: u64
      using unsigned_less [of n, where ?'a = nat] by simp
    then show ?thesis
      using that [of "- 1"] False True below
      by (simp add: derive_records_stored_from_price_def flip: q_def r_def)
  next
    case fits: False
    then have "unat r < 2 ^ 64" by (simp add: word_less_nat_alt price_constants)
    moreover from this have "unat (word_of_nat (unat r) :: u64) = unat r"
      by (simp only: unat_of_nat) simp
    ultimately show ?thesis
      using that [of "word_of_nat (unat r)"] False fits below
      by (simp add: derive_records_stored_from_price_def amount_to_u64_def word_le_nat_alt
          flip: q_def r_def)
  qed
qed

lemma unat_expected_price:
  "unat (expected_price n) = 3906250000000000 + 976562500 * (unat n)\<^sup>2"
proof -
  have b2: "(unat n)\<^sup>2 * 35156250000000000 < 2 ^ 256"
    using square_bound [of n 35156250000000000] by simp
  have b3: "3906250000000000 + 976562500 * (unat n)\<^sup>2 < 2 ^ 256"
    using square_bound [of n 976562500] by simp
  have n: "unat (amount_from n) = unat n" by (simp add: unat_amount_from)
  have sq: "unat (amount_from n * amount_from n) = (unat n)\<^sup>2"
    using b2 by (subst unat_mult_exact) (simp_all add: n power2_eq_square)
  have "unat (amount_from n * amount_from n * amount_from PRICE_COEFFICIENT_WEI) =
      (unat n)\<^sup>2 * 35156250000000000"
    using b2 by (subst unat_mult_exact) (simp_all add: sq price_constants)
  then have "unat (amount_from n * amount_from n * amount_from PRICE_COEFFICIENT_WEI div
      amount_from DIVISOR_SQUARED) = 976562500 * (unat n)\<^sup>2"
    by (simp add: unat_div price_constants)
  then show ?thesis
    using b3 by (simp add: expected_price_def Let_def unat_add_exact price_constants)
qed

lemma calculate_price_less_iff: "calculate_price n < calculate_price m \<longleftrightarrow> n < m"
  by (simp add: word_less_nat_alt unat_calculate_price power_mono_iff flip: not_le)

lemma derive_price:
  assumes "floor_root root"
  shows "derive_records_stored_from_price root (calculate_price n) = Some n"
proof -
  obtain m where m: "derive_records_stored_from_price root (calculate_price n) = Some m"
    "\<And>k. amount_from PRICE_BASELINE_WEI \<le> calculate_price n \<Longrightarrow>
      k \<le> m \<longleftrightarrow> calculate_price k \<le> calculate_price n"
    using derive_total [OF assms] by blast
  have "amount_from PRICE_BASELINE_WEI \<le> calculate_price n"
    by (simp add: word_le_nat_alt price_constants unat_calculate_price)
  then have "k \<le> m \<longleftrightarrow> k \<le> n" for k
    using m(2) [of k] calculate_price_less_iff [of n k] by (simp add: not_less [symmetric])
  then have "m = n" by (metis antisym order_refl)
  then show ?thesis using m(1) by simp
qed

section \<open>Properties\<close>

text \<open>
  C29: The price is the documented formula on every record count of the machine, in unbounded
  arithmetic: no step saturates, the division by \<open>D\<^sup>2\<close> is exact, the helper of the tests computes the same,
  and more records always cost strictly more.
\<close>

theorem price_formula:
  "unat (calculate_price n) =
     3906250000000000 + (unat n)\<^sup>2 * 35156250000000000 div 36000000 \<and>
   unat (calculate_price n) = 3906250000000000 + 976562500 * (unat n)\<^sup>2 \<and>
   calculate_price n = expected_price n \<and>
   (n < m \<longleftrightarrow> calculate_price n < calculate_price m)"
  by (simp add: calculate_price_less_iff)
    (simp add: word_unat_eq_iff unat_calculate_price unat_expected_price)

text \<open>
  C17: Deriving the record count never panics, on any 256-bit price: at or below the baseline it
  is zero, and above it the result is the largest count whose price does not exceed the price
  given, which for an oversized price is the maximal count.
\<close>

theorem derive_is_largest_affordable:
  assumes "floor_root root"
  shows "\<exists>m. derive_records_stored_from_price root p = Some m \<and>
    (p \<le> amount_from PRICE_BASELINE_WEI \<longrightarrow> m = 0) \<and>
    (amount_from PRICE_BASELINE_WEI \<le> p \<longrightarrow> (\<forall>n. n \<le> m \<longleftrightarrow> calculate_price n \<le> p))"
proof -
  obtain m where "derive_records_stored_from_price root p = Some m"
    "p \<le> amount_from PRICE_BASELINE_WEI \<Longrightarrow> m = 0"
    "\<And>n. amount_from PRICE_BASELINE_WEI \<le> p \<Longrightarrow> n \<le> m \<longleftrightarrow> calculate_price n \<le> p"
    using derive_total [OF assms] by blast
  then show ?thesis by blast
qed

lemma derive_is_largest_affordable_witness:
  "derive_records_stored_from_price bitwise_root (- 1) = Some (- 1)"
proof -
  have top: "amount_from PRICE_BASELINE_WEI \<le> - 1" "calculate_price (- 1) \<le> - 1" by simp_all
  obtain m where "derive_records_stored_from_price bitwise_root (- 1) = Some m" "(- 1) \<le> m"
    using derive_is_largest_affordable [OF floor_root_bitwise, of "- 1"] top by blast
  then show ?thesis by (simp add: word_order.extremum_unique)
qed

text \<open>
  The inverse inverts: the record count derived from the price of \<open>n\<close> records is \<open>n\<close>, for every
  64-bit \<open>n\<close>, so node and client read the same count out of a quote.
\<close>

theorem derive_inverts_price:
  assumes "floor_root root"
  shows "derive_records_stored_from_price root (calculate_price n) = Some n"
  by (rule derive_price [OF assms])

lemma derive_inverts_price_witness:
  "derive_records_stored_from_price bitwise_root (calculate_price 6000) = Some 6000 \<and>
   unat (calculate_price 6000) = 39062500000000000"
  using derive_inverts_price [OF floor_root_bitwise] by (simp add: unat_calculate_price)

end
