(* ===== verification/Single_Node.thy ===== *)
theory Single_Node
  imports Chunk_Types Errors Pricing "HOL-Library.Multiset"
begin

text \<open>
  \<^verbatim>\<open>src/payment/single_node.rs\<close>: building a payment from seven quotes, paying it and verifying
  it. \<^verbatim>\<open>evmlib\<close> is a set of parameters: the quote type with its hash and rewards address, the
  wallet's payment call (which moves the chain to a new state) and the vault's
  \<^verbatim>\<open>completedPayments\<close> lookup, which takes the number of the call so that the chain may move
  between two of them.
\<close>

section \<open>Data\<close>

type_synonym quote_hash = "(u8, 32) arr"
type_synonym rewards_address = "(u8, 20) arr"
type_synonym tx_hash = "(u8, 32) arr"

record 'q quote_api =
  hash_of :: "'q \<Rightarrow> quote_hash"
  rewards_of :: "'q \<Rightarrow> rewards_address"

definition MEDIAN_INDEX :: nat where
  "MEDIAN_INDEX = CLOSE_GROUP_SIZE div 2"

record quote_payment_info =
  qpi_quote_hash :: quote_hash
  qpi_rewards_address :: rewards_address
  qpi_amount :: amount
  qpi_price :: amount

datatype single_node_payment = SingleNodePayment (payment_quotes: "(quote_payment_info, 7) arr")

section \<open>Building a payment\<close>

definition from_quotes ::
  "'q quote_api \<Rightarrow> ('q \<times> amount) list \<Rightarrow> (single_node_payment, ant_error) result" where
  "from_quotes Q quotes_with_prices =
     (let len = length quotes_with_prices in
      if len \<noteq> CLOSE_GROUP_SIZE then
        Err (Payment (ustr (''SingleNode payment requires exactly '' @ show_nat CLOSE_GROUP_SIZE @
               '' quotes, got '' @ show_nat len)))
      else
        let quotes_with_prices = sort_key (\<lambda>(_, price). price) quotes_with_prices in
        and_then
          (ok_or (Payment (ustr (''Missing median quote at index '' @ show_nat MEDIAN_INDEX @
               '': expected '' @ show_nat CLOSE_GROUP_SIZE @ '' quotes but get() failed'')))
             (slice_get MEDIAN_INDEX quotes_with_prices)) (\<lambda>median.
        let median_price = snd median in
        and_then
          (ok_or (Payment (ustr ''Price overflow when calculating 3x median''))
             (checked_mul median_price (amount_from (3 :: u64)))) (\<lambda>enhanced_price.
        let quotes_vec = map (\<lambda>(idx, (quote, price)).
              \<lparr>qpi_quote_hash = hash_of Q quote, qpi_rewards_address = rewards_of Q quote,
               qpi_amount = (if idx = MEDIAN_INDEX then enhanced_price else 0),
               qpi_price = price\<rparr>) (enumerate 0 quotes_with_prices) in
        and_then
          (ok_or (Payment (ustr ''Failed to convert quotes to fixed array'')) (arr_of_list quotes_vec))
          (\<lambda>quotes. Ok (SingleNodePayment quotes)))))"

definition total_amount :: "single_node_payment \<Rightarrow> amount" where
  "total_amount p = foldl (+) 0 (map qpi_amount (elems (payment_quotes p)))"

definition paid_quote :: "single_node_payment \<Rightarrow> quote_payment_info option" where
  "paid_quote p = slice_get MEDIAN_INDEX (elems (payment_quotes p))"

section \<open>Paying\<close>

text \<open>The wallet: payments and a chain state to the transaction hashes by quote, or an error, and
  the chain state after the call.\<close>

type_synonym 'c wallet =
  "(quote_hash \<times> rewards_address \<times> amount) list \<Rightarrow> 'c \<Rightarrow> (quote_hash \<rightharpoonup> tx_hash, ustring) result \<times> 'c"

fun collect_hashes ::
  "(quote_hash \<Rightarrow> ustring) \<Rightarrow> (quote_hash \<rightharpoonup> tx_hash) \<Rightarrow> quote_payment_info list \<Rightarrow> tx_hash list \<Rightarrow>
     (tx_hash list, ant_error) result" where
  "collect_hashes show_hash tx_hashes [] acc = Ok acc"
| "collect_hashes show_hash tx_hashes (q # qs) acc =
     (if 0 < qpi_amount q then
        and_then
          (ok_or (Payment (ustr ''Missing transaction hash for non-zero quote '' @
               show_hash (qpi_quote_hash q))) (tx_hashes (qpi_quote_hash q)))
          (\<lambda>h. collect_hashes show_hash tx_hashes qs (acc @ [h]))
      else collect_hashes show_hash tx_hashes qs acc)"

definition pay ::
  "(quote_hash \<Rightarrow> ustring) \<Rightarrow> 'c wallet \<Rightarrow> single_node_payment \<Rightarrow> 'c \<Rightarrow>
     (tx_hash list, ant_error) result \<times> 'c" where
  "pay show_hash pay_for_quotes p chain =
     (let quote_payments = map (\<lambda>q. (qpi_quote_hash q, qpi_rewards_address q, qpi_amount q))
            (elems (payment_quotes p));
          (paid, chain') = pay_for_quotes quote_payments chain
      in (and_then (map_err (\<lambda>err. Payment (ustr ''Failed to pay for quotes: '' @ err)) paid)
            (\<lambda>tx_hashes. collect_hashes show_hash tx_hashes (elems (payment_quotes p)) []), chain'))"

section \<open>Verifying\<close>

text \<open>\<open>completed_payments i h\<close>: what the \<open>i\<close>-th lookup answers for the quote hash \<open>h\<close>.\<close>

type_synonym vault = "nat \<Rightarrow> quote_hash \<Rightarrow> (u128, ustring) result"

fun check_tied :: "vault \<Rightarrow> amount \<Rightarrow> nat \<Rightarrow> quote_payment_info list \<Rightarrow> (amount option, ant_error) result" where
  "check_tied completed_payments expected_amount i [] = Ok None"
| "check_tied completed_payments expected_amount i (candidate # rest) =
     and_then (map_err (\<lambda>e. Payment (ustr ''completedPayments lookup failed: '' @ e))
       (completed_payments i (qpi_quote_hash candidate))) (\<lambda>result.
     let on_chain_amount = amount_from result in
     if on_chain_amount \<ge> expected_amount then Ok (Some on_chain_amount)
     else check_tied completed_payments expected_amount (Suc i) rest)"

definition verify_payment :: "vault \<Rightarrow> single_node_payment \<Rightarrow> (amount, ant_error) result" where
  "verify_payment completed_payments p =
     (let quotes = elems (payment_quotes p) in
      and_then
        (ok_or (Payment (ustr (''Missing median quote at index '' @ show_nat MEDIAN_INDEX @
             '': quotes array has only '' @ show_nat (length quotes) @ '' elements'')))
           (slice_get MEDIAN_INDEX quotes)) (\<lambda>median.
      let median_price = qpi_price median; expected_amount = qpi_amount median in
      if expected_amount = 0 \<or> median_price = 0 then
        Err (Payment (ustr (''Median quote has zero price/amount (price='' @ show_word median_price @
               '', amount='' @ show_word expected_amount @ ''); refusing to verify as paid'')))
      else
        let tied_quotes = filter (\<lambda>q. qpi_price q = median_price) quotes in
        and_then (check_tied completed_payments expected_amount 0 tied_quotes) (\<lambda>found.
        case found of
          Some on_chain_amount \<Rightarrow> Ok on_chain_amount
        | None \<Rightarrow> Err (Payment (ustr (''No median-priced quote was paid enough: expected at least '' @
               show_word expected_amount @ '', checked '' @ show_nat (length tied_quotes) @
               '' tied quote(s)''))))))"

section \<open>What a built payment looks like\<close>

lemma group_sizes [simp]: "CLOSE_GROUP_SIZE = 7" "MEDIAN_INDEX = 3"
  by (simp_all add: CLOSE_GROUP_SIZE_def MEDIAN_INDEX_def)

lemma amount_from_3 [simp]: "amount_from (3 :: u64) = 3"
  by (simp add: amount_from_def)

text \<open>The entry of the quote at index \<open>i\<close> of the sorted list \<open>s\<close>.\<close>

definition info_at :: "'q quote_api \<Rightarrow> ('q \<times> amount) list \<Rightarrow> nat \<Rightarrow> quote_payment_info" where
  "info_at Q s i = \<lparr>qpi_quote_hash = hash_of Q (fst (s ! i)), qpi_rewards_address = rewards_of Q (fst (s ! i)),
     qpi_amount = (if i = 3 then snd (s ! 3) * 3 else 0), qpi_price = snd (s ! i)\<rparr>"

lemma info_at_sel [simp]:
  "qpi_quote_hash (info_at Q s i) = hash_of Q (fst (s ! i))"
  "qpi_rewards_address (info_at Q s i) = rewards_of Q (fst (s ! i))"
  "qpi_amount (info_at Q s i) = (if i = 3 then snd (s ! 3) * 3 else 0)"
  "qpi_price (info_at Q s i) = snd (s ! i)"
  by (simp_all add: info_at_def)

lemma sort_price: "sort_key (\<lambda>(_, price). price) qs = sort_key snd qs"
  by (simp add: case_prod_unfold)

lemma from_quotes_cases:
  "from_quotes Q qs =
     (if length qs \<noteq> 7 then
        Err (Payment (ustr (''SingleNode payment requires exactly 7 quotes, got '' @ show_nat (length qs))))
      else if 2 ^ 256 \<le> unat (snd (sort_key snd qs ! 3)) * 3 then
        Err (Payment (ustr ''Price overflow when calculating 3x median''))
      else Ok (SingleNodePayment (Arr (map (info_at Q (sort_key snd qs)) [0..<7]))))"
proof (cases "length qs = 7")
  case False
  moreover have "show_nat 7 = ''7''"
    by (subst show_nat.simps) (simp add: digit_char_def char_of_def bit_0)
  ultimately show ?thesis by (simp add: from_quotes_def)
next
  case True
  define s where "s = sort_key snd qs"
  have len: "length s = 7" using True by (simp add: s_def)
  have infos: "map (\<lambda>(idx, (quote, price)).
        \<lparr>qpi_quote_hash = hash_of Q quote, qpi_rewards_address = rewards_of Q quote,
         qpi_amount = (if idx = MEDIAN_INDEX then snd (s ! 3) * 3 else 0),
         qpi_price = price\<rparr>) (enumerate 0 s) = map (info_at Q s) [0..<7]"
    by (rule nth_equalityI) (simp_all add: len info_at_def nth_enumerate_eq case_prod_unfold)
  have get: "slice_get MEDIAN_INDEX s = Some (s ! 3)"
    using len by (simp add: slice_get_def)
  have arr: "arr_of_list (map (info_at Q s) [0..<7]) = Some (Arr (map (info_at Q s) [0..<7]) :: (quote_payment_info, 7) arr)"
    by (simp add: arr_of_list_def)
  show ?thesis
    unfolding from_quotes_def sort_price s_def [symmetric] Let_def get
    using True infos arr
    by (simp add: checked_mul_def)
qed

lemma from_quotesE:
  assumes "from_quotes Q qs = Ok p"
  obtains s where "s = sort_key snd qs" "length s = 7" "mset s = mset qs" "sorted (map snd s)"
    "unat (snd (s ! 3)) * 3 < 2 ^ 256" "elems (payment_quotes p) = map (info_at Q s) [0..<7]"
proof -
  have "length qs = 7" "unat (snd (sort_key snd qs ! 3)) * 3 < 2 ^ 256"
    "p = SingleNodePayment (Arr (map (info_at Q (sort_key snd qs)) [0..<7]))"
    using assms by (simp_all add: from_quotes_cases split: if_splits)
  then show thesis
    by (intro that [of "sort_key snd qs"]) simp_all
qed

lemma unat_times_3: "unat (m :: amount) * 3 < 2 ^ 256 \<Longrightarrow> unat (m * 3) = unat m * 3"
  by (subst unat_mult_exact) simp_all

lemma total_amount_built:
  "elems (payment_quotes p) = map (info_at Q s) [0..<7] \<Longrightarrow> total_amount p = snd (s ! 3) * 3"
  by (simp add: total_amount_def upt_rec)

section \<open>What verification finds\<close>

lemma check_tied_sound:
  "check_tied L e i qs = Ok (Some a) \<Longrightarrow>
     \<exists>j c r. c \<in> set qs \<and> L j (qpi_quote_hash c) = Ok r \<and> a = amount_from r \<and> e \<le> a"
proof (induction qs arbitrary: i)
  case Nil
  then show ?case by simp
next
  case (Cons c qs)
  then obtain r where r: "L i (qpi_quote_hash c) = Ok r"
    by (cases "L i (qpi_quote_hash c)") simp_all
  show ?case
  proof (cases "e \<le> amount_from r")
    case True
    then show ?thesis using Cons.prems r by auto
  next
    case False
    then show ?thesis using Cons.IH [of "Suc i"] Cons.prems r by auto
  qed
qed

lemma verify_payment_cases:
  "verify_payment L p =
     (let median = elems (payment_quotes p) ! 3;
          tied = filter (\<lambda>q. qpi_price q = qpi_price median) (elems (payment_quotes p)) in
      if qpi_amount median = 0 \<or> qpi_price median = 0 then
        Err (Payment (ustr (''Median quote has zero price/amount (price='' @ show_word (qpi_price median) @
               '', amount='' @ show_word (qpi_amount median) @ ''); refusing to verify as paid'')))
      else and_then (check_tied L (qpi_amount median) 0 tied) (\<lambda>found.
        case found of
          Some on_chain_amount \<Rightarrow> Ok on_chain_amount
        | None \<Rightarrow> Err (Payment (ustr (''No median-priced quote was paid enough: expected at least '' @
               show_word (qpi_amount median) @ '', checked '' @ show_nat (length tied) @
               '' tied quote(s)'')))))"
  by (simp add: verify_payment_def slice_get_def Let_def)

lemma verify_payment_Ok:
  "verify_payment L p = Ok a \<longleftrightarrow>
     (let median = elems (payment_quotes p) ! 3 in
      qpi_amount median \<noteq> 0 \<and> qpi_price median \<noteq> 0 \<and>
      check_tied L (qpi_amount median) 0
        (filter (\<lambda>q. qpi_price q = qpi_price median) (elems (payment_quotes p))) = Ok (Some a))"
  by (auto simp: verify_payment_cases Let_def result_simps split: option.splits)

text \<open>The tied quotes are the same whatever order the quotes came in.\<close>

lemma map_snd_sort_key: "map snd (sort_key snd qs) = sort (map snd (qs :: ('q \<times> amount) list))"
  by (rule properties_for_sort [symmetric]) simp_all

lemma price_multiset:
  assumes "mset qs = mset qs'"
  shows "map snd (sort_key snd qs) = map snd (sort_key snd (qs' :: ('q \<times> amount) list))"
proof -
  have "mset (map snd qs) = mset (map snd qs')" using assms by simp
  then show ?thesis
    unfolding map_snd_sort_key by (intro properties_for_sort) simp_all
qed

text \<open>Any order of the quotes of a payment builds one.\<close>

lemma from_quotes_reordered:
  assumes "from_quotes Q qs = Ok p" "mset qs = mset qs'"
  shows "\<exists>p'. from_quotes Q qs' = Ok p'"
proof -
  have len: "length qs' = length qs" using assms(2) by (metis size_mset)
  have "map snd (sort_key snd qs) ! 3 = map snd (sort_key snd qs') ! 3"
    using price_multiset [OF assms(2)] by simp
  then have "snd (sort_key snd qs' ! 3) = snd (sort_key snd qs ! 3)" if "length qs = 7"
    using that len by simp
  then show ?thesis using assms(1) len by (simp add: from_quotes_cases split: if_splits)
qed

end
