(* ===== verification/Single_Node_Properties.thy ===== *)
theory Single_Node_Properties
  imports Single_Node
begin

text \<open>
  The properties of \<^verbatim>\<open>src/payment/single_node.rs\<close>: what a built payment contains, when building
  fails, what paying returns, what a verified payment shows of the lookups, and that verification is
  the same for every party that holds the same quotes in whatever order.
\<close>

section \<open>Concrete quotes\<close>

text \<open>Seven quotes, three of them tied at the median price.\<close>

definition demo_quote_api :: "u8 quote_api" where
  "demo_quote_api = \<lparr>hash_of = arr_repeat, rewards_of = arr_repeat\<rparr>"

definition demo_quotes :: "(u8 \<times> amount) list" where
  "demo_quotes = [(1, 10), (2, 20), (3, 30), (4, 30), (5, 30), (6, 40), (7, 50)]"

lemma demo_sorted: "sort_key snd demo_quotes = demo_quotes"
  by (simp add: demo_quotes_def)

definition demo_payment :: single_node_payment where
  "demo_payment = SingleNodePayment (Arr (map (info_at demo_quote_api demo_quotes) [0..<7]))"

text \<open>The same quotes in another order, which puts another of the tied quotes in the middle.\<close>

definition demo_shuffled :: "(u8 \<times> amount) list" where
  "demo_shuffled = [(7, 50), (4, 30), (5, 30), (3, 30), (1, 10), (2, 20), (6, 40)]"

lemma demo_from_quotes: "from_quotes demo_quote_api demo_quotes = Ok demo_payment"
  by (simp add: from_quotes_cases demo_sorted demo_payment_def) (simp add: demo_quotes_def)

lemma demo_shuffled_mset: "mset demo_quotes = mset demo_shuffled"
  by (simp add: demo_quotes_def demo_shuffled_def)

lemma demo_entries:
  "elems (payment_quotes demo_payment) = map (info_at demo_quote_api demo_quotes) [0..<7]"
  by (simp add: demo_payment_def)

lemma demo_total: "total_amount demo_payment = 90"
  using total_amount_built [OF demo_entries] by (simp add: demo_quotes_def)

lemma demo_verify: "verify_payment (\<lambda>i h. Ok 90) demo_payment = Ok 90"
  by (simp add: verify_payment_cases Let_def demo_entries)
    (simp add: demo_quotes_def amount_from_def upt_rec)

section \<open>The median\<close>

lemma length_filter_mset: "mset s = mset qs \<Longrightarrow> length (filter P s) = length (filter P qs)"
  by (metis mset_filter size_mset)

lemma filter_at_least:
  assumes "s = xs @ ys @ zs" "\<forall>y \<in> set ys. P y"
  shows "length ys \<le> length (filter P s)"
  using assms by simp

lemma median_splits:
  assumes "length s = 7" "sorted (map snd s)"
  shows "4 \<le> length (filter (\<lambda>x. snd x \<le> (snd (s ! 3) :: amount)) s)"
    and "4 \<le> length (filter (\<lambda>x. snd (s ! 3) \<le> snd x) s)"
proof -
  have le: "snd (s ! i) \<le> snd (s ! j)" if "i \<le> j" "j < 7" for i j
    using sorted_nth_mono [OF assms(2), of i j] that assms(1) by simp
  have "\<forall>y \<in> set (take 4 s). snd y \<le> snd (s ! 3)"
  proof
    fix y
    assume "y \<in> set (take 4 s)"
    then obtain i where "i < length (take 4 s)" "y = take 4 s ! i" by (metis in_set_conv_nth)
    then show "snd y \<le> snd (s ! 3)" using le [of i 3] by (simp add: assms(1))
  qed
  from filter_at_least [of s "[]" "take 4 s" "drop 4 s", OF _ this]
  show "4 \<le> length (filter (\<lambda>x. snd x \<le> snd (s ! 3)) s)" by (simp add: assms(1))
  have "\<forall>y \<in> set (drop 3 s). snd (s ! 3) \<le> snd y"
  proof
    fix y
    assume "y \<in> set (drop 3 s)"
    then obtain i where "i < length (drop 3 s)" "y = drop 3 s ! i" by (metis in_set_conv_nth)
    then show "snd (s ! 3) \<le> snd y" using le [of 3 "3 + i"] by (simp add: assms(1))
  qed
  from filter_at_least [of s "take 3 s" "drop 3 s" "[]", OF _ this]
  show "4 \<le> length (filter (\<lambda>x. snd (s ! 3) \<le> snd x) s)" by (simp add: assms(1))
qed

lemma built_entries:
  assumes "elems (payment_quotes p) = map (info_at Q s) [0..<7]" "length s = 7"
  shows "image_mset (\<lambda>i. (qpi_quote_hash i, qpi_rewards_address i, qpi_price i))
      (mset (elems (payment_quotes p))) =
      image_mset (\<lambda>(q, price). (hash_of Q q, rewards_of Q q, price)) (mset s)"
proof -
  have "map (\<lambda>i. (qpi_quote_hash i, qpi_rewards_address i, qpi_price i)) (elems (payment_quotes p)) =
      map (\<lambda>(q, price). (hash_of Q q, rewards_of Q q, price)) s"
    unfolding assms(1) by (rule nth_equalityI) (simp_all only: length_map length_upt assms(2)
      nth_map case_prod_unfold, simp_all)
  from arg_cong [OF this, of mset] show ?thesis by (simp only: mset_map)
qed

lemma upt_seven: "[0..<7] = [0, 1, 2, 3, 4, 5, 6]"
  by (simp add: eval_nat_numeral)

text \<open>Of a built payment only the median entry has a positive amount, so one hash is collected.\<close>

lemma collect_median_hash:
  "collect_hashes show_hash hashes (map (info_at Q s) [0..<7]) [] =
     (if snd (s ! 3) * 3 = 0 then Ok []
      else case hashes (hash_of Q (fst (s ! 3))) of
        None \<Rightarrow> Err (Payment (ustr ''Missing transaction hash for non-zero quote '' @
          show_hash (hash_of Q (fst (s ! 3)))))
      | Some h \<Rightarrow> Ok [h])"
  unfolding upt_seven by (simp add: word_neq_0_conv [symmetric] split: option.splits)

text \<open>With lookups that answer by hash, verification searches the tied entries for a sufficient amount.\<close>

lemma check_tied_by_hash:
  "(\<exists>a. check_tied (\<lambda>i h. Ok (paid h)) e i qs = Ok (Some a)) \<longleftrightarrow>
     (\<exists>q \<in> set qs. e \<le> amount_from (paid (qpi_quote_hash q)))"
  by (induction qs arbitrary: i) (auto simp: Let_def)

lemma verify_by_hash:
  assumes "from_quotes Q qs = Ok p"
  shows "is_ok (verify_payment (\<lambda>i h. Ok (paid h)) p) \<longleftrightarrow>
    0 < sort (map snd qs) ! 3 \<and> (\<exists>q. (q, sort (map snd qs) ! 3) \<in> set qs \<and>
      3 * unat (sort (map snd qs) ! 3) \<le> unat (paid (hash_of Q q)))"
proof -
  obtain s where s: "s = sort_key snd qs" "length s = 7" "mset s = mset qs"
    "unat (snd (s ! 3)) * 3 < 2 ^ 256" "elems (payment_quotes p) = map (info_at Q s) [0..<7]"
    using from_quotesE [OF assms] by metis
  define m where "m = snd (s ! 3)"
  have m: "sort (map snd qs) ! 3 = m"
    using s(1,2) by (simp add: m_def map_snd_sort_key [symmetric])
  have times: "unat (m * 3) = 3 * unat m"
    using unat_times_3 [OF s(4)] by (simp add: m_def)
  have entry: "(\<exists>e \<in> set (map (info_at Q s) [0..<7]). qpi_price e = m \<and> P (qpi_quote_hash e)) \<longleftrightarrow>
      (\<exists>q. (q, m) \<in> set qs \<and> P (hash_of Q q))" for P
  proof -
    have "set s = (!) s ` {0..<7}" using s(2) by (simp add: nth_image)
    then have idx: "(\<exists>x \<in> set s. F x) \<longleftrightarrow> (\<exists>i \<in> {0..<7}. F (s ! i))" for F by simp
    have "(\<exists>e \<in> set (map (info_at Q s) [0..<7]). qpi_price e = m \<and> P (qpi_quote_hash e)) \<longleftrightarrow>
        (\<exists>x \<in> set s. snd x = m \<and> P (hash_of Q (fst x)))"
      unfolding idx set_map bex_simps(7) set_upt info_at_sel ..
    also have "\<dots> \<longleftrightarrow> (\<exists>q. (q, m) \<in> set qs \<and> P (hash_of Q q))"
      unfolding mset_eq_setD [OF s(3)] by (metis fst_conv snd_conv prod.collapse)
    finally show ?thesis .
  qed
  have "is_ok (verify_payment (\<lambda>i h. Ok (paid h)) p) \<longleftrightarrow> m * 3 \<noteq> 0 \<and> m \<noteq> 0 \<and>
      (\<exists>e \<in> set (map (info_at Q s) [0..<7]). qpi_price e = m \<and> m * 3 \<le> amount_from (paid (qpi_quote_hash e)))"
    using check_tied_by_hash [of paid "m * 3" 0 "filter (\<lambda>q. qpi_price q = m) (elems (payment_quotes p))"]
    by (simp add: is_ok_iff verify_payment_Ok Let_def s(5) m_def)
  moreover have "m * 3 \<noteq> 0 \<longleftrightarrow> m \<noteq> 0" using times by (metis mult_is_0 unat_eq_zero zero_neq_numeral)
  ultimately show ?thesis
    unfolding m entry [of "\<lambda>h. m * 3 \<le> amount_from (paid h)"]
    by (simp add: word_le_nat_alt unat_amount_from times word_neq_0_conv)
qed

text \<open>What a verified payment shows of the chain.\<close>

lemma verified_paid:
  assumes "from_quotes Q qs = Ok p" "verify_payment L p = Ok a"
  shows "\<exists>i q r. (q, sort (map snd qs) ! 3) \<in> set qs \<and> L i (hash_of Q q) = Ok r \<and>
    unat a = unat r \<and> 3 * unat (sort (map snd qs) ! 3) \<le> unat a \<and> 0 < sort (map snd qs) ! 3"
proof -
  obtain s where s: "s = sort_key snd qs" "length s = 7" "mset s = mset qs"
    "unat (snd (s ! 3)) * 3 < 2 ^ 256" "elems (payment_quotes p) = map (info_at Q s) [0..<7]"
    using from_quotesE [OF assms(1)] by metis
  have m: "sort (map snd qs) ! 3 = snd (s ! 3)"
    using s(1,2) by (simp add: map_snd_sort_key [symmetric])
  have "snd (s ! 3) \<noteq> 0" and tied: "check_tied L (snd (s ! 3) * 3) 0
      (filter (\<lambda>q. qpi_price q = snd (s ! 3)) (elems (payment_quotes p))) = Ok (Some a)"
    using assms(2) by (simp_all add: verify_payment_Ok Let_def s(5))
  obtain j c r where c: "c \<in> set (elems (payment_quotes p))" "qpi_price c = snd (s ! 3)"
    "L j (qpi_quote_hash c) = Ok r" "a = amount_from r" "snd (s ! 3) * 3 \<le> a"
    using check_tied_sound [OF tied] by auto
  obtain k where k: "k < 7" "c = info_at Q s k" using c(1) s(5) by auto
  have "(fst (s ! k), snd (s ! 3)) = s ! k" using c(2) k(2) by (simp add: prod_eq_iff)
  also have "s ! k \<in> set qs" using k(1) s(2,3) by (metis mset_eq_setD nth_mem)
  finally have "(fst (s ! k), snd (s ! 3)) \<in> set qs" .
  moreover have "unat a = unat r" using c(4) by (simp add: unat_amount_from)
  moreover have "3 * unat (snd (s ! 3)) \<le> unat a"
    using c(5) unat_times_3 [OF s(4)] by (simp add: word_le_nat_alt)
  ultimately show ?thesis
    unfolding m using c(3) k(2) \<open>snd (s ! 3) \<noteq> 0\<close> by (auto simp: word_neq_0_conv)
qed

section \<open>Properties\<close>

text \<open>
  C18: What a built payment contains: the seven quotes given, none lost, repeated or altered, in
  ascending order of price; only the entry at the median index is paid, three times its price
  without wrap-around, and that is the total and what \<open>paid_quote\<close> returns; at least four
  of the prices offered are no larger than the median price and at least four no smaller.
\<close>

theorem built_payment:
  assumes "from_quotes Q qs = Ok p"
  shows "image_mset (\<lambda>i. (qpi_quote_hash i, qpi_rewards_address i, qpi_price i))
      (mset (elems (payment_quotes p))) =
      image_mset (\<lambda>(q, price). (hash_of Q q, rewards_of Q q, price)) (mset qs) \<and>
    sorted (map qpi_price (elems (payment_quotes p))) \<and>
    (\<exists>median. paid_quote p = Some median \<and> unat (qpi_amount median) = 3 * unat (qpi_price median) \<and>
       total_amount p = qpi_amount median \<and>
       (\<forall>i < 7. qpi_amount (elems (payment_quotes p) ! i) = (if i = 3 then qpi_amount median else 0)) \<and>
       4 \<le> length (filter (\<lambda>(q, price). price \<le> qpi_price median) qs) \<and>
       4 \<le> length (filter (\<lambda>(q, price). qpi_price median \<le> price) qs))"
proof -
  obtain s where s: "length s = 7" "mset s = mset qs" "sorted (map snd s)"
    "unat (snd (s ! 3)) * 3 < 2 ^ 256" "elems (payment_quotes p) = map (info_at Q s) [0..<7]"
    using from_quotesE [OF assms] by metis
  have "map qpi_price (elems (payment_quotes p)) = map snd s"
    by (rule nth_equalityI) (simp_all add: s)
  moreover have "paid_quote p = Some (info_at Q s 3)"
    by (simp add: paid_quote_def slice_get_def s(5))
  moreover have "4 \<le> length (filter (\<lambda>(q, price). price \<le> snd (s ! 3)) qs)"
    "4 \<le> length (filter (\<lambda>(q, price). snd (s ! 3) \<le> price) qs)"
    using median_splits [OF s(1,3)] by (simp_all add: case_prod_unfold length_filter_mset [OF s(2)])
  ultimately show ?thesis
    using built_entries [OF s(5,1)] unat_times_3 [OF s(4)] total_amount_built [OF s(5)] s
    by simp
qed

lemma built_payment_witness:
  "\<exists>median. paid_quote demo_payment = Some median \<and> unat (qpi_amount median) = 3 * unat (qpi_price median) \<and>
     total_amount demo_payment = qpi_amount median \<and> total_amount demo_payment = 90"
  using built_payment [OF demo_from_quotes] demo_total by blast

text \<open>
  C35: When building fails: exactly on a number of quotes other than seven, reported with the number
  given, or when three times the median of the prices does not fit 256 bits; in every other case
  it succeeds.
\<close>

theorem building_fails_exactly:
  "(from_quotes Q qs =
      Err (Payment (ustr (''SingleNode payment requires exactly 7 quotes, got '' @ show_nat (length qs))))
      \<longleftrightarrow> length qs \<noteq> 7) \<and>
   (from_quotes Q qs = Err (Payment (ustr ''Price overflow when calculating 3x median'')) \<longleftrightarrow>
      length qs = 7 \<and> 2 ^ 256 \<le> 3 * unat (sort (map snd qs) ! 3)) \<and>
   (is_ok (from_quotes Q qs) \<longleftrightarrow> length qs = 7 \<and> 3 * unat (sort (map snd qs) ! 3) < 2 ^ 256)"
proof (cases "length qs = 7")
  case True
  then have "snd (sort_key snd qs ! 3) = sort (map snd qs) ! 3"
    by (simp add: map_snd_sort_key [symmetric])
  then show ?thesis using True by (simp add: from_quotes_cases mult.commute not_le)
qed (simp add: from_quotes_cases)

text \<open>
  C20: A verified payment was paid, on whatever chain and even if it moves between lookups: when
  \<open>verify\<close> returns an amount, the lookup of one of the quotes given at the median price reported
  exactly that amount, it is at least three times the median price, and the median price is not zero,
  so no store is free.
\<close>

theorem verified_means_paid:
  assumes "from_quotes Q qs = Ok p" "verify_payment L p = Ok a"
  shows "\<exists>i q r. (q, sort (map snd qs) ! 3) \<in> set qs \<and> L i (hash_of Q q) = Ok r \<and>
    unat a = unat r \<and> 3 * unat (sort (map snd qs) ! 3) \<le> unat a \<and> 0 < sort (map snd qs) ! 3"
  by (rule verified_paid [OF assms])

lemma verified_means_paid_witness:
  "verify_payment (\<lambda>i h. Ok 90) demo_payment = Ok 90 \<and>
   (\<exists>q. (q, 30) \<in> set demo_quotes) \<and> 3 * unat (30 :: amount) \<le> unat (90 :: amount)"
proof -
  have m: "sort (map snd demo_quotes) ! 3 = 30" by (simp add: demo_quotes_def)
  show ?thesis
    using verified_means_paid [OF demo_from_quotes demo_verify, unfolded m] demo_verify by blast
qed

text \<open>
  C10: Verification is the same for every holder of the quotes: when a payment was built from some quotes,
  any party that has them in any order builds one too, and with lookups that answer by quote hash its
  \<open>verify\<close> succeeds exactly when the median price is not zero and some quote at the median price, not
  only the one that happens to sit in the middle, is recorded with at least three times that price.
\<close>

theorem verified_iff_paid:
  assumes "from_quotes Q qs = Ok p" "mset qs' = mset qs"
  shows "\<exists>p'. from_quotes Q qs' = Ok p' \<and>
    (is_ok (verify_payment (\<lambda>i h. Ok (paid h)) p') \<longleftrightarrow>
       0 < sort (map snd qs) ! 3 \<and> (\<exists>q. (q, sort (map snd qs) ! 3) \<in> set qs \<and>
         3 * unat (sort (map snd qs) ! 3) \<le> unat (paid (hash_of Q q))))"
proof -
  obtain p' where p': "from_quotes Q qs' = Ok p'"
    using from_quotes_reordered [OF assms(1) assms(2) [symmetric]] ..
  have "sort (map snd qs') = sort (map snd qs)"
    using price_multiset [OF assms(2)] by (simp add: map_snd_sort_key)
  then show ?thesis
    using p' verify_by_hash [OF p', of paid] mset_eq_setD [OF assms(2)] by simp
qed

text \<open>The witness: the quote paid for is tied with the median but in the middle of no one's list.\<close>

lemma verified_iff_paid_witness:
  "\<exists>p'. from_quotes demo_quote_api demo_shuffled = Ok p' \<and>
     is_ok (verify_payment (\<lambda>i h. Ok (if h = arr_repeat 3 then 90 else 0)) p')"
proof -
  have m: "sort (map snd demo_quotes) ! 3 = 30" by (simp add: demo_quotes_def)
  have "(3, 30) \<in> set demo_quotes" by (simp add: demo_quotes_def)
  moreover have "hash_of demo_quote_api 3 = arr_repeat 3" by (simp add: demo_quote_api_def)
  ultimately show ?thesis
    using verified_iff_paid [OF demo_from_quotes demo_shuffled_mset [symmetric],
      of "\<lambda>h. if h = arr_repeat 3 then 90 else 0", unfolded m] by force
qed

text \<open>
  C19: What paying returns: the wallet is called once, with the seven entries of the payment in order, its
  error is passed on, and of the hashes it reports exactly the one of the median quote is returned,
  whose absence is an error; nothing is returned for a free payment.
\<close>

theorem pay_returns_median_hash:
  assumes "from_quotes Q qs = Ok p"
  shows "\<exists>median. paid_quote p = Some median \<and>
    pay show_hash pay_for_quotes p chain =
      (case pay_for_quotes (map (\<lambda>e. (qpi_quote_hash e, qpi_rewards_address e, qpi_amount e))
              (elems (payment_quotes p))) chain of
         (Err e, chain') \<Rightarrow> (Err (Payment (ustr ''Failed to pay for quotes: '' @ e)), chain')
       | (Ok hashes, chain') \<Rightarrow>
           (if qpi_price median = 0 then Ok []
            else case hashes (qpi_quote_hash median) of
              None \<Rightarrow> Err (Payment (ustr ''Missing transaction hash for non-zero quote '' @
                show_hash (qpi_quote_hash median)))
            | Some h \<Rightarrow> Ok [h], chain'))"
proof -
  obtain s where s: "unat (snd (s ! 3)) * 3 < 2 ^ 256" "elems (payment_quotes p) = map (info_at Q s) [0..<7]"
    using from_quotesE [OF assms] by metis
  have "snd (s ! 3) * 3 = 0 \<longleftrightarrow> snd (s ! 3) = 0"
    using unat_times_3 [OF s(1)] by (metis mult_is_0 unat_eq_zero zero_neq_numeral)
  then have "pay show_hash pay_for_quotes p chain =
      (case pay_for_quotes (map (\<lambda>e. (qpi_quote_hash e, qpi_rewards_address e, qpi_amount e))
              (elems (payment_quotes p))) chain of
         (Err e, chain') \<Rightarrow> (Err (Payment (ustr ''Failed to pay for quotes: '' @ e)), chain')
       | (Ok hashes, chain') \<Rightarrow>
           (if qpi_price (info_at Q s 3) = 0 then Ok []
            else case hashes (qpi_quote_hash (info_at Q s 3)) of
              None \<Rightarrow> Err (Payment (ustr ''Missing transaction hash for non-zero quote '' @
                show_hash (qpi_quote_hash (info_at Q s 3))))
            | Some h \<Rightarrow> Ok [h], chain'))"
    unfolding pay_def Let_def s(2) collect_median_hash by (simp split: prod.splits result.splits option.splits)
  moreover have "paid_quote p = Some (info_at Q s 3)"
    by (simp add: paid_quote_def slice_get_def s(2))
  ultimately show ?thesis by blast
qed

lemma pay_returns_median_hash_witness:
  "pay (\<lambda>h. []) (\<lambda>ps n. (Ok (map_of (map (\<lambda>(h, a, amt). (h, h)) ps)), Suc n)) demo_payment 0 =
     (Ok [arr_repeat 4], 1)"
proof -
  have "paid_quote demo_payment = Some (info_at demo_quote_api demo_quotes 3)"
    by (simp add: paid_quote_def slice_get_def demo_entries)
  moreover have "qpi_price (info_at demo_quote_api demo_quotes 3) = 30"
    "qpi_quote_hash (info_at demo_quote_api demo_quotes 3) = arr_repeat 4"
    by (simp_all add: demo_quotes_def demo_quote_api_def)
  moreover have "map_of (map (\<lambda>(h, a, amt). (h, h)) (map (\<lambda>e. (qpi_quote_hash e, qpi_rewards_address e, qpi_amount e))
      (elems (payment_quotes demo_payment)))) (arr_repeat 4) = Some (arr_repeat 4)"
    by (simp add: demo_entries upt_rec demo_quotes_def demo_quote_api_def)
  ultimately show ?thesis
    using pay_returns_median_hash [OF demo_from_quotes, of "\<lambda>h. []"
      "\<lambda>ps n. (Ok (map_of (map (\<lambda>(h, a, amt). (h, h)) ps)), Suc n)" "0 :: nat"] by force
qed

end
