(* ===== verification/Serde.thy ===== *)
theory Serde
  imports Data_Types Rust_String
begin

text \<open>
  The serialization framework the wire types derive into: serde's data model as values and types,
  and the postcard format as a parameter with the laws its wire specification documents. A type of
  the crate is a schema, a serializer and a deserializer for the data model; the locale
  \<open>wire_type\<close> states what such a triple owes and is interpreted on every message type.
\<close>

section \<open>The data model\<close>

datatype sval =
    V_Bool bool
  | V_U8 u8
  | V_U32 u32
  | V_U64 u64
  | V_Str ustring
  | V_Bytes bytes
  | V_None
  | V_Some sval
  | V_Seq "sval list"
  | V_Tuple "sval list"
  | V_Variant nat sval

datatype sty =
    T_Bool
  | T_U8
  | T_U32
  | T_U64
  | T_Str
  | T_Bytes
  | T_Option sty
  | T_Seq sty
  | T_Tuple "sty list"
  | T_Enum "sty list"

text \<open>Structs, arrays and the payloads of struct variants are tuples; a variant carries its index
  in declaration order, which serde holds in 32 bits.\<close>

fun variant_of_type :: "(sval \<Rightarrow> bool) list \<Rightarrow> nat \<Rightarrow> sval \<Rightarrow> bool" where
  "variant_of_type [] k w = False"
| "variant_of_type (p # ps) 0 w = p w"
| "variant_of_type (p # ps) (Suc k) w = variant_of_type ps k w"

primrec of_type :: "sty \<Rightarrow> sval \<Rightarrow> bool" where
  "of_type T_Bool = (\<lambda>v. \<exists>b. v = V_Bool b)"
| "of_type T_U8 = (\<lambda>v. \<exists>w. v = V_U8 w)"
| "of_type T_U32 = (\<lambda>v. \<exists>w. v = V_U32 w)"
| "of_type T_U64 = (\<lambda>v. \<exists>w. v = V_U64 w)"
| "of_type T_Str = (\<lambda>v. \<exists>s. v = V_Str s)"
| "of_type T_Bytes = (\<lambda>v. \<exists>bs. v = V_Bytes bs)"
| "of_type (T_Option t) = (\<lambda>v. v = V_None \<or> (\<exists>w. v = V_Some w \<and> of_type t w))"
| "of_type (T_Seq t) = (\<lambda>v. \<exists>vs. v = V_Seq vs \<and> list_all (of_type t) vs)"
| "of_type (T_Tuple ts) = (\<lambda>v. \<exists>vs. v = V_Tuple vs \<and> list_all2 (\<lambda>p w. p w) (map of_type ts) vs)"
| "of_type (T_Enum ts) = (\<lambda>v. \<exists>k w. v = V_Variant k w \<and> k < 2 ^ 32 \<and> variant_of_type (map of_type ts) k w)"

lemma variant_of_type_Cons:
  "variant_of_type (p # ps) k w \<longleftrightarrow> k = 0 \<and> p w \<or> (\<exists>j. k = Suc j \<and> variant_of_type ps j w)"
  by (cases k) simp_all

lemma variant_of_type_iff: "variant_of_type ps k w \<longleftrightarrow> k < length ps \<and> (ps ! k) w"
  by (induction ps k w rule: variant_of_type.induct) auto

lemma of_type_variant: "of_type (T_Enum ts) (V_Variant k w) \<longleftrightarrow> k < 2 ^ 32 \<and> k < length ts \<and> of_type (ts ! k) w"
  by (auto simp: variant_of_type_iff)

lemmas schema_simps = variant_of_type_Cons list_all2_Cons1

section \<open>The postcard parameter\<close>

text \<open>\<open>take_from_bytes\<close> decodes a value of a type from the front of the input and returns the
  rest; \<^verbatim>\<open>postcard::from_bytes\<close> drops the rest.\<close>

record postcard =
  to_stdvec :: "sval \<Rightarrow> (bytes, ustring) result"
  take_from_bytes :: "sty \<Rightarrow> bytes \<Rightarrow> (sval \<times> bytes, ustring) result"

definition postcard_from_bytes :: "postcard \<Rightarrow> sty \<Rightarrow> bytes \<Rightarrow> (sval, ustring) result" where
  "postcard_from_bytes P T bs = result_map fst (take_from_bytes P T bs)"

text \<open>
  The documented format, in three parts. A value of a type encodes, its encoding is self-delimiting
  and decodes back, and decoding gives values of the type only.
\<close>

definition postcard_round_trips :: "postcard \<Rightarrow> bool" where
  "postcard_round_trips P \<longleftrightarrow>
     (\<forall>T v. of_type T v \<longrightarrow>
        (\<exists>bs. to_stdvec P v = Ok bs \<and> (\<forall>rest. take_from_bytes P T (bs @ rest) = Ok (v, rest)))) \<and>
     (\<forall>T bs v rest. take_from_bytes P T bs = Ok (v, rest) \<longrightarrow> of_type T v)"

text \<open>
  A tuple is the concatenation of its components and decodes one after the other; an enum is its
  variant index as a varint \<^verbatim>\<open>u32\<close> followed by the payload, and an index without a variant does not
  decode; an integer below 128 is the one byte it fits in.
\<close>

definition postcard_layout :: "postcard \<Rightarrow> bool" where
  "postcard_layout P \<longleftrightarrow>
     to_stdvec P (V_Tuple []) = Ok [] \<and>
     (\<forall>v vs. to_stdvec P (V_Tuple (v # vs)) =
        and_then (to_stdvec P v) (\<lambda>b. result_map ((@) b) (to_stdvec P (V_Tuple vs)))) \<and>
     (\<forall>t ts bs. is_ok (take_from_bytes P (T_Tuple (t # ts)) bs) \<longleftrightarrow>
        (\<exists>v rest. take_from_bytes P t bs = Ok (v, rest) \<and> is_ok (take_from_bytes P (T_Tuple ts) rest))) \<and>
     (\<forall>k v. to_stdvec P (V_Variant k v) =
        and_then (to_stdvec P (V_U32 (word_of_nat k))) (\<lambda>b. result_map ((@) b) (to_stdvec P v))) \<and>
     (\<forall>ts bs k rest. take_from_bytes P T_U32 bs = Ok (V_U32 k, rest) \<longrightarrow> length ts \<le> unat k \<longrightarrow>
        \<not> is_ok (take_from_bytes P (T_Enum ts) bs)) \<and>
     (\<forall>n. unat n < 128 \<longrightarrow> to_stdvec P (V_U64 n) = Ok [word_of_nat (unat n)]) \<and>
     (\<forall>n. unat n < 128 \<longrightarrow> to_stdvec P (V_U32 n) = Ok [word_of_nat (unat n)])"

text \<open>
  Sizes: a \<^verbatim>\<open>u8\<close> and a \<^verbatim>\<open>bool\<close> are one byte, an option's tag is one byte, varints of the 32- and
  64-bit integers take at most five and ten bytes, and strings in UTF-8, byte strings and sequences of
  bytes are led by a varint length.
\<close>

definition postcard_sizes :: "postcard \<Rightarrow> bool" where
  "postcard_sizes P \<longleftrightarrow>
     (\<forall>b bs. to_stdvec P (V_U8 b) = Ok bs \<longrightarrow> length bs = 1) \<and>
     (\<forall>bs. to_stdvec P V_None = Ok bs \<longrightarrow> length bs = 1) \<and>
     (\<forall>v bs. to_stdvec P (V_Some v) = Ok bs \<longrightarrow>
        (\<exists>cs. to_stdvec P v = Ok cs \<and> length bs = 1 + length cs)) \<and>
     (\<forall>n bs. to_stdvec P (V_U32 n) = Ok bs \<longrightarrow> length bs \<le> 5) \<and>
     (\<forall>n bs. to_stdvec P (V_U64 n) = Ok bs \<longrightarrow> length bs \<le> 10) \<and>
     (\<forall>b bs. length b < 2 ^ 64 \<longrightarrow> to_stdvec P (V_Bytes b) = Ok bs \<longrightarrow> length bs \<le> 10 + length b) \<and>
     (\<forall>b bs. length b < 2 ^ 64 \<longrightarrow> to_stdvec P (V_Seq (map V_U8 b)) = Ok bs \<longrightarrow>
        length bs \<le> 10 + length b) \<and>
     (\<forall>b bs. to_stdvec P (V_Bool b) = Ok bs \<longrightarrow> length bs = 1) \<and>
     (\<forall>s bs. 4 * length s < 2 ^ 64 \<longrightarrow> to_stdvec P (V_Str s) = Ok bs \<longrightarrow> length bs \<le> 10 + 4 * length s)"

lemma postcard_encodes:
  assumes "postcard_round_trips P" "of_type T v"
  obtains bs where "to_stdvec P v = Ok bs" "\<And>rest. take_from_bytes P T (bs @ rest) = Ok (v, rest)"
  using assms unfolding postcard_round_trips_def by blast

lemma postcard_typed: "postcard_round_trips P \<Longrightarrow> take_from_bytes P T bs = Ok (v, rest) \<Longrightarrow> of_type T v"
  unfolding postcard_round_trips_def by blast

lemma postcard_layoutD:
  assumes "postcard_layout P"
  shows "to_stdvec P (V_Tuple []) = Ok []"
    and "to_stdvec P (V_Tuple (v # vs)) =
      and_then (to_stdvec P v) (\<lambda>b. result_map ((@) b) (to_stdvec P (V_Tuple vs)))"
    and "is_ok (take_from_bytes P (T_Tuple (t # ts)) bs) \<longleftrightarrow>
      (\<exists>v rest. take_from_bytes P t bs = Ok (v, rest) \<and> is_ok (take_from_bytes P (T_Tuple ts) rest))"
    and "to_stdvec P (V_Variant k v) =
      and_then (to_stdvec P (V_U32 (word_of_nat k))) (\<lambda>b. result_map ((@) b) (to_stdvec P v))"
    and "take_from_bytes P T_U32 bs = Ok (V_U32 i, rest) \<Longrightarrow> length ts \<le> unat i \<Longrightarrow>
      \<not> is_ok (take_from_bytes P (T_Enum ts) bs)"
    and "unat m < 128 \<Longrightarrow> to_stdvec P (V_U64 m) = Ok [word_of_nat (unat m)]"
    and "unat n < 128 \<Longrightarrow> to_stdvec P (V_U32 n) = Ok [word_of_nat (unat n)]"
  using assms unfolding postcard_layout_def by blast+

section \<open>The interface: a type with a derived serializer\<close>

text \<open>
  \<open>ser\<close> and \<open>de\<close> are what the derive macros generate for a type of schema \<open>ty\<close>: serializing gives
  a value of the schema, deserializing inverts it, and every value of the schema is a value of the
  type.
\<close>

locale wire_type =
  fixes ty :: sty
    and ser :: "'a \<Rightarrow> sval"
    and de :: "sval \<Rightarrow> 'a option"
  assumes ser_typed: "of_type ty (ser x)"
    and de_ser: "de (ser x) = Some x"
    and de_total: "of_type ty v \<Longrightarrow> \<exists>x. de v = Some x \<and> ser x = v"
begin

lemma onto: "of_type ty v \<Longrightarrow> \<exists>x. v = ser x"
  using de_total by blast

lemma of_type_iff: "of_type ty v \<longleftrightarrow> (\<exists>x. v = ser x)"
  using onto ser_typed by blast

lemma ser_inject: "ser x = ser y \<longleftrightarrow> x = y"
  using de_ser by (metis option.inject)

lemma encodes:
  assumes "postcard_round_trips P"
  obtains bs where "to_stdvec P (ser x) = Ok bs"
    "\<And>rest. take_from_bytes P ty (bs @ rest) = Ok (ser x, rest)"
  using postcard_encodes [OF assms ser_typed [of x]] by blast

lemma encoding_inject:
  assumes "postcard_round_trips P" "to_stdvec P (ser x) = Ok bs" "to_stdvec P (ser y) = Ok bs"
  shows "x = y"
proof -
  have "take_from_bytes P ty (bs @ []) = Ok (ser z, [])" if "to_stdvec P (ser z) = Ok bs" for z
    using encodes [OF assms(1), of z] that by (metis result.inject(1))
  then show ?thesis using assms(2,3) ser_inject by (metis Pair_inject result.inject(1))
qed

lemma decodes:
  assumes "postcard_round_trips P" "postcard_from_bytes P ty bs = Ok v"
  shows "\<exists>x. de v = Some x \<and> ser x = v"
  using assms de_total postcard_typed
  by (fastforce simp: postcard_from_bytes_def result_simps)

end

end
