(* ===== verification/Wire_Types.thy ===== *)
theory Wire_Types
  imports Serde Chunk_Types
begin

text \<open>
  The schemas, serializers and deserializers that \<^verbatim>\<open>#[derive(Serialize, Deserialize)]\<close> gives
  the types of \<^verbatim>\<open>src/chunk.rs\<close>: fields in order, variants by their declaration index. Each triple is
  an interpretation of the locale \<open>wire_type\<close>.
\<close>

section \<open>Building blocks\<close>

definition de_struct1 :: "(sval \<Rightarrow> 'a option) \<Rightarrow> ('a \<Rightarrow> 'r) \<Rightarrow> sval \<Rightarrow> 'r option" where
  "de_struct1 da f v = (case v of V_Tuple [a] \<Rightarrow> map_option f (da a) | _ \<Rightarrow> None)"

definition de_struct2 ::
  "(sval \<Rightarrow> 'a option) \<Rightarrow> (sval \<Rightarrow> 'b option) \<Rightarrow> ('a \<Rightarrow> 'b \<Rightarrow> 'r) \<Rightarrow> sval \<Rightarrow> 'r option" where
  "de_struct2 da db f v =
     (case v of V_Tuple (a # w) \<Rightarrow>
        Option.bind (da a) (\<lambda>x. de_struct1 db (f x) (V_Tuple w))
      | _ \<Rightarrow> None)"

definition de_struct3 ::
  "(sval \<Rightarrow> 'a option) \<Rightarrow> (sval \<Rightarrow> 'b option) \<Rightarrow> (sval \<Rightarrow> 'c option) \<Rightarrow> ('a \<Rightarrow> 'b \<Rightarrow> 'c \<Rightarrow> 'r) \<Rightarrow>
     sval \<Rightarrow> 'r option" where
  "de_struct3 da db dc f v =
     (case v of V_Tuple (a # w) \<Rightarrow>
        Option.bind (da a) (\<lambda>x. de_struct2 db dc (f x) (V_Tuple w))
      | _ \<Rightarrow> None)"

definition de_struct4 ::
  "(sval \<Rightarrow> 'a option) \<Rightarrow> (sval \<Rightarrow> 'b option) \<Rightarrow> (sval \<Rightarrow> 'c option) \<Rightarrow> (sval \<Rightarrow> 'd option) \<Rightarrow>
     ('a \<Rightarrow> 'b \<Rightarrow> 'c \<Rightarrow> 'd \<Rightarrow> 'r) \<Rightarrow> sval \<Rightarrow> 'r option" where
  "de_struct4 da db dc dd f v =
     (case v of V_Tuple (a # w) \<Rightarrow>
        Option.bind (da a) (\<lambda>x. de_struct3 db dc dd (f x) (V_Tuple w))
      | _ \<Rightarrow> None)"

definition de_struct5 ::
  "(sval \<Rightarrow> 'a option) \<Rightarrow> (sval \<Rightarrow> 'b option) \<Rightarrow> (sval \<Rightarrow> 'c option) \<Rightarrow> (sval \<Rightarrow> 'd option) \<Rightarrow>
     (sval \<Rightarrow> 'e option) \<Rightarrow> ('a \<Rightarrow> 'b \<Rightarrow> 'c \<Rightarrow> 'd \<Rightarrow> 'e \<Rightarrow> 'r) \<Rightarrow> sval \<Rightarrow> 'r option" where
  "de_struct5 da db dc dd de f v =
     (case v of V_Tuple (a # w) \<Rightarrow>
        Option.bind (da a) (\<lambda>x. de_struct4 db dc dd de (f x) (V_Tuple w))
      | _ \<Rightarrow> None)"

definition de_enum :: "(sval \<Rightarrow> 'r option) list \<Rightarrow> sval \<Rightarrow> 'r option" where
  "de_enum ds v = (case v of V_Variant k w \<Rightarrow> if k < length ds then (ds ! k) w else None | _ \<Rightarrow> None)"

named_theorems wire_defs "the definitions behind schemas, serializers and deserializers"
named_theorems wire_facts "values serialize into their schema and deserialize back"
named_theorems wire_onto "values of a schema are serialized values"

lemma de_struct_simps [wire_defs]:
  "de_struct1 da f (V_Tuple [a]) = map_option f (da a)"
  "de_struct2 da db g (V_Tuple (a # w)) = Option.bind (da a) (\<lambda>x. de_struct1 db (g x) (V_Tuple w))"
  "de_struct3 da db dc h (V_Tuple (a # w)) = Option.bind (da a) (\<lambda>x. de_struct2 db dc (h x) (V_Tuple w))"
  "de_struct4 da db dc dd i (V_Tuple (a # w)) =
     Option.bind (da a) (\<lambda>x. de_struct3 db dc dd (i x) (V_Tuple w))"
  "de_struct5 da db dc dd dx j (V_Tuple (a # w)) =
     Option.bind (da a) (\<lambda>x. de_struct4 db dc dd dx (j x) (V_Tuple w))"
  by (simp_all add: de_struct1_def de_struct2_def de_struct3_def de_struct4_def de_struct5_def)

lemma de_enum_simp [wire_defs]:
  "de_enum ds (V_Variant k w) = (if k < length ds then (ds ! k) w else None)"
  by (simp add: de_enum_def)

declare schema_simps [wire_defs]

section \<open>Primitive fields\<close>

definition de_u8 :: "sval \<Rightarrow> u8 option" where
  "de_u8 v = (case v of V_U8 b \<Rightarrow> Some b | _ \<Rightarrow> None)"

definition de_u32 :: "sval \<Rightarrow> u32 option" where
  "de_u32 v = (case v of V_U32 w \<Rightarrow> Some w | _ \<Rightarrow> None)"

definition de_u64 :: "sval \<Rightarrow> u64 option" where
  "de_u64 v = (case v of V_U64 w \<Rightarrow> Some w | _ \<Rightarrow> None)"

definition de_bool :: "sval \<Rightarrow> bool option" where
  "de_bool v = (case v of V_Bool b \<Rightarrow> Some b | _ \<Rightarrow> None)"

definition de_str :: "sval \<Rightarrow> ustring option" where
  "de_str v = (case v of V_Str s \<Rightarrow> Some s | _ \<Rightarrow> None)"

text \<open>\<^verbatim>\<open>bytes::Bytes\<close> is serde's byte string, \<^verbatim>\<open>Vec<u8>\<close> a sequence of \<^verbatim>\<open>u8\<close> and
  \<^verbatim>\<open>[u8; 32]\<close> a tuple of them; \<^verbatim>\<open>usize\<close> travels as \<^verbatim>\<open>u64\<close>.\<close>

definition de_bytes :: "sval \<Rightarrow> bytes option" where
  "de_bytes v = (case v of V_Bytes bs \<Rightarrow> Some bs | _ \<Rightarrow> None)"

definition ser_vec :: "bytes \<Rightarrow> sval" where
  "ser_vec bs = V_Seq (map V_U8 bs)"

definition de_vec :: "sval \<Rightarrow> bytes option" where
  "de_vec v = (case v of V_Seq vs \<Rightarrow> those (map de_u8 vs) | _ \<Rightarrow> None)"

definition ser_option :: "('a \<Rightarrow> sval) \<Rightarrow> 'a option \<Rightarrow> sval" where
  "ser_option f x = (case x of None \<Rightarrow> V_None | Some y \<Rightarrow> V_Some (f y))"

definition de_option :: "(sval \<Rightarrow> 'a option) \<Rightarrow> sval \<Rightarrow> 'a option option" where
  "de_option f v = (case v of V_None \<Rightarrow> Some None | V_Some w \<Rightarrow> map_option Some (f w) | _ \<Rightarrow> None)"

definition ty_xorname :: sty where
  "ty_xorname = T_Tuple (replicate XORNAME_LEN T_U8)"

definition ser_xorname :: "xorname \<Rightarrow> sval" where
  "ser_xorname a = V_Tuple (map V_U8 (elems a))"

definition de_xorname :: "sval \<Rightarrow> xorname option" where
  "de_xorname v = (case v of V_Tuple vs \<Rightarrow> Option.bind (those (map de_u8 vs)) arr_of_list | _ \<Rightarrow> None)"

lemma those_de_u8: "those (map (de_u8 \<circ> V_U8) bs) = Some bs"
  by (induction bs) (simp_all add: de_u8_def)

lemma u8_values: "list_all (\<lambda>v. \<exists>w. v = V_U8 w) vs \<longleftrightarrow> (\<exists>bs. vs = map V_U8 bs)"
  by (induction vs) (auto simp: Cons_eq_map_conv)

lemma list_all2_replicate:
  "list_all2 (\<lambda>p w. p w) (replicate n P) vs \<longleftrightarrow> length vs = n \<and> list_all P vs"
proof (induction n arbitrary: vs)
  case (Suc n)
  then show ?case by (cases vs) auto
qed auto

lemma u8_tuple: "list_all2 (\<lambda>p w. p w) (replicate n (\<lambda>v. \<exists>w. v = V_U8 w)) vs \<longleftrightarrow>
    (\<exists>bs. vs = map V_U8 bs \<and> length bs = n)"
  by (auto simp: list_all2_replicate u8_values)

interpretation wt_u32: wire_type T_U32 V_U32 de_u32
  by unfold_locales (auto simp: de_u32_def)

interpretation wt_u64: wire_type T_U64 V_U64 de_u64
  by unfold_locales (auto simp: de_u64_def)

interpretation wt_bool: wire_type T_Bool V_Bool de_bool
  by unfold_locales (auto simp: de_bool_def)

interpretation wt_str: wire_type T_Str V_Str de_str
  by unfold_locales (auto simp: de_str_def)

interpretation wt_bytes: wire_type T_Bytes V_Bytes de_bytes
  by unfold_locales (auto simp: de_bytes_def)

interpretation wt_vec: wire_type "T_Seq T_U8" ser_vec de_vec
  by unfold_locales (auto simp: ser_vec_def de_vec_def u8_values those_de_u8)

interpretation wt_opt_vec: wire_type "T_Option (T_Seq T_U8)" "ser_option ser_vec" "de_option de_vec"
proof
  show "of_type (T_Option (T_Seq T_U8)) (ser_option ser_vec x)" for x
    using wt_vec.ser_typed by (cases x) (auto simp: ser_option_def)
  show "de_option de_vec (ser_option ser_vec x) = Some x" for x
    by (cases x) (simp_all add: ser_option_def de_option_def wt_vec.de_ser)
next
  fix v
  assume "of_type (T_Option (T_Seq T_U8)) v"
  then consider "v = V_None" | w where "v = V_Some w" "of_type (T_Seq T_U8) w" by auto
  then show "\<exists>x. de_option de_vec v = Some x \<and> ser_option ser_vec x = v"
  proof cases
    case 1
    then show ?thesis by (simp add: de_option_def ser_option_def)
  next
    case 2
    then obtain x where "de_vec w = Some x" "ser_vec x = w"
      using wt_vec.de_total by blast
    then show ?thesis
      using 2(1) by (intro exI [of _ "Some x"]) (simp add: de_option_def ser_option_def)
  qed
qed

interpretation wt_xorname: wire_type ty_xorname ser_xorname de_xorname
proof
  have sort: "of_type ty_xorname v \<longleftrightarrow> (\<exists>bs. v = V_Tuple (map V_U8 bs) \<and> length bs = 32)" for v
    by (auto simp: ty_xorname_def XORNAME_LEN_def u8_tuple)
  show "of_type ty_xorname (ser_xorname x)" for x
    by (auto simp: sort ser_xorname_def)
  show "de_xorname (ser_xorname x) = Some x" for x
    by (simp add: ser_xorname_def de_xorname_def those_de_u8)
  show "\<exists>x. de_xorname v = Some x \<and> ser_xorname x = v" if "of_type ty_xorname v" for v
    using that by (auto simp: sort de_xorname_def ser_xorname_def those_de_u8 arr_of_list_def)
qed

section \<open>Sizes\<close>

lemma postcard_sizesD:
  assumes "postcard_sizes P"
  shows "to_stdvec P (V_U8 b) = Ok bs \<Longrightarrow> length bs = 1"
    and "to_stdvec P V_None = Ok bs \<Longrightarrow> length bs = 1"
    and "to_stdvec P (V_Some v) = Ok bs \<Longrightarrow> \<exists>cs. to_stdvec P v = Ok cs \<and> length bs = 1 + length cs"
    and "to_stdvec P (V_U32 n) = Ok bs \<Longrightarrow> length bs \<le> 5"
    and "to_stdvec P (V_U64 m) = Ok bs \<Longrightarrow> length bs \<le> 10"
    and "length cs < 2 ^ 64 \<Longrightarrow> to_stdvec P (V_Bytes cs) = Ok bs \<Longrightarrow> length bs \<le> 10 + length cs"
    and "length cs < 2 ^ 64 \<Longrightarrow> to_stdvec P (ser_vec cs) = Ok bs \<Longrightarrow> length bs \<le> 10 + length cs"
    and "to_stdvec P (V_Bool x) = Ok bs \<Longrightarrow> length bs = 1"
    and "4 * length s < 2 ^ 64 \<Longrightarrow> to_stdvec P (V_Str s) = Ok bs \<Longrightarrow> length bs \<le> 10 + 4 * length s"
  using assms unfolding postcard_sizes_def ser_vec_def by blast+

text \<open>A bound on the encoding of a value whose sequences hold bytes and whose lengths fit a varint.\<close>

primrec sized :: "sval \<Rightarrow> bool" where
  "sized (V_Bool b) = True"
| "sized (V_U8 w) = True"
| "sized (V_U32 w) = True"
| "sized (V_U64 w) = True"
| "sized (V_Str s) = (4 * length s < 2 ^ 64)"
| "sized (V_Bytes bs) = (length bs < 2 ^ 64)"
| "sized V_None = True"
| "sized (V_Some v) = sized v"
| "sized (V_Seq vs) = ((\<forall>v \<in> set vs. \<exists>b. v = V_U8 b) \<and> length vs < 2 ^ 64)"
| "sized (V_Tuple vs) = list_all (\<lambda>p. p) (map sized vs)"
| "sized (V_Variant k v) = sized v"

primrec size_bound :: "sval \<Rightarrow> nat" where
  "size_bound (V_Bool b) = 1"
| "size_bound (V_U8 w) = 1"
| "size_bound (V_U32 w) = 5"
| "size_bound (V_U64 w) = 10"
| "size_bound (V_Str s) = 10 + 4 * length s"
| "size_bound (V_Bytes bs) = 10 + length bs"
| "size_bound V_None = 1"
| "size_bound (V_Some v) = 1 + size_bound v"
| "size_bound (V_Seq vs) = 10 + length vs"
| "size_bound (V_Tuple vs) = sum_list (map size_bound vs)"
| "size_bound (V_Variant k v) = 5 + size_bound v"

lemma tuple_size_bound:
  assumes "postcard_layout P"
    and "\<And>v bs. v \<in> set vs \<Longrightarrow> to_stdvec P v = Ok bs \<Longrightarrow> length bs \<le> f v"
  shows "to_stdvec P (V_Tuple vs) = Ok bs \<Longrightarrow> length bs \<le> sum_list (map f vs)"
  using assms(2)
proof (induction vs arbitrary: bs)
  case Nil
  then show ?case by (simp add: postcard_layoutD(1) [OF assms(1)])
next
  case (Cons v vs)
  then obtain b c where parts: "to_stdvec P v = Ok b" "to_stdvec P (V_Tuple vs) = Ok c" "bs = b @ c"
    by (auto simp: postcard_layoutD(2) [OF assms(1)] result_simps)
  have "length b \<le> f v" "length c \<le> sum_list (map f vs)"
    using Cons.prems(2) [of v b] parts(1) Cons.IH [OF parts(2)] Cons.prems(2) by simp_all
  then show ?case using parts(3) by simp
qed

lemma size_bound:
  assumes "postcard_layout P" "postcard_sizes P"
  shows "sized v \<Longrightarrow> to_stdvec P v = Ok bs \<Longrightarrow> length bs \<le> size_bound v"
proof (induction v arbitrary: bs)
  case (V_Some v)
  then show ?case using postcard_sizesD(3) [OF assms(2)] by fastforce
next
  case (V_Seq vs)
  then have "list_all (\<lambda>v. \<exists>w. v = V_U8 w) vs" by (simp add: list_all_iff)
  then obtain cs where "vs = map V_U8 cs" using u8_values by blast
  then show ?case
    using V_Seq.prems postcard_sizesD(7) [OF assms(2), of cs bs] by (simp add: ser_vec_def)
next
  case (V_Tuple vs)
  then have "length bs \<le> sum_list (map size_bound vs)"
    by (intro tuple_size_bound [OF assms(1) _ V_Tuple.prems(2)]) (simp add: list_all_iff)
  then show ?case by simp
next
  case (V_Variant k v)
  then obtain b c where parts: "to_stdvec P (V_U32 (word_of_nat k)) = Ok b" "to_stdvec P v = Ok c" "bs = b @ c"
    by (auto simp: postcard_layoutD(4) [OF assms(1)] result_simps)
  then show ?case
    using V_Variant.IH [OF _ parts(2)] V_Variant.prems(1) postcard_sizesD(4) [OF assms(2) parts(1)] by simp
qed (use postcard_sizesD [OF assms(2)] in \<open>auto\<close>)

text \<open>The serializers of the building blocks in the terms of the bound.\<close>

lemma size_simps [simp]:
  "sized (ser_xorname a)" "size_bound (ser_xorname a) = 32"
  "sized (ser_vec bs) \<longleftrightarrow> length bs < 2 ^ 64" "size_bound (ser_vec bs) = 10 + length bs"
  "sized (ser_option f None)" "size_bound (ser_option f None) = 1"
  "sized (ser_option f (Some x)) \<longleftrightarrow> sized (f x)" "size_bound (ser_option f (Some x)) = 1 + size_bound (f x)"
  by (auto simp: ser_xorname_def ser_vec_def ser_option_def list_all_iff comp_def sum_list_triv)

end
