(* ===== verification/Postcard_Demo.thy ===== *)
theory Postcard_Demo
  imports Serde
begin

text \<open>
  A concrete serializer with the laws of \<^verbatim>\<open>postcard\<close> that \<open>Serde\<close> names, for evaluating the wire
  types and for showing that the laws can hold together. Strings are written as their code points.
\<close>

section \<open>Varints\<close>

fun varint :: "nat \<Rightarrow> bytes" where
  "varint n = (if n < 128 then [word_of_nat n] else word_of_nat (n mod 128 + 128) # varint (n div 128))"

declare varint.simps [simp del]

fun read_varint :: "bytes \<Rightarrow> (nat \<times> bytes) option" where
  "read_varint [] = None"
| "read_varint (b # bs) =
     (if unat b < 128 then Some (unat b, bs)
      else map_option (\<lambda>(n, rest). (unat b - 128 + 128 * n, rest)) (read_varint bs))"

lemma read_varint_varint: "read_varint (varint n @ rest) = Some (n, rest)"
proof (induction n rule: varint.induct)
  case (1 n)
  show ?case
  proof (cases "n < 128")
    case True
    then show ?thesis by (subst varint.simps) (simp add: unat_byte)
  next
    case False
    have "n mod 128 + 128 < 256" by simp
    from unat_byte [OF this] show ?thesis
      using 1 [OF False] False by (subst varint.simps) (simp add: mod_mult_div_eq)
  qed
qed

lemma length_varint: "n < 128 ^ k \<Longrightarrow> 0 < k \<Longrightarrow> length (varint n) \<le> k"
proof (induction n arbitrary: k rule: varint.induct)
  case (1 n)
  show ?case
  proof (cases "n < 128")
    case True
    then show ?thesis using 1(3) by (subst varint.simps) simp
  next
    case False
    then obtain j where j: "k = Suc j" "0 < j"
      using 1(2) by (cases k; cases "k - 1") auto
    have "n div 128 < 128 ^ j"
      using 1(2) j(1) by (simp add: less_mult_imp_div_less mult.commute)
    then show ?thesis
      using 1(1) [OF False _ j(2)] False j(1) by (subst varint.simps) simp
  qed
qed

section \<open>Writing and reading\<close>

primrec demo_write :: "sval \<Rightarrow> bytes" where
  "demo_write (V_Bool b) = [if b then 1 else 0]"
| "demo_write (V_U8 w) = [w]"
| "demo_write (V_U32 w) = varint (unat w)"
| "demo_write (V_U64 w) = varint (unat w)"
| "demo_write (V_Str s) = varint (length s) @ concat (map (\<lambda>c. varint (code_point c)) s)"
| "demo_write (V_Bytes bs) = varint (length bs) @ bs"
| "demo_write V_None = [0]"
| "demo_write (V_Some v) = 1 # demo_write v"
| "demo_write (V_Seq vs) = varint (length vs) @ concat (map demo_write vs)"
| "demo_write (V_Tuple vs) = concat (map demo_write vs)"
| "demo_write (V_Variant k v) = varint (unat (word_of_nat k :: u32)) @ demo_write v"

fun read_many :: "(bytes \<Rightarrow> ('a \<times> bytes) option) \<Rightarrow> nat \<Rightarrow> bytes \<Rightarrow> ('a list \<times> bytes) option" where
  "read_many f 0 bs = Some ([], bs)"
| "read_many f (Suc n) bs =
     (case f bs of
        None \<Rightarrow> None
      | Some (v, rest) \<Rightarrow> map_option (\<lambda>(vs, r). (v # vs, r)) (read_many f n rest))"

fun read_all :: "(bytes \<Rightarrow> ('a \<times> bytes) option) list \<Rightarrow> bytes \<Rightarrow> ('a list \<times> bytes) option" where
  "read_all [] bs = Some ([], bs)"
| "read_all (f # fs) bs =
     (case f bs of
        None \<Rightarrow> None
      | Some (v, rest) \<Rightarrow> map_option (\<lambda>(vs, r). (v # vs, r)) (read_all fs rest))"

definition read_u32 :: "bytes \<Rightarrow> (nat \<times> bytes) option" where
  "read_u32 bs = (case read_varint bs of None \<Rightarrow> None | Some (n, r) \<Rightarrow> if n < 2 ^ 32 then Some (n, r) else None)"

definition read_char :: "bytes \<Rightarrow> (uchar \<times> bytes) option" where
  "read_char bs = (case read_varint bs of None \<Rightarrow> None | Some (n, r) \<Rightarrow> map_option (\<lambda>c. (c, r)) (uchar_of_nat n))"

primrec demo_read :: "sty \<Rightarrow> bytes \<Rightarrow> (sval \<times> bytes) option" where
  "demo_read T_Bool = (\<lambda>bs. case bs of [] \<Rightarrow> None
     | b # r \<Rightarrow> if b = 0 then Some (V_Bool False, r) else if b = 1 then Some (V_Bool True, r) else None)"
| "demo_read T_U8 = (\<lambda>bs. case bs of [] \<Rightarrow> None | b # r \<Rightarrow> Some (V_U8 b, r))"
| "demo_read T_U32 = (\<lambda>bs. map_option (\<lambda>(n, r). (V_U32 (word_of_nat n), r)) (read_u32 bs))"
| "demo_read T_U64 = (\<lambda>bs. case read_varint bs of None \<Rightarrow> None
     | Some (n, r) \<Rightarrow> if n < 2 ^ 64 then Some (V_U64 (word_of_nat n), r) else None)"
| "demo_read T_Str = (\<lambda>bs. case read_varint bs of None \<Rightarrow> None
     | Some (n, r) \<Rightarrow> map_option (\<lambda>(s, r'). (V_Str s, r')) (read_many read_char n r))"
| "demo_read T_Bytes = (\<lambda>bs. case read_varint bs of None \<Rightarrow> None
     | Some (n, r) \<Rightarrow> if n \<le> length r then Some (V_Bytes (take n r), drop n r) else None)"
| "demo_read (T_Option t) = (\<lambda>bs. case bs of [] \<Rightarrow> None
     | b # r \<Rightarrow> if b = 0 then Some (V_None, r)
         else if b = 1 then map_option (\<lambda>(v, r'). (V_Some v, r')) (demo_read t r) else None)"
| "demo_read (T_Seq t) = (\<lambda>bs. case read_varint bs of None \<Rightarrow> None
     | Some (n, r) \<Rightarrow> map_option (\<lambda>(vs, r'). (V_Seq vs, r')) (read_many (demo_read t) n r))"
| "demo_read (T_Tuple ts) = (\<lambda>bs. map_option (\<lambda>(vs, r). (V_Tuple vs, r)) (read_all (map demo_read ts) bs))"
| "demo_read (T_Enum ts) = (\<lambda>bs. case read_u32 bs of None \<Rightarrow> None
     | Some (k, r) \<Rightarrow> if k < length ts
         then map_option (\<lambda>(v, r'). (V_Variant k v, r')) ((map demo_read ts ! k) r) else None)"

definition demo_postcard :: postcard where
  "demo_postcard = \<lparr>to_stdvec = (\<lambda>v. Ok (demo_write v)),
     take_from_bytes = (\<lambda>T bs. ok_or (ustr ''unexpected input'') (demo_read T bs))\<rparr>"

section \<open>It has the documented format\<close>

lemma read_u32_varint: "n < 2 ^ 32 \<Longrightarrow> read_u32 (varint n @ rest) = Some (n, rest)"
  by (simp add: read_u32_def read_varint_varint)

lemma unat_less_64: "unat (w :: u64) < 18446744073709551616"
  using unsigned_less [of w, where ?'a = nat] by simp

lemma read_u32_write: "read_u32 (varint (unat (w :: u32)) @ rest) = Some (unat w, rest)"
  using unsigned_less [of w, where ?'a = nat] by (intro read_u32_varint) simp

lemma read_many_concat:
  "(\<And>x rest. x \<in> set xs \<Longrightarrow> f (w x @ rest) = Some (x, rest)) \<Longrightarrow>
     read_many f (length xs) (concat (map w xs) @ rest) = Some (xs, rest)"
  by (induction xs) simp_all

lemma read_char_write: "read_char (varint (code_point c) @ rest) = Some (c, rest)"
  by (simp add: read_char_def read_varint_varint)

lemma read_all_concat:
  "list_all2 (\<lambda>f v. \<forall>rest. f (demo_write v @ rest) = Some (v, rest)) fs vs \<Longrightarrow>
     read_all fs (concat (map demo_write vs) @ rest) = Some (vs, rest)"
  by (induction fs vs rule: list_all2_induct) simp_all

lemma demo_read_write: "of_type T v \<Longrightarrow> demo_read T (demo_write v @ rest) = Some (v, rest)"
proof (induction T arbitrary: v rest)
  case (T_Seq t)
  then obtain vs where "v = V_Seq vs" "list_all (of_type t) vs" by auto
  then show ?case
    using read_many_concat [of vs "demo_read t" demo_write rest] T_Seq.IH
    by (simp add: read_varint_varint list_all_iff)
next
  case (T_Tuple ts)
  then obtain vs where vs: "v = V_Tuple vs" "list_all2 (\<lambda>p w. p w) (map of_type ts) vs" by auto
  have "list_all2 (\<lambda>f v. \<forall>rest. f (demo_write v @ rest) = Some (v, rest)) (map demo_read ts) vs"
    using vs(2) T_Tuple.IH by (auto simp: list_all2_conv_all_nth)
  then show ?case by (simp add: vs(1) read_all_concat)
next
  case (T_Enum ts)
  then obtain k w where v: "v = V_Variant k w" "k < 2 ^ 32" "k < length ts" "of_type (ts ! k) w"
    by (auto simp: variant_of_type_iff)
  have "unat (word_of_nat k :: u32) = k"
    using v(2) by (simp only: unat_of_nat) simp
  moreover have "demo_read (ts ! k) (demo_write w @ rest) = Some (w, rest)"
    using T_Enum.IH v(3,4) by simp
  ultimately show ?case
    using v read_u32_varint [OF v(2)] by simp
qed (auto simp: read_varint_varint read_u32_write unat_less_64 read_many_concat read_char_write)

lemma read_all_typed:
  "read_all fs bs = Some (vs, rest) \<Longrightarrow> list_all2 (\<lambda>f v. \<exists>bs rest. f bs = Some (v, rest)) fs vs"
  by (induction fs bs arbitrary: vs rest rule: read_all.induct) (auto split: option.splits)

lemma read_many_typed:
  "read_many f n bs = Some (vs, rest) \<Longrightarrow> list_all (\<lambda>v. \<exists>bs rest. f bs = Some (v, rest)) vs"
proof (induction n arbitrary: bs vs)
  case (Suc n)
  then obtain v r ws where "f bs = Some (v, r)" "read_many f n r = Some (ws, rest)" "vs = v # ws"
    by (auto split: option.splits)
  then show ?case using Suc.IH [of r ws] by auto
qed simp

lemma demo_read_typed: "demo_read T bs = Some (v, rest) \<Longrightarrow> of_type T v"
proof (induction T arbitrary: bs v rest)
  case (T_Seq t)
  then show ?case
    by (auto split: option.splits dest!: read_many_typed elim!: list.pred_mono_strong)
next
  case (T_Tuple ts)
  obtain vs where vs: "v = V_Tuple vs" "read_all (map demo_read ts) bs = Some (vs, rest)"
    using T_Tuple.prems by auto
  have "list_all2 (\<lambda>p w. p w) (map of_type ts) vs"
    unfolding list_all2_conv_all_nth
  proof (intro conjI allI impI)
    show len: "length (map of_type ts) = length vs"
      using read_all_typed [OF vs(2)] by (simp add: list_all2_conv_all_nth)
    fix i
    assume i: "i < length (map of_type ts)"
    then obtain cs r where "demo_read (ts ! i) cs = Some (vs ! i, r)"
      using read_all_typed [OF vs(2)] by (auto simp: list_all2_conv_all_nth)
    then show "(map of_type ts ! i) (vs ! i)" using T_Tuple.IH [of "ts ! i"] i by simp
  qed
  then show ?case by (simp add: vs(1))
next
  case (T_Enum ts)
  then show ?case
    by (auto simp: read_u32_def variant_of_type_iff split: option.splits if_splits)
qed (auto split: option.splits list.splits if_splits)

lemma demo_round_trips: "postcard_round_trips demo_postcard"
  unfolding postcard_round_trips_def
proof (intro conjI allI impI)
  fix T v
  assume "of_type T v"
  then show "\<exists>bs. to_stdvec demo_postcard v = Ok bs \<and>
      (\<forall>rest. take_from_bytes demo_postcard T (bs @ rest) = Ok (v, rest))"
    by (simp add: demo_postcard_def demo_read_write)
next
  fix T bs v rest
  assume "take_from_bytes demo_postcard T bs = Ok (v, rest)"
  then show "of_type T v"
    by (auto simp: demo_postcard_def result_simps intro: demo_read_typed)
qed

lemma is_ok_ok_or: "is_ok (ok_or e x) \<longleftrightarrow> x \<noteq> None"
  by (cases x) simp_all

lemma demo_layout: "postcard_layout demo_postcard"
  unfolding postcard_layout_def
proof (intro conjI allI impI)
  fix ts :: "sty list" and bs k rest
  assume "take_from_bytes demo_postcard T_U32 bs = Ok (V_U32 k, rest)" "length ts \<le> unat k"
  then show "\<not> is_ok (take_from_bytes demo_postcard (T_Enum ts) bs)"
    by (auto simp: demo_postcard_def result_simps is_ok_ok_or read_u32_def unat_of_nat
        split: option.splits if_splits)
qed (auto simp: demo_postcard_def result_simps is_ok_ok_or varint.simps split: option.splits)

lemma varint_lengths:
  "length (varint (unat (w :: u32))) \<le> 5" "length (varint (unat (x :: u64))) \<le> 10"
  "n < 2 ^ 64 \<Longrightarrow> length (varint n) \<le> 10"
  using unsigned_less [of w, where ?'a = nat] unsigned_less [of x, where ?'a = nat]
  by (auto intro!: length_varint)

lemma str_length: "length (concat (map (\<lambda>c. varint (code_point c)) s)) \<le> 4 * length s"
proof (induction s)
  case (Cons c s)
  have "code_point c < 128 ^ 4" using code_point [of c] by (auto simp: scalar_value_def)
  then have "length (varint (code_point c)) \<le> 4" by (rule length_varint) simp
  then show ?case using Cons.IH by simp
qed simp

lemma demo_sizes: "postcard_sizes demo_postcard"
  unfolding postcard_sizes_def
  using varint_lengths(3) str_length
  by (auto simp: demo_postcard_def varint_lengths comp_def intro: add_mono)

end
