(* ===== verification/Commitment.thy ===== *)
theory Commitment
  imports Wire_Types Postcard_Demo
begin

text \<open>
  \<^verbatim>\<open>src/payment/commitment.rs\<close>: the signed storage commitment, its pin, its signed payload and
  its signature check. BLAKE3, ML-DSA-65 and postcard are the parameters of \<open>Primitives\<close> and
  \<open>Serde\<close>.
\<close>

section \<open>Data\<close>

definition DOMAIN_COMMITMENT :: bytes where
  "DOMAIN_COMMITMENT = ascii ''autonomi.ant.replication.storage_commitment.v1''"

definition DOMAIN_COMMITMENT_HASH :: bytes where
  "DOMAIN_COMMITMENT_HASH = ascii ''autonomi.ant.replication.commitment_hash.v1''"

definition MAX_COMMITMENT_KEY_COUNT :: u32 where
  "MAX_COMMITMENT_KEY_COUNT = 1000000"

definition MAX_COMMITMENT_SIDECAR_BYTES :: nat where
  "MAX_COMMITMENT_SIDECAR_BYTES = 8 * 1024"

record storage_commitment =
  sc_root :: "(u8, 32) arr"
  sc_key_count :: u32
  sc_sender_peer_id :: "(u8, 32) arr"
  sc_sender_public_key :: bytes
  sc_signature :: bytes

definition ty_storage_commitment :: sty where
  "ty_storage_commitment = T_Tuple [ty_xorname, T_U32, ty_xorname, T_Seq T_U8, T_Seq T_U8]"

definition ser_storage_commitment :: "storage_commitment \<Rightarrow> sval" where
  "ser_storage_commitment x = V_Tuple [ser_xorname (sc_root x), V_U32 (sc_key_count x),
     ser_xorname (sc_sender_peer_id x), ser_vec (sc_sender_public_key x), ser_vec (sc_signature x)]"

definition de_storage_commitment :: "sval \<Rightarrow> storage_commitment option" where
  "de_storage_commitment = de_struct5 de_xorname de_u32 de_xorname de_vec de_vec
     (\<lambda>a b c d e. \<lparr>sc_root = a, sc_key_count = b, sc_sender_peer_id = c, sc_sender_public_key = d,
        sc_signature = e\<rparr>)"

interpretation wt_storage_commitment: wire_type ty_storage_commitment ser_storage_commitment
  de_storage_commitment
proof
  note facts = wire_defs wt_xorname.ser_typed wt_u32.ser_typed wt_vec.ser_typed wt_xorname.de_ser
    wt_u32.de_ser wt_vec.de_ser
  show "of_type ty_storage_commitment (ser_storage_commitment x)" for x
    by (simp add: ty_storage_commitment_def ser_storage_commitment_def facts del: of_type.simps(8))
  show "de_storage_commitment (ser_storage_commitment x) = Some x" for x
    by (cases x) (simp add: de_storage_commitment_def ser_storage_commitment_def facts)
  show "\<exists>x. de_storage_commitment v = Some x \<and> ser_storage_commitment x = v"
    if "of_type ty_storage_commitment v" for v
    using that by (auto simp: ty_storage_commitment_def de_storage_commitment_def
        ser_storage_commitment_def facts wt_xorname.of_type_iff wt_vec.of_type_iff
        simp del: of_type.simps(8))
qed

section \<open>Operations\<close>

text \<open>Two \<^verbatim>\<open>update\<close> calls of the hasher hash the concatenation.\<close>

definition commitment_hash ::
  "postcard \<Rightarrow> ('pk, 'sk, 'sig) crypto \<Rightarrow> storage_commitment \<Rightarrow> (u8, 32) arr option" where
  "commitment_hash P C c =
     (case to_stdvec P (ser_storage_commitment c) of
        Err e \<Rightarrow> None
      | Ok serialized \<Rightarrow> Some (blake3_hash C (DOMAIN_COMMITMENT_HASH @ serialized)))"

definition commitment_signed_payload ::
  "(u8, 32) arr \<Rightarrow> u32 \<Rightarrow> (u8, 32) arr \<Rightarrow> bytes \<Rightarrow> bytes" where
  "commitment_signed_payload root key_count sender_peer_id sender_public_key =
     (let pk_len = (if length sender_public_key < 2 ^ 32 then word_of_nat (length sender_public_key)
            else - 1 :: u32)
      in elems root @ to_le_bytes 4 key_count @ elems sender_peer_id @ to_le_bytes 4 pk_len @
         sender_public_key)"

definition verify_commitment_signature ::
  "('pk, 'sk, 'sig) crypto \<Rightarrow> storage_commitment \<Rightarrow> bool" where
  "verify_commitment_signature C c =
     (case pk_from_bytes C (sc_sender_public_key c) of
        Err e \<Rightarrow> False
      | Ok public_key \<Rightarrow>
          let signed = commitment_signed_payload (sc_root c) (sc_key_count c) (sc_sender_peer_id c)
                (sc_sender_public_key c) in
          (case sig_from_bytes C (sc_signature c) of
             Err e \<Rightarrow> False
           | Ok sig \<Rightarrow>
               (case verify_with_context C public_key signed sig DOMAIN_COMMITMENT of
                  Ok valid \<Rightarrow> valid
                | Err e \<Rightarrow> False)))"

section \<open>Properties\<close>

text \<open>
  The signed payload binds every field it covers: two payloads are equal exactly when root, key
  count, peer id and public key all are, for keys of any length, so no body can be kept while
  another key is swapped in.
\<close>

theorem payload_binds_fields:
  "commitment_signed_payload root n peer pk = commitment_signed_payload root' n' peer' pk' \<longleftrightarrow>
     root = root' \<and> n = n' \<and> peer = peer' \<and> pk = pk'"
  by (auto simp: commitment_signed_payload_def Let_def)

text \<open>What equal pins say.\<close>

lemma pin_binds:
  assumes "postcard_round_trips P"
  shows "\<exists>bs bs'. to_stdvec P (ser_storage_commitment c) = Ok bs \<and>
    to_stdvec P (ser_storage_commitment c') = Ok bs' \<and>
    commitment_hash P C c \<noteq> None \<and>
    (commitment_hash P C c = commitment_hash P C c' \<longrightarrow>
      c = c' \<or> (DOMAIN_COMMITMENT_HASH @ bs \<noteq> DOMAIN_COMMITMENT_HASH @ bs' \<and>
        blake3_hash C (DOMAIN_COMMITMENT_HASH @ bs) = blake3_hash C (DOMAIN_COMMITMENT_HASH @ bs')))"
proof -
  obtain bs bs' where bs: "to_stdvec P (ser_storage_commitment c) = Ok bs"
    "to_stdvec P (ser_storage_commitment c') = Ok bs'"
    using wt_storage_commitment.encodes [OF assms] by metis
  have "c = c'" if "bs = bs'"
    using wt_storage_commitment.encoding_inject [OF assms, of c bs c'] bs that by simp
  then show ?thesis using bs by (auto simp: commitment_hash_def)
qed

definition demo_commitment :: "u8 \<Rightarrow> u32 \<Rightarrow> storage_commitment" where
  "demo_commitment r n = \<lparr>sc_root = arr_repeat 1, sc_key_count = n, sc_sender_peer_id = arr_repeat 2,
     sc_sender_public_key = replicate 1952 5, sc_signature = replicate 3308 r @ [demo_sum (5 #
       commitment_signed_payload (arr_repeat 1) n (arr_repeat 2) (replicate 1952 5) @ DOMAIN_COMMITMENT)]\<rparr>"

text \<open>
  C28: The pin binds the commitment: every commitment has one, and two commitments with one pin are
  equal, signature included, unless two explicit different byte strings collide under BLAKE3.
\<close>

theorem pin_binds_commitment:
  assumes "postcard_round_trips P"
  shows "\<exists>bs bs'. to_stdvec P (ser_storage_commitment c) = Ok bs \<and>
    to_stdvec P (ser_storage_commitment c') = Ok bs' \<and>
    commitment_hash P C c \<noteq> None \<and>
    (commitment_hash P C c = commitment_hash P C c' \<longrightarrow>
      c = c' \<or> (DOMAIN_COMMITMENT_HASH @ bs \<noteq> DOMAIN_COMMITMENT_HASH @ bs' \<and>
        blake3_hash C (DOMAIN_COMMITMENT_HASH @ bs) = blake3_hash C (DOMAIN_COMMITMENT_HASH @ bs')))"
  by (rule pin_binds [OF assms])

lemma pin_binds_commitment_witness:
  "\<exists>bs bs'. to_stdvec demo_postcard (ser_storage_commitment (demo_commitment 3 9)) = Ok bs \<and>
     to_stdvec demo_postcard (ser_storage_commitment (demo_commitment 3 8)) = Ok bs' \<and> bs \<noteq> bs' \<and>
     blake3_hash demo_crypto (DOMAIN_COMMITMENT_HASH @ bs) = blake3_hash demo_crypto (DOMAIN_COMMITMENT_HASH @ bs')"
proof -
  have "commitment_hash demo_postcard demo_crypto (demo_commitment 3 9) =
      commitment_hash demo_postcard demo_crypto (demo_commitment 3 8)"
    by (simp add: commitment_hash_def demo_postcard_def demo_crypto_def demo_hash_def
        DOMAIN_COMMITMENT_HASH_def)
  moreover have "demo_commitment 3 9 \<noteq> demo_commitment 3 8"
    by (simp add: demo_commitment_def)
  ultimately show ?thesis
    using pin_binds_commitment [OF demo_round_trips, of "demo_commitment 3 9" "demo_commitment 3 8" demo_crypto]
    by auto
qed

text \<open>
  C31: An honest commitment verifies and fits: whatever randomness signing draws, the commitment that
  carries the signature of its payload under the key it embeds passes the check, and its serialized
  form, with a key and a signature of ML-DSA-65's lengths, is at most 5350 bytes, within the sidecar
  limit.
\<close>

theorem signed_commitment_verifies:
  assumes "signs_for C sk pk" "ml_dsa_65_encoding C"
    and "sign_with_context C r sk (commitment_signed_payload root n peer (pk_to_bytes C pk))
      DOMAIN_COMMITMENT = Ok s"
    and "postcard_layout P" "postcard_sizes P"
    and "to_stdvec P (ser_storage_commitment \<lparr>sc_root = root, sc_key_count = n, sc_sender_peer_id = peer,
      sc_sender_public_key = pk_to_bytes C pk, sc_signature = sig_to_bytes C s\<rparr>) = Ok bs"
  shows "verify_commitment_signature C \<lparr>sc_root = root, sc_key_count = n, sc_sender_peer_id = peer,
      sc_sender_public_key = pk_to_bytes C pk, sc_signature = sig_to_bytes C s\<rparr> \<and>
    length bs \<le> 5350 \<and> length bs \<le> MAX_COMMITMENT_SIDECAR_BYTES"
proof -
  have pk: "pk_from_bytes C (pk_to_bytes C pk) = Ok pk" by (rule signs_for_pk [OF assms(1)])
  have ctx: "length DOMAIN_COMMITMENT \<le> 255" by (simp add: DOMAIN_COMMITMENT_def)
  have s: "sig_from_bytes C (sig_to_bytes C s) = Ok s"
    "verify_with_context C pk (commitment_signed_payload root n peer (pk_to_bytes C pk)) s
       DOMAIN_COMMITMENT = Ok True"
    using signs_forE [OF assms(1), of DOMAIN_COMMITMENT] assms(3) ctx by (metis result.inject(1))+
  have len: "length (pk_to_bytes C pk) = 1952" "length (sig_to_bytes C s) = 3309"
    using pk_encodingD(1) [OF assms(2) pk] sig_encodingD(1) [OF assms(2) s(1)] .
  have "length bs \<le> 5350"
    using size_bound [OF assms(4,5) _ assms(6)] len by (simp add: ser_storage_commitment_def)
  then show ?thesis
    using pk s by (simp add: verify_commitment_signature_def Let_def MAX_COMMITMENT_SIDECAR_BYTES_def)
qed

lemma signed_commitment_verifies_witness:
  "verify_commitment_signature demo_crypto (demo_commitment 3 9)"
proof -
  obtain bs where bs: "to_stdvec demo_postcard (ser_storage_commitment (demo_commitment 3 9)) = Ok bs"
    by (simp add: demo_postcard_def)
  have parts: "pk_to_bytes demo_crypto 5 = replicate 1952 5"
    "sig_to_bytes demo_crypto (3, x) = replicate 3308 3 @ [x]" for x
    by (simp_all add: demo_crypto_def)
  have "sign_with_context demo_crypto 3 5 (commitment_signed_payload (arr_repeat 1) 9 (arr_repeat 2)
      (pk_to_bytes demo_crypto 5)) DOMAIN_COMMITMENT = Ok (3, demo_sum (5 #
      commitment_signed_payload (arr_repeat 1) 9 (arr_repeat 2) (replicate 1952 5) @ DOMAIN_COMMITMENT))"
    by (simp add: demo_crypto_def)
  from signed_commitment_verifies [OF demo_signs_for demo_encoding this demo_layout demo_sizes]
  show ?thesis using bs unfolding parts demo_commitment_def by blast
qed

text \<open>What an accepted commitment shows: its key and its signature decode, and the key verifies the
  signature over the payload.\<close>

lemma commitment_accepted:
  "verify_commitment_signature C c \<longleftrightarrow> (\<exists>pk s. pk_from_bytes C (sc_sender_public_key c) = Ok pk \<and>
     sig_from_bytes C (sc_signature c) = Ok s \<and>
     verify_with_context C pk (commitment_signed_payload (sc_root c) (sc_key_count c) (sc_sender_peer_id c)
       (sc_sender_public_key c)) s DOMAIN_COMMITMENT = Ok True)"
  by (auto simp: verify_commitment_signature_def Let_def split: result.splits)

text \<open>
  C26: Tampering needs a forgery: when one signature is accepted on two different commitments, whether
  root, key count, peer or the embedded key was changed, it verifies over two explicit different
  payloads, each under the key its commitment embeds.
\<close>

theorem tampered_commitment_is_forgery:
  assumes "verify_commitment_signature C c" "verify_commitment_signature C c'"
    and "sc_signature c = sc_signature c'" "c \<noteq> c'"
  shows "\<exists>pk pk' s msg msg'. msg \<noteq> msg' \<and>
    pk_from_bytes C (sc_sender_public_key c) = Ok pk \<and> pk_from_bytes C (sc_sender_public_key c') = Ok pk' \<and>
    sig_from_bytes C (sc_signature c) = Ok s \<and>
    verify_with_context C pk msg s DOMAIN_COMMITMENT = Ok True \<and>
    verify_with_context C pk' msg' s DOMAIN_COMMITMENT = Ok True"
proof -
  let ?payload = "\<lambda>c. commitment_signed_payload (sc_root c) (sc_key_count c) (sc_sender_peer_id c)
    (sc_sender_public_key c)"
  have "?payload c \<noteq> ?payload c'"
    using assms(3,4) by (auto simp: payload_binds_fields intro: storage_commitment.equality)
  then show ?thesis
    using assms(1,2) unfolding commitment_accepted assms(3) by (metis result.inject(1))
qed

text \<open>The checksum of the demonstration scheme is easily forged.\<close>

lemma demo_commitment_verifies: "verify_commitment_signature demo_crypto (demo_commitment r n)"
  by (simp add: commitment_accepted demo_commitment_def demo_crypto_def demo_uniform_replicate demo_sig_decodes)

lemma demo_sum_collides: "3 * a + b = 3 * a' + (b' :: u8) \<Longrightarrow> demo_sum (xs @ a # b # ys) = demo_sum (xs @ a' # b' # ys)"
proof -
  assume "3 * a + b = 3 * a' + b'"
  then have "3 * (3 * k + a + 1) + b + 1 = 3 * (3 * k + a' + 1) + b' + 1" for k by (simp add: algebra_simps)
  then show ?thesis by (simp add: demo_sum_def)
qed

lemma demo_forgery: "sc_signature (demo_commitment 3 9) = sc_signature (demo_commitment 3 2310)"
proof -
  have le: "to_le_bytes 4 (9 :: u32) = [9, 0, 0, 0]" "to_le_bytes 4 (2310 :: u32) = [6, 9, 0, 0]"
    by code_simp+
  have split: "5 # commitment_signed_payload (arr_repeat 1) n (arr_repeat 2) pk @ D =
      (5 # replicate 32 1) @ to_le_bytes 4 n @ (replicate 32 2 @ to_le_bytes 4
        (if length pk < 2 ^ 32 then word_of_nat (length pk) else - 1 :: u32) @ pk @ D)" for n pk D
    by (simp add: commitment_signed_payload_def Let_def)
  show ?thesis
    unfolding demo_commitment_def split le using demo_sum_collides [of 9 0 6 9 "5 # replicate 32 1"] by simp
qed

lemma tampered_commitment_is_forgery_witness:
  "\<exists>s msg msg'. msg \<noteq> msg' \<and> verify_with_context demo_crypto 5 msg s DOMAIN_COMMITMENT = Ok True \<and>
     verify_with_context demo_crypto 5 msg' s DOMAIN_COMMITMENT = Ok True"
proof -
  have "demo_commitment 3 9 \<noteq> demo_commitment 3 2310"
    "pk_from_bytes demo_crypto (sc_sender_public_key (demo_commitment 3 n)) = Ok 5" for n
    by (simp_all add: demo_commitment_def demo_crypto_def demo_uniform_replicate)
  then show ?thesis
    using tampered_commitment_is_forgery [OF demo_commitment_verifies demo_commitment_verifies demo_forgery]
    by (metis result.inject(1))
qed

end
