(* ===== verification/Quote_Verify.thy ===== *)
theory Quote_Verify
  imports Single_Node
begin

text \<open>
  \<^verbatim>\<open>src/payment/verify.rs\<close>: the content and signature checks of payment quotes and merkle
  candidates. The context-free ML-DSA-65 interface \<^verbatim>\<open>saorsa_pqc::pqc\<close> and \<^verbatim>\<open>evmlib\<close>'s
  signing payloads are parameters; the fields of the two artifacts are those the crate reads and
  constructs. The two signature checks share a locale.
\<close>

section \<open>Parameters and data\<close>

record ('pk, 'sk, 'sig) ml_dsa_ops =
  ops_pk_from_bytes :: "bytes \<Rightarrow> ('pk, ustring) result"
  ops_pk_as_bytes :: "'pk \<Rightarrow> bytes"
  ops_sig_from_bytes :: "bytes \<Rightarrow> ('sig, ustring) result"
  ops_sig_as_bytes :: "'sig \<Rightarrow> bytes"
  ops_sign :: "nat \<Rightarrow> 'sk \<Rightarrow> bytes \<Rightarrow> ('sig, ustring) result"
  ops_verify :: "'pk \<Rightarrow> bytes \<Rightarrow> 'sig \<Rightarrow> (bool, ustring) result"

text \<open>\<open>'t\<close> is the quote's timestamp type.\<close>

record 't payment_quote =
  pq_content :: xorname
  pq_timestamp :: 't
  pq_price :: amount
  pq_rewards_address :: rewards_address
  pq_pub_key :: bytes
  pq_signature :: bytes
  pq_committed_key_count :: u32
  pq_commitment_pin :: "(u8, 32) arr option"

record merkle_candidate =
  mc_pub_key :: bytes
  mc_price :: amount
  mc_reward_address :: rewards_address
  mc_merkle_payment_timestamp :: u64
  mc_committed_key_count :: u32
  mc_commitment_pin :: "(u8, 32) arr option"
  mc_signature :: bytes

type_synonym 't quote_payload = "'t payment_quote \<Rightarrow> bytes"
type_synonym candidate_payload =
  "amount \<Rightarrow> rewards_address \<Rightarrow> u64 \<Rightarrow> u32 \<Rightarrow> (u8, 32) arr option \<Rightarrow> bytes"

section \<open>The checks\<close>

definition verify_quote_content :: "'t payment_quote \<Rightarrow> xorname \<Rightarrow> bool" where
  "verify_quote_content quote expected_content =
     (if pq_content quote \<noteq> expected_content then False else True)"

definition verify_quote_signature ::
  "('pk, 'sk, 'sig) ml_dsa_ops \<Rightarrow> 't quote_payload \<Rightarrow> 't payment_quote \<Rightarrow> bool" where
  "verify_quote_signature Ops bytes_for_sig quote =
     (case ops_pk_from_bytes Ops (pq_pub_key quote) of
        Err e \<Rightarrow> False
      | Ok pub_key \<Rightarrow>
          (case ops_sig_from_bytes Ops (pq_signature quote) of
             Err e \<Rightarrow> False
           | Ok signature \<Rightarrow>
               let msg = bytes_for_sig quote in
               (case ops_verify Ops pub_key msg signature of
                  Ok valid \<Rightarrow> valid
                | Err e \<Rightarrow> False)))"

definition verify_merkle_candidate_signature ::
  "('pk, 'sk, 'sig) ml_dsa_ops \<Rightarrow> candidate_payload \<Rightarrow> merkle_candidate \<Rightarrow> bool" where
  "verify_merkle_candidate_signature Ops bytes_to_sign candidate =
     (case ops_pk_from_bytes Ops (mc_pub_key candidate) of
        Err e \<Rightarrow> False
      | Ok pub_key \<Rightarrow>
          (case ops_sig_from_bytes Ops (mc_signature candidate) of
             Err e \<Rightarrow> False
           | Ok signature \<Rightarrow>
               let msg = bytes_to_sign (mc_price candidate) (mc_reward_address candidate)
                     (mc_merkle_payment_timestamp candidate) (mc_committed_key_count candidate)
                     (mc_commitment_pin candidate) in
               (case ops_verify Ops pub_key msg signature of
                  Ok valid \<Rightarrow> valid
                | Err e \<Rightarrow> False)))"

section \<open>Honest artifacts\<close>

text \<open>How the tests build a signed quote and a signed candidate.\<close>

definition signed_quote ::
  "('pk, 'sk, 'sig) ml_dsa_ops \<Rightarrow> 't quote_payload \<Rightarrow> nat \<Rightarrow> 'sk \<Rightarrow> 'pk \<Rightarrow> 't payment_quote \<Rightarrow>
     ('t payment_quote, ustring) result" where
  "signed_quote Ops bytes_for_sig r sk pk template =
     (let quote = template\<lparr>pq_pub_key := ops_pk_as_bytes Ops pk, pq_signature := []\<rparr> in
      and_then (ops_sign Ops r sk (bytes_for_sig quote)) (\<lambda>sig.
      Ok (quote\<lparr>pq_signature := ops_sig_as_bytes Ops sig\<rparr>)))"

definition signed_candidate ::
  "('pk, 'sk, 'sig) ml_dsa_ops \<Rightarrow> candidate_payload \<Rightarrow> nat \<Rightarrow> 'sk \<Rightarrow> 'pk \<Rightarrow> amount \<Rightarrow> rewards_address \<Rightarrow>
     u64 \<Rightarrow> u32 \<Rightarrow> (u8, 32) arr option \<Rightarrow> (merkle_candidate, ustring) result" where
  "signed_candidate Ops bytes_to_sign r sk pk price addr ts n pin =
     and_then (ops_sign Ops r sk (bytes_to_sign price addr ts n pin)) (\<lambda>sig.
     Ok \<lparr>mc_pub_key = ops_pk_as_bytes Ops pk, mc_price = price, mc_reward_address = addr,
         mc_merkle_payment_timestamp = ts, mc_committed_key_count = n, mc_commitment_pin = pin,
         mc_signature = ops_sig_as_bytes Ops sig\<rparr>)"

text \<open>\<open>sk\<close> signs for \<open>pk\<close>: keys and signatures decode back and what is signed verifies.\<close>

definition ops_signs_for :: "('pk, 'sk, 'sig) ml_dsa_ops \<Rightarrow> 'sk \<Rightarrow> 'pk \<Rightarrow> bool" where
  "ops_signs_for Ops sk pk \<longleftrightarrow>
     ops_pk_from_bytes Ops (ops_pk_as_bytes Ops pk) = Ok pk \<and>
     (\<forall>r msg. \<exists>s. ops_sign Ops r sk msg = Ok s \<and> ops_sig_from_bytes Ops (ops_sig_as_bytes Ops s) = Ok s \<and>
        ops_verify Ops pk msg s = Ok True)"

text \<open>The signature of a quote covers every field but the signature itself.\<close>

definition ignores_signature :: "'t quote_payload \<Rightarrow> bool" where
  "ignores_signature bytes_for_sig \<longleftrightarrow> (\<forall>q sig. bytes_for_sig (q\<lparr>pq_signature := sig\<rparr>) = bytes_for_sig q)"

section \<open>The interface: a signed artifact\<close>

locale signed_artifact =
  fixes Ops :: "('pk, 'sk, 'sig) ml_dsa_ops"
    and accepts :: "'a \<Rightarrow> bool"
    and key_bytes :: "'a \<Rightarrow> bytes" and sig_bytes :: "'a \<Rightarrow> bytes" and message :: "'a \<Rightarrow> bytes"
  assumes accepts_iff: "accepts a \<longleftrightarrow>
    (\<exists>pk s. ops_pk_from_bytes Ops (key_bytes a) = Ok pk \<and> ops_sig_from_bytes Ops (sig_bytes a) = Ok s \<and>
       ops_verify Ops pk (message a) s = Ok True)"
begin

lemma honest:
  "\<lbrakk>ops_signs_for Ops sk pk; ops_sign Ops r sk (message a) = Ok s; key_bytes a = ops_pk_as_bytes Ops pk;
    sig_bytes a = ops_sig_as_bytes Ops s\<rbrakk> \<Longrightarrow> accepts a"
  unfolding accepts_iff ops_signs_for_def by (metis result.inject(1))

text \<open>One key and one signature accepted for two artifacts: one message, or a signature that
  verifies over two.\<close>

lemma evidence:
  assumes "accepts a" "accepts b" "key_bytes a = key_bytes b" "sig_bytes a = sig_bytes b"
  shows "message a = message b \<or>
    (\<exists>pk s. ops_pk_from_bytes Ops (key_bytes a) = Ok pk \<and> message a \<noteq> message b \<and>
       ops_verify Ops pk (message a) s = Ok True \<and>
       ops_verify Ops pk (message b) s = Ok True)"
  using assms unfolding accepts_iff by (metis result.inject(1))

end

interpretation quote_artifact: signed_artifact Ops "verify_quote_signature Ops bytes_for_sig"
  pq_pub_key pq_signature bytes_for_sig
  for Ops :: "('pk, 'sk, 'sig) ml_dsa_ops" and bytes_for_sig :: "'t quote_payload"
  by unfold_locales (auto simp: verify_quote_signature_def Let_def split: result.splits)

definition candidate_message :: "candidate_payload \<Rightarrow> merkle_candidate \<Rightarrow> bytes" where
  "candidate_message bytes_to_sign c = bytes_to_sign (mc_price c) (mc_reward_address c)
     (mc_merkle_payment_timestamp c) (mc_committed_key_count c) (mc_commitment_pin c)"

interpretation candidate_artifact: signed_artifact Ops "verify_merkle_candidate_signature Ops bytes_to_sign"
  mc_pub_key mc_signature "candidate_message bytes_to_sign"
  for Ops :: "('pk, 'sk, 'sig) ml_dsa_ops" and bytes_to_sign :: candidate_payload
  by unfold_locales (auto simp: verify_merkle_candidate_signature_def candidate_message_def Let_def
      split: result.splits)

section \<open>A concrete instance\<close>

definition demo_ops :: "(u8, u8, u8 \<times> u8) ml_dsa_ops" where
  "demo_ops = \<lparr>
     ops_pk_from_bytes = (\<lambda>bs. case bs of [k] \<Rightarrow> Ok k | _ \<Rightarrow> Err (ustr ''bad key'')),
     ops_pk_as_bytes = (\<lambda>k. [k]),
     ops_sig_from_bytes = (\<lambda>bs. case bs of [r, c] \<Rightarrow> Ok (r, c) | _ \<Rightarrow> Err (ustr ''bad signature'')),
     ops_sig_as_bytes = (\<lambda>(r, c). [r, c]),
     ops_sign = (\<lambda>r sk msg. Ok (word_of_nat r, demo_sum (sk # msg))),
     ops_verify = (\<lambda>pk msg (r, c). Ok (c = demo_sum (pk # msg)))\<rparr>"

lemma demo_ops_signs_for: "ops_signs_for demo_ops k k"
  by (simp add: ops_signs_for_def demo_ops_def)

definition demo_payload :: "unit quote_payload" where
  "demo_payload q = elems (pq_content q) @ to_be_bytes 32 (pq_price q)"

definition demo_candidate_payload :: candidate_payload where
  "demo_candidate_payload price addr ts n pin =
     to_be_bytes 32 price @ elems addr @ to_be_bytes 8 ts @ to_be_bytes 4 n @
     (case pin of None \<Rightarrow> [] | Some h \<Rightarrow> elems h)"

section \<open>What is signed verifies\<close>

lemma signed_quote_verifies:
  assumes "ops_signs_for Ops sk pk" "ignores_signature bytes_for_sig"
  shows "\<exists>q. signed_quote Ops bytes_for_sig r sk pk template = Ok q \<and> pq_content q = pq_content template \<and>
    verify_quote_signature Ops bytes_for_sig q"
proof -
  let ?q = "template\<lparr>pq_pub_key := ops_pk_as_bytes Ops pk, pq_signature := []\<rparr>"
  obtain s where s: "ops_sign Ops r sk (bytes_for_sig ?q) = Ok s"
    using assms(1) by (auto simp: ops_signs_for_def)
  let ?signed = "?q\<lparr>pq_signature := ops_sig_as_bytes Ops s\<rparr>"
  have "bytes_for_sig ?signed = bytes_for_sig ?q"
    using assms(2) unfolding ignores_signature_def by blast
  then have "verify_quote_signature Ops bytes_for_sig ?signed"
    using s by (intro quote_artifact.honest [OF assms(1), of r _ _ s]) simp_all
  then show ?thesis using s by (simp add: signed_quote_def)
qed

lemma signed_candidate_verifies:
  assumes "ops_signs_for Ops sk pk"
  shows "\<exists>c. signed_candidate Ops bytes_to_sign r sk pk price addr ts n pin = Ok c \<and>
    verify_merkle_candidate_signature Ops bytes_to_sign c"
proof -
  obtain s where s: "ops_sign Ops r sk (bytes_to_sign price addr ts n pin) = Ok s"
    using assms by (auto simp: ops_signs_for_def)
  then show ?thesis
    by (auto simp: signed_candidate_def candidate_message_def
        intro!: candidate_artifact.honest [OF assms, of r _ _ s])
qed

section \<open>Properties\<close>

text \<open>
  C30: Honest artifacts verify: a quote and a merkle candidate built and signed with a key pair, for any
  fields and whatever randomness signing draws, pass the signature checks, and the quote passes the
  content check for its own address and for no other.
\<close>

theorem honest_artifacts_verify:
  assumes "ops_signs_for Ops sk pk" "ignores_signature bytes_for_sig"
  shows "\<exists>q c. signed_quote Ops bytes_for_sig r sk pk template = Ok q \<and>
    verify_quote_signature Ops bytes_for_sig q \<and>
    (\<forall>a. verify_quote_content q a \<longleftrightarrow> a = pq_content template) \<and>
    signed_candidate Ops bytes_to_sign r sk pk price addr ts n pin = Ok c \<and>
    verify_merkle_candidate_signature Ops bytes_to_sign c"
  using signed_quote_verifies [OF assms] signed_candidate_verifies [OF assms(1)]
  by (force simp: verify_quote_content_def)

lemma honest_artifacts_verify_witness:
  "\<exists>q c. signed_quote demo_ops demo_payload 3 5 5 \<lparr>pq_content = arr_repeat 7, pq_timestamp = (),
       pq_price = 42, pq_rewards_address = arr_repeat 2, pq_pub_key = [], pq_signature = [],
       pq_committed_key_count = 0, pq_commitment_pin = None\<rparr> = Ok q \<and>
     verify_quote_signature demo_ops demo_payload q \<and>
     signed_candidate demo_ops demo_candidate_payload 3 5 5 1024 (arr_repeat 3) 1700000000 7
       (Some (arr_repeat 5)) = Ok c \<and>
     verify_merkle_candidate_signature demo_ops demo_candidate_payload c"
proof -
  have "ignores_signature demo_payload" by (simp add: ignores_signature_def demo_payload_def)
  from honest_artifacts_verify [OF demo_ops_signs_for this] show ?thesis by blast
qed

text \<open>
  What the signing payload of a candidate covers, as the comment in \<^verbatim>\<open>verify.rs\<close> documents it: the price,
  the reward address, the timestamp, the key count and the pin.
\<close>

definition covers_candidate :: "candidate_payload \<Rightarrow> bool" where
  "covers_candidate bytes_to_sign \<longleftrightarrow> (\<forall>price addr ts n pin price' addr' ts' n' pin'.
     bytes_to_sign price addr ts n pin = bytes_to_sign price' addr' ts' n' pin' \<longrightarrow>
     price = price' \<and> addr = addr' \<and> ts = ts' \<and> n = n' \<and> pin = pin')"

text \<open>
  C24: A count or pin that does not match is evidence against the key: two merkle candidates accepted with
  one public key and one signature are the same in every field, or the signature verifies under that key
  over two explicit, different payloads, the ones the two candidates' fields give.
\<close>

theorem mismatch_is_evidence:
  assumes "covers_candidate bytes_to_sign"
    and "verify_merkle_candidate_signature Ops bytes_to_sign c" "verify_merkle_candidate_signature Ops bytes_to_sign c'"
    and "mc_pub_key c = mc_pub_key c'" "mc_signature c = mc_signature c'"
  shows "c = c' \<or>
    (\<exists>pk s. ops_pk_from_bytes Ops (mc_pub_key c) = Ok pk \<and>
       (let m = bytes_to_sign (mc_price c) (mc_reward_address c) (mc_merkle_payment_timestamp c)
              (mc_committed_key_count c) (mc_commitment_pin c);
            m' = bytes_to_sign (mc_price c') (mc_reward_address c') (mc_merkle_payment_timestamp c')
              (mc_committed_key_count c') (mc_commitment_pin c')
        in m \<noteq> m' \<and> ops_verify Ops pk m s = Ok True \<and> ops_verify Ops pk m' s = Ok True))"
  using candidate_artifact.evidence [OF assms(2-5)]
proof
  assume "candidate_message bytes_to_sign c = candidate_message bytes_to_sign c'"
  then have "mc_price c = mc_price c' \<and> mc_reward_address c = mc_reward_address c' \<and>
      mc_merkle_payment_timestamp c = mc_merkle_payment_timestamp c' \<and>
      mc_committed_key_count c = mc_committed_key_count c' \<and> mc_commitment_pin c = mc_commitment_pin c'"
    using assms(1) unfolding covers_candidate_def candidate_message_def by blast
  then show ?thesis using assms(4,5) by simp
qed (auto simp: candidate_message_def Let_def)

definition demo_covering_payload :: candidate_payload where
  "demo_covering_payload price addr ts n pin =
     to_be_bytes 32 price @ elems addr @ to_be_bytes 8 ts @ to_be_bytes 4 n @
     (case pin of None \<Rightarrow> [0] | Some h \<Rightarrow> 1 # elems h)"

lemma demo_covers: "covers_candidate demo_covering_payload"
  by (auto simp: covers_candidate_def demo_covering_payload_def split: option.splits)

definition demo_candidate :: "u64 \<Rightarrow> u32 \<Rightarrow> merkle_candidate" where
  "demo_candidate ts n = \<lparr>mc_pub_key = [5], mc_price = 7, mc_reward_address = arr_repeat 2,
     mc_merkle_payment_timestamp = ts, mc_committed_key_count = n, mc_commitment_pin = None,
     mc_signature = [3, demo_sum (5 # demo_covering_payload 7 (arr_repeat 2) 1 82 None)]\<rparr>"

text \<open>The witness: under a checksum for a signature, a later timestamp with a smaller count is accepted, and
  the evidence names the two payloads.\<close>

lemma demo_same_sum: "demo_sum (5 # demo_covering_payload 7 (arr_repeat 2) 1 82 None) =
    demo_sum (5 # demo_covering_payload 7 (arr_repeat 2) 2 1 None)"
proof -
  have bytes: "to_be_bytes 8 (1 :: u64) = [0, 0, 0, 0, 0, 0, 0, 1]" "to_be_bytes 8 (2 :: u64) = [0, 0, 0, 0, 0, 0, 0, 2]"
    "to_be_bytes 4 (1 :: u32) = [0, 0, 0, 1]" "to_be_bytes 4 (82 :: u32) = [0, 0, 0, 82]"
    by code_simp+
  let ?xs = "5 # to_be_bytes 32 (7 :: amount) @ elems (arr_repeat 2 :: rewards_address)"
  have split: "5 # demo_covering_payload 7 (arr_repeat 2) ts n None = ?xs @ to_be_bytes 8 ts @ to_be_bytes 4 n @ [0]" for ts n
    by (simp add: demo_covering_payload_def)
  show ?thesis
    unfolding demo_sum_def split foldl_append [of _ _ ?xs] unfolding bytes by (simp add: algebra_simps)
qed

lemma mismatch_is_evidence_witness:
  "verify_merkle_candidate_signature demo_ops demo_covering_payload (demo_candidate 1 82) \<and>
   (\<exists>s. ops_verify demo_ops 5 (demo_covering_payload 7 (arr_repeat 2) 1 82 None) s = Ok True \<and>
      ops_verify demo_ops 5 (demo_covering_payload 7 (arr_repeat 2) 2 1 None) s = Ok True)"
proof -
  have both: "verify_merkle_candidate_signature demo_ops demo_covering_payload (demo_candidate 1 82)"
    "verify_merkle_candidate_signature demo_ops demo_covering_payload (demo_candidate 2 1)"
    by (simp_all add: verify_merkle_candidate_signature_def demo_candidate_def demo_ops_def demo_same_sum)
  have "mc_pub_key (demo_candidate 1 82) = mc_pub_key (demo_candidate 2 1)"
    "mc_signature (demo_candidate 1 82) = mc_signature (demo_candidate 2 1)"
    and differ: "demo_candidate 1 82 \<noteq> demo_candidate 2 1"
    by (simp_all add: demo_candidate_def)
  from mismatch_is_evidence [OF demo_covers both this(1,2)] differ
  obtain pk s where "ops_pk_from_bytes demo_ops [5] = Ok pk"
    "ops_verify demo_ops pk (demo_covering_payload 7 (arr_repeat 2) 1 82 None) s = Ok True"
    "ops_verify demo_ops pk (demo_covering_payload 7 (arr_repeat 2) 2 1 None) s = Ok True"
    by (simp add: Let_def demo_candidate_def) blast
  moreover from this(1) have "pk = 5" by (simp add: demo_ops_def)
  ultimately show ?thesis using both(1) by blast
qed

end
