(* ===== verification/Payment_Proof.thy ===== *)
theory Payment_Proof
  imports Single_Node
begin

text \<open>
  \<^verbatim>\<open>src/payment/proof.rs\<close>: payment proofs behind a version tag. The MessagePack codec
  \<^verbatim>\<open>rmp_serde\<close> and \<^verbatim>\<open>evmlib\<close>'s proof types are parameters; the framing, its detection and its
  errors are the code's. What the two framings share is a locale, interpreted on both.
\<close>

section \<open>Data\<close>

record 'pop payment_proof =
  proof_of_payment :: 'pop
  proof_tx_hashes :: "tx_hash list"
  commitment_sidecars :: "bytes list"

datatype proof_type = SingleNode_Proof | Merkle_Proof

text \<open>\<^verbatim>\<open>rmp_serde::to_vec\<close> and \<^verbatim>\<open>rmp_serde::from_slice\<close> at a type, errors rendered.\<close>

record 'a rmp_codec =
  to_vec :: "'a \<Rightarrow> (bytes, ustring) result"
  from_slice :: "bytes \<Rightarrow> ('a, ustring) result"

section \<open>Operations\<close>

definition detect_proof_type :: "bytes \<Rightarrow> proof_type option" where
  "detect_proof_type bs =
     (case slice_first bs of
        None \<Rightarrow> None
      | Some tag \<Rightarrow>
          if tag = PROOF_TAG_SINGLE_NODE then Some SingleNode_Proof
          else if tag = PROOF_TAG_MERKLE then Some Merkle_Proof else None)"

definition serialize_single_node_proof ::
  "'pop payment_proof rmp_codec \<Rightarrow> 'pop payment_proof \<Rightarrow> (bytes, ustring) result" where
  "serialize_single_node_proof R proof =
     and_then (to_vec R proof) (\<lambda>bs. Ok ([PROOF_TAG_SINGLE_NODE] @ bs))"

definition serialize_merkle_proof :: "'merkle rmp_codec \<Rightarrow> 'merkle \<Rightarrow> (bytes, ustring) result" where
  "serialize_merkle_proof R proof =
     and_then (to_vec R proof) (\<lambda>bs. Ok ([PROOF_TAG_MERKLE] @ bs))"

definition deserialize_single_node_proof ::
  "'pop payment_proof rmp_codec \<Rightarrow> bytes \<Rightarrow> ('pop payment_proof, ustring) result" where
  "deserialize_single_node_proof R bs =
     (if slice_first bs \<noteq> Some PROOF_TAG_SINGLE_NODE then
        Err (ustr ''Missing single-node proof tag byte'')
      else and_then
        (ok_or (ustr ''Single-node proof tag present but no payload'') (get_from 1 bs)) (\<lambda>payload.
      map_err (\<lambda>e. ustr ''Failed to deserialize single-node proof: '' @ e) (from_slice R payload)))"

definition deserialize_proof ::
  "'pop payment_proof rmp_codec \<Rightarrow> bytes \<Rightarrow> ('pop \<times> tx_hash list, ustring) result" where
  "deserialize_proof R bs =
     and_then (deserialize_single_node_proof R bs) (\<lambda>proof.
     Ok (proof_of_payment proof, proof_tx_hashes proof))"

definition deserialize_merkle_proof :: "'merkle rmp_codec \<Rightarrow> bytes \<Rightarrow> ('merkle, ustring) result" where
  "deserialize_merkle_proof R bs =
     (if slice_first bs \<noteq> Some PROOF_TAG_MERKLE then
        Err (ustr ''Missing merkle proof tag byte'')
      else and_then
        (ok_or (ustr ''Merkle proof tag present but no payload'') (get_from 1 bs)) (\<lambda>payload.
      map_err (\<lambda>e. ustr ''Failed to deserialize merkle proof: '' @ e) (from_slice R payload)))"

section \<open>The interface: a framing behind a tag\<close>

text \<open>The codec's documented behaviour: what it writes it reads back.\<close>

definition codec_reads_back :: "'a rmp_codec \<Rightarrow> bool" where
  "codec_reads_back R \<longleftrightarrow> (\<forall>x bs. to_vec R x = Ok bs \<longrightarrow> from_slice R bs = Ok x)"

locale tagged_framing =
  fixes tag :: u8
    and codec :: "'a rmp_codec"
    and serialize :: "'a \<Rightarrow> (bytes, ustring) result"
    and deserialize :: "bytes \<Rightarrow> ('a, ustring) result"
    and no_tag :: ustring
    and bad_payload :: "ustring \<Rightarrow> ustring"
  assumes writes_tag: "serialize x = result_map ((#) tag) (to_vec codec x)"
    and reads_tag: "deserialize (tag # payload) = map_err bad_payload (from_slice codec payload)"
    and needs_tag: "bs = [] \<or> hd bs \<noteq> tag \<Longrightarrow> deserialize bs = Err no_tag"
begin

lemma accepted_is_tagged: "deserialize bs = Ok x \<Longrightarrow> \<exists>payload. bs = tag # payload"
  using needs_tag [of bs] by (cases bs) auto

lemma deserialize_cases:
  "deserialize bs =
     (case bs of [] \<Rightarrow> Err no_tag
      | t # payload \<Rightarrow> if t = tag then map_err bad_payload (from_slice codec payload) else Err no_tag)"
  using needs_tag [of bs] reads_tag by (cases bs) auto

lemma reads_back:
  "codec_reads_back codec \<Longrightarrow> serialize x = Ok bs \<Longrightarrow>
     hd bs = tag \<and> bs \<noteq> [] \<and> deserialize bs = Ok x"
  by (auto simp: writes_tag result_simps reads_tag codec_reads_back_def)

end

text \<open>Two framings with different tags never accept the same bytes.\<close>

locale two_framings =
  a: tagged_framing tag_a codec_a serialize_a deserialize_a no_tag_a bad_a +
  b: tagged_framing tag_b codec_b serialize_b deserialize_b no_tag_b bad_b
  for tag_a codec_a serialize_a deserialize_a no_tag_a bad_a
    and tag_b codec_b serialize_b deserialize_b no_tag_b bad_b +
  assumes tags_differ: "tag_a \<noteq> tag_b"
begin

lemma never_both: "deserialize_a bs = Ok x \<Longrightarrow> deserialize_b bs = Err no_tag_b"
  using a.accepted_is_tagged [of bs x] b.needs_tag [of bs] tags_differ by auto

lemma never_both': "deserialize_b bs = Ok y \<Longrightarrow> deserialize_a bs = Err no_tag_a"
  using b.accepted_is_tagged [of bs y] a.needs_tag [of bs] tags_differ by auto

end

section \<open>The two framings of the code\<close>

lemma get_from_1 [simp]: "get_from (Suc 0) (t # payload) = Some payload"
  by (simp add: get_from_def)

lemma slice_first_is: "slice_first bs = Some t \<longleftrightarrow> bs \<noteq> [] \<and> hd bs = t"
  by (cases bs) auto

interpretation single_framing: tagged_framing PROOF_TAG_SINGLE_NODE R "serialize_single_node_proof R"
  "deserialize_single_node_proof R" "ustr ''Missing single-node proof tag byte''"
  "\<lambda>e. ustr ''Failed to deserialize single-node proof: '' @ e"
  for R :: "'pop payment_proof rmp_codec"
proof
  show "serialize_single_node_proof R x = result_map ((#) PROOF_TAG_SINGLE_NODE) (to_vec R x)" for x
    by (cases "to_vec R x") (simp_all add: serialize_single_node_proof_def)
qed (auto simp: deserialize_single_node_proof_def slice_first_is)

interpretation merkle_framing: tagged_framing PROOF_TAG_MERKLE R "serialize_merkle_proof R"
  "deserialize_merkle_proof R" "ustr ''Missing merkle proof tag byte''"
  "\<lambda>e. ustr ''Failed to deserialize merkle proof: '' @ e"
  for R :: "'merkle rmp_codec"
proof
  show "serialize_merkle_proof R x = result_map ((#) PROOF_TAG_MERKLE) (to_vec R x)" for x
    by (cases "to_vec R x") (simp_all add: serialize_merkle_proof_def)
qed (auto simp: deserialize_merkle_proof_def slice_first_is)

interpretation proofs: two_framings PROOF_TAG_SINGLE_NODE R "serialize_single_node_proof R"
  "deserialize_single_node_proof R" "ustr ''Missing single-node proof tag byte''"
  "\<lambda>e. ustr ''Failed to deserialize single-node proof: '' @ e"
  PROOF_TAG_MERKLE R' "serialize_merkle_proof R'"
  "deserialize_merkle_proof R'" "ustr ''Missing merkle proof tag byte''"
  "\<lambda>e. ustr ''Failed to deserialize merkle proof: '' @ e"
  for R :: "'pop payment_proof rmp_codec" and R' :: "'merkle rmp_codec"
  by unfold_locales (simp add: PROOF_TAG_SINGLE_NODE_def PROOF_TAG_MERKLE_def)

lemma detect_Cons:
  "detect_proof_type (t # bs) =
     (if t = 1 then Some SingleNode_Proof else if t = 2 then Some Merkle_Proof else None)"
  by (simp add: detect_proof_type_def PROOF_TAG_SINGLE_NODE_def PROOF_TAG_MERKLE_def)

lemma detect_Nil: "detect_proof_type [] = None"
  by (simp add: detect_proof_type_def)

text \<open>What the storer reads out of the proof it is sent.\<close>

lemma single_framing_read:
  assumes "codec_reads_back R" "serialize_single_node_proof R p = Ok bs"
  shows "detect_proof_type bs = Some SingleNode_Proof" "deserialize_single_node_proof R bs = Ok p"
    "deserialize_proof R bs = Ok (proof_of_payment p, proof_tx_hashes p)"
proof -
  have s: "hd bs = 1" "bs \<noteq> []" "deserialize_single_node_proof R bs = Ok p"
    using single_framing.reads_back [OF assms] by (simp_all add: PROOF_TAG_SINGLE_NODE_def)
  show "detect_proof_type bs = Some SingleNode_Proof" using s by (cases bs) (simp_all add: detect_Cons)
  show "deserialize_single_node_proof R bs = Ok p" by (rule s(3))
  then show "deserialize_proof R bs = Ok (proof_of_payment p, proof_tx_hashes p)"
    by (simp add: deserialize_proof_def)
qed

section \<open>A concrete codec\<close>

definition demo_rmp :: "bytes payment_proof rmp_codec" where
  "demo_rmp = \<lparr>to_vec = (\<lambda>p. if proof_tx_hashes p = [] \<and> commitment_sidecars p = []
       then Ok (proof_of_payment p) else Err (ustr ''unsupported'')),
     from_slice = (\<lambda>bs. Ok \<lparr>proof_of_payment = bs, proof_tx_hashes = [], commitment_sidecars = []\<rparr>)\<rparr>"

definition demo_merkle_rmp :: "bytes rmp_codec" where
  "demo_merkle_rmp = \<lparr>to_vec = Ok, from_slice = Ok\<rparr>"

lemma demo_reads_back: "codec_reads_back demo_rmp" "codec_reads_back demo_merkle_rmp"
  by (auto simp: codec_reads_back_def demo_rmp_def demo_merkle_rmp_def split: if_splits)

text \<open>Hashes end to end, and a codec for proofs that are only their hashes.\<close>

fun hashes_of :: "bytes \<Rightarrow> tx_hash list" where
  "hashes_of [] = []"
| "hashes_of (b # bs) = Arr (take 32 (b # bs)) # hashes_of (drop 31 bs)"

lemma hashes_of_concat: "hashes_of (concat (map elems hs)) = hs"
proof (induction hs)
  case (Cons h hs)
  have "length (elems h) = 32" by simp
  then obtain b bs where h: "elems h = b # bs" "length bs = 31" by (cases "elems h") auto
  let ?rest = "concat (map elems hs)"
  have "hashes_of (concat (map elems (h # hs))) = hashes_of (b # (bs @ ?rest))"
    by (simp add: h(1))
  also have "\<dots> = Arr (take 32 (b # (bs @ ?rest))) # hashes_of (drop 31 (bs @ ?rest))"
    by (rule hashes_of.simps(2))
  also have "\<dots> = Arr (elems h) # hashes_of ?rest"
    by (simp add: h)
  finally show ?case by (simp only: Cons.IH elems_inverse)
qed simp

definition demo_hash_codec :: "unit payment_proof rmp_codec" where
  "demo_hash_codec = \<lparr>
     to_vec = (\<lambda>p. if commitment_sidecars p = [] then Ok (concat (map elems (proof_tx_hashes p)))
       else Err (ustr ''unsupported'')),
     from_slice = (\<lambda>bs. Ok \<lparr>proof_of_payment = (), proof_tx_hashes = hashes_of bs, commitment_sidecars = []\<rparr>)\<rparr>"

lemma demo_hash_codec: "codec_reads_back demo_hash_codec"
  by (auto simp: codec_reads_back_def demo_hash_codec_def hashes_of_concat split: if_splits)

section \<open>Properties\<close>

text \<open>
  C32: A proof that serializes is recognised and read back: single-node bytes are detected as such,
  deserialize to the same proof and to its quotes and hashes, and are refused by the merkle reader
  with its tag error; merkle bytes likewise the other way round.
\<close>

theorem proofs_read_back:
  assumes "codec_reads_back R" "codec_reads_back R'"
    and "serialize_single_node_proof R p = Ok bs" "serialize_merkle_proof R' m = Ok bs'"
  shows "detect_proof_type bs = Some SingleNode_Proof \<and> deserialize_single_node_proof R bs = Ok p \<and>
    deserialize_proof R bs = Ok (proof_of_payment p, proof_tx_hashes p) \<and>
    deserialize_merkle_proof R' bs = Err (ustr ''Missing merkle proof tag byte'') \<and>
    detect_proof_type bs' = Some Merkle_Proof \<and> deserialize_merkle_proof R' bs' = Ok m \<and>
    deserialize_single_node_proof R bs' = Err (ustr ''Missing single-node proof tag byte'')"
proof -
  note single = single_framing_read [OF assms(1,3)]
  have m: "hd bs' = 2" "bs' \<noteq> []" "deserialize_merkle_proof R' bs' = Ok m"
    using merkle_framing.reads_back [OF assms(2,4)] by (simp_all add: PROOF_TAG_MERKLE_def)
  have "detect_proof_type bs' = Some Merkle_Proof"
    using m by (cases bs') (simp_all add: detect_Cons)
  then show ?thesis
    using single m(3) proofs.never_both [OF single(2), of R'] proofs.never_both' [OF m(3), of R] by simp
qed

lemma proofs_read_back_witness:
  "deserialize_proof demo_rmp [1, 9, 8] = Ok ([9, 8], []) \<and>
   deserialize_merkle_proof demo_merkle_rmp [2, 9, 8] = Ok [9, 8] \<and>
   deserialize_merkle_proof demo_merkle_rmp [1, 9, 8] = Err (ustr ''Missing merkle proof tag byte'')"
proof -
  have "serialize_single_node_proof demo_rmp
      \<lparr>proof_of_payment = [9, 8], proof_tx_hashes = [], commitment_sidecars = []\<rparr> = Ok [1, 9, 8]"
    by (simp add: serialize_single_node_proof_def demo_rmp_def PROOF_TAG_SINGLE_NODE_def)
  moreover have "serialize_merkle_proof demo_merkle_rmp [9, 8] = Ok [2, 9, 8]"
    by (simp add: serialize_merkle_proof_def demo_merkle_rmp_def PROOF_TAG_MERKLE_def)
  ultimately show ?thesis
    using proofs_read_back [OF demo_reads_back] by force
qed

text \<open>
  C36: Every byte string, honest or not, gets the answer of its first byte: no tag or another tag is
  the tag error of each reader and no detected type, and after its own tag a reader hands exactly
  the remaining bytes to the codec, so that the "no payload" errors never occur and no byte
  string is accepted as both kinds of proof.
\<close>

theorem readers_follow_tag:
  "deserialize_single_node_proof R bs =
     (if bs = [] \<or> hd bs \<noteq> 1 then Err (ustr ''Missing single-node proof tag byte'')
      else map_err (\<lambda>e. ustr ''Failed to deserialize single-node proof: '' @ e) (from_slice R (tl bs))) \<and>
   deserialize_merkle_proof R' bs =
     (if bs = [] \<or> hd bs \<noteq> 2 then Err (ustr ''Missing merkle proof tag byte'')
      else map_err (\<lambda>e. ustr ''Failed to deserialize merkle proof: '' @ e) (from_slice R' (tl bs))) \<and>
   detect_proof_type bs =
     (if bs = [] then None else if hd bs = 1 then Some SingleNode_Proof
      else if hd bs = 2 then Some Merkle_Proof else None) \<and>
   \<not> (is_ok (deserialize_single_node_proof R bs) \<and> is_ok (deserialize_merkle_proof R' bs))"
proof -
  have "\<not> (is_ok (deserialize_single_node_proof R bs) \<and> is_ok (deserialize_merkle_proof R' bs))"
    using proofs.never_both [of R bs _ R'] by (auto simp: is_ok_iff)
  then show ?thesis
    by (cases bs) (simp_all add: single_framing.deserialize_cases merkle_framing.deserialize_cases
        detect_Cons detect_Nil PROOF_TAG_SINGLE_NODE_def PROOF_TAG_MERKLE_def)
qed

lemma readers_follow_tag_witness:
  "deserialize_single_node_proof demo_rmp [1] =
     Ok \<lparr>proof_of_payment = [], proof_tx_hashes = [], commitment_sidecars = []\<rparr> \<and>
   deserialize_merkle_proof demo_merkle_rmp [1] = Err (ustr ''Missing merkle proof tag byte'') \<and>
   detect_proof_type [1] = Some SingleNode_Proof \<and> detect_proof_type [3] = None"
  using readers_follow_tag [of demo_rmp "[1]" demo_merkle_rmp]
    readers_follow_tag [of demo_rmp "[3]" demo_merkle_rmp]
  by (simp add: demo_rmp_def)

end
