(* ===== verification/Proof_Serde.thy ===== *)
theory Proof_Serde
  imports Payment_Proof Wire_Types Postcard_Demo
begin

text \<open>
  The serializer \<^verbatim>\<open>#[derive(Serialize, Deserialize)]\<close> gives \<^verbatim>\<open>PaymentProof\<close> of
  \<^verbatim>\<open>src/payment/proof.rs\<close>, with the \<^verbatim>\<open>serde(default)\<close> field at its end: a proof written before that
  field existed still reads. MessagePack, \<^verbatim>\<open>evmlib\<close>'s \<^verbatim>\<open>ProofOfPayment\<close> and the transaction hash
  with their own serializers are parameters.
\<close>

section \<open>Structs in MessagePack\<close>

text \<open>
  \<^verbatim>\<open>rmp_serde\<close> writes a struct as the array of its fields. Reading hands the visitor the elements the
  array holds, each decoded at the type asked for, so a struct written with fewer fields than asked for
  reads as those fields.
\<close>

record msgpack =
  write_struct :: "sval list \<Rightarrow> (bytes, ustring) result"
  read_struct :: "sty list \<Rightarrow> bytes \<Rightarrow> (sval list, ustring) result"

text \<open>
  What the format keeps: MessagePack counts elements and bytes in 32 bits, and has one \<^verbatim>\<open>nil\<close>, for which
  \<^verbatim>\<open>None\<close> and the unit stand, so an option of an option or of a unit does not read back.
\<close>

fun msgpack_plain :: "sval \<Rightarrow> bool" where
  "msgpack_plain (V_Str s) \<longleftrightarrow> 4 * length s < 2 ^ 32"
| "msgpack_plain (V_Bytes bs) \<longleftrightarrow> length bs < 2 ^ 32"
| "msgpack_plain (V_Some V_None) \<longleftrightarrow> False"
| "msgpack_plain (V_Some (V_Some v)) \<longleftrightarrow> False"
| "msgpack_plain (V_Some (V_Tuple [])) \<longleftrightarrow> False"
| "msgpack_plain (V_Some v) \<longleftrightarrow> msgpack_plain v"
| "msgpack_plain (V_Seq vs) \<longleftrightarrow> length vs < 2 ^ 32 \<and> list_all msgpack_plain vs"
| "msgpack_plain (V_Tuple vs) \<longleftrightarrow> length vs < 2 ^ 32 \<and> list_all msgpack_plain vs"
| "msgpack_plain (V_Variant k v) \<longleftrightarrow> msgpack_plain v"
| "msgpack_plain v \<longleftrightarrow> True"

text \<open>A struct of less than sixteen such fields is written, and reads back when at least as many fields
  are asked for.\<close>

definition msgpack_structs :: "msgpack \<Rightarrow> bool" where
  "msgpack_structs M \<longleftrightarrow>
     (\<forall>ts vs. length ts < 16 \<longrightarrow> length vs \<le> length ts \<longrightarrow> list_all msgpack_plain vs \<longrightarrow>
        of_type (T_Tuple (take (length vs) ts)) (V_Tuple vs) \<longrightarrow>
        (\<exists>bs. write_struct M vs = Ok bs \<and> read_struct M ts bs = Ok vs))"

section \<open>The derived serializer\<close>

definition ser_seq :: "('a \<Rightarrow> sval) \<Rightarrow> 'a list \<Rightarrow> sval" where
  "ser_seq f xs = V_Seq (map f xs)"

definition de_seq :: "(sval \<Rightarrow> 'a option) \<Rightarrow> sval \<Rightarrow> 'a list option" where
  "de_seq f v = (case v of V_Seq vs \<Rightarrow> those (map f vs) | _ \<Rightarrow> None)"

definition payment_proof_types :: "sty \<Rightarrow> sty \<Rightarrow> sty list" where
  "payment_proof_types ty_pop ty_tx = [ty_pop, T_Seq ty_tx, T_Seq (T_Seq T_U8)]"

text \<open>The quotes may fail to serialize: they hold a \<^verbatim>\<open>SystemTime\<close>.\<close>

definition ser_payment_proof ::
  "('pop \<Rightarrow> (sval, ustring) result) \<Rightarrow> (tx_hash \<Rightarrow> sval) \<Rightarrow> 'pop payment_proof \<Rightarrow> (sval list, ustring) result" where
  "ser_payment_proof ser_pop ser_tx p =
     and_then (ser_pop (proof_of_payment p)) (\<lambda>pop.
     Ok [pop, ser_seq ser_tx (proof_tx_hashes p), ser_seq ser_vec (commitment_sidecars p)])"

text \<open>The visitor: the first two fields are required, the third falls back to its default.\<close>

definition de_payment_proof ::
  "(sval \<Rightarrow> 'pop option) \<Rightarrow> (sval \<Rightarrow> tx_hash option) \<Rightarrow> sval list \<Rightarrow> ('pop payment_proof, ustring) result" where
  "de_payment_proof de_pop de_tx vs =
     (case vs of
        [] \<Rightarrow> Err (ustr ''invalid length 0, expected struct PaymentProof with 3 elements'')
      | v0 # vs0 \<Rightarrow> and_then (ok_or (ustr ''invalid type'') (de_pop v0)) (\<lambda>pop.
          case vs0 of
            [] \<Rightarrow> Err (ustr ''invalid length 1, expected struct PaymentProof with 3 elements'')
          | v1 # vs1 \<Rightarrow> and_then (ok_or (ustr ''invalid type'') (de_seq de_tx v1)) (\<lambda>txs.
              and_then (case vs1 of
                  [] \<Rightarrow> Ok []
                | v2 # _ \<Rightarrow> ok_or (ustr ''invalid type'') (de_seq de_vec v2)) (\<lambda>sidecars.
              Ok \<lparr>proof_of_payment = pop, proof_tx_hashes = txs, commitment_sidecars = sidecars\<rparr>))))"

definition payment_proof_codec ::
  "msgpack \<Rightarrow> sty \<Rightarrow> ('pop \<Rightarrow> (sval, ustring) result) \<Rightarrow> (sval \<Rightarrow> 'pop option) \<Rightarrow>
     sty \<Rightarrow> (tx_hash \<Rightarrow> sval) \<Rightarrow> (sval \<Rightarrow> tx_hash option) \<Rightarrow> 'pop payment_proof rmp_codec" where
  "payment_proof_codec M ty_pop ser_pop de_pop ty_tx ser_tx de_tx = \<lparr>
     to_vec = (\<lambda>p. and_then (ser_payment_proof ser_pop ser_tx p) (write_struct M)),
     from_slice = (\<lambda>bs. and_then (read_struct M (payment_proof_types ty_pop ty_tx) bs)
       (de_payment_proof de_pop de_tx))\<rparr>"

section \<open>Reading proofs of either age\<close>

text \<open>A value written by someone else's serializer that its deserializer reads as \<open>x\<close>.\<close>

definition reads_as :: "sty \<Rightarrow> (sval \<Rightarrow> 'a option) \<Rightarrow> sval \<Rightarrow> 'a \<Rightarrow> bool" where
  "reads_as ty de v x \<longleftrightarrow> of_type ty v \<and> msgpack_plain v \<and> de v = Some x"

lemma those_reads: "\<forall>x \<in> set xs. de (ser x) = Some x \<Longrightarrow> those (map de (map ser xs)) = Some xs"
  by (induction xs) simp_all

lemma seq_reads_as:
  assumes "\<forall>x \<in> set xs. reads_as ty de (ser x) x" "length xs < 2 ^ 32"
  shows "reads_as (T_Seq ty) (de_seq de) (ser_seq ser xs) xs"
proof -
  have "those (map de (map ser xs)) = Some xs"
    by (rule those_reads) (use assms(1) in \<open>simp add: reads_as_def\<close>)
  then show ?thesis
    using assms by (auto simp: reads_as_def ser_seq_def de_seq_def list_all_iff)
qed

lemma vec_reads_as: "length bs < 2 ^ 32 \<Longrightarrow> reads_as (T_Seq T_U8) de_vec (ser_vec bs) bs"
  using wt_vec.ser_typed wt_vec.de_ser by (auto simp: reads_as_def ser_vec_def list_all_iff)

text \<open>The fields a proof writes, all three of them or only the first two, come back to the visitor.\<close>

lemma fields_read_back:
  assumes "msgpack_structs M" "reads_as t0 d0 v0 x0" "reads_as t1 d1 v1 x1" "reads_as t2 d2 v2 x2"
    and "vs = [v0, v1] \<or> vs = [v0, v1, v2]"
  shows "\<exists>bs. write_struct M vs = Ok bs \<and> read_struct M [t0, t1, t2] bs = Ok vs"
proof -
  have "of_type (T_Tuple (take (length vs) [t0, t1, t2])) (V_Tuple vs)" "list_all msgpack_plain vs"
    using assms(2-5) by (auto simp: reads_as_def)
  moreover have "length [t0, t1, t2] < 16" "length vs \<le> length [t0, t1, t2]"
    using assms(5) by auto
  ultimately show ?thesis using assms(1) unfolding msgpack_structs_def by blast
qed

section \<open>A concrete format\<close>

text \<open>The count of fields in one byte, then the fields as the demonstration serializer of tuples has
  them.\<close>

definition tuple_fields :: "sval \<Rightarrow> (sval list, ustring) result" where
  "tuple_fields v = (case v of V_Tuple vs \<Rightarrow> Ok vs | _ \<Rightarrow> Err [])"

lemma tuple_fields_eq_Ok: "tuple_fields v = Ok vs \<longleftrightarrow> v = V_Tuple vs"
  by (cases v) (simp_all add: tuple_fields_def)

definition demo_msgpack :: msgpack where
  "demo_msgpack = \<lparr>
     write_struct = (\<lambda>vs. result_map ((#) (word_of_nat (length vs))) (to_stdvec demo_postcard (V_Tuple vs))),
     read_struct = (\<lambda>ts bs. case bs of [] \<Rightarrow> Err []
       | n # rest \<Rightarrow> if length ts < unat n then Err []
         else and_then (take_from_bytes demo_postcard (T_Tuple (take (unat n) ts)) rest)
           (\<lambda>(v, _). tuple_fields v))\<rparr>"

lemma demo_msgpack_structs: "msgpack_structs demo_msgpack"
  unfolding msgpack_structs_def
proof (intro allI impI)
  fix ts and vs :: "sval list"
  assume len: "length ts < 16" "length vs \<le> length ts"
    and vs: "of_type (T_Tuple (take (length vs) ts)) (V_Tuple vs)"
  have n: "unat (word_of_nat (length vs) :: u8) = length vs"
    using len by (simp add: unat_of_nat)
  obtain bs where "to_stdvec demo_postcard (V_Tuple vs) = Ok bs"
    "\<And>rest. take_from_bytes demo_postcard (T_Tuple (take (length vs) ts)) (bs @ rest) = Ok (V_Tuple vs, rest)"
    using postcard_encodes [OF demo_round_trips vs] by blast
  from this(1) this(2) [of "[]"]
  show "\<exists>bs. write_struct demo_msgpack vs = Ok bs \<and> read_struct demo_msgpack ts bs = Ok vs"
    using len n by (intro exI [of _ "word_of_nat (length vs) # bs"]) (simp add: demo_msgpack_def tuple_fields_eq_Ok)
qed

section \<open>Properties\<close>

text \<open>
  C25: Proofs of either age read: a proof whose quotes and hashes MessagePack can carry, and whose own
  deserializers read what their serializers wrote of them, reads back entire behind its tag; and what a
  peer that predates the sidecars writes of it, the first two fields only, reads through both readers
  as the same quotes and hashes, with no sidecars.
\<close>

theorem proofs_of_either_age_read:
  fixes p :: "'pop payment_proof"
  assumes "msgpack_structs M"
    and "ser_pop (proof_of_payment p) = Ok v" "reads_as ty_pop de_pop v (proof_of_payment p)"
    and "\<forall>h \<in> set (proof_tx_hashes p). reads_as ty_tx de_tx (ser_tx h) h"
    and "length (proof_tx_hashes p) < 2 ^ 32" "length (commitment_sidecars p) < 2 ^ 32"
    and "\<forall>s \<in> set (commitment_sidecars p). length s < 2 ^ 32"
  defines "R \<equiv> payment_proof_codec M ty_pop ser_pop de_pop ty_tx ser_tx de_tx"
  shows "(\<exists>bs. serialize_single_node_proof R p = Ok bs \<and> deserialize_single_node_proof R bs = Ok p) \<and>
    (\<exists>old. write_struct M [v, ser_seq ser_tx (proof_tx_hashes p)] = Ok old \<and>
      deserialize_single_node_proof R (1 # old) = Ok (p\<lparr>commitment_sidecars := []\<rparr>) \<and>
      deserialize_proof R (1 # old) = Ok (proof_of_payment p, proof_tx_hashes p))"
proof -
  have txs: "reads_as (T_Seq ty_tx) (de_seq de_tx) (ser_seq ser_tx (proof_tx_hashes p)) (proof_tx_hashes p)"
    by (rule seq_reads_as [OF assms(4,5)])
  have scs: "reads_as (T_Seq (T_Seq T_U8)) (de_seq de_vec) (ser_seq ser_vec (commitment_sidecars p)) (commitment_sidecars p)"
    by (rule seq_reads_as [OF _ assms(6)]) (use assms(7) vec_reads_as in blast)
  note fields_back = fields_read_back [OF assms(1,3) txs scs]
  note reads = assms(3) txs scs [unfolded reads_as_def] and defs = R_def payment_proof_codec_def
    ser_payment_proof_def de_payment_proof_def payment_proof_types_def reads_as_def
  obtain bs where bs: "to_vec R p = Ok bs" "from_slice R bs = Ok p"
    using fields_back [of "[v, ser_seq ser_tx (proof_tx_hashes p), ser_seq ser_vec (commitment_sidecars p)]"]
      reads assms(2) by (auto simp: defs)
  obtain old where old: "write_struct M [v, ser_seq ser_tx (proof_tx_hashes p)] = Ok old"
    "from_slice R old = Ok (p\<lparr>commitment_sidecars := []\<rparr>)"
    using fields_back [of "[v, ser_seq ser_tx (proof_tx_hashes p)]"] reads by (auto simp: defs)
  have rd: "deserialize_single_node_proof R (1 # old) = Ok (p\<lparr>commitment_sidecars := []\<rparr>)"
    using single_framing.reads_tag [of R old] old(2) by (simp add: PROOF_TAG_SINGLE_NODE_def)
  have "serialize_single_node_proof R p = Ok (PROOF_TAG_SINGLE_NODE # bs)"
    "deserialize_single_node_proof R (PROOF_TAG_SINGLE_NODE # bs) = Ok p"
    using single_framing.writes_tag [of R p] single_framing.reads_tag [of R bs] bs by simp_all
  then show ?thesis
    using old(1) rd by (auto simp: deserialize_proof_def)
qed

text \<open>The witness: quotes that are a time after the epoch; an earlier one does not serialize.\<close>

lemma proofs_of_either_age_read_witness:
  "\<exists>old. write_struct demo_msgpack [V_U32 7, ser_seq ser_xorname [arr_repeat 9]] = Ok old \<and>
    deserialize_proof (payment_proof_codec demo_msgpack T_U32
      (\<lambda>t. if t < 0 then Err (ustr ''SystemTime must be later than UNIX_EPOCH'') else Ok (V_U32 (word_of_int t)))
      (map_option uint \<circ> de_u32) ty_xorname ser_xorname de_xorname) (1 # old) = Ok (7, [arr_repeat 9])"
proof -
  let ?p = "\<lparr>proof_of_payment = 7 :: int, proof_tx_hashes = [arr_repeat 9], commitment_sidecars = [[1]]\<rparr>"
  let ?ser = "\<lambda>t. if t < 0 then Err (ustr ''SystemTime must be later than UNIX_EPOCH'') else Ok (V_U32 (word_of_int t))"
  have w1: "?ser (proof_of_payment ?p) = Ok (V_U32 7)" by simp
  have w2: "reads_as T_U32 (map_option uint \<circ> de_u32) (V_U32 7) (proof_of_payment ?p)"
    by (simp add: reads_as_def de_u32_def)
  have "msgpack_plain (ser_xorname h)" for h
    by (simp add: ser_xorname_def list_all_iff)
  then have w3: "\<forall>h \<in> set (proof_tx_hashes ?p). reads_as ty_xorname de_xorname (ser_xorname h) h"
    using wt_xorname.ser_typed wt_xorname.de_ser by (simp add: reads_as_def)
  have w4: "length (proof_tx_hashes ?p) < 2 ^ 32" "length (commitment_sidecars ?p) < 2 ^ 32"
    "\<forall>s \<in> set (commitment_sidecars ?p). length s < 2 ^ 32"
    by simp_all
  obtain old where "write_struct demo_msgpack [V_U32 7, ser_seq ser_xorname (proof_tx_hashes ?p)] = Ok old"
    "deserialize_proof (payment_proof_codec demo_msgpack T_U32 ?ser (map_option uint \<circ> de_u32) ty_xorname
      ser_xorname de_xorname) (1 # old) = Ok (proof_of_payment ?p, proof_tx_hashes ?p)"
    using proofs_of_either_age_read [where p = ?p and ser_pop = ?ser and ser_tx = ser_xorname,
      OF demo_msgpack_structs w1 w2 w3 w4] by blast
  then show ?thesis by auto
qed

end
