(* ===== verification/Payment_Tests.thy ===== *)
theory Payment_Tests
  imports Single_Node_Properties Commitment Quote_Verify Proof_Serde
begin

text \<open>
  The unit tests of \<^verbatim>\<open>src/payment/pricing.rs\<close> and \<^verbatim>\<open>src/payment/single_node.rs\<close> as definitions over
  the model, and that they pass. What a test draws at random is a parameter of it; the two tests of
  \<^verbatim>\<open>evmlib\<close>'s vault alone run no code of the crate and are left out.
\<close>

section \<open>Prices\<close>

definition WEI_PER_TOKEN :: u128 where
  "WEI_PER_TOKEN = 1000000000000000000"

definition test_zero_records_gets_baseline :: bool where
  "test_zero_records_gets_baseline \<longleftrightarrow> calculate_price 0 = amount_from PRICE_BASELINE_WEI"

definition test_baseline_is_nonzero_spam_barrier :: bool where
  "test_baseline_is_nonzero_spam_barrier \<longleftrightarrow>
     calculate_price 0 > 0 \<and> calculate_price 1 > calculate_price 0"

definition test_one_record_above_baseline :: bool where
  "test_one_record_above_baseline \<longleftrightarrow>
     (let price = calculate_price 1
      in price = expected_price 1 \<and> price > amount_from PRICE_BASELINE_WEI)"

definition test_at_divisor_is_baseline_plus_k :: bool where
  "test_at_divisor_is_baseline_plus_k \<longleftrightarrow>
     calculate_price 6000 = amount_from (PRICE_BASELINE_WEI + PRICE_COEFFICIENT_WEI)"

definition test_double_divisor_is_baseline_plus_four_k :: bool where
  "test_double_divisor_is_baseline_plus_four_k \<longleftrightarrow>
     calculate_price 12000 = amount_from (PRICE_BASELINE_WEI + 4 * PRICE_COEFFICIENT_WEI)"

definition test_triple_divisor_is_baseline_plus_nine_k :: bool where
  "test_triple_divisor_is_baseline_plus_nine_k \<longleftrightarrow>
     calculate_price 18000 = amount_from (PRICE_BASELINE_WEI + 9 * PRICE_COEFFICIENT_WEI)"

definition test_smooth_pricing_no_staircase :: bool where
  "test_smooth_pricing_no_staircase \<longleftrightarrow>
     (let price_6k = calculate_price 6000; price_11k = calculate_price 11999 in price_11k > price_6k)"

definition test_price_increases_with_records :: bool where
  "test_price_increases_with_records \<longleftrightarrow>
     (let price_low = calculate_price 6000; price_mid = calculate_price 12000; price_high = calculate_price 18000
      in price_mid > price_low \<and> price_high > price_mid)"

fun increases_from :: "amount \<Rightarrow> usize list \<Rightarrow> bool" where
  "increases_from prev_price [] = True"
| "increases_from prev_price (records # rest) =
     (let price = calculate_price records in price \<ge> prev_price \<and> increases_from price rest)"

definition test_price_increases_monotonically :: bool where
  "test_price_increases_monotonically \<longleftrightarrow> increases_from 0 (map (\<lambda>k. word_of_nat (100 * k)) [0..<600])"

definition test_large_value_no_overflow :: bool where
  "test_large_value_no_overflow \<longleftrightarrow> calculate_price (- 1) > 0"

definition test_price_deterministic :: bool where
  "test_price_deterministic \<longleftrightarrow>
     (let price1 = calculate_price 12000; price2 = calculate_price 12000 in price1 = price2)"

definition test_quadratic_growth_excluding_baseline :: bool where
  "test_quadratic_growth_excluding_baseline \<longleftrightarrow>
     (let base = amount_from PRICE_BASELINE_WEI;
          quad_6k = calculate_price 6000 - base;
          quad_12k = calculate_price 12000 - base;
          quad_24k = calculate_price 24000 - base
      in quad_12k = quad_6k * amount_from (4 :: u64) \<and> quad_24k = quad_6k * amount_from (16 :: u64))"

definition test_small_record_counts_near_baseline :: bool where
  "test_small_record_counts_near_baseline \<longleftrightarrow>
     (let price = calculate_price 100
      in price = expected_price 100 \<and> price < amount_from WEI_PER_TOKEN \<and>
         price > amount_from PRICE_BASELINE_WEI)"

definition test_derive_records_stored_from_price_round_trips :: "(amount \<Rightarrow> nat \<Rightarrow> amount) \<Rightarrow> bool" where
  "test_derive_records_stored_from_price_round_trips root \<longleftrightarrow>
     (\<forall>records \<in> set [0, 1, 5, 100, 6000, 12000, 60000].
        derive_records_stored_from_price root (calculate_price records) = Some records)"

definition test_derive_records_stored_from_baseline_or_lower_is_zero ::
  "(amount \<Rightarrow> nat \<Rightarrow> amount) \<Rightarrow> bool" where
  "test_derive_records_stored_from_baseline_or_lower_is_zero root \<longleftrightarrow>
     derive_records_stored_from_price root 0 = Some 0 \<and>
     derive_records_stored_from_price root (amount_from PRICE_BASELINE_WEI) = Some 0"

definition test_derive_records_stored_from_max_price_saturates_no_panic ::
  "(amount \<Rightarrow> nat \<Rightarrow> amount) \<Rightarrow> bool" where
  "test_derive_records_stored_from_max_price_saturates_no_panic root \<longleftrightarrow>
     derive_records_stored_from_price root (- 1) = Some (- 1)"

subsection \<open>They pass\<close>

lemmas amount_by_nat = word_unat_eq_iff word_less_nat_alt word_le_nat_alt

lemma formula_tests:
  "test_zero_records_gets_baseline" "test_baseline_is_nonzero_spam_barrier" "test_one_record_above_baseline"
  "test_at_divisor_is_baseline_plus_k" "test_double_divisor_is_baseline_plus_four_k"
  "test_triple_divisor_is_baseline_plus_nine_k" "test_smooth_pricing_no_staircase"
  "test_price_increases_with_records" "test_large_value_no_overflow" "test_price_deterministic"
  "test_small_record_counts_near_baseline"
  by (simp_all add: test_zero_records_gets_baseline_def test_baseline_is_nonzero_spam_barrier_def
    test_one_record_above_baseline_def test_at_divisor_is_baseline_plus_k_def
    test_double_divisor_is_baseline_plus_four_k_def test_triple_divisor_is_baseline_plus_nine_k_def
    test_smooth_pricing_no_staircase_def test_price_increases_with_records_def
    test_large_value_no_overflow_def test_price_deterministic_def test_small_record_counts_near_baseline_def
    Let_def amount_by_nat unat_calculate_price unat_expected_price unat_amount_from price_constants
    PRICE_BASELINE_WEI_def PRICE_COEFFICIENT_WEI_def WEI_PER_TOKEN_def)

lemma unat_price_excess: "unat (calculate_price n - amount_from PRICE_BASELINE_WEI) = 976562500 * (unat n)\<^sup>2"
  by (subst unat_sub) (simp_all add: word_le_nat_alt unat_calculate_price price_constants)

lemma test_quadratic_growth: "test_quadratic_growth_excluding_baseline"
  unfolding test_quadratic_growth_excluding_baseline_def Let_def word_unat_eq_iff
  by (intro conjI; subst unat_mult_exact) (simp_all add: unat_price_excess unat_amount_from)

lemma calculate_price_mono: "n \<le> m \<Longrightarrow> calculate_price n \<le> calculate_price m"
  using calculate_price_less_iff [of m n] by (simp add: not_less [symmetric])

lemma increases_sorted:
  "sorted rs \<Longrightarrow> (\<And>r. r \<in> set rs \<Longrightarrow> prev \<le> calculate_price r) \<Longrightarrow> increases_from prev rs"
  by (induction rs arbitrary: prev) (simp_all add: Let_def calculate_price_mono)

lemma test_monotonically: "test_price_increases_monotonically"
  unfolding test_price_increases_monotonically_def
proof (rule increases_sorted)
  have "(word_of_nat (100 * i) :: usize) \<le> word_of_nat (100 * j)" if "i \<le> j" "j < 600" for i j
  proof -
    have "unat (word_of_nat (100 * i) :: usize) = 100 * i" "unat (word_of_nat (100 * j) :: usize) = 100 * j"
      using that by (simp_all only: unat_of_nat) simp_all
    then show ?thesis using that(1) by (simp only: word_le_nat_alt)
  qed
  then show "sorted (map (\<lambda>k. word_of_nat (100 * k) :: usize) [0..<600])"
    unfolding sorted_iff_nth_mono by simp
qed simp

lemma derive_tests:
  assumes "floor_root root"
  shows "test_derive_records_stored_from_price_round_trips root"
    "test_derive_records_stored_from_baseline_or_lower_is_zero root"
    "test_derive_records_stored_from_max_price_saturates_no_panic root"
proof -
  show "test_derive_records_stored_from_price_round_trips root"
    by (simp add: test_derive_records_stored_from_price_round_trips_def derive_price [OF assms])
  show "test_derive_records_stored_from_baseline_or_lower_is_zero root"
    by (simp add: test_derive_records_stored_from_baseline_or_lower_is_zero_def
        derive_records_stored_from_price_def)
  obtain m where m: "derive_records_stored_from_price root (- 1) = Some m"
    "\<And>n. amount_from PRICE_BASELINE_WEI \<le> - 1 \<Longrightarrow> n \<le> m \<longleftrightarrow> calculate_price n \<le> - 1"
    using derive_total [OF assms] by blast
  have "- 1 \<le> m" using m(2) [of "- 1"] by simp
  then show "test_derive_records_stored_from_max_price_saturates_no_panic root"
    using m(1) by (simp add: test_derive_records_stored_from_max_price_saturates_no_panic_def
        word_order.extremum_unique)
qed

section \<open>Single-node payments\<close>

text \<open>A quote as \<^verbatim>\<open>evmlib\<close> gives it to the payment: its hash and its rewards address. \<open>draw\<close> gives
  each quote of a test its random content and the time it is made.\<close>

definition evm_quotes :: "('t payment_quote \<Rightarrow> quote_hash) \<Rightarrow> 't payment_quote quote_api" where
  "evm_quotes quote_hash_of = \<lparr>hash_of = quote_hash_of, rewards_of = pq_rewards_address\<rparr>"

definition make_test_quote :: "xorname \<times> 't \<Rightarrow> u8 \<Rightarrow> 't payment_quote" where
  "make_test_quote draw rewards_addr_seed =
     \<lparr>pq_content = fst draw, pq_timestamp = snd draw, pq_price = amount_from (1 :: u64),
      pq_rewards_address = arr_repeat rewards_addr_seed, pq_pub_key = [], pq_signature = [],
      pq_committed_key_count = 0, pq_commitment_pin = None\<rparr>"

text \<open>A test quote at a price, and \<open>n\<close> equal offers of 10.\<close>

definition priced_quote :: "xorname \<times> 't \<Rightarrow> u8 \<Rightarrow> u64 \<Rightarrow> 't payment_quote \<times> amount" where
  "priced_quote draw seed price =
     ((make_test_quote draw seed)\<lparr>pq_price := amount_from price\<rparr>, amount_from price)"

definition offers_of_ten :: "(nat \<Rightarrow> xorname \<times> 't) \<Rightarrow> nat \<Rightarrow> ('t payment_quote \<times> amount) list" where
  "offers_of_ten draw n = map (\<lambda>i. (make_test_quote (draw i) 1, amount_from (10 :: u64))) [0..<n]"

type_synonym 't single_node_test = "('t payment_quote \<Rightarrow> quote_hash) \<Rightarrow> (nat \<Rightarrow> xorname \<times> 't) \<Rightarrow> bool"

definition test_from_quotes_median_selection :: "'t single_node_test" where
  "test_from_quotes_median_selection quote_hash_of draw \<longleftrightarrow>
     (let quotes_with_prices = map (\<lambda>(i, price). priced_quote (draw i) 1 price)
            (enumerate 0 [50, 30, 10, 40, 20, 60, 70]) in
      expect (from_quotes (evm_quotes quote_hash_of) quotes_with_prices) (\<lambda>payment.
        map_option qpi_amount (slice_get MEDIAN_INDEX (elems (payment_quotes payment))) =
          Some (amount_from (120 :: u64)) \<and>
        (\<forall>(i, q) \<in> set (enumerate 0 (elems (payment_quotes payment))). i \<noteq> MEDIAN_INDEX \<longrightarrow> qpi_amount q = 0) \<and>
        total_amount payment = amount_from (120 :: u64)))"

definition test_from_quotes_wrong_count :: "'t single_node_test" where
  "test_from_quotes_wrong_count quote_hash_of draw \<longleftrightarrow>
     \<not> is_ok (from_quotes (evm_quotes quote_hash_of) (offers_of_ten draw 3))"

definition test_from_quotes_zero_quotes :: "('t payment_quote \<Rightarrow> quote_hash) \<Rightarrow> bool" where
  "test_from_quotes_zero_quotes quote_hash_of \<longleftrightarrow>
     (case from_quotes (evm_quotes quote_hash_of) [] of
        Ok payment \<Rightarrow> False
      | Err e \<Rightarrow> str_contains (display_ant_error e) (ustr ''exactly 7''))"

definition test_from_quotes_one_quote :: "'t single_node_test" where
  "test_from_quotes_one_quote quote_hash_of draw \<longleftrightarrow>
     \<not> is_ok (from_quotes (evm_quotes quote_hash_of) [(make_test_quote (draw 0) 1, amount_from (10 :: u64))])"

definition test_from_quotes_wrong_count_six :: "'t single_node_test" where
  "test_from_quotes_wrong_count_six quote_hash_of draw \<longleftrightarrow>
     (case from_quotes (evm_quotes quote_hash_of) (offers_of_ten draw 6) of
        Ok payment \<Rightarrow> False
      | Err e \<Rightarrow> str_contains (display_ant_error e) (ustr ''exactly 7''))"

text \<open>The offers of 10 to 70 that two of the tests make, each with its own rewards address.\<close>

definition rising_offers :: "(nat \<Rightarrow> xorname \<times> 't) \<Rightarrow> ('t payment_quote \<times> amount) list" where
  "rising_offers draw =
     map (\<lambda>i. (make_test_quote (draw (unat i)) i, amount_from (word_of_nat (unat i) * 10 :: u64)))
       (map word_of_nat [1..<1 + CLOSE_GROUP_SIZE])"

definition test_paid_quote_returns_median :: "'t single_node_test" where
  "test_paid_quote_returns_median quote_hash_of draw \<longleftrightarrow>
     expect (from_quotes (evm_quotes quote_hash_of) (rising_offers draw)) (\<lambda>payment.
       case paid_quote payment of
         None \<Rightarrow> False
       | Some paid \<Rightarrow> qpi_amount paid > 0 \<and> total_amount payment = qpi_amount paid)"

definition test_all_quotes_have_distinct_addresses :: "'t single_node_test" where
  "test_all_quotes_have_distinct_addresses quote_hash_of draw \<longleftrightarrow>
     expect (from_quotes (evm_quotes quote_hash_of) (rising_offers draw)) (\<lambda>payment.
       length (remdups_adj (sort (map qpi_rewards_address (elems (payment_quotes payment))))) = CLOSE_GROUP_SIZE)"

definition test_tied_median_prices_all_share_median_price :: "'t single_node_test" where
  "test_tied_median_prices_all_share_median_price quote_hash_of draw \<longleftrightarrow>
     (let quotes_with_prices = map (\<lambda>(i, price). priced_quote (draw i) (word_of_nat i + 1) price)
            (enumerate 0 [10, 20, 30, 30, 30, 40, 50]) in
      expect (from_quotes (evm_quotes quote_hash_of) quotes_with_prices) (\<lambda>payment.
        length (filter (\<lambda>q. qpi_price q = amount_from (30 :: u64)) (elems (payment_quotes payment))) = 3 \<and>
        qpi_amount (elems (payment_quotes payment) ! MEDIAN_INDEX) = amount_from (90 :: u64) \<and>
        total_amount payment = amount_from (90 :: u64)))"

definition test_total_amount_equals_3x_median :: "'t single_node_test" where
  "test_total_amount_equals_3x_median quote_hash_of draw \<longleftrightarrow>
     (let quotes = map (\<lambda>(i, price). (make_test_quote (draw i) 1, amount_from price))
            (enumerate 0 [100 :: u64, 200, 300, 400, 500, 600, 700]) in
      expect (from_quotes (evm_quotes quote_hash_of) quotes) (\<lambda>payment.
        total_amount payment = amount_from (1200 :: u64)))"

definition verify_rejects_zero_median_price ::
  "('t payment_quote \<Rightarrow> quote_hash) \<Rightarrow> (nat \<Rightarrow> xorname \<times> 't) \<Rightarrow> vault \<Rightarrow> bool" where
  "verify_rejects_zero_median_price quote_hash_of draw network \<longleftrightarrow>
     (let quotes_with_prices = map (\<lambda>i. (make_test_quote (draw i) 1, 0)) [0..<CLOSE_GROUP_SIZE] in
      expect (from_quotes (evm_quotes quote_hash_of) quotes_with_prices) (\<lambda>payment.
        qpi_amount (elems (payment_quotes payment) ! MEDIAN_INDEX) = 0 \<and>
        (case verify_payment network payment of
           Ok amount \<Rightarrow> False
         | Err e \<Rightarrow> str_contains (display_ant_error e) (ustr ''zero price''))))"

text \<open>The whole flow on a test chain \<open>chain0\<close>: quotes of one chunk at prices 100 to 106, paid and
  verified.\<close>

definition real_price_offers ::
  "xorname \<Rightarrow> (nat \<Rightarrow> 't) \<Rightarrow> rewards_address \<Rightarrow> ('t payment_quote \<times> amount) list" where
  "real_price_offers chunk_xor now wallet_address = map (\<lambda>i.
     let price = amount_from (100 + word_of_nat i :: u64) in
     ((make_test_quote (chunk_xor, now i) 0)\<lparr>pq_price := price, pq_rewards_address := wallet_address\<rparr>, price))
     [0..<CLOSE_GROUP_SIZE]"

definition test_single_node_with_real_prices ::
  "('t payment_quote \<Rightarrow> quote_hash) \<Rightarrow> (quote_hash \<Rightarrow> ustring) \<Rightarrow> 'c wallet \<Rightarrow> ('c \<Rightarrow> quote_hash \<Rightarrow> u128) \<Rightarrow>
     'c \<Rightarrow> ('t payment_quote \<times> amount) list \<Rightarrow> bool" where
  "test_single_node_with_real_prices quote_hash_of show_hash wallet completed chain0 quotes_with_prices \<longleftrightarrow>
     expect (from_quotes (evm_quotes quote_hash_of) quotes_with_prices) (\<lambda>payment.
       paid_quote payment \<noteq> None \<and>
       length (elems (payment_quotes payment)) = CLOSE_GROUP_SIZE \<and>
       (case slice_get MEDIAN_INDEX (elems (payment_quotes payment)) of
          None \<Rightarrow> False
        | Some median \<Rightarrow>
            total_amount payment = qpi_amount median \<and>
            (case pay show_hash wallet payment chain0 of (paid, chain) \<Rightarrow>
               expect paid (\<lambda>tx_hashes.
               expect (verify_payment (\<lambda>i h. Ok (completed chain h)) payment) (\<lambda>verified_amount.
                 verified_amount = qpi_amount median)))))"

subsection \<open>They pass\<close>

lemma expect_built:
  assumes "sort_key snd qs = s" "length qs = 7" "unat (snd (s ! 3)) * 3 < 2 ^ 256"
  shows "expect (from_quotes Q qs) k \<longleftrightarrow> k (SingleNodePayment (Arr (map (info_at Q s) [0..<7])))"
  using assms by (simp add: from_quotes_cases)

lemma sold_amounts [simp]:
  "amount_from (10 :: u64) = 10" "amount_from (20 :: u64) = 20" "amount_from (30 :: u64) = 30"
  "amount_from (40 :: u64) = 40" "amount_from (50 :: u64) = 50" "amount_from (60 :: u64) = 60"
  "amount_from (70 :: u64) = 70" "amount_from (90 :: u64) = 90" "amount_from (120 :: u64) = 120"
  "amount_from (100 :: u64) = 100" "amount_from (200 :: u64) = 200" "amount_from (300 :: u64) = 300"
  "amount_from (400 :: u64) = 400" "amount_from (500 :: u64) = 500" "amount_from (600 :: u64) = 600"
  "amount_from (700 :: u64) = 700" "amount_from (1200 :: u64) = 1200"
  by (simp_all add: amount_from_def)

lemma total_built: "total_amount (SingleNodePayment (Arr (map (info_at Q s) [0..<7]))) = snd (s ! 3) * 3"
  by (rule total_amount_built [where Q = Q]) simp

lemma paid_built:
  "slice_get MEDIAN_INDEX (elems (payment_quotes (SingleNodePayment (Arr (map (info_at Q s) [0..<7]))))) =
     Some (info_at Q s 3)"
  by (simp add: slice_get_def)

lemma median_pays:
  assumes "snd (s ! 3) * 3 = a"
  shows "map_option qpi_amount (slice_get MEDIAN_INDEX
      (elems (payment_quotes (SingleNodePayment (Arr (map (info_at Q s) [0..<7])))))) = Some a \<and>
    (\<forall>(i, q) \<in> set (enumerate 0 (elems (payment_quotes (SingleNodePayment (Arr (map (info_at Q s) [0..<7])))))).
       i \<noteq> MEDIAN_INDEX \<longrightarrow> qpi_amount q = 0) \<and>
    total_amount (SingleNodePayment (Arr (map (info_at Q s) [0..<7]))) = a"
  using assms by (simp only: paid_built total_built) (auto simp: in_set_enumerate_eq)

lemma enumerate_seven:
  "enumerate 0 [a, b, c, d, e, f, g] = [(0, a), (1, b), (2, c), (3, d), (4, e), (5, f), (6, g)]"
  by (simp add: eval_nat_numeral)

lemma test_median_selection: "test_from_quotes_median_selection quote_hash_of draw"
proof -
  let ?p = "\<lambda>i. priced_quote (draw i) 1"
  have "sort_key snd (map (\<lambda>(i, price). ?p i price) (enumerate 0 [50, 30, 10, 40, 20, 60, 70])) =
      [?p 2 10, ?p 4 20, ?p 1 30, ?p 3 40, ?p 0 50, ?p 5 60, ?p 6 70]"
    unfolding enumerate_seven by (simp add: priced_quote_def)
  note sorted = this
  show ?thesis
    unfolding test_from_quotes_median_selection_def Let_def
    by (subst expect_built [OF sorted], simp, simp add: priced_quote_def)
      (rule median_pays, simp add: priced_quote_def)
qed

lemma wrong_count_tests:
  "test_from_quotes_wrong_count quote_hash_of draw" "test_from_quotes_one_quote quote_hash_of draw"
  by (simp_all add: test_from_quotes_wrong_count_def test_from_quotes_one_quote_def offers_of_ten_def
    from_quotes_cases)

lemma count_message_tests:
  "test_from_quotes_zero_quotes quote_hash_of" "test_from_quotes_wrong_count_six quote_hash_of draw"
proof -
  have digits: "show_nat 0 = ''0''" "show_nat 6 = ''6''"
    by (simp_all add: show_nat.simps digit_char_def digit_chars) code_simp+
  have "str_contains (ustr ''payment error: SingleNode payment requires exactly 7 quotes, got 0'') (ustr ''exactly 7'')"
    "str_contains (ustr ''payment error: SingleNode payment requires exactly 7 quotes, got 6'') (ustr ''exactly 7'')"
    unfolding contains_ustr by code_simp+
  then show "test_from_quotes_zero_quotes quote_hash_of" "test_from_quotes_wrong_count_six quote_hash_of draw"
    by (simp_all add: test_from_quotes_zero_quotes_def test_from_quotes_wrong_count_six_def offers_of_ten_def
        from_quotes_cases display_ant_error_def digits ustr_def)
qed

lemma rising_built:
  "expect (from_quotes Q (rising_offers draw)) k \<longleftrightarrow>
     k (SingleNodePayment (Arr (map (info_at Q (rising_offers draw)) [0..<7])))"
proof (rule expect_built)
  have "map word_of_nat [1..<1 + CLOSE_GROUP_SIZE] = [1, 2, 3, 4, 5, 6, 7 :: u8]" by (simp add: upt_rec)
  then show "sort_key snd (rising_offers draw) = rising_offers draw"
    "unat (snd (rising_offers draw ! 3)) * 3 < 2 ^ 256" "length (rising_offers draw) = 7"
    by (simp_all add: rising_offers_def)
qed
lemma rising_at_3: "snd (rising_offers draw ! 3) = 40"
  by (simp add: rising_offers_def)

lemma test_paid_quote: "test_paid_quote_returns_median quote_hash_of draw"
  by (simp add: test_paid_quote_returns_median_def rising_built paid_quote_def slice_get_def total_built
    rising_at_3)

lemma length_dedup_sorted: "distinct (xs :: 'a::linorder list) \<Longrightarrow> length (remdups_adj (sort xs)) = length xs"
  by (simp add: remdups_adj_distinct)

lemma test_distinct_addresses: "test_all_quotes_have_distinct_addresses quote_hash_of draw"
proof -
  have "map qpi_rewards_address (map (info_at (evm_quotes quote_hash_of) (rising_offers draw)) [0..<7]) =
      map arr_repeat [1, 2, 3, 4, 5, 6, 7 :: u8]"
    by (simp add: evm_quotes_def rising_offers_def make_test_quote_def upt_rec)
  also have "distinct \<dots>" by simp
  finally have d: "distinct (map qpi_rewards_address
      (map (info_at (evm_quotes quote_hash_of) (rising_offers draw)) [0..<7]))" .
  show ?thesis
    unfolding test_all_quotes_have_distinct_addresses_def rising_built single_node_payment.sel
    by (subst elems_Arr, simp) (subst length_dedup_sorted [OF d], simp only: length_map length_upt group_sizes)
qed

lemma test_tied: "test_tied_median_prices_all_share_median_price quote_hash_of draw"
proof -
  let ?p = "\<lambda>i. priced_quote (draw i) (word_of_nat i + 1)"
  let ?qs = "[?p 0 10, ?p 1 20, ?p 2 30, ?p 3 30, ?p 4 30, ?p 5 40, ?p 6 50]"
  have qs: "map (\<lambda>(i, price). ?p i price) (enumerate 0 [10, 20, 30, 30, 30, 40, 50]) = ?qs"
    unfolding enumerate_seven by simp
  have sorted: "sort_key snd ?qs = ?qs" by (simp add: priced_quote_def)
  have "length (filter (\<lambda>q. qpi_price q = amount_from (30 :: u64)) (map (info_at Q ?qs) [0..<7])) = 3" for Q
    by (simp add: upt_rec priced_quote_def)
  then show ?thesis
    unfolding test_tied_median_prices_all_share_median_price_def Let_def qs
    by (subst expect_built [OF sorted]) (simp_all add: total_built, simp_all add: priced_quote_def)
qed

lemma test_three_times: "test_total_amount_equals_3x_median quote_hash_of draw"
proof -
  let ?qs = "map (\<lambda>(i, price). (make_test_quote (draw i) 1, amount_from price))
    (enumerate 0 [100 :: u64, 200, 300, 400, 500, 600, 700])"
  have sorted: "sort_key snd ?qs = ?qs" unfolding enumerate_seven by simp
  show ?thesis
    unfolding test_total_amount_equals_3x_median_def Let_def
    by (subst expect_built [OF sorted]) (simp, simp, simp add: total_built)
qed
lemma test_zero_median: "verify_rejects_zero_median_price quote_hash_of draw network"
proof -
  let ?qs = "map (\<lambda>i. (make_test_quote (draw i) 1, 0 :: amount)) [0..<CLOSE_GROUP_SIZE]"
  have sorted: "sort_key snd ?qs = ?qs" unfolding group_sizes upt_seven by simp
  have zero: "show_word (0 :: amount) = ''0''"
    by (simp add: show_word_def show_nat.simps digit_char_def digit_chars)
  have "str_contains (ustr ''payment error: Median quote has zero price/amount (price=0, amount=0); refusing to verify as paid'')
      (ustr ''zero price'')"
    unfolding contains_ustr by code_simp
  then have message: "str_contains (display_ant_error (Payment (ustr (''Median quote has zero price/amount (price='' @
      ''0'' @ '', amount='' @ ''0'' @ ''); refusing to verify as paid'')))) (ustr ''zero price'')"
    by (simp add: display_ant_error_def ustr_def)
  show ?thesis
    unfolding verify_rejects_zero_median_price_def Let_def
    by (subst expect_built [OF sorted]) (simp, simp, use message in \<open>simp add: verify_payment_cases Let_def zero\<close>)
qed

lemma real_offers:
  "real_price_offers chunk_xor now owner = map (\<lambda>(i, price).
     ((make_test_quote (chunk_xor, now i) 0)\<lparr>pq_price := price, pq_rewards_address := owner\<rparr>, price))
     [(0, 100), (1, 101), (2, 102), (3, 103), (4, 104), (5, 105), (6, 106)]"
  unfolding real_price_offers_def Let_def group_sizes upt_seven by (simp add: amount_from_def)

text \<open>The whole flow, when the wallet's call succeeds with a hash for the median quote and the vault then
  reports for that quote the 309 it was paid.\<close>

lemma test_real_prices:
  fixes Q :: "'t payment_quote quote_api"
  assumes "qs = real_price_offers chunk_xor now owner" "Q = evm_quotes quote_hash_of"
    and "wallet (map (\<lambda>e. (qpi_quote_hash e, qpi_rewards_address e, qpi_amount e)) (map (info_at Q qs) [0..<7]))
      chain0 = (Ok hashes, chain)"
    and "hashes (hash_of Q (fst (qs ! 3))) = Some h" "completed chain (hash_of Q (fst (qs ! 3))) = 309"
  shows "test_single_node_with_real_prices quote_hash_of show_hash wallet completed chain0 qs"
proof -
  let ?p = "SingleNodePayment (Arr (map (info_at Q qs) [0..<7]))"
  have len: "length qs = 7" and sorted: "sort_key snd qs = qs"
    and prices: "map snd qs = [100, 101, 102, 103, 104, 105, 106]"
    unfolding assms(1) real_offers by simp_all
  have at3: "snd (qs ! 3) = 103" using prices len nth_map [of 3 qs snd] by simp
  have "elems (payment_quotes ?p) = map (info_at Q qs) [0..<7]" by simp
  then have txs: "pay show_hash wallet ?p chain0 = (Ok [h], chain)"
    unfolding pay_def Let_def assms(3) by (simp only: assms(3)) (simp add: collect_median_hash at3 assms(4))
  have tied: "filter (\<lambda>q. qpi_price q = 103) (map (info_at Q qs) [0..<7]) = [info_at Q qs 3]"
  proof -
    have "snd (qs ! i) = [100, 101, 102, 103, 104, 105, 106] ! i" if "i < 7" for i
      using that len by (metis nth_map prices)
    then show ?thesis unfolding upt_seven by simp
  qed
  have "verify_payment (\<lambda>i h. Ok (completed chain h)) ?p = Ok 309"
    unfolding verify_payment_Ok Let_def using at3 by (simp add: tied assms(5) amount_from_def)
  then show ?thesis
    unfolding test_single_node_with_real_prices_def assms(2) [symmetric]
    by (subst expect_built [OF sorted len]) (simp add: at3, simp add: txs paid_quote_def slice_get_def total_built at3)
qed

section \<open>All of them\<close>

text \<open>
  The unit tests of the pricing and single-node modules, for any draws and quote digests: the formula at
  the divisor and its multiples, monotony over the six hundred counts tried, the inverse and its
  saturation (for a \<open>root\<close> that is the floor of the real root), the median of seven shuffled and of tied
  prices, the refusals of other counts and of a zero median with their messages.
\<close>

lemma payment_tests_pass:
  assumes "floor_root root"
  shows "test_zero_records_gets_baseline \<and> test_baseline_is_nonzero_spam_barrier \<and>
    test_one_record_above_baseline \<and> test_at_divisor_is_baseline_plus_k \<and>
    test_double_divisor_is_baseline_plus_four_k \<and> test_triple_divisor_is_baseline_plus_nine_k \<and>
    test_smooth_pricing_no_staircase \<and> test_price_increases_with_records \<and>
    test_price_increases_monotonically \<and> test_large_value_no_overflow \<and> test_price_deterministic \<and>
    test_quadratic_growth_excluding_baseline \<and> test_small_record_counts_near_baseline \<and>
    test_derive_records_stored_from_price_round_trips root \<and>
    test_derive_records_stored_from_baseline_or_lower_is_zero root \<and>
    test_derive_records_stored_from_max_price_saturates_no_panic root \<and>
    test_from_quotes_median_selection quote_hash_of draw \<and> test_from_quotes_wrong_count quote_hash_of draw \<and>
    test_from_quotes_zero_quotes quote_hash_of \<and> test_from_quotes_one_quote quote_hash_of draw \<and>
    test_from_quotes_wrong_count_six quote_hash_of draw \<and> test_paid_quote_returns_median quote_hash_of draw \<and>
    test_all_quotes_have_distinct_addresses quote_hash_of draw \<and>
    test_tied_median_prices_all_share_median_price quote_hash_of draw \<and>
    test_total_amount_equals_3x_median quote_hash_of draw \<and>
    verify_rejects_zero_median_price quote_hash_of draw network"
  by (intro conjI formula_tests test_quadratic_growth test_monotonically derive_tests [OF assms(1)]
      test_median_selection wrong_count_tests count_message_tests test_paid_quote test_distinct_addresses
      test_tied test_three_times test_zero_median)

end
