(* ===== verification/Artifact_Tests.thy ===== *)
theory Artifact_Tests
  imports Payment_Tests
begin

text \<open>
  The unit tests of the signed and serialized payment artifacts, \<^verbatim>\<open>payment/proof.rs\<close>,
  \<^verbatim>\<open>payment/verify.rs\<close> and \<^verbatim>\<open>payment/commitment.rs\<close>, as definitions over the model, and that they
  pass with any lawful codecs and signature schemes.
\<close>

section \<open>Proofs\<close>

text \<open>\<open>peer\<close> is the random peer of the test proof; \<open>R\<close> and \<open>R'\<close> are the codecs of the two kinds.\<close>

type_synonym ('peer, 't) peer_quotes = "('peer \<times> 't payment_quote) list"

definition make_proof_of_payment :: "'peer \<Rightarrow> xorname \<times> 't \<Rightarrow> ('peer, 't) peer_quotes" where
  "make_proof_of_payment peer draw = [(peer, make_test_quote draw 1)]"

definition proof_with :: "'peer \<Rightarrow> xorname \<times> 't \<Rightarrow> tx_hash list \<Rightarrow> ('peer, 't) peer_quotes payment_proof" where
  "proof_with peer draw hashes =
     \<lparr>proof_of_payment = make_proof_of_payment peer draw, proof_tx_hashes = hashes, commitment_sidecars = []\<rparr>"

type_synonym ('peer, 't) proof_test =
  "('peer, 't) peer_quotes payment_proof rmp_codec \<Rightarrow> 'peer \<Rightarrow> xorname \<times> 't \<Rightarrow> bool"

definition test_payment_proof_serialization_roundtrip :: "('peer, 't) proof_test" where
  "test_payment_proof_serialization_roundtrip R peer draw \<longleftrightarrow>
     (let tx_hash = arr_repeat 0xAB; proof = proof_with peer draw [tx_hash] in
      expect (serialize_single_node_proof R proof) (\<lambda>bs.
      expect (deserialize_proof R bs) (\<lambda>(pop, hashes).
        length pop = 1 \<and> length hashes = 1 \<and> slice_first hashes = Some tx_hash)))"

definition test_payment_proof_with_empty_tx_hashes :: "('peer, 't) proof_test" where
  "test_payment_proof_with_empty_tx_hashes R peer draw \<longleftrightarrow>
     expect (serialize_single_node_proof R (proof_with peer draw [])) (\<lambda>bs.
     expect (deserialize_proof R bs) (\<lambda>(pop, hashes). length pop = 1 \<and> hashes = []))"

definition test_deserialize_proof_rejects_garbage :: "'pop payment_proof rmp_codec \<Rightarrow> bool" where
  "test_deserialize_proof_rejects_garbage R \<longleftrightarrow> \<not> is_ok (deserialize_proof R [0xFF, 0x00, 0x01, 0x02])"

definition test_deserialize_proof_rejects_untagged :: "('peer, 't) proof_test" where
  "test_deserialize_proof_rejects_untagged R peer draw \<longleftrightarrow>
     expect (to_vec R (proof_with peer draw [])) (\<lambda>raw_bytes. \<not> is_ok (deserialize_proof R raw_bytes))"

definition test_payment_proof_multiple_tx_hashes :: "('peer, 't) proof_test" where
  "test_payment_proof_multiple_tx_hashes R peer draw \<longleftrightarrow>
     (let tx1 = arr_repeat 0x11; tx2 = arr_repeat 0x22 in
      expect (serialize_single_node_proof R (proof_with peer draw [tx1, tx2])) (\<lambda>bs.
      expect (deserialize_proof R bs) (\<lambda>(pop, hashes).
        length hashes = 2 \<and> slice_first hashes = Some tx1 \<and> slice_get 1 hashes = Some tx2)))"

definition test_detect_proof_type_single_node :: bool where
  "test_detect_proof_type_single_node \<longleftrightarrow>
     detect_proof_type [PROOF_TAG_SINGLE_NODE, 0x00, 0x01] = Some SingleNode_Proof"

definition test_detect_proof_type_merkle :: bool where
  "test_detect_proof_type_merkle \<longleftrightarrow> detect_proof_type [PROOF_TAG_MERKLE, 0x00, 0x01] = Some Merkle_Proof"

definition test_detect_proof_type_unknown_tag :: bool where
  "test_detect_proof_type_unknown_tag \<longleftrightarrow> detect_proof_type [0xFF, 0x00, 0x01] = None"

definition test_detect_proof_type_empty_bytes :: bool where
  "test_detect_proof_type_empty_bytes \<longleftrightarrow> detect_proof_type [] = None"

definition test_serialize_single_node_proof_roundtrip_with_tag :: "('peer, 't) proof_test" where
  "test_serialize_single_node_proof_roundtrip_with_tag R peer draw \<longleftrightarrow>
     (let tx_hash = arr_repeat 0xCC in
      expect (serialize_single_node_proof R (proof_with peer draw [tx_hash])) (\<lambda>tagged_bytes.
        slice_first tagged_bytes = Some PROOF_TAG_SINGLE_NODE \<and>
        detect_proof_type tagged_bytes = Some SingleNode_Proof \<and>
        expect (deserialize_proof R tagged_bytes) (\<lambda>(pop, hashes).
          length pop = 1 \<and> length hashes = 1 \<and> slice_first hashes = Some tx_hash)))"

text \<open>The merkle tests over any proof \<open>m\<close> of the tree; \<open>address_of\<close> reads its address. That the pool
  has its full number of candidates is the array type of \<^verbatim>\<open>evmlib\<close>.\<close>

definition test_serialize_merkle_proof_roundtrip :: "'m rmp_codec \<Rightarrow> ('m \<Rightarrow> xorname) \<Rightarrow> 'm \<Rightarrow> bool" where
  "test_serialize_merkle_proof_roundtrip R' address_of m \<longleftrightarrow>
     expect (serialize_merkle_proof R' m) (\<lambda>tagged_bytes.
       slice_first tagged_bytes = Some PROOF_TAG_MERKLE \<and>
       detect_proof_type tagged_bytes = Some Merkle_Proof \<and>
       expect (deserialize_merkle_proof R' tagged_bytes) (\<lambda>recovered. address_of recovered = address_of m))"

definition test_deserialize_merkle_proof_rejects_wrong_tag :: "'m rmp_codec \<Rightarrow> 'm \<Rightarrow> bool" where
  "test_deserialize_merkle_proof_rejects_wrong_tag R' m \<longleftrightarrow>
     expect (serialize_merkle_proof R' m) (\<lambda>tagged_bytes.
       let tagged_bytes = (case tagged_bytes of [] \<Rightarrow> [] | first # rest \<Rightarrow> PROOF_TAG_SINGLE_NODE # rest) in
       case deserialize_merkle_proof R' tagged_bytes of
         Ok proof \<Rightarrow> False
       | Err err_msg \<Rightarrow> str_contains err_msg (ustr ''Missing merkle proof tag''))"

definition test_deserialize_merkle_proof_rejects_empty :: "'m rmp_codec \<Rightarrow> bool" where
  "test_deserialize_merkle_proof_rejects_empty R' \<longleftrightarrow> \<not> is_ok (deserialize_merkle_proof R' [])"

subsection \<open>They pass\<close>

text \<open>MessagePack's header of a struct with three fields.\<close>

definition writes_array_header :: "'pop payment_proof rmp_codec \<Rightarrow> bool" where
  "writes_array_header R \<longleftrightarrow> (\<forall>p bs. to_vec R p = Ok bs \<longrightarrow> slice_first bs = Some 0x93)"

lemma proof_travels:
  assumes "codec_reads_back R" "to_vec R p = Ok raw"
  shows "expect (serialize_single_node_proof R p) k \<longleftrightarrow> k (PROOF_TAG_SINGLE_NODE # raw)"
    and "deserialize_proof R (PROOF_TAG_SINGLE_NODE # raw) = Ok (proof_of_payment p, proof_tx_hashes p)"
proof -
  have "from_slice R raw = Ok p" using assms by (simp add: codec_reads_back_def)
  then have "deserialize_single_node_proof R (PROOF_TAG_SINGLE_NODE # raw) = Ok p"
    by (simp add: single_framing.reads_tag)
  then show "deserialize_proof R (PROOF_TAG_SINGLE_NODE # raw) = Ok (proof_of_payment p, proof_tx_hashes p)"
    by (simp add: deserialize_proof_def)
  show "expect (serialize_single_node_proof R p) k \<longleftrightarrow> k (PROOF_TAG_SINGLE_NODE # raw)"
    using assms(2) by (simp add: serialize_single_node_proof_def)
qed

lemma proof_tests:
  assumes "codec_reads_back R" "\<forall>hashes. is_ok (to_vec R (proof_with peer draw hashes))"
  shows "test_payment_proof_serialization_roundtrip R peer draw" "test_payment_proof_with_empty_tx_hashes R peer draw"
    "test_payment_proof_multiple_tx_hashes R peer draw"
    "test_serialize_single_node_proof_roundtrip_with_tag R peer draw"
proof -
  have "expect (serialize_single_node_proof R (proof_with peer draw hashes)) k \<longleftrightarrow>
      (\<exists>raw. to_vec R (proof_with peer draw hashes) = Ok raw \<and> k (PROOF_TAG_SINGLE_NODE # raw))" for hashes k
  proof -
    obtain raw where "to_vec R (proof_with peer draw hashes) = Ok raw"
      using assms(2) by (auto simp: is_ok_iff)
    then show ?thesis using proof_travels(1) [OF assms(1)] by simp
  qed
  note reads = this and returns = proof_travels(2) [OF assms(1)]
  have all: "\<exists>raw. to_vec R (proof_with peer draw hashes) = Ok raw" for hashes
    using assms(2) by (simp add: is_ok_iff)
  show "test_payment_proof_serialization_roundtrip R peer draw"
    unfolding test_payment_proof_serialization_roundtrip_def Let_def reads
    using all [of "[arr_repeat 0xAB]"] by (auto simp: returns) (simp_all add: proof_with_def make_proof_of_payment_def)
  show "test_payment_proof_with_empty_tx_hashes R peer draw"
    unfolding test_payment_proof_with_empty_tx_hashes_def reads
    using all [of "[]"] by (auto simp: returns) (simp_all add: proof_with_def make_proof_of_payment_def)
  show "test_payment_proof_multiple_tx_hashes R peer draw"
    unfolding test_payment_proof_multiple_tx_hashes_def Let_def reads
    using all [of "[arr_repeat 0x11, arr_repeat 0x22]"] by (auto simp: returns)
      (simp_all add: proof_with_def slice_get_def)
  show "test_serialize_single_node_proof_roundtrip_with_tag R peer draw"
    unfolding test_serialize_single_node_proof_roundtrip_with_tag_def Let_def reads
    using all [of "[arr_repeat 0xCC]"] by (auto simp: returns)
      (simp_all add: proof_with_def make_proof_of_payment_def detect_proof_type_def)
qed

lemma untagged_tests:
  assumes "writes_array_header R" "\<forall>hashes. is_ok (to_vec R (proof_with peer draw hashes))"
  shows "test_deserialize_proof_rejects_garbage R" "test_deserialize_proof_rejects_untagged R peer draw"
proof -
  have refused: "\<not> is_ok (deserialize_proof R bs)" if "slice_first bs \<noteq> Some PROOF_TAG_SINGLE_NODE" for bs
    using that by (simp add: deserialize_proof_def deserialize_single_node_proof_def)
  show "test_deserialize_proof_rejects_garbage R"
    unfolding test_deserialize_proof_rejects_garbage_def
    by (rule refused) (simp add: PROOF_TAG_SINGLE_NODE_def)
  obtain raw where raw: "to_vec R (proof_with peer draw []) = Ok raw"
    using assms(2) by (auto simp: is_ok_iff)
  then have "slice_first raw \<noteq> Some PROOF_TAG_SINGLE_NODE"
    using assms(1) by (auto simp: writes_array_header_def PROOF_TAG_SINGLE_NODE_def)
  then show "test_deserialize_proof_rejects_untagged R peer draw"
    using refused raw by (simp add: test_deserialize_proof_rejects_untagged_def)
qed

lemma detect_tests:
  "test_detect_proof_type_single_node" "test_detect_proof_type_merkle" "test_detect_proof_type_unknown_tag"
  "test_detect_proof_type_empty_bytes"
  by (simp_all add: test_detect_proof_type_single_node_def test_detect_proof_type_merkle_def
    test_detect_proof_type_unknown_tag_def test_detect_proof_type_empty_bytes_def detect_proof_type_def
    PROOF_TAG_SINGLE_NODE_def PROOF_TAG_MERKLE_def)

lemma merkle_tests:
  assumes "codec_reads_back R'" "is_ok (to_vec R' m)"
  shows "test_serialize_merkle_proof_roundtrip R' address_of m"
    "test_deserialize_merkle_proof_rejects_wrong_tag R' m" "test_deserialize_merkle_proof_rejects_empty R'"
proof -
  obtain raw where raw: "to_vec R' m = Ok raw" using assms(2) by (auto simp: is_ok_iff)
  then have ser: "serialize_merkle_proof R' m = Ok (PROOF_TAG_MERKLE # raw)"
    by (simp add: serialize_merkle_proof_def)
  have "deserialize_merkle_proof R' (PROOF_TAG_MERKLE # raw) = Ok m"
    using merkle_framing.reads_back [OF assms(1) ser] by simp
  then show "test_serialize_merkle_proof_roundtrip R' address_of m"
    by (simp add: test_serialize_merkle_proof_roundtrip_def ser detect_proof_type_def
        PROOF_TAG_SINGLE_NODE_def PROOF_TAG_MERKLE_def)
  have "str_contains (ustr ''Missing merkle proof tag byte'') (ustr ''Missing merkle proof tag'')"
    unfolding contains_ustr by code_simp
  then show "test_deserialize_merkle_proof_rejects_wrong_tag R' m"
    by (simp add: test_deserialize_merkle_proof_rejects_wrong_tag_def ser deserialize_merkle_proof_def Let_def
        PROOF_TAG_SINGLE_NODE_def PROOF_TAG_MERKLE_def)
  show "test_deserialize_merkle_proof_rejects_empty R'"
    by (simp add: test_deserialize_merkle_proof_rejects_empty_def deserialize_merkle_proof_def)
qed

section \<open>Quotes and candidates\<close>

text \<open>\<open>sk\<close> and \<open>pk\<close> are the key pair a test generates, \<open>r\<close> the randomness it signs with.\<close>

definition real_ml_dsa_quote ::
  "('pk, 'sk, 'sig) ml_dsa_ops \<Rightarrow> 't quote_payload \<Rightarrow> nat \<Rightarrow> 'sk \<Rightarrow> 'pk \<Rightarrow> 't \<Rightarrow>
     ('t payment_quote, ustring) result" where
  "real_ml_dsa_quote Ops bytes_for_sig r sk pk now =
     signed_quote Ops bytes_for_sig r sk pk \<lparr>pq_content = arr_repeat 7, pq_timestamp = now,
       pq_price = amount_from (42 :: u64), pq_rewards_address = arr_repeat 2, pq_pub_key = [], pq_signature = [],
       pq_committed_key_count = 0, pq_commitment_pin = None\<rparr>"

definition real_ml_dsa_merkle_candidate ::
  "('pk, 'sk, 'sig) ml_dsa_ops \<Rightarrow> candidate_payload \<Rightarrow> nat \<Rightarrow> 'sk \<Rightarrow> 'pk \<Rightarrow> (merkle_candidate, ustring) result" where
  "real_ml_dsa_merkle_candidate Ops bytes_to_sign r sk pk =
     signed_candidate Ops bytes_to_sign r sk pk (amount_from (1024 :: u64)) (arr_repeat 3) 1700000000 7
       (Some (arr_repeat 5))"

type_synonym ('pk, 'sk, 'sig, 't) quote_test =
  "('pk, 'sk, 'sig) ml_dsa_ops \<Rightarrow> 't quote_payload \<Rightarrow> nat \<Rightarrow> 'sk \<Rightarrow> 'pk \<Rightarrow> 't \<Rightarrow> bool"
type_synonym ('pk, 'sk, 'sig) candidate_test =
  "('pk, 'sk, 'sig) ml_dsa_ops \<Rightarrow> candidate_payload \<Rightarrow> nat \<Rightarrow> 'sk \<Rightarrow> 'pk \<Rightarrow> bool"

definition verify_quote_content_matches :: "('pk, 'sk, 'sig, 't) quote_test" where
  "verify_quote_content_matches Ops bytes_for_sig r sk pk now \<longleftrightarrow>
     expect (real_ml_dsa_quote Ops bytes_for_sig r sk pk now) (\<lambda>quote.
       verify_quote_content quote (arr_repeat 7))"

definition verify_quote_content_mismatch :: "('pk, 'sk, 'sig, 't) quote_test" where
  "verify_quote_content_mismatch Ops bytes_for_sig r sk pk now \<longleftrightarrow>
     expect (real_ml_dsa_quote Ops bytes_for_sig r sk pk now) (\<lambda>quote.
       \<not> verify_quote_content quote (arr_repeat 0xFF))"

definition verify_quote_signature_real_keys_roundtrip :: "('pk, 'sk, 'sig, 't) quote_test" where
  "verify_quote_signature_real_keys_roundtrip Ops bytes_for_sig r sk pk now \<longleftrightarrow>
     expect (real_ml_dsa_quote Ops bytes_for_sig r sk pk now) (verify_quote_signature Ops bytes_for_sig)"

definition verify_quote_signature_empty_pub_key_fails ::
  "('pk, 'sk, 'sig) ml_dsa_ops \<Rightarrow> 't quote_payload \<Rightarrow> 't \<Rightarrow> bool" where
  "verify_quote_signature_empty_pub_key_fails Ops bytes_for_sig now \<longleftrightarrow>
     \<not> verify_quote_signature Ops bytes_for_sig \<lparr>pq_content = arr_repeat 0, pq_timestamp = now,
       pq_price = amount_from (1 :: u64), pq_rewards_address = arr_repeat 0, pq_pub_key = [], pq_signature = [],
       pq_committed_key_count = 0, pq_commitment_pin = None\<rparr>"

definition verify_quote_signature_empty_signature_fails ::
  "('pk, 'sk, 'sig) ml_dsa_ops \<Rightarrow> 't quote_payload \<Rightarrow> 'pk \<Rightarrow> 't \<Rightarrow> bool" where
  "verify_quote_signature_empty_signature_fails Ops bytes_for_sig pub_key now \<longleftrightarrow>
     \<not> verify_quote_signature Ops bytes_for_sig \<lparr>pq_content = arr_repeat 0, pq_timestamp = now,
       pq_price = amount_from (1 :: u64), pq_rewards_address = arr_repeat 0,
       pq_pub_key = ops_pk_as_bytes Ops pub_key, pq_signature = [], pq_committed_key_count = 0,
       pq_commitment_pin = None\<rparr>"

definition verify_merkle_candidate_real_keys_roundtrip :: "('pk, 'sk, 'sig) candidate_test" where
  "verify_merkle_candidate_real_keys_roundtrip Ops bytes_to_sign r sk pk \<longleftrightarrow>
     expect (real_ml_dsa_merkle_candidate Ops bytes_to_sign r sk pk)
       (verify_merkle_candidate_signature Ops bytes_to_sign)"

definition verify_merkle_candidate_empty_pub_key_fails :: "('pk, 'sk, 'sig) candidate_test" where
  "verify_merkle_candidate_empty_pub_key_fails Ops bytes_to_sign r sk pk \<longleftrightarrow>
     expect (real_ml_dsa_merkle_candidate Ops bytes_to_sign r sk pk) (\<lambda>candidate.
       \<not> verify_merkle_candidate_signature Ops bytes_to_sign (candidate\<lparr>mc_pub_key := []\<rparr>))"

subsection \<open>They pass\<close>

text \<open>No key and no signature of the scheme is empty.\<close>

definition refuses_empty :: "('pk, 'sk, 'sig) ml_dsa_ops \<Rightarrow> bool" where
  "refuses_empty Ops \<longleftrightarrow> \<not> is_ok (ops_pk_from_bytes Ops []) \<and> \<not> is_ok (ops_sig_from_bytes Ops [])"

lemma real_quote:
  assumes "ops_signs_for Ops sk pk" "ignores_signature bytes_for_sig"
  shows "\<exists>q. real_ml_dsa_quote Ops bytes_for_sig r sk pk now = Ok q \<and> pq_content q = arr_repeat 7 \<and>
    verify_quote_signature Ops bytes_for_sig q"
  using signed_quote_verifies [OF assms] unfolding real_ml_dsa_quote_def by fastforce

lemma quote_tests:
  assumes "ops_signs_for Ops sk pk" "ignores_signature bytes_for_sig"
  shows "verify_quote_content_matches Ops bytes_for_sig r sk pk now"
    "verify_quote_content_mismatch Ops bytes_for_sig r sk pk now"
    "verify_quote_signature_real_keys_roundtrip Ops bytes_for_sig r sk pk now"
  using real_quote [OF assms, of r now]
  by (auto simp: verify_quote_content_matches_def verify_quote_content_mismatch_def
      verify_quote_signature_real_keys_roundtrip_def verify_quote_content_def)

lemma empty_key_refused:
  "refuses_empty Ops \<Longrightarrow> pq_pub_key q = [] \<or> pq_signature q = [] \<Longrightarrow> \<not> verify_quote_signature Ops bytes_for_sig q"
  by (auto simp: quote_artifact.accepts_iff refuses_empty_def is_ok_iff)

lemma empty_quote_tests:
  assumes "refuses_empty Ops"
  shows "verify_quote_signature_empty_pub_key_fails Ops bytes_for_sig now"
    "verify_quote_signature_empty_signature_fails Ops bytes_for_sig pk now"
  unfolding verify_quote_signature_empty_pub_key_fails_def verify_quote_signature_empty_signature_fails_def
  by (rule empty_key_refused [OF assms], simp)+

lemma candidate_tests:
  assumes "ops_signs_for Ops sk pk"
  shows "verify_merkle_candidate_real_keys_roundtrip Ops bytes_to_sign r sk pk"
    and "refuses_empty Ops \<Longrightarrow> verify_merkle_candidate_empty_pub_key_fails Ops bytes_to_sign r sk pk"
proof -
  obtain c where c: "real_ml_dsa_merkle_candidate Ops bytes_to_sign r sk pk = Ok c"
    "verify_merkle_candidate_signature Ops bytes_to_sign c"
    using signed_candidate_verifies [OF assms] unfolding real_ml_dsa_merkle_candidate_def by blast
  show "verify_merkle_candidate_real_keys_roundtrip Ops bytes_to_sign r sk pk"
    by (simp add: verify_merkle_candidate_real_keys_roundtrip_def c)
  show "verify_merkle_candidate_empty_pub_key_fails Ops bytes_to_sign r sk pk" if "refuses_empty Ops"
    using that by (auto simp: verify_merkle_candidate_empty_pub_key_fails_def c
        candidate_artifact.accepts_iff refuses_empty_def is_ok_iff)
qed

section \<open>Commitments\<close>

definition signed_commitment ::
  "('pk, 'sk, 'sig) crypto \<Rightarrow> nat \<Rightarrow> 'sk \<Rightarrow> 'pk \<Rightarrow> (u8, 32) arr \<Rightarrow> u32 \<Rightarrow> (u8, 32) arr \<Rightarrow>
     (storage_commitment, string) result" where
  "signed_commitment C r sk pk root key_count peer_id =
     (let pk_bytes = pk_to_bytes C pk;
          signed = commitment_signed_payload root key_count peer_id pk_bytes
      in and_then (sign_with_context C r sk signed DOMAIN_COMMITMENT) (\<lambda>sig.
         Ok \<lparr>sc_root = root, sc_key_count = key_count, sc_sender_peer_id = peer_id,
             sc_sender_public_key = pk_bytes, sc_signature = sig_to_bytes C sig\<rparr>))"

definition verify_rejects_malformed_without_panic :: "postcard \<Rightarrow> ('pk, 'sk, 'sig) crypto \<Rightarrow> bool" where
  "verify_rejects_malformed_without_panic P C \<longleftrightarrow>
     (let c = \<lparr>sc_root = arr_repeat 0, sc_key_count = 1, sc_sender_peer_id = arr_repeat 0,
           sc_sender_public_key = replicate 10 0, sc_signature = replicate 10 0\<rparr>
      in \<not> verify_commitment_signature C c \<and> commitment_hash P C c \<noteq> None)"

definition verify_accepts_a_correctly_signed_commitment ::
  "('pk, 'sk, 'sig) crypto \<Rightarrow> nat \<Rightarrow> 'sk \<Rightarrow> 'pk \<Rightarrow> bool" where
  "verify_accepts_a_correctly_signed_commitment C r sk pk \<longleftrightarrow>
     expect (signed_commitment C r sk pk (arr_repeat 7) 42 (arr_repeat 9)) (verify_commitment_signature C)"

subsection \<open>They pass\<close>

lemma test_malformed:
  assumes "postcard_round_trips P" "ml_dsa_65_encoding C"
  shows "verify_rejects_malformed_without_panic P C"
proof -
  have "pk_from_bytes C (replicate 10 0) \<noteq> Ok pk" for pk
    using pk_encodingD(1) [OF assms(2)] by fastforce
  then obtain e where key: "pk_from_bytes C (replicate 10 0) = Err e"
    by (metis result.exhaust)
  have "commitment_hash P C c \<noteq> None" for c
  proof -
    obtain bs where "to_stdvec P (ser_storage_commitment c) = Ok bs"
      using wt_storage_commitment.encodes [OF assms(1)] by blast
    then show ?thesis by (simp add: commitment_hash_def)
  qed
  then show ?thesis
    by (simp add: verify_rejects_malformed_without_panic_def Let_def verify_commitment_signature_def key)
qed

lemma test_signed_commitment:
  assumes "signs_for C sk pk"
  shows "verify_accepts_a_correctly_signed_commitment C r sk pk"
proof -
  let ?m = "commitment_signed_payload (arr_repeat 7) 42 (arr_repeat 9) (pk_to_bytes C pk)"
  have "length DOMAIN_COMMITMENT \<le> 255" by (simp add: DOMAIN_COMMITMENT_def)
  then obtain s where "sign_with_context C r sk ?m DOMAIN_COMMITMENT = Ok s"
    "sig_from_bytes C (sig_to_bytes C s) = Ok s" "verify_with_context C pk ?m s DOMAIN_COMMITMENT = Ok True"
    using signs_forE [OF assms] by blast
  then show ?thesis
    by (simp add: verify_accepts_a_correctly_signed_commitment_def signed_commitment_def Let_def
        verify_commitment_signature_def signs_for_pk [OF assms])
qed

section \<open>A concrete codec\<close>

text \<open>For the proofs the tests build: MessagePack's array header, then the hashes end to end.\<close>

definition demo_proof :: "tx_hash list \<Rightarrow> (unit, unit) peer_quotes payment_proof" where
  "demo_proof = proof_with () (arr_repeat 0, ())"

definition demo_test_codec :: "(unit, unit) peer_quotes payment_proof rmp_codec" where
  "demo_test_codec = \<lparr>
     to_vec = (\<lambda>p. if p = demo_proof (proof_tx_hashes p)
       then Ok (0x93 # concat (map elems (proof_tx_hashes p))) else Err (ustr ''unsupported'')),
     from_slice = (\<lambda>bs. Ok (demo_proof (hashes_of (tl bs))))\<rparr>"

lemma demo_test_codec:
  "codec_reads_back demo_test_codec" "writes_array_header demo_test_codec"
  "\<forall>hashes. is_ok (to_vec demo_test_codec (proof_with () (arr_repeat 0, ()) hashes))"
  by (auto simp: codec_reads_back_def writes_array_header_def demo_test_codec_def demo_proof_def
      hashes_of_concat proof_with_def split: if_splits)

lemma demo_ops_refuses_empty: "refuses_empty demo_ops"
  by (simp add: refuses_empty_def demo_ops_def)

lemma demo_ignores_signature: "ignores_signature demo_payload"
  by (simp add: ignores_signature_def demo_payload_def)

section \<open>All of them\<close>

text \<open>
  Twenty-two tests of the proof, verification and commitment modules, with any codecs that read back what
  they write and any scheme that signs for the keys in use: the round trips behind both tags, the
  refusals of untagged, wrongly tagged and empty input, honest quotes, candidates and commitments
  accepted, empty keys and signatures and a malformed commitment refused. The merkle tests run on any
  proof, as the tree that builds theirs is not in the repository. The tests that tamper with signed
  data are in \<open>Tamper_Tests\<close>.
\<close>

lemma artifact_tests_pass:
  assumes "codec_reads_back R" "writes_array_header R" "\<forall>hashes. is_ok (to_vec R (proof_with peer draw hashes))"
    and "codec_reads_back R'" "is_ok (to_vec R' m)"
    and "ops_signs_for Ops osk opk" "ignores_signature bytes_for_sig" "refuses_empty Ops"
    and "postcard_round_trips P" "ml_dsa_65_encoding C" "signs_for C sk pk"
  shows "test_payment_proof_serialization_roundtrip R peer draw \<and>
    test_payment_proof_with_empty_tx_hashes R peer draw \<and> test_deserialize_proof_rejects_garbage R \<and>
    test_deserialize_proof_rejects_untagged R peer draw \<and> test_payment_proof_multiple_tx_hashes R peer draw \<and>
    test_detect_proof_type_single_node \<and> test_detect_proof_type_merkle \<and>
    test_detect_proof_type_unknown_tag \<and> test_detect_proof_type_empty_bytes \<and>
    test_serialize_single_node_proof_roundtrip_with_tag R peer draw \<and>
    test_serialize_merkle_proof_roundtrip R' address_of m \<and>
    test_deserialize_merkle_proof_rejects_wrong_tag R' m \<and> test_deserialize_merkle_proof_rejects_empty R' \<and>
    verify_quote_content_matches Ops bytes_for_sig r osk opk now \<and>
    verify_quote_content_mismatch Ops bytes_for_sig r osk opk now \<and>
    verify_quote_signature_real_keys_roundtrip Ops bytes_for_sig r osk opk now \<and>
    verify_quote_signature_empty_pub_key_fails Ops bytes_for_sig now \<and>
    verify_quote_signature_empty_signature_fails Ops bytes_for_sig opk now \<and>
    verify_merkle_candidate_real_keys_roundtrip Ops bytes_to_sign r osk opk \<and>
    verify_merkle_candidate_empty_pub_key_fails Ops bytes_to_sign r osk opk \<and>
    verify_rejects_malformed_without_panic P C \<and>
    verify_accepts_a_correctly_signed_commitment C r sk pk"
  by (intro conjI proof_tests [OF assms(1,3)] untagged_tests [OF assms(2,3)] detect_tests
      merkle_tests [OF assms(4,5)] quote_tests [OF assms(6,7)] empty_quote_tests [OF assms(8)]
      candidate_tests(1) [OF assms(6)] candidate_tests(2) [OF assms(6,8)] test_malformed [OF assms(9,10)]
      test_signed_commitment [OF assms(11)])

lemma artifact_tests_pass_witness:
  "test_payment_proof_multiple_tx_hashes demo_test_codec () (arr_repeat 0, ()) \<and>
   test_deserialize_merkle_proof_rejects_wrong_tag demo_merkle_rmp [7] \<and>
   verify_quote_signature_real_keys_roundtrip demo_ops demo_payload 3 5 5 () \<and>
   verify_accepts_a_correctly_signed_commitment demo_crypto 3 5 5"
proof -
  have "is_ok (to_vec demo_merkle_rmp [7])" by (simp add: demo_merkle_rmp_def)
  from artifact_tests_pass [OF demo_test_codec demo_reads_back(2) this demo_ops_signs_for
    demo_ignores_signature demo_ops_refuses_empty demo_round_trips demo_encoding demo_signs_for,
    where bytes_to_sign = demo_candidate_payload]
  show ?thesis by blast
qed

end
