(* ===== verification/Tamper_Tests.thy ===== *)
theory Tamper_Tests
  imports Pointer_Tests Artifact_Tests
begin

text \<open>
  Tampering with signed data. A record, a commitment, a quote or a candidate changed under its
  signature is refused, or the signature that was drawn for one message verifies over another, both
  written out. The unit tests that try this are definitions, and each passes up to such a break.
\<close>

section \<open>What a break of the scheme is\<close>

text \<open>The signature drawn for \<open>m\<close> verifies over \<open>m'\<close> under the key \<open>pk\<close>.\<close>

definition carries_over ::
  "('pk, 'sk, 'sig) crypto \<Rightarrow> nat \<Rightarrow> 'sk \<Rightarrow> 'pk \<Rightarrow> bytes \<Rightarrow> bytes \<Rightarrow> bytes \<Rightarrow> bool" where
  "carries_over C r sk pk ctx m m' \<longleftrightarrow> m \<noteq> m' \<and>
     (case sign_with_context C r sk m ctx of
        Err e \<Rightarrow> False
      | Ok s \<Rightarrow> verify_with_context C pk m' s ctx = Ok True)"

text \<open>Documented of the interface: verification answers, true or false, under any context the standard
  allows.\<close>

definition verify_answers :: "('pk, 'sk, 'sig) crypto \<Rightarrow> bool" where
  "verify_answers C \<longleftrightarrow>
     (\<forall>pk m s ctx. length ctx \<le> 255 \<longrightarrow> (\<exists>valid. verify_with_context C pk m s ctx = Ok valid))"

lemma demo_verify_answers: "verify_answers demo_crypto"
  by (simp add: verify_answers_def demo_crypto_def)

section \<open>Records\<close>

lemma short_context: "length SIGNING_CONTEXT \<le> 255"
  by (simp add: SIGNING_CONTEXT_def)

lemma tampered_body:
  assumes "ml_dsa_65_encoding C" "verify_answers C" "valid_pointer C p"
    and "length bs = POINTER_WIRE_LEN" "take COUNTER_OFFSET bs = take COUNTER_OFFSET (pointer_to_bytes C p)"
    and "drop POINTER_BODY_LEN bs = drop POINTER_BODY_LEN (pointer_to_bytes C p)"
    and "verify_with_context C (ptr_owner p) (take POINTER_BODY_LEN bs) (ptr_sig p) SIGNING_CONTEXT \<noteq> Ok True"
  shows "pointer_from_bytes C bs = Err SignatureInvalid"
proof -
  note len = valid_pointer_lengths [OF assms(1,3)]
  obtain v kb and n :: u64 and t sb where
    bs: "bs = [v] @ kb @ to_be_bytes 8 n @ elems (target_to_bytes t) @ sb"
    and l: "length kb = 1952" "length sb = 3309"
    using assms(4) by (rule wire_split)
  have head: "take COUNTER_OFFSET (pointer_to_bytes C p) = [POINTER_FORMAT_VERSION] @ pk_to_bytes C (ptr_owner p)"
    "drop POINTER_BODY_LEN (pointer_to_bytes C p) = sig_to_bytes C (ptr_sig p)"
    using len assms(3) by (simp_all add: pointer_to_bytes_def pointer_body_layout layout_defs valid_pointer_def)
  have "take COUNTER_OFFSET bs = [v] @ kb" "drop POINTER_BODY_LEN bs = sb"
    "take POINTER_BODY_LEN bs = [v] @ kb @ to_be_bytes 8 n @ elems (target_to_bytes t)"
    using l by (simp_all add: bs layout_defs)
  with head have eq: "v = POINTER_FORMAT_VERSION" "kb = pk_to_bytes C (ptr_owner p)" "sb = sig_to_bytes C (ptr_sig p)"
    and body: "take POINTER_BODY_LEN bs = [v] @ kb @ to_be_bytes 8 n @ elems (target_to_bytes t)"
    using assms(5,6) by simp_all
  obtain valid where "verify_with_context C (ptr_owner p) (take POINTER_BODY_LEN bs) (ptr_sig p) SIGNING_CONTEXT = Ok valid"
    using assms(2) short_context unfolding verify_answers_def by blast
  with assms(7) have "verify_with_context C (ptr_owner p) (take POINTER_BODY_LEN bs) (ptr_sig p) SIGNING_CONTEXT = Ok False"
    by simp
  then show ?thesis
    using from_bytes_layout [OF l, of C v n t] assms(3) unfolding body eq
    by (simp add: bs eq valid_pointer_def)
qed

definition signed_body :: "('pk, 'sk, 'sig) crypto \<Rightarrow> 'pk \<Rightarrow> u64 \<Rightarrow> pointer_target \<Rightarrow> bytes" where
  "signed_body C pk n t =
     [POINTER_FORMAT_VERSION] @ pk_to_bytes C pk @ to_be_bytes 8 n @ elems (target_to_bytes t)"

text \<open>The record signing returns holds the signature drawn for its body.\<close>

lemma signed_record:
  assumes "ml_dsa_65_encoding C" "signs_for C sk pk"
  obtains p where "pointer_sign C r sk pk n t = Ok p" "valid_pointer C p" "ptr_owner p = pk"
    "ptr_counter p = n" "ptr_target p = t" "pointer_body C p = signed_body C pk n t"
    "sign_with_context C r sk (signed_body C pk n t) SIGNING_CONTEXT = Ok (ptr_sig p)"
proof -
  obtain p where p: "pointer_sign C r sk pk n t = Ok p" "ptr_owner p = pk"
    by (rule sign_succeeds [OF assms])
  note v = sign_eq_Ok [OF assms(1) p(1)]
  note len = valid_pointer_lengths [OF assms(1) v(1)]
  have body: "pointer_body C p = signed_body C pk n t"
    using len(1) v p(2) by (simp add: pointer_body_layout signed_body_def valid_pointer_def)
  obtain s where s: "sign_with_context C r sk (signed_body C pk n t) SIGNING_CONTEXT = Ok s"
    "sig_from_bytes C (sig_to_bytes C s) = Ok s"
    using signs_forE [OF assms(2) short_context] by blast
  have "encode_body C POINTER_FORMAT_VERSION pk n t = Ok (signed_body C pk n t)"
    using len(1) p(2) by (simp add: encode_body_eq_Ok signed_body_def layout_defs)
  then have "pointer_from_bytes C (signed_body C pk n t @ sig_to_bytes C s) = Ok p"
    using p(1) s(1) by (simp add: pointer_sign_def)
  then have "sig_to_bytes C s = sig_to_bytes C (ptr_sig p)"
    using from_bytes_eq_Ok [OF assms(1)] body by (simp add: pointer_to_bytes_def)
  then have "ptr_sig p = s" using s(2) v(1) by (simp add: valid_pointer_def)
  then show thesis using that p v(1-3) body s(1) by blast
qed

definition a_tampered_record_does_not_verify :: "('pk, 'sk, 'sig) pointer_test" where
  "a_tampered_record_does_not_verify C kp r \<longleftrightarrow>
     expect (signed C kp (r 0) 1 5 5) (\<lambda>record.
       let bytes = pointer_to_bytes C record;
           bytes = (if COUNTER_OFFSET + 7 < length bytes
             then bytes[COUNTER_OFFSET + 7 := bytes ! (COUNTER_OFFSET + 7) XOR 1] else bytes)
       in pointer_from_bytes C bytes = Err SignatureInvalid)"

definition the_format_version_reaches_the_paid_identifier :: "('pk, 'sk, 'sig) pointer_test" where
  "the_format_version_reaches_the_paid_identifier C kp r \<longleftrightarrow>
     expect (signed C kp (r 0) 1 3 3) (\<lambda>record.
       case get_range 0 POINTER_BODY_LEN (pointer_to_bytes C record) of
         None \<Rightarrow> False
       | Some body \<Rightarrow>
           (let baseline = state_id_for_body C body in
            baseline = ptr_state_id C record \<and>
            list_all (\<lambda>version. version = POINTER_FORMAT_VERSION \<or>
              state_id_for_body C (body[0 := version]) \<noteq> baseline) (map word_of_nat [0..<256])))"

lemma test_tampered_record:
  assumes "lawful C kp" "verify_answers C"
  shows "a_tampered_record_does_not_verify C kp r \<or>
    carries_over C (r 0) (snd (kp 1)) (fst (kp 1)) SIGNING_CONTEXT
      (signed_body C (fst (kp 1)) 5 (chunk_target 5)) (signed_body C (fst (kp 1)) 4 (chunk_target 5))"
proof -
  have enc: "ml_dsa_65_encoding C" and k: "signs_for C (snd (kp 1)) (fst (kp 1))"
    using assms(1) by (simp_all add: lawful_def)
  let ?pk = "fst (kp 1)" and ?t = "chunk_target 5"
  obtain p where p: "pointer_sign C (r 0) (snd (kp 1)) ?pk 5 ?t = Ok p" "valid_pointer C p" "ptr_owner p = ?pk"
    "pointer_body C p = signed_body C ?pk 5 ?t"
    "sign_with_context C (r 0) (snd (kp 1)) (signed_body C ?pk 5 ?t) SIGNING_CONTEXT = Ok (ptr_sig p)"
    by (rule signed_record [OF enc k])
  note len = valid_pointer_lengths [OF enc p(2)]
  let ?bytes = "signed_body C ?pk 4 ?t @ sig_to_bytes C (ptr_sig p)"
  have be: "to_be_bytes 8 (5 :: u64) = [0, 0, 0, 0, 0, 0, 0, 5]" "to_be_bytes 8 (4 :: u64) = [0, 0, 0, 0, 0, 0, 0, 4]"
    by code_simp+
  have "pointer_to_bytes C p = ([POINTER_FORMAT_VERSION] @ pk_to_bytes C ?pk @ [0, 0, 0, 0, 0, 0, 0]) @ 5 #
      elems (target_to_bytes ?t) @ sig_to_bytes C (ptr_sig p)" (is "_ = ?front @ 5 # ?rest")
    by (simp add: pointer_to_bytes_def p(4) signed_body_def be)
  moreover have front: "length ?front = COUNTER_OFFSET + 7" using len(1) p(3) by (simp add: layout_defs)
  ultimately have "(pointer_to_bytes C p)[COUNTER_OFFSET + 7 := pointer_to_bytes C p ! (COUNTER_OFFSET + 7) XOR 1] =
      ?front @ (5 XOR 1) # ?rest"
    by (metis list_update_length nth_append_length)
  also have "?front @ (5 XOR 1) # ?rest = ?bytes"
    by (simp add: signed_body_def be)
  finally have flip: "(pointer_to_bytes C p)[COUNTER_OFFSET + 7 := pointer_to_bytes C p ! (COUNTER_OFFSET + 7) XOR 1] = ?bytes" .
  have inside: "COUNTER_OFFSET + 7 < length (pointer_to_bytes C p)" using len(4) by (simp add: layout_defs)
  have parts: "take POINTER_BODY_LEN ?bytes = signed_body C ?pk 4 ?t" "length ?bytes = POINTER_WIRE_LEN"
    "take COUNTER_OFFSET ?bytes = take COUNTER_OFFSET (pointer_to_bytes C p)"
    "drop POINTER_BODY_LEN ?bytes = drop POINTER_BODY_LEN (pointer_to_bytes C p)"
    using len(1,2) p(3) by (simp_all add: pointer_to_bytes_def p(4) signed_body_def layout_defs)
  have differ: "signed_body C ?pk 5 ?t \<noteq> signed_body C ?pk 4 ?t" by (simp add: signed_body_def be)
  show ?thesis
  proof (cases "verify_with_context C ?pk (signed_body C ?pk 4 ?t) (ptr_sig p) SIGNING_CONTEXT = Ok True")
    case True
    then show ?thesis using p(5) differ by (simp add: carries_over_def)
  next
    case False
    then have "pointer_from_bytes C ?bytes = Err SignatureInvalid"
      using tampered_body [OF enc assms(2) p(2) parts(2-4)] parts(1) p(3) by simp
    then show ?thesis
      using inside flip by (simp add: a_tampered_record_does_not_verify_def signed_def sign_as_def p(1))
  qed
qed

text \<open>Two bodies that share a paid identifier though their versions differ.\<close>

definition versions_collide :: "('pk, 'sk, 'sig) crypto \<Rightarrow> bytes \<Rightarrow> bool" where
  "versions_collide C body \<longleftrightarrow> (\<exists>version. version \<noteq> POINTER_FORMAT_VERSION \<and> body[0 := version] \<noteq> body \<and>
     blake3_derive_key C CONTEXT_STATE (body[0 := version]) = blake3_derive_key C CONTEXT_STATE body)"

lemma test_version_identifier:
  assumes "lawful C kp"
  shows "the_format_version_reaches_the_paid_identifier C kp r \<or>
    versions_collide C (signed_body C (fst (kp 1)) 3 (chunk_target 3))"
proof -
  have enc: "ml_dsa_65_encoding C" and k: "signs_for C (snd (kp 1)) (fst (kp 1))"
    using assms(1) by (simp_all add: lawful_def)
  let ?body = "signed_body C (fst (kp 1)) 3 (chunk_target 3)"
  obtain p where p: "pointer_sign C (r 0) (snd (kp 1)) (fst (kp 1)) 3 (chunk_target 3) = Ok p"
    "valid_pointer C p" "pointer_body C p = ?body"
    by (rule signed_record [OF enc k])
  have body: "get_range 0 POINTER_BODY_LEN (pointer_to_bytes C p) = Some ?body"
    using valid_pointer_lengths [OF enc p(2)] p(3) by (simp add: get_range_def pointer_to_bytes_def layout_defs)
  have "?body[0 := version] \<noteq> ?body" if "version \<noteq> POINTER_FORMAT_VERSION" for version
    using that by (simp add: signed_body_def)
  then show ?thesis
    using body p(3) unfolding the_format_version_reaches_the_paid_identifier_def versions_collide_def
    by (auto simp: signed_def sign_as_def p(1) Let_def ptr_state_id_def state_id_for_body_def list_all_iff)
qed

section \<open>Commitments\<close>

definition commitment_hash_is_deterministic_and_field_sensitive :: "postcard \<Rightarrow> ('pk, 'sk, 'sig) crypto \<Rightarrow> bool" where
  "commitment_hash_is_deterministic_and_field_sensitive P C \<longleftrightarrow>
     (let c = \<lparr>sc_root = arr_repeat 1, sc_key_count = 5, sc_sender_peer_id = arr_repeat 2,
           sc_sender_public_key = replicate 20 3, sc_signature = replicate 20 4\<rparr>;
          c2 = c\<lparr>sc_key_count := 6\<rparr>
      in case (commitment_hash P C c, commitment_hash P C c, commitment_hash P C c2) of
           (Some h1, Some h2, Some h3) \<Rightarrow> h1 = h2 \<and> h3 \<noteq> h1
         | _ \<Rightarrow> False)"

definition flip_first :: "u8 \<Rightarrow> bytes \<Rightarrow> bytes" where
  "flip_first b bs = (case bs of [] \<Rightarrow> [] | byte # rest \<Rightarrow> (byte XOR b) # rest)"

text \<open>\<open>kp\<close> gives the key pairs the test generates, in order.\<close>

definition verify_rejects_any_field_tampered_after_signing ::
  "('pk, 'sk, 'sig) crypto \<Rightarrow> (nat \<Rightarrow> 'pk \<times> 'sk) \<Rightarrow> (nat \<Rightarrow> nat) \<Rightarrow> bool" where
  "verify_rejects_any_field_tampered_after_signing C kp r \<longleftrightarrow>
     (let fresh = (\<lambda>i. signed_commitment C (r i) (snd (kp i)) (fst (kp i)) (arr_repeat 1) 100 (arr_repeat 2)) in
      expect (fresh 0) (\<lambda>c. \<not> verify_commitment_signature C (c\<lparr>sc_key_count := sc_key_count c + 1\<rparr>)) \<and>
      expect (fresh 1) (\<lambda>c. \<not> verify_commitment_signature C
        (c\<lparr>sc_root := Arr (flip_first 0xff (elems (sc_root c)))\<rparr>)) \<and>
      expect (fresh 2) (\<lambda>c. \<not> verify_commitment_signature C
        (c\<lparr>sc_sender_peer_id := Arr (flip_first 0xff (elems (sc_sender_peer_id c)))\<rparr>)) \<and>
      expect (fresh 3) (\<lambda>c. \<not> verify_commitment_signature C
        (c\<lparr>sc_sender_public_key := pk_to_bytes C (fst (kp 4))\<rparr>)))"

text \<open>What a commitment signs.\<close>

definition payload_of :: "storage_commitment \<Rightarrow> bytes" where
  "payload_of c = commitment_signed_payload (sc_root c) (sc_key_count c) (sc_sender_peer_id c) (sc_sender_public_key c)"

lemma payload_of_inject:
  "payload_of c = payload_of c' \<longleftrightarrow> sc_root c = sc_root c' \<and> sc_key_count c = sc_key_count c' \<and>
     sc_sender_peer_id c = sc_sender_peer_id c' \<and> sc_sender_public_key c = sc_sender_public_key c'"
  by (simp add: payload_of_def payload_binds_fields)

lemma commitment_tampered:
  assumes "signs_for C sk pk"
    and "c0 = \<lparr>sc_root = root, sc_key_count = n, sc_sender_peer_id = peer, sc_sender_public_key = pk_to_bytes C pk,
      sc_signature = []\<rparr>"
    and "\<And>sig. payload_of (f (c0\<lparr>sc_signature := sig\<rparr>)) = payload_of (f c0) \<and>
      sc_signature (f (c0\<lparr>sc_signature := sig\<rparr>)) = sig \<and>
      pk_from_bytes C (sc_sender_public_key (f (c0\<lparr>sc_signature := sig\<rparr>))) = Ok pk'"
    and "payload_of c0 \<noteq> payload_of (f c0)"
  shows "expect (signed_commitment C r sk pk root n peer) (\<lambda>c. \<not> verify_commitment_signature C (f c)) \<or>
    carries_over C r sk pk' DOMAIN_COMMITMENT (payload_of c0) (payload_of (f c0))"
proof -
  have "length DOMAIN_COMMITMENT \<le> 255" by (simp add: DOMAIN_COMMITMENT_def)
  from signs_forE [OF assms(1) this] obtain s where
    s: "sign_with_context C r sk (payload_of c0) DOMAIN_COMMITMENT = Ok s" "sig_from_bytes C (sig_to_bytes C s) = Ok s"
    by blast
  let ?c = "c0\<lparr>sc_signature := sig_to_bytes C s\<rparr>"
  have drawn: "signed_commitment C r sk pk root n peer = Ok ?c"
    using s(1) by (simp add: signed_commitment_def Let_def payload_of_def assms(2))
  have "verify_commitment_signature C (f ?c) \<longleftrightarrow>
      verify_with_context C pk' (payload_of (f c0)) s DOMAIN_COMMITMENT = Ok True"
    using assms(3) [of "sig_to_bytes C s"] s(2) by (auto simp: commitment_accepted payload_of_def)
  then show ?thesis
    using s(1) assms(4) by (simp add: drawn carries_over_def)
qed

lemma test_field_sensitive:
  assumes "postcard_round_trips P"
    and "c = \<lparr>sc_root = arr_repeat 1, sc_key_count = 5, sc_sender_peer_id = arr_repeat 2,
           sc_sender_public_key = replicate 20 3, sc_signature = replicate 20 4\<rparr>"
  shows "commitment_hash_is_deterministic_and_field_sensitive P C \<or>
    (\<exists>bs bs'. to_stdvec P (ser_storage_commitment c) = Ok bs \<and>
       to_stdvec P (ser_storage_commitment (c\<lparr>sc_key_count := 6\<rparr>)) = Ok bs' \<and> bs \<noteq> bs' \<and>
       blake3_hash C (DOMAIN_COMMITMENT_HASH @ bs) = blake3_hash C (DOMAIN_COMMITMENT_HASH @ bs'))"
proof -
  have "c \<noteq> c\<lparr>sc_key_count := 6\<rparr>" by (simp add: assms(2))
  moreover have "commitment_hash P C d \<noteq> None" for d
    using pin_binds [OF assms(1), of d d C] by blast
  then obtain h k where "commitment_hash P C c = Some h" "commitment_hash P C (c\<lparr>sc_key_count := 6\<rparr>) = Some k"
    by (metis not_None_eq)
  ultimately show ?thesis
    using pin_binds [OF assms(1), of c "c\<lparr>sc_key_count := 6\<rparr>" C]
    unfolding commitment_hash_is_deterministic_and_field_sensitive_def assms(2) [symmetric] Let_def by auto
qed

lemma length_flip_first [simp]: "length (flip_first b bs) = length bs"
  by (cases bs) (simp_all add: flip_first_def)

lemma flip_first_differs: "bs \<noteq> [] \<Longrightarrow> b \<noteq> 0 \<Longrightarrow> flip_first b bs \<noteq> bs"
  by (cases bs) (auto simp: flip_first_def bit_eq_iff bit_xor_iff)

definition unsigned :: "('pk, 'sk, 'sig) crypto \<Rightarrow> 'pk \<Rightarrow> storage_commitment" where
  "unsigned C pk = \<lparr>sc_root = arr_repeat 1, sc_key_count = 100, sc_sender_peer_id = arr_repeat 2,
     sc_sender_public_key = pk_to_bytes C pk, sc_signature = []\<rparr>"

text \<open>The four changes the test makes: key count, root, peer id, key.\<close>

definition tampering :: "('pk, 'sk, 'sig) crypto \<Rightarrow> 'pk \<Rightarrow> nat \<Rightarrow> storage_commitment \<Rightarrow> storage_commitment" where
  "tampering C other_pk i c =
     (if i = 0 then c\<lparr>sc_key_count := sc_key_count c + 1\<rparr>
      else if i = 1 then c\<lparr>sc_root := Arr (flip_first 0xff (elems (sc_root c)))\<rparr>
      else if i = 2 then c\<lparr>sc_sender_peer_id := Arr (flip_first 0xff (elems (sc_sender_peer_id c)))\<rparr>
      else c\<lparr>sc_sender_public_key := pk_to_bytes C other_pk\<rparr>)"

text \<open>One of the four signatures drawn carries over to what the test makes of its commitment.\<close>

definition tampering_carries_over :: "('pk, 'sk, 'sig) crypto \<Rightarrow> (nat \<Rightarrow> 'pk \<times> 'sk) \<Rightarrow> (nat \<Rightarrow> nat) \<Rightarrow> bool" where
  "tampering_carries_over C kp r \<longleftrightarrow> (\<exists>i < 4. carries_over C (r i) (snd (kp i)) (fst (kp (if i = 3 then 4 else i)))
     DOMAIN_COMMITMENT (payload_of (unsigned C (fst (kp i))))
     (payload_of (tampering C (fst (kp 4)) i (unsigned C (fst (kp i))))))"

lemma tampering_selects:
  "payload_of (tampering C opk i (unsigned C pk\<lparr>sc_signature := sig\<rparr>)) = payload_of (tampering C opk i (unsigned C pk))"
  "sc_signature (tampering C opk i (unsigned C pk\<lparr>sc_signature := sig\<rparr>)) = sig"
  "sc_sender_public_key (tampering C opk i (unsigned C pk\<lparr>sc_signature := sig\<rparr>)) =
     pk_to_bytes C (if i < 3 then pk else opk)"
  by (auto simp: tampering_def unsigned_def payload_of_def)

lemma flip_array_differs: "Arr (flip_first 0xff (elems a)) \<noteq> (a :: (u8, 32) arr)"
proof -
  have "length (elems a) = 32" by simp
  then have "elems a \<noteq> []" by (metis list.size(3) zero_neq_numeral)
  then have "flip_first 0xff (elems a) \<noteq> elems a" by (rule flip_first_differs) simp
  then show ?thesis by (metis elems_Arr length_elems length_flip_first)
qed

lemma tampering_changes:
  assumes "i < 3 \<or> pk_to_bytes C pk \<noteq> pk_to_bytes C opk"
  shows "payload_of (unsigned C pk) \<noteq> payload_of (tampering C opk i (unsigned C pk))"
  using assms flip_array_differs [of "arr_repeat 1"] flip_array_differs [of "arr_repeat 2"]
  by (auto simp: payload_of_inject tampering_def unsigned_def)

lemma tampering_caught:
  assumes "\<And>i. signs_for C (snd (kp i)) (fst (kp i))" "pk_to_bytes C (fst (kp 3)) \<noteq> pk_to_bytes C (fst (kp 4))"
    and "i < 4" "\<not> tampering_carries_over C kp r"
  shows "expect (signed_commitment C (r i) (snd (kp i)) (fst (kp i)) (arr_repeat 1) 100 (arr_repeat 2))
    (\<lambda>c. \<not> verify_commitment_signature C (tampering C (fst (kp 4)) i c))"
proof -
  let ?pk = "fst (kp i)" and ?opk = "fst (kp 4)"
  have "i < 3 \<or> pk_to_bytes C ?pk \<noteq> pk_to_bytes C ?opk"
    using assms(2,3) by (cases "i = 3") auto
  then have change: "payload_of (unsigned C ?pk) \<noteq> payload_of (tampering C ?opk i (unsigned C ?pk))"
    by (rule tampering_changes)
  have same: "payload_of (tampering C ?opk i (unsigned C ?pk\<lparr>sc_signature := sig\<rparr>)) =
        payload_of (tampering C ?opk i (unsigned C ?pk)) \<and>
      sc_signature (tampering C ?opk i (unsigned C ?pk\<lparr>sc_signature := sig\<rparr>)) = sig \<and>
      pk_from_bytes C (sc_sender_public_key (tampering C ?opk i (unsigned C ?pk\<lparr>sc_signature := sig\<rparr>))) =
        Ok (fst (kp (if i = 3 then 4 else i)))" for sig
    using assms(3) signs_for_pk [OF assms(1)] by (auto simp: tampering_selects)
  have "\<not> carries_over C (r i) (snd (kp i)) (fst (kp (if i = 3 then 4 else i))) DOMAIN_COMMITMENT
      (payload_of (unsigned C ?pk)) (payload_of (tampering C ?opk i (unsigned C ?pk)))"
    using assms(3,4) unfolding tampering_carries_over_def by blast
  then show ?thesis
    using commitment_tampered [OF assms(1) unsigned_def same change] by blast
qed

lemma test_field_tampered:
  assumes "\<And>i. signs_for C (snd (kp i)) (fst (kp i))" "pk_to_bytes C (fst (kp 3)) \<noteq> pk_to_bytes C (fst (kp 4))"
  shows "verify_rejects_any_field_tampered_after_signing C kp r \<or> tampering_carries_over C kp r"
proof (cases "tampering_carries_over C kp r")
  case False
  from tampering_caught [OF assms _ False, of 0] tampering_caught [OF assms _ False, of 1]
    tampering_caught [OF assms _ False, of 2] tampering_caught [OF assms _ False, of 3]
  show ?thesis
    by (simp add: tampering_def verify_rejects_any_field_tampered_after_signing_def Let_def)
qed simp

section \<open>Quotes and candidates\<close>

definition verify_quote_signature_tampered_signature_fails :: "('pk, 'sk, 'sig, 't) quote_test" where
  "verify_quote_signature_tampered_signature_fails Ops bytes_for_sig r sk pk now \<longleftrightarrow>
     expect (real_ml_dsa_quote Ops bytes_for_sig r sk pk now) (\<lambda>quote.
       \<not> verify_quote_signature Ops bytes_for_sig (quote\<lparr>pq_signature := flip_first 0xFF (pq_signature quote)\<rparr>))"

definition verify_merkle_candidate_tampered_fails :: "('pk, 'sk, 'sig) candidate_test" where
  "verify_merkle_candidate_tampered_fails Ops bytes_to_sign r sk pk \<longleftrightarrow>
     expect (real_ml_dsa_merkle_candidate Ops bytes_to_sign r sk pk) (\<lambda>candidate.
       \<not> verify_merkle_candidate_signature Ops bytes_to_sign
         (candidate\<lparr>mc_signature := flip_first 0x55 (mc_signature candidate)\<rparr>))"

definition verify_merkle_candidate_wrong_timestamp_fails :: "('pk, 'sk, 'sig) candidate_test" where
  "verify_merkle_candidate_wrong_timestamp_fails Ops bytes_to_sign r sk pk \<longleftrightarrow>
     expect (real_ml_dsa_merkle_candidate Ops bytes_to_sign r sk pk) (\<lambda>candidate.
       \<not> verify_merkle_candidate_signature Ops bytes_to_sign
         (candidate\<lparr>mc_merkle_payment_timestamp := mc_merkle_payment_timestamp candidate + 1\<rparr>))"

text \<open>A second signature: the one drawn for \<open>m\<close>, changed in its first byte, verifies over \<open>m\<close>. And one
  that verifies over a second message.\<close>

definition second_signature :: "('pk, 'sk, 'sig) ml_dsa_ops \<Rightarrow> nat \<Rightarrow> 'sk \<Rightarrow> 'pk \<Rightarrow> u8 \<Rightarrow> bytes \<Rightarrow> bool" where
  "second_signature Ops r sk pk b m \<longleftrightarrow>
     (case ops_sign Ops r sk m of
        Err e \<Rightarrow> False
      | Ok s \<Rightarrow> (case ops_sig_from_bytes Ops (flip_first b (ops_sig_as_bytes Ops s)) of
          Err e \<Rightarrow> False
        | Ok s' \<Rightarrow> ops_verify Ops pk m s' = Ok True))"

definition ops_carries_over :: "('pk, 'sk, 'sig) ml_dsa_ops \<Rightarrow> nat \<Rightarrow> 'sk \<Rightarrow> 'pk \<Rightarrow> bytes \<Rightarrow> bytes \<Rightarrow> bool" where
  "ops_carries_over Ops r sk pk m m' \<longleftrightarrow> m \<noteq> m' \<and>
     (case ops_sign Ops r sk m of
        Err e \<Rightarrow> False
      | Ok s \<Rightarrow> ops_verify Ops pk m' s = Ok True)"

text \<open>What the fixtures sign.\<close>

definition quote_message :: "('pk, 'sk, 'sig) ml_dsa_ops \<Rightarrow> 't quote_payload \<Rightarrow> 'pk \<Rightarrow> 't \<Rightarrow> bytes" where
  "quote_message Ops bytes_for_sig pk now = bytes_for_sig \<lparr>pq_content = arr_repeat 7, pq_timestamp = now,
     pq_price = amount_from (42 :: u64), pq_rewards_address = arr_repeat 2, pq_pub_key = ops_pk_as_bytes Ops pk,
     pq_signature = [], pq_committed_key_count = 0, pq_commitment_pin = None\<rparr>"

definition candidate_message_at :: "candidate_payload \<Rightarrow> u64 \<Rightarrow> bytes" where
  "candidate_message_at bytes_to_sign timestamp =
     bytes_to_sign (amount_from (1024 :: u64)) (arr_repeat 3) timestamp 7 (Some (arr_repeat 5))"

lemma test_tampered_quote:
  assumes "ops_signs_for Ops sk pk" "ignores_signature bytes_for_sig"
  shows "verify_quote_signature_tampered_signature_fails Ops bytes_for_sig r sk pk now \<or>
    second_signature Ops r sk pk 0xFF (quote_message Ops bytes_for_sig pk now)"
proof -
  have key: "ops_pk_from_bytes Ops (ops_pk_as_bytes Ops pk) = Ok pk"
    using assms(1) by (simp add: ops_signs_for_def)
  obtain s where s: "ops_sign Ops r sk (quote_message Ops bytes_for_sig pk now) = Ok s"
    using assms(1) unfolding ops_signs_for_def by blast
  have "bytes_for_sig (q\<lparr>pq_signature := sig\<rparr>) = bytes_for_sig q" for q sig
    using assms(2) by (simp add: ignores_signature_def)
  from this [of _ "\<lparr>pq_content = arr_repeat 7, pq_timestamp = now, pq_price = amount_from (42 :: u64),
      pq_rewards_address = arr_repeat 2, pq_pub_key = ops_pk_as_bytes Ops pk, pq_signature = [],
      pq_committed_key_count = 0, pq_commitment_pin = None\<rparr>"]
  have m: "bytes_for_sig \<lparr>pq_content = arr_repeat 7, pq_timestamp = now, pq_price = amount_from (42 :: u64),
      pq_rewards_address = arr_repeat 2, pq_pub_key = ops_pk_as_bytes Ops pk, pq_signature = sig,
      pq_committed_key_count = 0, pq_commitment_pin = None\<rparr> = quote_message Ops bytes_for_sig pk now" for sig
    by (simp add: quote_message_def)
  show ?thesis
    using s by (auto simp: verify_quote_signature_tampered_signature_fails_def real_ml_dsa_quote_def
        signed_quote_def second_signature_def quote_artifact.accepts_iff key m)
qed

lemma candidate_tamper_tests:
  assumes "ops_signs_for Ops sk pk"
  shows "verify_merkle_candidate_tampered_fails Ops bytes_to_sign r sk pk \<or>
      second_signature Ops r sk pk 0x55 (candidate_message_at bytes_to_sign 1700000000)"
    and "candidate_message_at bytes_to_sign 1700000000 \<noteq> candidate_message_at bytes_to_sign 1700000001 \<Longrightarrow>
      verify_merkle_candidate_wrong_timestamp_fails Ops bytes_to_sign r sk pk \<or>
      ops_carries_over Ops r sk pk (candidate_message_at bytes_to_sign 1700000000)
        (candidate_message_at bytes_to_sign 1700000001)"
proof -
  have key: "ops_pk_from_bytes Ops (ops_pk_as_bytes Ops pk) = Ok pk"
    using assms(1) by (simp add: ops_signs_for_def)
  obtain s where s: "ops_sign Ops r sk (candidate_message_at bytes_to_sign 1700000000) = Ok s"
    "ops_sig_from_bytes Ops (ops_sig_as_bytes Ops s) = Ok s"
    using assms(1) unfolding ops_signs_for_def by blast
  note defs = real_ml_dsa_merkle_candidate_def signed_candidate_def candidate_artifact.accepts_iff
    candidate_message_def key s(1) [unfolded candidate_message_at_def] candidate_message_at_def s(2)
  show "verify_merkle_candidate_tampered_fails Ops bytes_to_sign r sk pk \<or>
      second_signature Ops r sk pk 0x55 (candidate_message_at bytes_to_sign 1700000000)"
    by (auto simp: verify_merkle_candidate_tampered_fails_def second_signature_def defs)
  show "verify_merkle_candidate_wrong_timestamp_fails Ops bytes_to_sign r sk pk \<or>
      ops_carries_over Ops r sk pk (candidate_message_at bytes_to_sign 1700000000)
        (candidate_message_at bytes_to_sign 1700000001)"
    if "candidate_message_at bytes_to_sign 1700000000 \<noteq> candidate_message_at bytes_to_sign 1700000001"
    using that by (auto simp: verify_merkle_candidate_wrong_timestamp_fails_def ops_carries_over_def defs)
qed

section \<open>Properties\<close>

text \<open>
  C27: A record cannot be changed under its signature: bytes that differ from a valid record's only
  between owner key and signature, in counter, kind or target, are refused with the signature error,
  unless the signature verifies over two explicit different bodies.
\<close>

theorem tampered_record_refused:
  assumes "ml_dsa_65_encoding C" "verify_answers C" "pointer_from_bytes C bs = Ok p"
    and "length bs' = length bs" "take 1953 bs' = take 1953 bs" "drop 1994 bs' = drop 1994 bs" "bs' \<noteq> bs"
  shows "pointer_from_bytes C bs' = Err SignatureInvalid \<or>
    take 1994 bs' \<noteq> take 1994 bs \<and>
    verify_with_context C (ptr_owner p) (take 1994 bs) (ptr_sig p) SIGNING_CONTEXT = Ok True \<and>
    verify_with_context C (ptr_owner p) (take 1994 bs') (ptr_sig p) SIGNING_CONTEXT = Ok True"
proof -
  have p: "valid_pointer C p" "bs = pointer_to_bytes C p"
    using assms(3) by (simp_all add: from_bytes_eq_Ok [OF assms(1)])
  note len = valid_pointer_lengths [OF assms(1) p(1)]
  have body: "take 1994 bs = pointer_body C p"
    using len(3) by (simp add: p(2) pointer_to_bytes_def layout_defs)
  have "take 1994 bs' \<noteq> take 1994 bs"
    using assms(6,7) by (metis append_take_drop_id)
  moreover have "pointer_from_bytes C bs' = Err SignatureInvalid"
    if "verify_with_context C (ptr_owner p) (take 1994 bs') (ptr_sig p) SIGNING_CONTEXT \<noteq> Ok True"
    using that assms(4-6) len(4)
    by (intro tampered_body [OF assms(1,2) p(1)]) (simp_all add: p(2) layout_defs)
  ultimately show ?thesis
    using p(1) body by (auto simp: valid_pointer_def)
qed

lemma tampered_record_refused_witness:
  "\<exists>bs'. length bs' = 5303 \<and> bs' \<noteq> pointer_to_bytes demo_crypto (demo_pointer 1 7 (demo_target 3)) \<and>
     (pointer_from_bytes demo_crypto bs' = Err SignatureInvalid \<or>
      verify_with_context demo_crypto 5 (take 1994 bs') (ptr_sig (demo_pointer 1 7 (demo_target 3))) SIGNING_CONTEXT = Ok True)"
proof -
  let ?bs = "pointer_to_bytes demo_crypto (demo_pointer 1 7 (demo_target 3))"
  let ?bs' = "?bs[1960 := ?bs ! 1960 + 1]"
  have "length ?bs = 5303"
    using valid_pointer_lengths(4) [OF demo_encoding demo_pointer_valid, of 1 7 "demo_target 3"] by (simp add: layout_defs)
  then have "?bs' ! 1960 = ?bs ! 1960 + 1" and len: "length ?bs' = 5303" by simp_all
  then have ne: "?bs' \<noteq> ?bs" by (metis add_cancel_left_right zero_neq_one add.commute)
  have same: "length ?bs' = length ?bs" "take 1953 ?bs' = take 1953 ?bs" "drop 1994 ?bs' = drop 1994 ?bs"
    by simp_all
  from tampered_record_refused [OF demo_encoding demo_verify_answers demo_read same ne]
  have "pointer_from_bytes demo_crypto ?bs' = Err SignatureInvalid \<or>
      verify_with_context demo_crypto 5 (take 1994 ?bs') (ptr_sig (demo_pointer 1 7 (demo_target 3))) SIGNING_CONTEXT = Ok True"
    unfolding demo_pointer_sel by blast
  with len ne show ?thesis by blast
qed

text \<open>
  C40: The unit tests that tamper with signed data pass, each up to a break of the primitive it tries, on
  any keys and whatever randomness is drawn: a changed counter in a record, a changed version in a
  paid body, a changed key count in a pinned commitment, each of the four fields of a signed
  commitment, a changed signature of a quote or candidate, a changed timestamp of a candidate. A
  break is written out: the signature drawn for one message verifies over the test's other
  message, a changed signature still verifies, or two given inputs share a digest.
\<close>

theorem tamper_tests_pass:
  assumes "lawful C kp" "verify_answers C" "postcard_round_trips P"
    and "\<And>i. signs_for C (snd (fresh i)) (fst (fresh i))"
    and "pk_to_bytes C (fst (fresh 3)) \<noteq> pk_to_bytes C (fst (fresh 4))"
    and "ops_signs_for Ops osk opk" "ignores_signature bytes_for_sig"
    and "candidate_message_at bytes_to_sign 1700000000 \<noteq> candidate_message_at bytes_to_sign 1700000001"
    and "c = \<lparr>sc_root = arr_repeat 1, sc_key_count = 5, sc_sender_peer_id = arr_repeat 2,
           sc_sender_public_key = replicate 20 3, sc_signature = replicate 20 4\<rparr>"
  shows "(a_tampered_record_does_not_verify C kp r \<or>
      carries_over C (r 0) (snd (kp 1)) (fst (kp 1)) SIGNING_CONTEXT
        (signed_body C (fst (kp 1)) 5 (chunk_target 5)) (signed_body C (fst (kp 1)) 4 (chunk_target 5))) \<and>
    (the_format_version_reaches_the_paid_identifier C kp r \<or>
      versions_collide C (signed_body C (fst (kp 1)) 3 (chunk_target 3))) \<and>
    (commitment_hash_is_deterministic_and_field_sensitive P C \<or>
      (\<exists>bs bs'. to_stdvec P (ser_storage_commitment c) = Ok bs \<and>
         to_stdvec P (ser_storage_commitment (c\<lparr>sc_key_count := 6\<rparr>)) = Ok bs' \<and> bs \<noteq> bs' \<and>
         blake3_hash C (DOMAIN_COMMITMENT_HASH @ bs) = blake3_hash C (DOMAIN_COMMITMENT_HASH @ bs'))) \<and>
    (verify_rejects_any_field_tampered_after_signing C fresh r \<or> tampering_carries_over C fresh r) \<and>
    (verify_quote_signature_tampered_signature_fails Ops bytes_for_sig n osk opk now \<or>
      second_signature Ops n osk opk 0xFF (quote_message Ops bytes_for_sig opk now)) \<and>
    (verify_merkle_candidate_tampered_fails Ops bytes_to_sign n osk opk \<or>
      second_signature Ops n osk opk 0x55 (candidate_message_at bytes_to_sign 1700000000)) \<and>
    (verify_merkle_candidate_wrong_timestamp_fails Ops bytes_to_sign n osk opk \<or>
      ops_carries_over Ops n osk opk (candidate_message_at bytes_to_sign 1700000000)
        (candidate_message_at bytes_to_sign 1700000001))"
  by (intro conjI test_tampered_record [OF assms(1,2)] test_version_identifier [OF assms(1)]
      test_field_sensitive [OF assms(3,9)] test_field_tampered [OF assms(4,5)]
      test_tampered_quote [OF assms(6,7)] candidate_tamper_tests(1) [OF assms(6)]
      candidate_tamper_tests(2) [OF assms(6,8)])

text \<open>On the demonstration scheme the changed timestamp is caught.\<close>

definition demo_stamp_payload :: candidate_payload where
  "demo_stamp_payload price addr timestamp n pin = [ucast timestamp]"

lemma demo_messages:
  "candidate_message_at demo_stamp_payload 1700000000 \<noteq> candidate_message_at demo_stamp_payload 1700000001"
  "\<not> ops_carries_over demo_ops 3 5 5 (candidate_message_at demo_stamp_payload 1700000000)
     (candidate_message_at demo_stamp_payload 1700000001)"
  by (simp_all add: candidate_message_at_def demo_stamp_payload_def ops_carries_over_def demo_ops_def demo_sum_def)

lemma tamper_tests_pass_witness:
  "verify_merkle_candidate_wrong_timestamp_fails demo_ops demo_stamp_payload 3 5 5"
proof -
  let ?fresh = "\<lambda>i :: nat. (word_of_nat i :: u8, word_of_nat i :: u8)"
  have "pk_to_bytes demo_crypto (fst (?fresh 3)) \<noteq> pk_to_bytes demo_crypto (fst (?fresh 4))"
    by (simp add: demo_crypto_def)
  from tamper_tests_pass [where fresh = ?fresh and n = 3 and osk = 5 and opk = 5, OF demo_lawful demo_verify_answers
      demo_round_trips _ this demo_ops_signs_for demo_ignores_signature demo_messages(1) refl, of id "()"]
  show ?thesis using demo_signs_for demo_messages(2) by simp
qed

end
