(* ===== verification/Wire_Messages.thy ===== *)
theory Wire_Messages
  imports Wire_Types
begin

text \<open>
  The derived serializers of the requests, the responses, \<^verbatim>\<open>ProtocolError\<close> and
  \<^verbatim>\<open>ChunkMessage\<close> itself, each with its interpretation of \<open>wire_type\<close>.
\<close>

lemmas [wire_facts] = wt_u32.ser_typed wt_u64.ser_typed wt_bool.ser_typed wt_str.ser_typed
  wt_bytes.ser_typed wt_vec.ser_typed wt_opt_vec.ser_typed wt_xorname.ser_typed
  wt_u32.de_ser wt_u64.de_ser wt_bool.de_ser wt_str.de_ser
  wt_bytes.de_ser wt_vec.de_ser wt_opt_vec.de_ser wt_xorname.de_ser

lemmas [wire_onto] = wt_vec.of_type_iff wt_opt_vec.of_type_iff wt_xorname.of_type_iff

declare of_type.simps(7,8) [simp del]

section \<open>Protocol errors\<close>

definition ty_protocol_error :: sty where
  "ty_protocol_error = T_Enum [T_Str, T_Str, T_Tuple [T_U64, T_U64], T_Tuple [T_U64, T_U64],
     T_Tuple [ty_xorname, ty_xorname], T_Str, T_Str, T_Str, T_Str, T_Tuple [T_U32, T_U32],
     T_Tuple [T_U32, T_U32]]"

primrec ser_protocol_error :: "protocol_error \<Rightarrow> sval" where
  "ser_protocol_error (SerializationFailed m) = V_Variant 0 (V_Str m)"
| "ser_protocol_error (DeserializationFailed m) = V_Variant 1 (V_Str m)"
| "ser_protocol_error (MessageTooLarge sz mx) = V_Variant 2 (V_Tuple [V_U64 sz, V_U64 mx])"
| "ser_protocol_error (ChunkTooLarge sz mx) = V_Variant 3 (V_Tuple [V_U64 sz, V_U64 mx])"
| "ser_protocol_error (AddressMismatch e a) = V_Variant 4 (V_Tuple [ser_xorname e, ser_xorname a])"
| "ser_protocol_error (StorageFailed m) = V_Variant 5 (V_Str m)"
| "ser_protocol_error (PaymentFailed m) = V_Variant 6 (V_Str m)"
| "ser_protocol_error (QuoteFailed m) = V_Variant 7 (V_Str m)"
| "ser_protocol_error (Internal m) = V_Variant 8 (V_Str m)"
| "ser_protocol_error (ClientUpdateRequired c n) = V_Variant 9 (V_Tuple [V_U32 c, V_U32 n])"
| "ser_protocol_error (StorerUpdateRequired c n) = V_Variant 10 (V_Tuple [V_U32 c, V_U32 n])"

definition de_protocol_error :: "sval \<Rightarrow> protocol_error option" where
  "de_protocol_error = de_enum
     [\<lambda>v. map_option SerializationFailed (de_str v), \<lambda>v. map_option DeserializationFailed (de_str v),
      de_struct2 de_u64 de_u64 MessageTooLarge, de_struct2 de_u64 de_u64 ChunkTooLarge,
      de_struct2 de_xorname de_xorname AddressMismatch, \<lambda>v. map_option StorageFailed (de_str v),
      \<lambda>v. map_option PaymentFailed (de_str v), \<lambda>v. map_option QuoteFailed (de_str v),
      \<lambda>v. map_option Internal (de_str v), de_struct2 de_u32 de_u32 ClientUpdateRequired,
      de_struct2 de_u32 de_u32 StorerUpdateRequired]"

interpretation wt_protocol_error: wire_type ty_protocol_error ser_protocol_error de_protocol_error
proof
  show "of_type ty_protocol_error (ser_protocol_error x)" for x
    by (cases x) (simp_all add: ty_protocol_error_def wire_defs wire_facts)
  show "de_protocol_error (ser_protocol_error x) = Some x" for x
    by (cases x) (simp_all add: de_protocol_error_def wire_defs wire_facts)
  show "\<exists>x. de_protocol_error v = Some x \<and> ser_protocol_error x = v" if "of_type ty_protocol_error v" for v
    using that by (auto simp: ty_protocol_error_def de_protocol_error_def wire_defs wire_facts wire_onto)
qed

lemmas [wire_facts] = wt_protocol_error.ser_typed wt_protocol_error.de_ser
lemmas [wire_onto] = wt_protocol_error.of_type_iff

section \<open>Chunk requests and responses\<close>

definition ty_chunk_put_request :: sty where
  "ty_chunk_put_request = T_Tuple [ty_xorname, T_Bytes, T_Option (T_Seq T_U8)]"

definition ser_chunk_put_request :: "chunk_put_request \<Rightarrow> sval" where
  "ser_chunk_put_request x = V_Tuple [ser_xorname (put_address x), V_Bytes (put_content x), ser_option ser_vec (put_payment_proof x)]"

definition de_chunk_put_request :: "sval \<Rightarrow> chunk_put_request option" where
  "de_chunk_put_request = de_struct3 de_xorname de_bytes (de_option de_vec)
     (\<lambda>a b c. \<lparr>put_address = a, put_content = b, put_payment_proof = c\<rparr>)"

interpretation wt_chunk_put_request: wire_type ty_chunk_put_request ser_chunk_put_request de_chunk_put_request
proof
  show "of_type ty_chunk_put_request (ser_chunk_put_request x)" for x
    by (cases x) (simp_all add: ty_chunk_put_request_def ser_chunk_put_request_def wire_defs wire_facts)
  show "de_chunk_put_request (ser_chunk_put_request x) = Some x" for x
    by (cases x) (simp_all add: de_chunk_put_request_def ser_chunk_put_request_def wire_defs wire_facts)
  show "\<exists>x. de_chunk_put_request v = Some x \<and> ser_chunk_put_request x = v" if "of_type ty_chunk_put_request v" for v
    using that by (auto simp: ty_chunk_put_request_def de_chunk_put_request_def ser_chunk_put_request_def wire_defs wire_facts wire_onto)
qed

lemmas [wire_facts] = wt_chunk_put_request.ser_typed wt_chunk_put_request.de_ser
lemmas [wire_onto] = wt_chunk_put_request.of_type_iff

definition ty_chunk_put_response :: sty where
  "ty_chunk_put_response = T_Enum [T_Tuple [ty_xorname],
     T_Tuple [ty_xorname],
     T_Tuple [T_Str],
     ty_protocol_error]"

primrec ser_chunk_put_response :: "chunk_put_response \<Rightarrow> sval" where
  "ser_chunk_put_response (Put_Success a) = V_Variant 0 (V_Tuple [ser_xorname a])"
| "ser_chunk_put_response (Put_AlreadyExists a) = V_Variant 1 (V_Tuple [ser_xorname a])"
| "ser_chunk_put_response (Put_PaymentRequired a) = V_Variant 2 (V_Tuple [V_Str a])"
| "ser_chunk_put_response (Put_Error e) = V_Variant 3 (ser_protocol_error e)"

definition de_chunk_put_response :: "sval \<Rightarrow> chunk_put_response option" where
  "de_chunk_put_response = de_enum
     [de_struct1 de_xorname Put_Success,
      de_struct1 de_xorname Put_AlreadyExists,
      de_struct1 de_str Put_PaymentRequired,
      \<lambda>v. map_option Put_Error (de_protocol_error v)]"

interpretation wt_chunk_put_response: wire_type ty_chunk_put_response ser_chunk_put_response de_chunk_put_response
proof
  show "of_type ty_chunk_put_response (ser_chunk_put_response x)" for x
    by (cases x) (simp_all add: ty_chunk_put_response_def wire_defs wire_facts)
  show "de_chunk_put_response (ser_chunk_put_response x) = Some x" for x
    by (cases x) (simp_all add: de_chunk_put_response_def wire_defs wire_facts)
  show "\<exists>x. de_chunk_put_response v = Some x \<and> ser_chunk_put_response x = v" if "of_type ty_chunk_put_response v" for v
    using that by (auto simp: ty_chunk_put_response_def de_chunk_put_response_def wire_defs wire_facts wire_onto)
qed

lemmas [wire_facts] = wt_chunk_put_response.ser_typed wt_chunk_put_response.de_ser
lemmas [wire_onto] = wt_chunk_put_response.of_type_iff

definition ty_chunk_get_request :: sty where
  "ty_chunk_get_request = T_Tuple [ty_xorname]"

primrec ser_chunk_get_request :: "chunk_get_request \<Rightarrow> sval" where
  "ser_chunk_get_request (ChunkGetRequest a) = V_Tuple [ser_xorname a]"

definition de_chunk_get_request :: "sval \<Rightarrow> chunk_get_request option" where
  "de_chunk_get_request = de_struct1 de_xorname ChunkGetRequest"

interpretation wt_chunk_get_request: wire_type ty_chunk_get_request ser_chunk_get_request de_chunk_get_request
proof
  show "of_type ty_chunk_get_request (ser_chunk_get_request x)" for x
    by (cases x) (simp_all add: ty_chunk_get_request_def wire_defs wire_facts)
  show "de_chunk_get_request (ser_chunk_get_request x) = Some x" for x
    by (cases x) (simp_all add: de_chunk_get_request_def wire_defs wire_facts)
  show "\<exists>x. de_chunk_get_request v = Some x \<and> ser_chunk_get_request x = v" if "of_type ty_chunk_get_request v" for v
    using that by (auto simp: ty_chunk_get_request_def de_chunk_get_request_def wire_defs wire_facts wire_onto)
qed

lemmas [wire_facts] = wt_chunk_get_request.ser_typed wt_chunk_get_request.de_ser
lemmas [wire_onto] = wt_chunk_get_request.of_type_iff

definition ty_chunk_get_response :: sty where
  "ty_chunk_get_response = T_Enum [T_Tuple [ty_xorname, T_Seq T_U8],
     T_Tuple [ty_xorname],
     ty_protocol_error]"

primrec ser_chunk_get_response :: "chunk_get_response \<Rightarrow> sval" where
  "ser_chunk_get_response (Get_Success a b) = V_Variant 0 (V_Tuple [ser_xorname a, ser_vec b])"
| "ser_chunk_get_response (Get_NotFound a) = V_Variant 1 (V_Tuple [ser_xorname a])"
| "ser_chunk_get_response (Get_Error e) = V_Variant 2 (ser_protocol_error e)"

definition de_chunk_get_response :: "sval \<Rightarrow> chunk_get_response option" where
  "de_chunk_get_response = de_enum
     [de_struct2 de_xorname de_vec Get_Success,
      de_struct1 de_xorname Get_NotFound,
      \<lambda>v. map_option Get_Error (de_protocol_error v)]"

interpretation wt_chunk_get_response: wire_type ty_chunk_get_response ser_chunk_get_response de_chunk_get_response
proof
  show "of_type ty_chunk_get_response (ser_chunk_get_response x)" for x
    by (cases x) (simp_all add: ty_chunk_get_response_def wire_defs wire_facts)
  show "de_chunk_get_response (ser_chunk_get_response x) = Some x" for x
    by (cases x) (simp_all add: de_chunk_get_response_def wire_defs wire_facts)
  show "\<exists>x. de_chunk_get_response v = Some x \<and> ser_chunk_get_response x = v" if "of_type ty_chunk_get_response v" for v
    using that by (auto simp: ty_chunk_get_response_def de_chunk_get_response_def wire_defs wire_facts wire_onto)
qed

lemmas [wire_facts] = wt_chunk_get_response.ser_typed wt_chunk_get_response.de_ser
lemmas [wire_onto] = wt_chunk_get_response.of_type_iff

definition ty_chunk_get_or_closer_request :: sty where
  "ty_chunk_get_or_closer_request = T_Tuple [ty_xorname]"

primrec ser_chunk_get_or_closer_request :: "chunk_get_or_closer_request \<Rightarrow> sval" where
  "ser_chunk_get_or_closer_request (ChunkGetOrCloserRequest a) = V_Tuple [ser_xorname a]"

definition de_chunk_get_or_closer_request :: "sval \<Rightarrow> chunk_get_or_closer_request option" where
  "de_chunk_get_or_closer_request = de_struct1 de_xorname ChunkGetOrCloserRequest"

interpretation wt_chunk_get_or_closer_request: wire_type ty_chunk_get_or_closer_request ser_chunk_get_or_closer_request de_chunk_get_or_closer_request
proof
  show "of_type ty_chunk_get_or_closer_request (ser_chunk_get_or_closer_request x)" for x
    by (cases x) (simp_all add: ty_chunk_get_or_closer_request_def wire_defs wire_facts)
  show "de_chunk_get_or_closer_request (ser_chunk_get_or_closer_request x) = Some x" for x
    by (cases x) (simp_all add: de_chunk_get_or_closer_request_def wire_defs wire_facts)
  show "\<exists>x. de_chunk_get_or_closer_request v = Some x \<and> ser_chunk_get_or_closer_request x = v" if "of_type ty_chunk_get_or_closer_request v" for v
    using that by (auto simp: ty_chunk_get_or_closer_request_def de_chunk_get_or_closer_request_def wire_defs wire_facts wire_onto)
qed

lemmas [wire_facts] = wt_chunk_get_or_closer_request.ser_typed wt_chunk_get_or_closer_request.de_ser
lemmas [wire_onto] = wt_chunk_get_or_closer_request.of_type_iff

definition ty_chunk_get_or_closer_response :: sty where
  "ty_chunk_get_or_closer_response = T_Enum [T_Tuple [ty_xorname, T_Bytes],
     T_Tuple [ty_xorname, T_Bytes],
     ty_protocol_error]"

primrec ser_chunk_get_or_closer_response :: "chunk_get_or_closer_response \<Rightarrow> sval" where
  "ser_chunk_get_or_closer_response (Closer_Found a b) = V_Variant 0 (V_Tuple [ser_xorname a, V_Bytes b])"
| "ser_chunk_get_or_closer_response (Closer_Closer a b) = V_Variant 1 (V_Tuple [ser_xorname a, V_Bytes b])"
| "ser_chunk_get_or_closer_response (Closer_Error e) = V_Variant 2 (ser_protocol_error e)"

definition de_chunk_get_or_closer_response :: "sval \<Rightarrow> chunk_get_or_closer_response option" where
  "de_chunk_get_or_closer_response = de_enum
     [de_struct2 de_xorname de_bytes Closer_Found,
      de_struct2 de_xorname de_bytes Closer_Closer,
      \<lambda>v. map_option Closer_Error (de_protocol_error v)]"

interpretation wt_chunk_get_or_closer_response: wire_type ty_chunk_get_or_closer_response ser_chunk_get_or_closer_response de_chunk_get_or_closer_response
proof
  show "of_type ty_chunk_get_or_closer_response (ser_chunk_get_or_closer_response x)" for x
    by (cases x) (simp_all add: ty_chunk_get_or_closer_response_def wire_defs wire_facts)
  show "de_chunk_get_or_closer_response (ser_chunk_get_or_closer_response x) = Some x" for x
    by (cases x) (simp_all add: de_chunk_get_or_closer_response_def wire_defs wire_facts)
  show "\<exists>x. de_chunk_get_or_closer_response v = Some x \<and> ser_chunk_get_or_closer_response x = v" if "of_type ty_chunk_get_or_closer_response v" for v
    using that by (auto simp: ty_chunk_get_or_closer_response_def de_chunk_get_or_closer_response_def wire_defs wire_facts wire_onto)
qed

lemmas [wire_facts] = wt_chunk_get_or_closer_response.ser_typed wt_chunk_get_or_closer_response.de_ser
lemmas [wire_onto] = wt_chunk_get_or_closer_response.of_type_iff

section \<open>Quote requests and responses\<close>

definition ty_chunk_quote_request :: sty where
  "ty_chunk_quote_request = T_Tuple [ty_xorname, T_U64, T_U32]"

definition ser_chunk_quote_request :: "chunk_quote_request \<Rightarrow> sval" where
  "ser_chunk_quote_request x = V_Tuple [ser_xorname (quote_address x), V_U64 (quote_data_size x), V_U32 (quote_data_type x)]"

definition de_chunk_quote_request :: "sval \<Rightarrow> chunk_quote_request option" where
  "de_chunk_quote_request = de_struct3 de_xorname de_u64 de_u32
     (\<lambda>a b c. \<lparr>quote_address = a, quote_data_size = b, quote_data_type = c\<rparr>)"

interpretation wt_chunk_quote_request: wire_type ty_chunk_quote_request ser_chunk_quote_request de_chunk_quote_request
proof
  show "of_type ty_chunk_quote_request (ser_chunk_quote_request x)" for x
    by (cases x) (simp_all add: ty_chunk_quote_request_def ser_chunk_quote_request_def wire_defs wire_facts)
  show "de_chunk_quote_request (ser_chunk_quote_request x) = Some x" for x
    by (cases x) (simp_all add: de_chunk_quote_request_def ser_chunk_quote_request_def wire_defs wire_facts)
  show "\<exists>x. de_chunk_quote_request v = Some x \<and> ser_chunk_quote_request x = v" if "of_type ty_chunk_quote_request v" for v
    using that by (auto simp: ty_chunk_quote_request_def de_chunk_quote_request_def ser_chunk_quote_request_def wire_defs wire_facts wire_onto)
qed

lemmas [wire_facts] = wt_chunk_quote_request.ser_typed wt_chunk_quote_request.de_ser
lemmas [wire_onto] = wt_chunk_quote_request.of_type_iff

definition ty_chunk_quote_request_v2 :: sty where
  "ty_chunk_quote_request_v2 = T_Tuple [ty_xorname, T_U64, T_U32, T_U32]"

definition ser_chunk_quote_request_v2 :: "chunk_quote_request_v2 \<Rightarrow> sval" where
  "ser_chunk_quote_request_v2 x = V_Tuple [ser_xorname (quote2_address x), V_U64 (quote2_data_size x), V_U32 (quote2_data_type x), V_U32 (quote2_settlement_version x)]"

definition de_chunk_quote_request_v2 :: "sval \<Rightarrow> chunk_quote_request_v2 option" where
  "de_chunk_quote_request_v2 = de_struct4 de_xorname de_u64 de_u32 de_u32
     (\<lambda>a b c d. \<lparr>quote2_address = a, quote2_data_size = b, quote2_data_type = c, quote2_settlement_version = d\<rparr>)"

interpretation wt_chunk_quote_request_v2: wire_type ty_chunk_quote_request_v2 ser_chunk_quote_request_v2 de_chunk_quote_request_v2
proof
  show "of_type ty_chunk_quote_request_v2 (ser_chunk_quote_request_v2 x)" for x
    by (cases x) (simp_all add: ty_chunk_quote_request_v2_def ser_chunk_quote_request_v2_def wire_defs wire_facts)
  show "de_chunk_quote_request_v2 (ser_chunk_quote_request_v2 x) = Some x" for x
    by (cases x) (simp_all add: de_chunk_quote_request_v2_def ser_chunk_quote_request_v2_def wire_defs wire_facts)
  show "\<exists>x. de_chunk_quote_request_v2 v = Some x \<and> ser_chunk_quote_request_v2 x = v" if "of_type ty_chunk_quote_request_v2 v" for v
    using that by (auto simp: ty_chunk_quote_request_v2_def de_chunk_quote_request_v2_def ser_chunk_quote_request_v2_def wire_defs wire_facts wire_onto)
qed

lemmas [wire_facts] = wt_chunk_quote_request_v2.ser_typed wt_chunk_quote_request_v2.de_ser
lemmas [wire_onto] = wt_chunk_quote_request_v2.of_type_iff

definition ty_chunk_quote_response :: sty where
  "ty_chunk_quote_response = T_Enum [T_Tuple [T_Seq T_U8, T_Bool, T_Option (T_Seq T_U8)],
     ty_protocol_error]"

primrec ser_chunk_quote_response :: "chunk_quote_response \<Rightarrow> sval" where
  "ser_chunk_quote_response (Quote_Success a b c) = V_Variant 0 (V_Tuple [ser_vec a, V_Bool b, ser_option ser_vec c])"
| "ser_chunk_quote_response (Quote_Error e) = V_Variant 1 (ser_protocol_error e)"

definition de_chunk_quote_response :: "sval \<Rightarrow> chunk_quote_response option" where
  "de_chunk_quote_response = de_enum
     [de_struct3 de_vec de_bool (de_option de_vec) Quote_Success,
      \<lambda>v. map_option Quote_Error (de_protocol_error v)]"

interpretation wt_chunk_quote_response: wire_type ty_chunk_quote_response ser_chunk_quote_response de_chunk_quote_response
proof
  show "of_type ty_chunk_quote_response (ser_chunk_quote_response x)" for x
    by (cases x) (simp_all add: ty_chunk_quote_response_def wire_defs wire_facts)
  show "de_chunk_quote_response (ser_chunk_quote_response x) = Some x" for x
    by (cases x) (simp_all add: de_chunk_quote_response_def wire_defs wire_facts)
  show "\<exists>x. de_chunk_quote_response v = Some x \<and> ser_chunk_quote_response x = v" if "of_type ty_chunk_quote_response v" for v
    using that by (auto simp: ty_chunk_quote_response_def de_chunk_quote_response_def wire_defs wire_facts wire_onto)
qed

lemmas [wire_facts] = wt_chunk_quote_response.ser_typed wt_chunk_quote_response.de_ser
lemmas [wire_onto] = wt_chunk_quote_response.of_type_iff

definition ty_merkle_candidate_quote_request :: sty where
  "ty_merkle_candidate_quote_request = T_Tuple [ty_xorname, T_U32, T_U64, T_U64]"

definition ser_merkle_candidate_quote_request :: "merkle_candidate_quote_request \<Rightarrow> sval" where
  "ser_merkle_candidate_quote_request x = V_Tuple [ser_xorname (merkle_address x), V_U32 (merkle_data_type x), V_U64 (merkle_data_size x), V_U64 (merkle_timestamp x)]"

definition de_merkle_candidate_quote_request :: "sval \<Rightarrow> merkle_candidate_quote_request option" where
  "de_merkle_candidate_quote_request = de_struct4 de_xorname de_u32 de_u64 de_u64
     (\<lambda>a b c d. \<lparr>merkle_address = a, merkle_data_type = b, merkle_data_size = c, merkle_timestamp = d\<rparr>)"

interpretation wt_merkle_candidate_quote_request: wire_type ty_merkle_candidate_quote_request ser_merkle_candidate_quote_request de_merkle_candidate_quote_request
proof
  show "of_type ty_merkle_candidate_quote_request (ser_merkle_candidate_quote_request x)" for x
    by (cases x) (simp_all add: ty_merkle_candidate_quote_request_def ser_merkle_candidate_quote_request_def wire_defs wire_facts)
  show "de_merkle_candidate_quote_request (ser_merkle_candidate_quote_request x) = Some x" for x
    by (cases x) (simp_all add: de_merkle_candidate_quote_request_def ser_merkle_candidate_quote_request_def wire_defs wire_facts)
  show "\<exists>x. de_merkle_candidate_quote_request v = Some x \<and> ser_merkle_candidate_quote_request x = v" if "of_type ty_merkle_candidate_quote_request v" for v
    using that by (auto simp: ty_merkle_candidate_quote_request_def de_merkle_candidate_quote_request_def ser_merkle_candidate_quote_request_def wire_defs wire_facts wire_onto)
qed

lemmas [wire_facts] = wt_merkle_candidate_quote_request.ser_typed wt_merkle_candidate_quote_request.de_ser
lemmas [wire_onto] = wt_merkle_candidate_quote_request.of_type_iff

definition ty_merkle_candidate_quote_request_v2 :: sty where
  "ty_merkle_candidate_quote_request_v2 = T_Tuple [ty_xorname, T_U32, T_U64, T_U64, T_U32]"

definition ser_merkle_candidate_quote_request_v2 :: "merkle_candidate_quote_request_v2 \<Rightarrow> sval" where
  "ser_merkle_candidate_quote_request_v2 x = V_Tuple [ser_xorname (merkle2_address x), V_U32 (merkle2_data_type x), V_U64 (merkle2_data_size x), V_U64 (merkle2_timestamp x), V_U32 (merkle2_settlement_version x)]"

definition de_merkle_candidate_quote_request_v2 :: "sval \<Rightarrow> merkle_candidate_quote_request_v2 option" where
  "de_merkle_candidate_quote_request_v2 = de_struct5 de_xorname de_u32 de_u64 de_u64 de_u32
     (\<lambda>a b c d e. \<lparr>merkle2_address = a, merkle2_data_type = b, merkle2_data_size = c, merkle2_timestamp = d, merkle2_settlement_version = e\<rparr>)"

interpretation wt_merkle_candidate_quote_request_v2: wire_type ty_merkle_candidate_quote_request_v2 ser_merkle_candidate_quote_request_v2 de_merkle_candidate_quote_request_v2
proof
  show "of_type ty_merkle_candidate_quote_request_v2 (ser_merkle_candidate_quote_request_v2 x)" for x
    by (cases x) (simp_all add: ty_merkle_candidate_quote_request_v2_def ser_merkle_candidate_quote_request_v2_def wire_defs wire_facts)
  show "de_merkle_candidate_quote_request_v2 (ser_merkle_candidate_quote_request_v2 x) = Some x" for x
    by (cases x) (simp_all add: de_merkle_candidate_quote_request_v2_def ser_merkle_candidate_quote_request_v2_def wire_defs wire_facts)
  show "\<exists>x. de_merkle_candidate_quote_request_v2 v = Some x \<and> ser_merkle_candidate_quote_request_v2 x = v" if "of_type ty_merkle_candidate_quote_request_v2 v" for v
    using that by (auto simp: ty_merkle_candidate_quote_request_v2_def de_merkle_candidate_quote_request_v2_def ser_merkle_candidate_quote_request_v2_def wire_defs wire_facts wire_onto)
qed

lemmas [wire_facts] = wt_merkle_candidate_quote_request_v2.ser_typed wt_merkle_candidate_quote_request_v2.de_ser
lemmas [wire_onto] = wt_merkle_candidate_quote_request_v2.of_type_iff

definition ty_merkle_candidate_quote_response :: sty where
  "ty_merkle_candidate_quote_response = T_Enum [T_Tuple [T_Seq T_U8, T_Option (T_Seq T_U8)],
     ty_protocol_error]"

primrec ser_merkle_candidate_quote_response :: "merkle_candidate_quote_response \<Rightarrow> sval" where
  "ser_merkle_candidate_quote_response (Candidate_Success a b) = V_Variant 0 (V_Tuple [ser_vec a, ser_option ser_vec b])"
| "ser_merkle_candidate_quote_response (Candidate_Error e) = V_Variant 1 (ser_protocol_error e)"

definition de_merkle_candidate_quote_response :: "sval \<Rightarrow> merkle_candidate_quote_response option" where
  "de_merkle_candidate_quote_response = de_enum
     [de_struct2 de_vec (de_option de_vec) Candidate_Success,
      \<lambda>v. map_option Candidate_Error (de_protocol_error v)]"

interpretation wt_merkle_candidate_quote_response: wire_type ty_merkle_candidate_quote_response ser_merkle_candidate_quote_response de_merkle_candidate_quote_response
proof
  show "of_type ty_merkle_candidate_quote_response (ser_merkle_candidate_quote_response x)" for x
    by (cases x) (simp_all add: ty_merkle_candidate_quote_response_def wire_defs wire_facts)
  show "de_merkle_candidate_quote_response (ser_merkle_candidate_quote_response x) = Some x" for x
    by (cases x) (simp_all add: de_merkle_candidate_quote_response_def wire_defs wire_facts)
  show "\<exists>x. de_merkle_candidate_quote_response v = Some x \<and> ser_merkle_candidate_quote_response x = v" if "of_type ty_merkle_candidate_quote_response v" for v
    using that by (auto simp: ty_merkle_candidate_quote_response_def de_merkle_candidate_quote_response_def wire_defs wire_facts wire_onto)
qed

lemmas [wire_facts] = wt_merkle_candidate_quote_response.ser_typed wt_merkle_candidate_quote_response.de_ser
lemmas [wire_onto] = wt_merkle_candidate_quote_response.of_type_iff

section \<open>Pointer requests and responses\<close>

definition ty_pointer_put_request :: sty where
  "ty_pointer_put_request = T_Tuple [T_Bytes, T_Option (T_Seq T_U8)]"

definition ser_pointer_put_request :: "pointer_put_request \<Rightarrow> sval" where
  "ser_pointer_put_request x = V_Tuple [V_Bytes (pput_record x), ser_option ser_vec (pput_payment_proof x)]"

definition de_pointer_put_request :: "sval \<Rightarrow> pointer_put_request option" where
  "de_pointer_put_request = de_struct2 de_bytes (de_option de_vec)
     (\<lambda>a b. \<lparr>pput_record = a, pput_payment_proof = b\<rparr>)"

interpretation wt_pointer_put_request: wire_type ty_pointer_put_request ser_pointer_put_request de_pointer_put_request
proof
  show "of_type ty_pointer_put_request (ser_pointer_put_request x)" for x
    by (cases x) (simp_all add: ty_pointer_put_request_def ser_pointer_put_request_def wire_defs wire_facts)
  show "de_pointer_put_request (ser_pointer_put_request x) = Some x" for x
    by (cases x) (simp_all add: de_pointer_put_request_def ser_pointer_put_request_def wire_defs wire_facts)
  show "\<exists>x. de_pointer_put_request v = Some x \<and> ser_pointer_put_request x = v" if "of_type ty_pointer_put_request v" for v
    using that by (auto simp: ty_pointer_put_request_def de_pointer_put_request_def ser_pointer_put_request_def wire_defs wire_facts wire_onto)
qed

lemmas [wire_facts] = wt_pointer_put_request.ser_typed wt_pointer_put_request.de_ser
lemmas [wire_onto] = wt_pointer_put_request.of_type_iff

definition ty_pointer_put_response :: sty where
  "ty_pointer_put_response = T_Enum [T_Tuple [ty_xorname, ty_xorname],
     T_Tuple [ty_xorname, ty_xorname],
     T_Tuple [ty_xorname, ty_xorname],
     T_Tuple [T_Str],
     ty_protocol_error]"

primrec ser_pointer_put_response :: "pointer_put_response \<Rightarrow> sval" where
  "ser_pointer_put_response (Pointer_Put_Success a b) = V_Variant 0 (V_Tuple [ser_xorname a, ser_xorname b])"
| "ser_pointer_put_response (Pointer_Put_Unchanged a b) = V_Variant 1 (V_Tuple [ser_xorname a, ser_xorname b])"
| "ser_pointer_put_response (Pointer_Put_Stale a b) = V_Variant 2 (V_Tuple [ser_xorname a, ser_xorname b])"
| "ser_pointer_put_response (Pointer_Put_PaymentRequired a) = V_Variant 3 (V_Tuple [V_Str a])"
| "ser_pointer_put_response (Pointer_Put_Error e) = V_Variant 4 (ser_protocol_error e)"

definition de_pointer_put_response :: "sval \<Rightarrow> pointer_put_response option" where
  "de_pointer_put_response = de_enum
     [de_struct2 de_xorname de_xorname Pointer_Put_Success,
      de_struct2 de_xorname de_xorname Pointer_Put_Unchanged,
      de_struct2 de_xorname de_xorname Pointer_Put_Stale,
      de_struct1 de_str Pointer_Put_PaymentRequired,
      \<lambda>v. map_option Pointer_Put_Error (de_protocol_error v)]"

interpretation wt_pointer_put_response: wire_type ty_pointer_put_response ser_pointer_put_response de_pointer_put_response
proof
  show "of_type ty_pointer_put_response (ser_pointer_put_response x)" for x
    by (cases x) (simp_all add: ty_pointer_put_response_def wire_defs wire_facts)
  show "de_pointer_put_response (ser_pointer_put_response x) = Some x" for x
    by (cases x) (simp_all add: de_pointer_put_response_def wire_defs wire_facts)
  show "\<exists>x. de_pointer_put_response v = Some x \<and> ser_pointer_put_response x = v" if "of_type ty_pointer_put_response v" for v
    using that by (auto simp: ty_pointer_put_response_def de_pointer_put_response_def wire_defs wire_facts wire_onto)
qed

lemmas [wire_facts] = wt_pointer_put_response.ser_typed wt_pointer_put_response.de_ser
lemmas [wire_onto] = wt_pointer_put_response.of_type_iff

definition ty_pointer_get_request :: sty where
  "ty_pointer_get_request = T_Tuple [ty_xorname]"

primrec ser_pointer_get_request :: "pointer_get_request \<Rightarrow> sval" where
  "ser_pointer_get_request (PointerGetRequest a) = V_Tuple [ser_xorname a]"

definition de_pointer_get_request :: "sval \<Rightarrow> pointer_get_request option" where
  "de_pointer_get_request = de_struct1 de_xorname PointerGetRequest"

interpretation wt_pointer_get_request: wire_type ty_pointer_get_request ser_pointer_get_request de_pointer_get_request
proof
  show "of_type ty_pointer_get_request (ser_pointer_get_request x)" for x
    by (cases x) (simp_all add: ty_pointer_get_request_def wire_defs wire_facts)
  show "de_pointer_get_request (ser_pointer_get_request x) = Some x" for x
    by (cases x) (simp_all add: de_pointer_get_request_def wire_defs wire_facts)
  show "\<exists>x. de_pointer_get_request v = Some x \<and> ser_pointer_get_request x = v" if "of_type ty_pointer_get_request v" for v
    using that by (auto simp: ty_pointer_get_request_def de_pointer_get_request_def wire_defs wire_facts wire_onto)
qed

lemmas [wire_facts] = wt_pointer_get_request.ser_typed wt_pointer_get_request.de_ser
lemmas [wire_onto] = wt_pointer_get_request.of_type_iff

definition ty_pointer_get_response :: sty where
  "ty_pointer_get_response = T_Enum [T_Tuple [T_Bytes],
     T_Tuple [ty_xorname],
     ty_protocol_error]"

primrec ser_pointer_get_response :: "pointer_get_response \<Rightarrow> sval" where
  "ser_pointer_get_response (Pointer_Get_Success a) = V_Variant 0 (V_Tuple [V_Bytes a])"
| "ser_pointer_get_response (Pointer_Get_NotFound a) = V_Variant 1 (V_Tuple [ser_xorname a])"
| "ser_pointer_get_response (Pointer_Get_Error e) = V_Variant 2 (ser_protocol_error e)"

definition de_pointer_get_response :: "sval \<Rightarrow> pointer_get_response option" where
  "de_pointer_get_response = de_enum
     [de_struct1 de_bytes Pointer_Get_Success,
      de_struct1 de_xorname Pointer_Get_NotFound,
      \<lambda>v. map_option Pointer_Get_Error (de_protocol_error v)]"

interpretation wt_pointer_get_response: wire_type ty_pointer_get_response ser_pointer_get_response de_pointer_get_response
proof
  show "of_type ty_pointer_get_response (ser_pointer_get_response x)" for x
    by (cases x) (simp_all add: ty_pointer_get_response_def wire_defs wire_facts)
  show "de_pointer_get_response (ser_pointer_get_response x) = Some x" for x
    by (cases x) (simp_all add: de_pointer_get_response_def wire_defs wire_facts)
  show "\<exists>x. de_pointer_get_response v = Some x \<and> ser_pointer_get_response x = v" if "of_type ty_pointer_get_response v" for v
    using that by (auto simp: ty_pointer_get_response_def de_pointer_get_response_def wire_defs wire_facts wire_onto)
qed

lemmas [wire_facts] = wt_pointer_get_response.ser_typed wt_pointer_get_response.de_ser
lemmas [wire_onto] = wt_pointer_get_response.of_type_iff

section \<open>Messages\<close>

definition body_schemas :: "sty list" where
  "body_schemas = [ty_chunk_put_request,
     ty_chunk_put_response,
     ty_chunk_get_request,
     ty_chunk_get_response,
     ty_chunk_quote_request,
     ty_chunk_quote_response,
     ty_merkle_candidate_quote_request,
     ty_merkle_candidate_quote_response,
     ty_chunk_quote_request_v2,
     ty_merkle_candidate_quote_request_v2,
     ty_pointer_put_request,
     ty_pointer_put_response,
     ty_pointer_get_request,
     ty_pointer_get_response,
     ty_chunk_get_or_closer_request,
     ty_chunk_get_or_closer_response]"

definition ty_chunk_message_body :: sty where
  "ty_chunk_message_body = T_Enum body_schemas"

primrec ser_chunk_message_body :: "chunk_message_body \<Rightarrow> sval" where
  "ser_chunk_message_body (PutRequest x) = V_Variant 0 (ser_chunk_put_request x)"
| "ser_chunk_message_body (PutResponse x) = V_Variant 1 (ser_chunk_put_response x)"
| "ser_chunk_message_body (GetRequest x) = V_Variant 2 (ser_chunk_get_request x)"
| "ser_chunk_message_body (GetResponse x) = V_Variant 3 (ser_chunk_get_response x)"
| "ser_chunk_message_body (QuoteRequest x) = V_Variant 4 (ser_chunk_quote_request x)"
| "ser_chunk_message_body (QuoteResponse x) = V_Variant 5 (ser_chunk_quote_response x)"
| "ser_chunk_message_body (MerkleCandidateQuoteRequest x) = V_Variant 6 (ser_merkle_candidate_quote_request x)"
| "ser_chunk_message_body (MerkleCandidateQuoteResponse x) = V_Variant 7 (ser_merkle_candidate_quote_response x)"
| "ser_chunk_message_body (QuoteRequestV2 x) = V_Variant 8 (ser_chunk_quote_request_v2 x)"
| "ser_chunk_message_body (MerkleCandidateQuoteRequestV2 x) = V_Variant 9 (ser_merkle_candidate_quote_request_v2 x)"
| "ser_chunk_message_body (PointerPutRequest x) = V_Variant 10 (ser_pointer_put_request x)"
| "ser_chunk_message_body (PointerPutResponse x) = V_Variant 11 (ser_pointer_put_response x)"
| "ser_chunk_message_body (PointerGetRequest_Body x) = V_Variant 12 (ser_pointer_get_request x)"
| "ser_chunk_message_body (PointerGetResponse x) = V_Variant 13 (ser_pointer_get_response x)"
| "ser_chunk_message_body (GetOrCloserRequest x) = V_Variant 14 (ser_chunk_get_or_closer_request x)"
| "ser_chunk_message_body (GetOrCloserResponse x) = V_Variant 15 (ser_chunk_get_or_closer_response x)"

definition de_chunk_message_body :: "sval \<Rightarrow> chunk_message_body option" where
  "de_chunk_message_body = de_enum
     [\<lambda>v. map_option PutRequest (de_chunk_put_request v),
      \<lambda>v. map_option PutResponse (de_chunk_put_response v),
      \<lambda>v. map_option GetRequest (de_chunk_get_request v),
      \<lambda>v. map_option GetResponse (de_chunk_get_response v),
      \<lambda>v. map_option QuoteRequest (de_chunk_quote_request v),
      \<lambda>v. map_option QuoteResponse (de_chunk_quote_response v),
      \<lambda>v. map_option MerkleCandidateQuoteRequest (de_merkle_candidate_quote_request v),
      \<lambda>v. map_option MerkleCandidateQuoteResponse (de_merkle_candidate_quote_response v),
      \<lambda>v. map_option QuoteRequestV2 (de_chunk_quote_request_v2 v),
      \<lambda>v. map_option MerkleCandidateQuoteRequestV2 (de_merkle_candidate_quote_request_v2 v),
      \<lambda>v. map_option PointerPutRequest (de_pointer_put_request v),
      \<lambda>v. map_option PointerPutResponse (de_pointer_put_response v),
      \<lambda>v. map_option PointerGetRequest_Body (de_pointer_get_request v),
      \<lambda>v. map_option PointerGetResponse (de_pointer_get_response v),
      \<lambda>v. map_option GetOrCloserRequest (de_chunk_get_or_closer_request v),
      \<lambda>v. map_option GetOrCloserResponse (de_chunk_get_or_closer_response v)]"

interpretation wt_chunk_message_body: wire_type ty_chunk_message_body ser_chunk_message_body
  de_chunk_message_body
proof
  show "of_type ty_chunk_message_body (ser_chunk_message_body x)" for x
    by (cases x) (simp_all add: ty_chunk_message_body_def body_schemas_def wire_defs wire_facts)
  show "de_chunk_message_body (ser_chunk_message_body x) = Some x" for x
    by (cases x) (simp_all add: de_chunk_message_body_def wire_defs wire_facts)
  show "\<exists>x. de_chunk_message_body v = Some x \<and> ser_chunk_message_body x = v" if "of_type ty_chunk_message_body v" for v
    using that by (auto simp: ty_chunk_message_body_def body_schemas_def de_chunk_message_body_def wire_defs wire_facts wire_onto)
qed

lemmas [wire_facts] = wt_chunk_message_body.ser_typed wt_chunk_message_body.de_ser
lemmas [wire_onto] = wt_chunk_message_body.of_type_iff

definition ty_chunk_message :: sty where
  "ty_chunk_message = T_Tuple [T_U64, ty_chunk_message_body]"

definition ser_chunk_message :: "chunk_message \<Rightarrow> sval" where
  "ser_chunk_message x = V_Tuple [V_U64 (msg_request_id x), ser_chunk_message_body (msg_body x)]"

definition de_chunk_message :: "sval \<Rightarrow> chunk_message option" where
  "de_chunk_message = de_struct2 de_u64 de_chunk_message_body
     (\<lambda>a b. \<lparr>msg_request_id = a, msg_body = b\<rparr>)"

interpretation wt_chunk_message: wire_type ty_chunk_message ser_chunk_message de_chunk_message
proof
  show "of_type ty_chunk_message (ser_chunk_message x)" for x
    by (cases x) (simp_all add: ty_chunk_message_def ser_chunk_message_def wire_defs wire_facts)
  show "de_chunk_message (ser_chunk_message x) = Some x" for x
    by (cases x) (simp_all add: de_chunk_message_def ser_chunk_message_def wire_defs wire_facts)
  show "\<exists>x. de_chunk_message v = Some x \<and> ser_chunk_message x = v" if "of_type ty_chunk_message v" for v
    using that by (auto simp: ty_chunk_message_def de_chunk_message_def ser_chunk_message_def wire_defs wire_facts wire_onto)
qed

lemmas [wire_facts] = wt_chunk_message.ser_typed wt_chunk_message.de_ser
lemmas [wire_onto] = wt_chunk_message.of_type_iff

end
