(* ===== verification/Chunk_Codec.thy ===== *)
theory Chunk_Codec
  imports Wire_Messages Postcard_Demo
begin

text \<open>
  \<^verbatim>\<open>ChunkMessage::encode\<close> and \<^verbatim>\<open>decode\<close>: the round trip and its size limit, what the bytes of a
  message start with, how a peer built before a variant existed reads it, and that a chunk of the
  maximal size fits a message with its payment proof.
\<close>

section \<open>Encoding and decoding\<close>

definition chunk_message_encode :: "postcard \<Rightarrow> chunk_message \<Rightarrow> (bytes, protocol_error) result" where
  "chunk_message_encode P m = map_err SerializationFailed (to_stdvec P (ser_chunk_message m))"

text \<open>\<^verbatim>\<open>postcard::from_bytes\<close> drives the derived deserializer over the schema of the message; the
  derived code accepts every value of the schema, so the last error never occurs.\<close>

definition chunk_message_decode :: "postcard \<Rightarrow> bytes \<Rightarrow> (chunk_message, protocol_error) result" where
  "chunk_message_decode P data =
     (if length data > MAX_WIRE_MESSAGE_SIZE then
        Err (MessageTooLarge (word_of_nat (length data)) (word_of_nat MAX_WIRE_MESSAGE_SIZE))
      else and_then (map_err DeserializationFailed (postcard_from_bytes P ty_chunk_message data)) (\<lambda>v.
        ok_or (DeserializationFailed []) (de_chunk_message v)))"

text \<open>The discriminant of a body, and the byte the tests read off the wire.\<close>

primrec body_discriminant :: "chunk_message_body \<Rightarrow> nat" where
  "body_discriminant (PutRequest x) = 0"
| "body_discriminant (PutResponse x) = 1"
| "body_discriminant (GetRequest x) = 2"
| "body_discriminant (GetResponse x) = 3"
| "body_discriminant (QuoteRequest x) = 4"
| "body_discriminant (QuoteResponse x) = 5"
| "body_discriminant (MerkleCandidateQuoteRequest x) = 6"
| "body_discriminant (MerkleCandidateQuoteResponse x) = 7"
| "body_discriminant (QuoteRequestV2 x) = 8"
| "body_discriminant (MerkleCandidateQuoteRequestV2 x) = 9"
| "body_discriminant (PointerPutRequest x) = 10"
| "body_discriminant (PointerPutResponse x) = 11"
| "body_discriminant (PointerGetRequest_Body x) = 12"
| "body_discriminant (PointerGetResponse x) = 13"
| "body_discriminant (GetOrCloserRequest x) = 14"
| "body_discriminant (GetOrCloserResponse x) = 15"

definition wire_discriminant :: "postcard \<Rightarrow> chunk_message_body \<Rightarrow> u8 option" where
  "wire_discriminant P b =
     (case chunk_message_encode P \<lparr>msg_request_id = 0, msg_body = b\<rparr> of
        Ok encoded \<Rightarrow> slice_get 1 encoded
      | Err e \<Rightarrow> None)"

lemma body_discriminant_less: "body_discriminant b < 16"
  by (cases b) simp_all

lemma ser_body: "\<exists>w. ser_chunk_message_body b = V_Variant (body_discriminant b) w"
  by (cases b) simp_all

lemma encode_eq_Ok: "chunk_message_encode P m = Ok bs \<longleftrightarrow> to_stdvec P (ser_chunk_message m) = Ok bs"
  by (simp add: chunk_message_encode_def result_simps)

lemma encode_total:
  assumes "postcard_round_trips P"
  obtains bs where "chunk_message_encode P m = Ok bs"
    "\<And>rest. take_from_bytes P ty_chunk_message (bs @ rest) = Ok (ser_chunk_message m, rest)"
  using wt_chunk_message.encodes [OF assms, of m] encode_eq_Ok by metis

lemma decode_encoded:
  assumes "postcard_round_trips P" "chunk_message_encode P m = Ok bs" "length bs \<le> MAX_WIRE_MESSAGE_SIZE"
  shows "chunk_message_decode P bs = Ok m"
proof -
  obtain cs where cs: "chunk_message_encode P m = Ok cs"
    "\<And>rest. take_from_bytes P ty_chunk_message (cs @ rest) = Ok (ser_chunk_message m, rest)"
    using encode_total [OF assms(1)] by blast
  have "take_from_bytes P ty_chunk_message (bs @ []) = Ok (ser_chunk_message m, [])"
    using cs(2) [of "[]"] cs(1) assms(2) by simp
  then show ?thesis
    using assms(3) by (simp add: chunk_message_decode_def postcard_from_bytes_def wt_chunk_message.de_ser)
qed

lemma decode_too_large:
  "length bs > MAX_WIRE_MESSAGE_SIZE \<Longrightarrow> chunk_message_decode P bs =
     Err (MessageTooLarge (word_of_nat (length bs)) (word_of_nat MAX_WIRE_MESSAGE_SIZE))"
  by (simp add: chunk_message_decode_def)

text \<open>Messages whose bound is within the limit travel whole.\<close>

lemma small_message_travels:
  assumes "postcard_round_trips P" "postcard_layout P" "postcard_sizes P"
    and "sized (ser_chunk_message m)" "size_bound (ser_chunk_message m) \<le> MAX_WIRE_MESSAGE_SIZE"
  shows "\<exists>bs. chunk_message_encode P m = Ok bs \<and> chunk_message_decode P bs = Ok m \<and>
    length bs \<le> size_bound (ser_chunk_message m)"
proof -
  obtain bs where bs: "chunk_message_encode P m = Ok bs" using encode_total [OF assms(1)] by blast
  then have "length bs \<le> size_bound (ser_chunk_message m)"
    using size_bound [OF assms(2-4)] by (simp add: encode_eq_Ok)
  then show ?thesis using bs decode_encoded [OF assms(1) bs] assms(5) by auto
qed

text \<open>The bytes of a message: its id, its discriminant, its payload.\<close>

lemma encoded_layout:
  assumes "postcard_layout P" "chunk_message_encode P m = Ok bs"
    "ser_chunk_message_body (msg_body m) = V_Variant k w"
  obtains b0 b1 b2 where "bs = b0 @ b1 @ b2" "to_stdvec P (V_U64 (msg_request_id m)) = Ok b0"
    "to_stdvec P (V_U32 (word_of_nat k)) = Ok b1" "to_stdvec P w = Ok b2"
  using assms(2,3)
  by (auto simp: encode_eq_Ok ser_chunk_message_def postcard_layoutD(1,2,4) [OF assms(1)] result_simps)

section \<open>Peers built before a variant\<close>

text \<open>
  The numbering as it was released, written out independently of the types above: each number with the
  shape of its payload and the body it stands for. Peers in the field hold a prefix of this table,
  whatever is done to the enum here; the numbers are those the two pinning tests of \<^verbatim>\<open>chunk.rs\<close> give,
  and the ones between by order of declaration.
\<close>

abbreviation released_key :: sty where
  "released_key \<equiv> T_Tuple (replicate 32 T_U8)"

definition released_error :: sty where
  "released_error = T_Enum [T_Str, T_Str, T_Tuple [T_U64, T_U64], T_Tuple [T_U64, T_U64],
     T_Tuple [released_key, released_key], T_Str, T_Str, T_Str, T_Str, T_Tuple [T_U32, T_U32],
     T_Tuple [T_U32, T_U32]]"

definition released_variants :: "(sty \<times> (sval \<Rightarrow> chunk_message_body option)) list" where
  "released_variants =
    [(T_Tuple [released_key, T_Bytes, T_Option (T_Seq T_U8)], map_option PutRequest \<circ> de_chunk_put_request),
     (T_Enum [T_Tuple [released_key], T_Tuple [released_key], T_Tuple [T_Str], released_error],
        map_option PutResponse \<circ> de_chunk_put_response),
     (T_Tuple [released_key], map_option GetRequest \<circ> de_chunk_get_request),
     (T_Enum [T_Tuple [released_key, T_Seq T_U8], T_Tuple [released_key], released_error],
        map_option GetResponse \<circ> de_chunk_get_response),
     (T_Tuple [released_key, T_U64, T_U32], map_option QuoteRequest \<circ> de_chunk_quote_request),
     (T_Enum [T_Tuple [T_Seq T_U8, T_Bool, T_Option (T_Seq T_U8)], released_error],
        map_option QuoteResponse \<circ> de_chunk_quote_response),
     (T_Tuple [released_key, T_U32, T_U64, T_U64],
        map_option MerkleCandidateQuoteRequest \<circ> de_merkle_candidate_quote_request),
     (T_Enum [T_Tuple [T_Seq T_U8, T_Option (T_Seq T_U8)], released_error],
        map_option MerkleCandidateQuoteResponse \<circ> de_merkle_candidate_quote_response),
     (T_Tuple [released_key, T_U64, T_U32, T_U32], map_option QuoteRequestV2 \<circ> de_chunk_quote_request_v2),
     (T_Tuple [released_key, T_U32, T_U64, T_U64, T_U32],
        map_option MerkleCandidateQuoteRequestV2 \<circ> de_merkle_candidate_quote_request_v2),
     (T_Tuple [T_Bytes, T_Option (T_Seq T_U8)], map_option PointerPutRequest \<circ> de_pointer_put_request),
     (T_Enum [T_Tuple [released_key, released_key], T_Tuple [released_key, released_key],
          T_Tuple [released_key, released_key], T_Tuple [T_Str], released_error],
        map_option PointerPutResponse \<circ> de_pointer_put_response),
     (T_Tuple [released_key], map_option PointerGetRequest_Body \<circ> de_pointer_get_request),
     (T_Enum [T_Tuple [T_Bytes], T_Tuple [released_key], released_error],
        map_option PointerGetResponse \<circ> de_pointer_get_response),
     (T_Tuple [released_key], map_option GetOrCloserRequest \<circ> de_chunk_get_or_closer_request),
     (T_Enum [T_Tuple [released_key, T_Bytes], T_Tuple [released_key, T_Bytes], released_error],
        map_option GetOrCloserResponse \<circ> de_chunk_get_or_closer_response)]"

text \<open>The number a body was released under.\<close>

primrec released_number :: "chunk_message_body \<Rightarrow> nat" where
  "released_number (PutRequest x) = 0"
| "released_number (PutResponse x) = 1"
| "released_number (GetRequest x) = 2"
| "released_number (GetResponse x) = 3"
| "released_number (QuoteRequest x) = 4"
| "released_number (QuoteResponse x) = 5"
| "released_number (MerkleCandidateQuoteRequest x) = 6"
| "released_number (MerkleCandidateQuoteResponse x) = 7"
| "released_number (QuoteRequestV2 x) = 8"
| "released_number (MerkleCandidateQuoteRequestV2 x) = 9"
| "released_number (PointerPutRequest x) = 10"
| "released_number (PointerPutResponse x) = 11"
| "released_number (PointerGetRequest_Body x) = 12"
| "released_number (PointerGetResponse x) = 13"
| "released_number (GetOrCloserRequest x) = 14"
| "released_number (GetOrCloserResponse x) = 15"

text \<open>What a peer that knows the first \<open>n\<close> released variants makes of some bytes; \<open>None\<close> is a refusal.\<close>

definition older_peer_reads :: "postcard \<Rightarrow> nat \<Rightarrow> bytes \<Rightarrow> chunk_message option" where
  "older_peer_reads P n bs =
     (case postcard_from_bytes P (T_Tuple [T_U64, T_Enum (map fst (take n released_variants))]) bs of
        Err e \<Rightarrow> None
      | Ok v \<Rightarrow> (case v of
          V_Tuple [V_U64 i, V_Variant k w] \<Rightarrow>
            map_option (\<lambda>b. \<lparr>msg_request_id = i, msg_body = b\<rparr>) (snd (released_variants ! k) w)
        | _ \<Rightarrow> None))"

text \<open>The enum of this build keeps the released numbers, shapes and meanings.\<close>

lemma released_schemas: "map fst released_variants = body_schemas"
  unfolding released_variants_def body_schemas_def released_error_def XORNAME_LEN_def
    ty_xorname_def ty_protocol_error_def ty_chunk_put_request_def ty_chunk_put_response_def
    ty_chunk_get_request_def ty_chunk_get_response_def ty_chunk_get_or_closer_request_def
    ty_chunk_get_or_closer_response_def ty_chunk_quote_request_def ty_chunk_quote_request_v2_def
    ty_chunk_quote_response_def ty_merkle_candidate_quote_request_def
    ty_merkle_candidate_quote_request_v2_def ty_merkle_candidate_quote_response_def
    ty_pointer_put_request_def ty_pointer_put_response_def ty_pointer_get_request_def
    ty_pointer_get_response_def
  by simp

lemma released_written:
  "\<exists>w. ser_chunk_message_body b = V_Variant (released_number b) w \<and>
     snd (released_variants ! released_number b) w = Some b"
  by (cases b) (simp_all add: released_variants_def wire_facts)

lemma released_number_less: "released_number b < 16"
  by (cases b) simp_all

lemma older_schema:
  assumes "ser_chunk_message_body (msg_body m) = V_Variant k w" "k < n"
  shows "of_type (T_Tuple [T_U64, T_Enum (map fst (take n released_variants))]) (ser_chunk_message m)"
proof -
  have "of_type ty_chunk_message_body (V_Variant k w)"
    using wt_chunk_message_body.ser_typed [of "msg_body m"] assms(1) by simp
  then have "k < 2 ^ 32" "k < length body_schemas" "of_type (body_schemas ! k) w"
    unfolding ty_chunk_message_body_def of_type_variant by blast+
  then have "of_type (T_Enum (take n body_schemas)) (V_Variant k w)"
    unfolding of_type_variant using assms(2) by simp
  then show ?thesis
    by (simp add: ser_chunk_message_def assms(1) take_map [symmetric] released_schemas del: of_type.simps(10))
qed

lemma older_peer_accepts:
  assumes "postcard_round_trips P" "chunk_message_encode P m = Ok bs"
    and "released_number (msg_body m) < n"
  shows "older_peer_reads P n bs = Some m"
proof -
  let ?T = "T_Tuple [T_U64, T_Enum (map fst (take n released_variants))]"
  obtain w where w: "ser_chunk_message_body (msg_body m) = V_Variant (released_number (msg_body m)) w"
    "snd (released_variants ! released_number (msg_body m)) w = Some (msg_body m)"
    using released_written by blast
  obtain cs where "to_stdvec P (ser_chunk_message m) = Ok cs"
    "\<And>rest. take_from_bytes P ?T (cs @ rest) = Ok (ser_chunk_message m, rest)"
    using postcard_encodes [OF assms(1) older_schema [OF w(1) assms(3)]] by blast
  moreover from this have "cs = bs" using assms(2) by (simp add: encode_eq_Ok)
  ultimately have "take_from_bytes P ?T (bs @ []) = Ok (ser_chunk_message m, [])" by blast
  then show ?thesis
    by (simp add: older_peer_reads_def postcard_from_bytes_def ser_chunk_message_def w)
qed

lemma older_peer_refuses:
  assumes "postcard_round_trips P" "postcard_layout P" "chunk_message_encode P m = Ok bs"
    and "n \<le> released_number (msg_body m)"
  shows "older_peer_reads P n bs = None"
proof -
  let ?k = "released_number (msg_body m)" and ?T = "T_Enum (map fst (take n released_variants))"
  obtain w where w: "ser_chunk_message_body (msg_body m) = V_Variant ?k w" using released_written by blast
  obtain b0 b1 b2 where b: "bs = b0 @ b1 @ b2" "to_stdvec P (V_U64 (msg_request_id m)) = Ok b0"
    "to_stdvec P (V_U32 (word_of_nat ?k)) = Ok b1"
    by (rule encoded_layout [OF assms(2,3) w])
  have id: "take_from_bytes P T_U64 (b0 @ rest) = Ok (V_U64 (msg_request_id m), rest)" for rest
    using wt_u64.encodes [OF assms(1), of "msg_request_id m"] b(2) by (metis result.inject(1))
  have disc: "take_from_bytes P T_U32 (b1 @ rest) = Ok (V_U32 (word_of_nat ?k), rest)" for rest
    using wt_u32.encodes [OF assms(1), of "word_of_nat ?k"] b(3) by (metis result.inject(1))
  have "unat (word_of_nat ?k :: u32) = ?k"
    using released_number_less [of "msg_body m"] by (simp only: unat_of_nat) simp
  then have "length (map fst (take n released_variants)) \<le> unat (word_of_nat ?k :: u32)"
    using assms(4) by simp
  then have "\<not> is_ok (take_from_bytes P ?T (b1 @ b2))"
    by (rule postcard_layoutD(5) [OF assms(2) disc])
  then have "\<not> is_ok (take_from_bytes P (T_Tuple [?T]) (b1 @ b2))"
    unfolding postcard_layoutD(3) [OF assms(2)] by (auto simp: is_ok_iff)
  then have "\<not> is_ok (take_from_bytes P (T_Tuple [T_U64, ?T]) bs)"
    unfolding postcard_layoutD(3) [OF assms(2), of T_U64] b(1) id by simp
  then show ?thesis
    by (cases "take_from_bytes P (T_Tuple [T_U64, ?T]) bs")
      (simp_all add: older_peer_reads_def postcard_from_bytes_def)
qed

end
