(* ===== verification/Chunk_Protocol.thy ===== *)
theory Chunk_Protocol
  imports Chunk_Codec
begin

text \<open>
  \<^verbatim>\<open>src/chunk_protocol.rs\<close>: sending a request and waiting for the matching response. The event
  loop runs over a trace of iterations, each with the two clock readings the loop takes and what
  \<^verbatim>\<open>tokio::time::timeout\<close> over the broadcast receiver gives for the remaining time; a trace that
  ends is a loop still waiting, the value \<open>None\<close>. Instants are counts of nanoseconds up to the
  platform's largest, a parameter.
\<close>

section \<open>Data\<close>

record ('peer, 'addr) p2p_message =
  topic :: ustring
  source :: "'peer option"
  transport :: "'addr option"
  payload :: bytes

datatype ('peer, 'addr) p2p_event = P2P_Message "('peer, 'addr) p2p_message" | P2P_Other

datatype ('peer, 'addr) recv_outcome =
    Received "('peer, 'addr) p2p_event"
  | Lagged u64
  | Closed
  | Elapsed

record ('peer, 'addr) iteration =
  clock_check :: nat
  clock_remaining :: nat
  recv_within :: "nat \<Rightarrow> ('peer, 'addr) recv_outcome"

record ('peer, 'addr, 't, 'e) chunk_protocol_response =
  resp_result :: "('t, 'e) result"
  resp_source_peer :: 'peer
  resp_transport_source :: "'addr option"

section \<open>The event loop\<close>

definition instant_checked_add :: "nat \<Rightarrow> nat \<Rightarrow> nat \<Rightarrow> nat option" where
  "instant_checked_add max_instant now duration =
     (if now + duration \<le> max_instant then Some (now + duration) else None)"

fun await_response ::
  "postcard \<Rightarrow> 'peer \<Rightarrow> u64 \<Rightarrow> (chunk_message_body \<Rightarrow> ('t, 'e) result option) \<Rightarrow> (unit \<Rightarrow> 'e) \<Rightarrow> nat \<Rightarrow>
     ('peer, 'addr) iteration list \<Rightarrow> (('peer, 'addr, 't, 'e) chunk_protocol_response, 'e) result option" where
  "await_response P target_peer request_id response_handler timeout_error deadline [] = None"
| "await_response P target_peer request_id response_handler timeout_error deadline (it # its) =
     (if clock_check it < deadline then
        let remaining = deadline - clock_remaining it;
            continue = await_response P target_peer request_id response_handler timeout_error deadline its
        in (case recv_within it remaining of
              Received (P2P_Message msg) \<Rightarrow>
                (case source msg of
                   Some src \<Rightarrow>
                     if topic msg = CHUNK_PROTOCOL_ID \<and> src = target_peer then
                       (case chunk_message_decode P (payload msg) of
                          Err e \<Rightarrow> continue
                        | Ok response \<Rightarrow>
                            if msg_request_id response \<noteq> request_id then continue
                            else (case response_handler (msg_body response) of
                                Some res \<Rightarrow> Some (Ok \<lparr>resp_result = res, resp_source_peer = src,
                                   resp_transport_source = transport msg\<rparr>)
                              | None \<Rightarrow> continue))
                     else continue
                 | None \<Rightarrow> continue)
            | Received P2P_Other \<Rightarrow> continue
            | Lagged skipped \<Rightarrow> continue
            | Closed \<Rightarrow> Some (Err (timeout_error ()))
            | Elapsed \<Rightarrow> Some (Err (timeout_error ())))
      else Some (Err (timeout_error ())))"

text \<open>\<open>send\<close> is \<^verbatim>\<open>node.send_message\<close>; \<open>now\<close> and \<open>later\<close> are the readings of the clock for the
  deadline and for its fallback. The receiver is subscribed before the send, so the trace holds
  everything broadcast since.\<close>

definition send_and_await_chunk_response_with_metadata ::
  "postcard \<Rightarrow> nat \<Rightarrow> ('peer \<Rightarrow> ustring \<Rightarrow> bytes \<Rightarrow> 'addr list \<Rightarrow> (unit, ustring) result) \<Rightarrow>
     'peer \<Rightarrow> bytes \<Rightarrow> u64 \<Rightarrow> nat \<Rightarrow> 'addr list \<Rightarrow>
     (chunk_message_body \<Rightarrow> ('t, 'e) result option) \<Rightarrow> (ustring \<Rightarrow> 'e) \<Rightarrow> (unit \<Rightarrow> 'e) \<Rightarrow>
     nat \<Rightarrow> nat \<Rightarrow> ('peer, 'addr) iteration list \<Rightarrow>
     (('peer, 'addr, 't, 'e) chunk_protocol_response, 'e) result option" where
  "send_and_await_chunk_response_with_metadata P max_instant send target_peer message_bytes request_id
     timeout peer_addrs response_handler send_error timeout_error now later trace =
     (case map_err send_error (send target_peer CHUNK_PROTOCOL_ID message_bytes peer_addrs) of
        Err e \<Rightarrow> Some (Err e)
      | Ok _ \<Rightarrow>
          let deadline = (case instant_checked_add max_instant now timeout of Some d \<Rightarrow> d | None \<Rightarrow> later)
          in await_response P target_peer request_id response_handler timeout_error deadline trace)"

definition send_and_await_chunk_response ::
  "postcard \<Rightarrow> nat \<Rightarrow> ('peer \<Rightarrow> ustring \<Rightarrow> bytes \<Rightarrow> 'addr list \<Rightarrow> (unit, ustring) result) \<Rightarrow>
     'peer \<Rightarrow> bytes \<Rightarrow> u64 \<Rightarrow> nat \<Rightarrow> 'addr list \<Rightarrow>
     (chunk_message_body \<Rightarrow> ('t, 'e) result option) \<Rightarrow> (ustring \<Rightarrow> 'e) \<Rightarrow> (unit \<Rightarrow> 'e) \<Rightarrow>
     nat \<Rightarrow> nat \<Rightarrow> ('peer, 'addr) iteration list \<Rightarrow> ('t, 'e) result option" where
  "send_and_await_chunk_response P max_instant send target_peer message_bytes request_id
     timeout peer_addrs response_handler send_error timeout_error now later trace =
     map_option (\<lambda>r. and_then r resp_result)
       (send_and_await_chunk_response_with_metadata P max_instant send target_peer message_bytes
          request_id timeout peer_addrs response_handler send_error timeout_error now later trace)"

section \<open>What the loop looks for\<close>

text \<open>The response an event carries, if it is a decodable message of the protocol, from the target
  peer, with the request id, that the handler takes.\<close>

definition response_of ::
  "postcard \<Rightarrow> 'peer \<Rightarrow> u64 \<Rightarrow> (chunk_message_body \<Rightarrow> ('t, 'e) result option) \<Rightarrow>
     ('peer, 'addr) recv_outcome \<Rightarrow> ('peer, 'addr, 't, 'e) chunk_protocol_response option" where
  "response_of P target_peer request_id response_handler ev =
     (case ev of
        Received (P2P_Message msg) \<Rightarrow>
          if topic msg = CHUNK_PROTOCOL_ID \<and> source msg = Some target_peer then
            (case chunk_message_decode P (payload msg) of
               Ok m \<Rightarrow> if msg_request_id m = request_id
                 then map_option (\<lambda>r. \<lparr>resp_result = r, resp_source_peer = target_peer,
                        resp_transport_source = transport msg\<rparr>) (response_handler (msg_body m))
                 else None
             | Err e \<Rightarrow> None)
          else None
      | _ \<Rightarrow> None)"

definition outcome :: "nat \<Rightarrow> ('peer, 'addr) iteration \<Rightarrow> ('peer, 'addr) recv_outcome" where
  "outcome deadline it = recv_within it (deadline - clock_remaining it)"

definition gives_up :: "nat \<Rightarrow> ('peer, 'addr) iteration \<Rightarrow> bool" where
  "gives_up deadline it \<longleftrightarrow> deadline \<le> clock_check it \<or> outcome deadline it \<in> {Closed, Elapsed}"

lemma response_of_ends [simp]:
  "response_of P t i h Closed = None" "response_of P t i h Elapsed = None"
  "response_of P t i h (Lagged n) = None"
  by (simp_all add: response_of_def)

lemma await_step:
  "await_response P t i h te deadline (it # its) =
     (if gives_up deadline it then Some (Err (te ()))
      else case response_of P t i h (outcome deadline it) of
          Some r \<Rightarrow> Some (Ok r)
        | None \<Rightarrow> await_response P t i h te deadline its)"
  by (auto simp: gives_up_def outcome_def response_of_def Let_def
      split: recv_outcome.splits p2p_event.splits option.splits result.splits)

declare await_response.simps(2) [simp del]

end
