(* ===== verification/Chunk_Protocol_Properties.thy ===== *)
theory Chunk_Protocol_Properties
  imports Chunk_Protocol
begin

text \<open>
  The properties of the request/response helper of \<^verbatim>\<open>src/chunk_protocol.rs\<close>: which response is
  accepted, that it returns, that unrelated traffic changes nothing, and the two early exits.
\<close>

section \<open>Lemmas on the loop\<close>

lemma await_skip:
  "\<forall>it \<in> set noise. \<not> gives_up d it \<and> response_of P t i h (outcome d it) = None \<Longrightarrow>
     await_response P t i h te d (noise @ its) = await_response P t i h te d its"
  by (induction noise) (simp_all add: await_step)

lemma await_append:
  "await_response P t i h te d (xs @ ys) =
     (case await_response P t i h te d xs of None \<Rightarrow> await_response P t i h te d ys | Some r \<Rightarrow> Some r)"
  by (induction xs) (simp_all add: await_step split: option.splits)

lemma await_Ok_split:
  "await_response P t i h te d trace = Some (Ok r) \<Longrightarrow>
     \<exists>xs it ys. trace = xs @ it # ys \<and> \<not> gives_up d it \<and> response_of P t i h (outcome d it) = Some r \<and>
       (\<forall>x \<in> set xs. \<not> gives_up d x \<and> response_of P t i h (outcome d x) = None)"
proof (induction trace)
  case Nil
  then show ?case by simp
next
  case (Cons it its)
  then have up: "\<not> gives_up d it" by (auto simp: await_step split: if_splits)
  show ?case
  proof (cases "response_of P t i h (outcome d it)")
    case None
    then obtain xs x ys where "its = xs @ x # ys" "\<not> gives_up d x"
      "response_of P t i h (outcome d x) = Some r"
      "\<forall>y \<in> set xs. \<not> gives_up d y \<and> response_of P t i h (outcome d y) = None"
      using Cons up by (auto simp: await_step)
    then show ?thesis
      using None up by (intro exI [of _ "it # xs"] exI [of _ x] exI [of _ ys]) simp
  next
    case (Some r')
    then show ?thesis
      using Cons.prems up by (intro exI [of _ "[]"] exI [of _ it] exI [of _ its]) (simp add: await_step)
  qed
qed

lemma await_returns: "it \<in> set trace \<Longrightarrow> gives_up d it \<Longrightarrow> \<exists>r. await_response P t i h te d trace = Some r"
  by (induction trace) (auto simp: await_step split: option.splits)

lemma await_times_out:
  "it \<in> set trace \<Longrightarrow> gives_up d it \<Longrightarrow> \<forall>x \<in> set trace. response_of P t i h (outcome d x) = None \<Longrightarrow>
     await_response P t i h te d trace = Some (Err (te ()))"
  by (induction trace) (auto simp: await_step split: option.splits)

lemma response_of_eq_Some:
  "response_of P t i h ev = Some r \<longleftrightarrow>
     (\<exists>msg m res. ev = Received (P2P_Message msg) \<and> topic msg = CHUNK_PROTOCOL_ID \<and> source msg = Some t \<and>
        chunk_message_decode P (payload msg) = Ok m \<and> msg_request_id m = i \<and> h (msg_body m) = Some res \<and>
        r = \<lparr>resp_result = res, resp_source_peer = t, resp_transport_source = transport msg\<rparr>)"
  by (auto simp: response_of_def split: recv_outcome.splits p2p_event.splits result.splits)

section \<open>A concrete exchange\<close>

definition demo_event :: "nat \<Rightarrow> nat \<Rightarrow> bytes \<Rightarrow> (nat, nat) iteration" where
  "demo_event now peer bs = \<lparr>clock_check = now, clock_remaining = now,
     recv_within = (\<lambda>_. Received (P2P_Message \<lparr>topic = CHUNK_PROTOCOL_ID, source = Some peer,
        transport = Some 80, payload = bs\<rparr>))\<rparr>"

definition demo_lag :: "nat \<Rightarrow> (nat, nat) iteration" where
  "demo_lag now = \<lparr>clock_check = now, clock_remaining = now, recv_within = (\<lambda>_. Lagged 3)\<rparr>"

definition demo_handler :: "chunk_message_body \<Rightarrow> (nat, ustring) result option" where
  "demo_handler b = (case b of QuoteRequestV2 q \<Rightarrow> Some (Ok (unat (quote2_data_size q))) | _ \<Rightarrow> None)"

definition demo_bytes :: bytes where
  "demo_bytes = [7, 8] @ replicate 32 17 @ [128, 16, 0, 1]"

lemma demo_encodes: "chunk_message_encode demo_postcard
    \<lparr>msg_request_id = 7, msg_body = QuoteRequestV2 (chunk_quote_request_v2_new (arr_repeat 17) 2048)\<rparr> =
  Ok demo_bytes"
proof -
  have "varint 7 = [7]" "varint 8 = [8]" "varint 2048 = [128, 16]" "varint 0 = [0]" "varint 1 = [1]"
    by (simp_all add: varint.simps)
  moreover have "concat (map (\<lambda>b. demo_write (V_U8 b)) bs) = bs" for bs by (induction bs) simp_all
  ultimately show ?thesis
    by (simp add: chunk_message_encode_def ser_chunk_message_def comp_def demo_bytes_def
        ser_chunk_quote_request_v2_def chunk_quote_request_v2_new_def ser_xorname_def demo_postcard_def
        DATA_TYPE_CHUNK_def CURRENT_SETTLEMENT_VERSION_def)
qed

lemma demo_decodes: "chunk_message_decode demo_postcard demo_bytes =
    Ok \<lparr>msg_request_id = 7, msg_body = QuoteRequestV2 (chunk_quote_request_v2_new (arr_repeat 17) 2048)\<rparr>"
  by (rule decode_encoded [OF demo_round_trips demo_encodes])
    (simp add: demo_bytes_def MAX_WIRE_MESSAGE_SIZE_def)

lemma demo_outcomes:
  "outcome d (demo_event now peer bs) = Received (P2P_Message \<lparr>topic = CHUNK_PROTOCOL_ID,
     source = Some peer, transport = Some 80, payload = bs\<rparr>)"
  "outcome d (demo_lag now) = Lagged 3"
  "clock_check (demo_event now peer bs) = now" "clock_check (demo_lag now) = now"
  by (simp_all add: outcome_def demo_event_def demo_lag_def)

lemma demo_responses:
  "peer \<noteq> 5 \<Longrightarrow> response_of demo_postcard 5 7 demo_handler (outcome d (demo_event now peer bs)) = None"
  "response_of demo_postcard 5 7 demo_handler (outcome d (demo_event now 5 demo_bytes)) =
     Some \<lparr>resp_result = Ok 2048, resp_source_peer = 5, resp_transport_source = Some 80\<rparr>"
  by (simp_all add: response_of_def demo_outcomes demo_decodes demo_handler_def
      chunk_quote_request_v2_new_def)

section \<open>Properties\<close>

text \<open>
  C8: Only the right response is accepted, and the first one: a returned response comes from an
  event on the chunk topic, from the target peer and recorded as such, that decodes to a message with
  the request id whose body the handler took, received in an iteration that started before the
  deadline; every earlier iteration carried nothing acceptable, and neither closed nor timed out.
\<close>

theorem accepts_first_matching:
  assumes "await_response P target_peer request_id response_handler timeout_error deadline trace = Some (Ok r)"
  shows "\<exists>xs it ys msg m res. trace = xs @ it # ys \<and> clock_check it < deadline \<and>
    recv_within it (deadline - clock_remaining it) = Received (P2P_Message msg) \<and>
    topic msg = ustr ''autonomi.ant.chunk.v1'' \<and> source msg = Some target_peer \<and>
    chunk_message_decode P (payload msg) = Ok m \<and> msg_request_id m = request_id \<and>
    response_handler (msg_body m) = Some res \<and>
    r = \<lparr>resp_result = res, resp_source_peer = target_peer, resp_transport_source = transport msg\<rparr> \<and>
    (\<forall>x \<in> set xs. \<not> gives_up deadline x \<and>
       response_of P target_peer request_id response_handler (outcome deadline x) = None)"
proof -
  obtain xs it ys where t: "trace = xs @ it # ys" "\<not> gives_up deadline it"
    "response_of P target_peer request_id response_handler (outcome deadline it) = Some r"
    "\<forall>x \<in> set xs. \<not> gives_up deadline x \<and>
       response_of P target_peer request_id response_handler (outcome deadline x) = None"
    using await_Ok_split [OF assms] by blast
  obtain msg m res where "outcome deadline it = Received (P2P_Message msg)"
    "topic msg = CHUNK_PROTOCOL_ID" "source msg = Some target_peer"
    "chunk_message_decode P (payload msg) = Ok m" "msg_request_id m = request_id"
    "response_handler (msg_body m) = Some res"
    "r = \<lparr>resp_result = res, resp_source_peer = target_peer, resp_transport_source = transport msg\<rparr>"
    using t(3) unfolding response_of_eq_Some by blast
  then show ?thesis
    using t(1,2,4)
    by (intro exI [of _ xs] exI [of _ it] exI [of _ ys] exI [of _ msg] exI [of _ m] exI [of _ res])
      (simp add: gives_up_def not_le CHUNK_PROTOCOL_ID_def, simp add: outcome_def)
qed

lemma demo_await:
  "await_response demo_postcard 5 7 demo_handler (\<lambda>_. []) 100
     [demo_lag 1, demo_event 2 6 demo_bytes, demo_event 3 5 demo_bytes] =
   Some (Ok \<lparr>resp_result = Ok 2048, resp_source_peer = 5, resp_transport_source = Some 80\<rparr>)"
  using demo_responses(1) [of 6] demo_responses(2)
  by (simp add: await_step gives_up_def demo_outcomes)

lemma accepts_first_matching_witness:
  "\<exists>(msg :: (nat, nat) p2p_message) m. source msg = Some (5 :: nat) \<and> transport msg = Some (80 :: nat) \<and>
     chunk_message_decode demo_postcard (payload msg) = Ok m \<and> msg_request_id m = 7 \<and>
     demo_handler (msg_body m) = Some (Ok 2048)"
proof -
  obtain msg :: "(nat, nat) p2p_message" and m res where "source msg = Some 5"
    "chunk_message_decode demo_postcard (payload msg) = Ok m" "msg_request_id m = 7"
    "demo_handler (msg_body m) = Some res"
    "\<lparr>resp_result = Ok 2048, resp_source_peer = 5 :: nat, resp_transport_source = Some 80\<rparr> =
      \<lparr>resp_result = res, resp_source_peer = 5, resp_transport_source = transport msg\<rparr>"
    using accepts_first_matching [OF demo_await] by blast
  then show ?thesis by (intro exI [of _ msg] exI [of _ m]) simp
qed

text \<open>
  C22: The call returns: once the clock an iteration reads reaches the deadline, the wait is over
  whatever was received before, however much traffic there is; and when nothing acceptable was
  received by then the caller gets its own timeout error.
\<close>

theorem returns_by_deadline:
  assumes "it \<in> set trace" "now + timeout \<le> clock_check it" "later \<le> clock_check it"
  shows "(\<exists>res. send_and_await_chunk_response P max_instant send target_peer message_bytes request_id
      timeout peer_addrs response_handler send_error timeout_error now later trace = Some res) \<and>
    (send target_peer CHUNK_PROTOCOL_ID message_bytes peer_addrs = Ok () \<and>
     (\<forall>x \<in> set trace. \<forall>d. response_of P target_peer request_id response_handler (outcome d x) = None) \<longrightarrow>
     send_and_await_chunk_response P max_instant send target_peer message_bytes request_id
      timeout peer_addrs response_handler send_error timeout_error now later trace =
       Some (Err (timeout_error ())))"
proof -
  have up: "gives_up (case instant_checked_add max_instant now timeout of Some d \<Rightarrow> d | None \<Rightarrow> later) it"
    using assms(2,3) by (simp add: gives_up_def instant_checked_add_def)
  show ?thesis
    using await_returns [OF assms(1) up, of P target_peer request_id response_handler timeout_error]
      await_times_out [OF assms(1) up, of P target_peer request_id response_handler timeout_error]
    by (auto simp: send_and_await_chunk_response_def send_and_await_chunk_response_with_metadata_def
        Let_def split: result.splits)
qed

lemma returns_by_deadline_witness:
  "send_and_await_chunk_response demo_postcard (2 ^ 64) (\<lambda>_ _ _ _. Ok ()) 5 [] 7 100 []
     demo_handler (\<lambda>e. e) (\<lambda>_. ustr ''timeout'') 10 11
     [demo_lag 20, demo_event 30 6 demo_bytes, demo_lag 115] = Some (Err (ustr ''timeout''))"
proof -
  have last: "demo_lag 115 \<in> set [demo_lag 20, demo_event 30 6 demo_bytes, demo_lag 115]" by simp
  have "\<forall>x \<in> set [demo_lag 20, demo_event 30 6 demo_bytes, demo_lag 115]. \<forall>d.
      response_of demo_postcard 5 7 demo_handler (outcome d x) = None"
    using demo_responses(1) [of 6] by (simp add: demo_outcomes)
  then show ?thesis
    using returns_by_deadline [OF last, where now = 10 and timeout = 100 and later = 11 and
        P = demo_postcard and max_instant = "2 ^ 64" and send = "\<lambda>_ _ _ _. Ok ()" and target_peer = 5 and
        message_bytes = "[]" and request_id = 7 and peer_addrs = "[]" and
        response_handler = demo_handler and send_error = "\<lambda>e. e" and
        timeout_error = "\<lambda>_. ustr ''timeout''"]
    by (simp add: demo_outcomes)
qed

text \<open>
  Unrelated traffic changes nothing: iterations that carry no acceptable response (a lag, another
  topic, another peer, undecodable bytes, another request id, a body the handler declines) can be
  removed from any place of the trace without changing what the caller gets.
\<close>

theorem noise_is_skipped:
  assumes "\<forall>it \<in> set noise. clock_check it < deadline \<and> outcome deadline it \<notin> {Closed, Elapsed} \<and>
      response_of P target_peer request_id response_handler (outcome deadline it) = None"
  shows "await_response P target_peer request_id response_handler timeout_error deadline (xs @ noise @ ys) =
    await_response P target_peer request_id response_handler timeout_error deadline (xs @ ys)"
proof -
  have "\<forall>it \<in> set noise. \<not> gives_up deadline it \<and>
      response_of P target_peer request_id response_handler (outcome deadline it) = None"
    using assms by (simp add: gives_up_def not_le)
  then have skip: "await_response P target_peer request_id response_handler timeout_error deadline (noise @ ys) =
      await_response P target_peer request_id response_handler timeout_error deadline ys"
    by (rule await_skip)
  show ?thesis unfolding await_append [of _ _ _ _ _ _ xs] skip by (rule refl)
qed

lemma noise_is_skipped_witness:
  "await_response demo_postcard 5 7 demo_handler (\<lambda>_. []) 100
     ([demo_lag 1] @ [demo_event 2 6 demo_bytes, demo_lag 3] @ [demo_event 4 5 demo_bytes]) =
   await_response demo_postcard 5 7 demo_handler (\<lambda>_. []) 100
     ([demo_lag 1] @ [demo_event 4 5 demo_bytes])"
  by (rule noise_is_skipped) (use demo_responses(1) [of 6] in \<open>simp add: demo_outcomes\<close>)

text \<open>
  The two early exits: a failed send is reported through the caller's error function and nothing
  is awaited; and a timeout too large for the platform's clock gives an immediate timeout instead
  of a panic or an endless wait.
\<close>

theorem early_exits:
  assumes "later \<le> clock_check it"
  shows "(send target_peer CHUNK_PROTOCOL_ID message_bytes peer_addrs = Err msg \<longrightarrow>
      send_and_await_chunk_response P max_instant send target_peer message_bytes request_id timeout
        peer_addrs response_handler send_error timeout_error now later trace = Some (Err (send_error msg))) \<and>
    (send target_peer CHUNK_PROTOCOL_ID message_bytes peer_addrs = Ok () \<and> max_instant < now + timeout \<longrightarrow>
      send_and_await_chunk_response P max_instant send target_peer message_bytes request_id timeout
        peer_addrs response_handler send_error timeout_error now later (it # trace) =
        Some (Err (timeout_error ())))"
  using assms
  by (simp add: send_and_await_chunk_response_def send_and_await_chunk_response_with_metadata_def
      instant_checked_add_def await_step gives_up_def)

lemma early_exits_witness:
  "send_and_await_chunk_response demo_postcard (2 ^ 64) (\<lambda>_ _ _ _. Ok ()) 5 [] 7 (2 ^ 64) []
     demo_handler (\<lambda>e. e) (\<lambda>_. ustr ''timeout'') 10 11 [demo_event 12 5 demo_bytes] =
     Some (Err (ustr ''timeout''))"
proof -
  have "11 \<le> clock_check (demo_event 12 5 demo_bytes)" by (simp add: demo_outcomes)
  from early_exits [OF this, where send = "\<lambda>_ _ _ _. Ok ()" and target_peer = 5 and max_instant = "2 ^ 64" and
      timeout = "2 ^ 64" and now = 10 and P = demo_postcard and message_bytes = "[]" and request_id = 7 and
      peer_addrs = "[]" and response_handler = demo_handler and send_error = "\<lambda>e. e" and
      timeout_error = "\<lambda>_. ustr ''timeout''" and trace = "[]"]
  show ?thesis by simp
qed

end
