(* ===== verification/Chunk_Exchange.thy ===== *)
theory Chunk_Exchange
  imports Chunk_Protocol_Properties
begin

text \<open>
  The request helper of \<^verbatim>\<open>src/chunk_protocol.rs\<close> on the broadcast channel it subscribes to, and a whole
  exchange with a peer that echoes the request id. The channel is tokio's as documented: a receiver
  sees what is broadcast after its subscription, in order, and one that falls more than the capacity
  behind is told how much it lost and goes on at the oldest event still kept.
\<close>

section \<open>The broadcast channel\<close>

type_synonym ('peer, 'addr) event_log = "(nat \<times> ('peer, 'addr) p2p_event) list"

text \<open>
  Broadcast events with their instants. A receiver that waits at \<open>now\<close> for \<open>remaining\<close> with \<open>pos\<close>
  its next event gives the outcome, its next position and the instant of return.
\<close>

definition seen_by :: "('peer, 'addr) event_log \<Rightarrow> nat \<Rightarrow> nat" where
  "seen_by log now = length (takeWhile (\<lambda>e. fst e \<le> now) log)"

definition bus_recv ::
  "nat \<Rightarrow> ('peer, 'addr) event_log \<Rightarrow> nat \<Rightarrow> nat \<Rightarrow> nat \<Rightarrow> ('peer, 'addr) recv_outcome \<times> nat \<times> nat" where
  "bus_recv capacity log pos now remaining =
     (let seen = seen_by log now in
      if pos + capacity < seen then
        (Lagged (word_of_nat (seen - capacity - pos)), seen - capacity, now)
      else if pos < seen then (Received (snd (log ! pos)), pos + 1, now)
      else if pos < length log \<and> fst (log ! pos) < now + remaining then
        (Received (snd (log ! pos)), pos + 1, fst (log ! pos))
      else (Elapsed, pos, now + remaining))"

text \<open>The iterations the loop meets, given what it lets pass before each of its two clock readings.\<close>

fun bus_trace ::
  "nat \<Rightarrow> ('peer, 'addr) event_log \<Rightarrow> nat \<Rightarrow> nat \<Rightarrow> nat \<Rightarrow> (nat \<times> nat) list \<Rightarrow> ('peer, 'addr) iteration list" where
  "bus_trace capacity log deadline pos now [] = []"
| "bus_trace capacity log deadline pos now ((a, b) # delays) =
     (let s = now + a + b; (_, pos', now') = bus_recv capacity log pos s (deadline - s)
      in \<lparr>clock_check = now + a, clock_remaining = s, recv_within = \<lambda>r. fst (bus_recv capacity log pos s r)\<rparr> #
         bus_trace capacity log deadline pos' now' delays)"

section \<open>The reply to look for\<close>

text \<open>The specification of the wait: the first event that carries a response, wherever it stands.\<close>

fun first_reply :: "('e \<Rightarrow> 'r option) \<Rightarrow> (nat \<times> 'e) list \<Rightarrow> (nat \<times> nat \<times> 'r) option" where
  "first_reply f [] = None"
| "first_reply f ((t, e) # log) =
     (case f e of Some r \<Rightarrow> Some (0, t, r)
      | None \<Rightarrow> map_option (\<lambda>(i, tr). (Suc i, tr)) (first_reply f log))"

lemma first_reply_append:
  "\<forall>e \<in> snd ` set xs. f e = None \<Longrightarrow>
     first_reply f (xs @ ys) = map_option (\<lambda>(i, tr). (length xs + i, tr)) (first_reply f ys)"
proof (induction xs)
  case Nil
  then show ?case by (cases "first_reply f ys") auto
next
  case (Cons e xs)
  then show ?case by (cases e; cases "first_reply f ys") auto
qed

lemma first_reply_time: "first_reply f log = Some (j, t, r) \<Longrightarrow> t \<in> fst ` set log"
  by (induction f log arbitrary: j rule: first_reply.induct) (auto split: option.splits)

lemma seen_by_le: "seen_by log now \<le> length log"
  by (simp add: seen_by_def length_takeWhile_le)

text \<open>Without a backlog larger than the capacity nothing is lost, and the next event comes next.\<close>

lemma bus_recv_next:
  assumes "length log \<le> pos + capacity"
  shows "bus_recv capacity log pos now remaining =
     (if pos < seen_by log now then (Received (snd (log ! pos)), pos + 1, now)
      else if pos < length log \<and> fst (log ! pos) < now + remaining
        then (Received (snd (log ! pos)), pos + 1, fst (log ! pos))
      else (Elapsed, pos, now + remaining))"
  using assms seen_by_le [of log now] by (simp add: bus_recv_def Let_def)

text \<open>One iteration of the loop on the channel, the receiver keeping up.\<close>

lemma drop_at: "pos < length log \<Longrightarrow> drop pos log = log ! pos # drop (Suc pos) log"
  by (simp add: Cons_nth_drop_Suc)

lemma await_on_bus:
  assumes "length log \<le> pos + capacity"
  shows "await_response P peer i h te d (bus_trace capacity log d pos now ((a, b) # delays)) =
     (let s = now + a + b; ready = pos < length log \<and> (pos < seen_by log s \<or> fst (log ! pos) < s + (d - s));
          now' = (if pos < seen_by log s then s else fst (log ! pos)) in
      if d \<le> now + a \<or> \<not> ready then Some (Err (te ()))
      else case response_of P peer i h (Received (snd (log ! pos))) of
          Some r \<Rightarrow> Some (Ok r)
        | None \<Rightarrow> await_response P peer i h te d (bus_trace capacity log d (Suc pos) now' delays))"
  using seen_by_le [of log "now + a + b"]
  by (auto simp: await_step gives_up_def outcome_def Let_def bus_recv_next [OF assms])

text \<open>While the reply is still ahead and there is time, the loop takes the next event.\<close>

lemma bus_takes_next:
  assumes "sorted (map fst log)" "length log \<le> pos + capacity" "a + b \<le> \<delta>" "max t now + \<delta> < d"
    and ahead: "first_reply f (drop pos log) = Some (j, t, r)"
  shows "pos < length log \<and> (\<exists>now' \<le> max t now + \<delta>.
    await_response P peer i h te d (bus_trace capacity log d pos now ((a, b) # delays)) =
      (case response_of P peer i h (Received (snd (log ! pos))) of
         Some r \<Rightarrow> Some (Ok r)
       | None \<Rightarrow> await_response P peer i h te d (bus_trace capacity log d (Suc pos) now' delays)))"
proof -
  have pos: "pos < length log"
    using ahead by (rule_tac ccontr) simp
  have "sorted (map fst (drop pos log))"
    using assms(1) by (simp add: drop_map [symmetric] sorted_wrt_drop)
  then have "sorted (fst (log ! pos) # map fst (drop (Suc pos) log))"
    by (simp only: drop_at [OF pos] list.map)
  moreover have "t \<in> insert (fst (log ! pos)) (fst ` set (drop (Suc pos) log))"
    using first_reply_time [OF ahead] by (simp add: drop_at [OF pos])
  ultimately have due: "fst (log ! pos) \<le> t" by auto
  have "\<not> d \<le> now + a" "fst (log ! pos) < now + a + b + (d - (now + a + b))"
    using assms(3,4) due by linarith+
  moreover have "now + a + b \<le> max t now + \<delta>" "fst (log ! pos) \<le> max t now + \<delta>"
    using due assms(3) by linarith+
  ultimately show ?thesis
    unfolding await_on_bus [OF assms(2)] Let_def
    using pos by (intro conjI exI
      [of _ "if pos < seen_by log (now + a + b) then now + a + b else fst (log ! pos)"]) simp_all
qed

lemma bus_delivers:
  assumes "sorted (map fst log)" "\<forall>(a, b) \<in> set delays. a + b \<le> \<delta>"
    and "length log \<le> pos + capacity" "j < length delays" "max t now + (j + 1) * \<delta> < d"
    and "first_reply (\<lambda>e. response_of P peer i h (Received e)) (drop pos log) = Some (j, t, r)"
  shows "await_response P peer i h te d (bus_trace capacity log d pos now delays) = Some (Ok r)"
  using assms(2-6)
proof (induction j arbitrary: pos now delays)
  case 0
  then obtain a b ds where ds: "delays = (a, b) # ds" "a + b \<le> \<delta>"
    by (cases delays) auto
  have "max t now + \<delta> < d" using "0.prems"(4) by simp
  from bus_takes_next [OF assms(1) "0.prems"(2) ds(2) this "0.prems"(5)] obtain now' where
    "pos < length log" and step: "await_response P peer i h te d (bus_trace capacity log d pos now ((a, b) # ds)) =
      (case response_of P peer i h (Received (snd (log ! pos))) of
         Some r \<Rightarrow> Some (Ok r)
       | None \<Rightarrow> await_response P peer i h te d (bus_trace capacity log d (Suc pos) now' ds))"
    by blast
  then have "response_of P peer i h (Received (snd (log ! pos))) = Some r"
    using "0.prems"(5) by (cases "log ! pos") (auto simp: drop_at split: option.splits)
  then show ?case using step by (simp add: ds(1))
next
  case (Suc j)
  then obtain a b ds where ds: "delays = (a, b) # ds" "a + b \<le> \<delta>"
    by (cases delays) auto
  have "max t now + \<delta> < d" using Suc.prems(4) by simp
  from bus_takes_next [OF assms(1) Suc.prems(2) ds(2) this Suc.prems(5)] obtain now' where
    pos: "pos < length log" and now': "now' \<le> max t now + \<delta>"
    and step: "await_response P peer i h te d (bus_trace capacity log d pos now ((a, b) # ds)) =
      (case response_of P peer i h (Received (snd (log ! pos))) of
         Some r \<Rightarrow> Some (Ok r)
       | None \<Rightarrow> await_response P peer i h te d (bus_trace capacity log d (Suc pos) now' ds))"
    by blast
  have rest: "response_of P peer i h (Received (snd (log ! pos))) = None"
    "first_reply (\<lambda>e. response_of P peer i h (Received e)) (drop (Suc pos) log) = Some (j, t, r)"
    using Suc.prems(5) pos by (cases "log ! pos"; auto simp: drop_at split: option.splits)+
  have "await_response P peer i h te d (bus_trace capacity log d (Suc pos) now' ds) = Some (Ok r)"
    using Suc.prems now' by (intro Suc.IH rest(2)) (auto simp: ds(1))
  then show ?case using step rest(1) by (simp add: ds(1))
qed

lemma bus_sound:
  assumes "length log \<le> pos + capacity"
    and "await_response P peer i h te d (bus_trace capacity log d pos now delays) = Some (Ok r)"
  shows "\<exists>j t. first_reply (\<lambda>e. response_of P peer i h (Received e)) (drop pos log) = Some (j, t, r)"
  using assms
proof (induction delays arbitrary: pos now)
  case (Cons ab delays)
  obtain a b where ab: "ab = (a, b)" by (cases ab)
  note step = Cons.prems(2) [unfolded ab await_on_bus [OF Cons.prems(1)] Let_def]
  then have "pos < length log" by (auto split: if_splits)
  then show ?case
    using step Cons.IH [of "Suc pos"] Cons.prems(1)
    by (cases "log ! pos") (fastforce simp: drop_at split: if_splits option.splits)
qed simp

section \<open>Properties\<close>

text \<open>
  C9: The loop on its channel refines the search for the first reply: with a receiver that keeps up,
  whatever time the loop loses between its clock readings, a response it returns is the one the first
  matching event after the subscription carries; and it does return that one when the event, and a
  bounded delay for each event up to it, fit before the deadline.
\<close>

theorem helper_refines_first_reply:
  assumes "sorted (map fst log)" "length log \<le> pos + capacity"
  shows "(\<forall>r. await_response P peer i h te d (bus_trace capacity log d pos now delays) = Some (Ok r) \<longrightarrow>
      (\<exists>j t. first_reply (\<lambda>e. response_of P peer i h (Received e)) (drop pos log) = Some (j, t, r))) \<and>
    (\<forall>j t r. first_reply (\<lambda>e. response_of P peer i h (Received e)) (drop pos log) = Some (j, t, r) \<and>
      j < length delays \<and> (\<forall>(a, b) \<in> set delays. a + b \<le> \<delta>) \<and> max t now + (j + 1) * \<delta> < d \<longrightarrow>
      await_response P peer i h te d (bus_trace capacity log d pos now delays) = Some (Ok r))"
proof (intro conjI allI impI, goal_cases)
  case (1 r)
  then show ?case by (rule bus_sound [OF assms(2)])
next
  case (2 j t r)
  then show ?case by (intro bus_delivers [OF assms(1) _ assms(2), where \<delta> = \<delta> and j = j and t = t]) simp_all
qed

definition demo_log :: "(nat, nat) event_log" where
  "demo_log = [(5, P2P_Other)] @ [(20, P2P_Other)] @ (30, P2P_Message \<lparr>topic = CHUNK_PROTOCOL_ID,
     source = Some 5, transport = Some 80, payload = demo_bytes\<rparr>) # []"

lemma demo_reply:
  "response_of demo_postcard 5 7 demo_handler (Received P2P_Other) = None"
  "response_of demo_postcard (5 :: nat) 7 demo_handler (Received (P2P_Message \<lparr>topic = CHUNK_PROTOCOL_ID,
     source = Some 5, transport = Some (80 :: nat), payload = demo_bytes\<rparr>)) =
     Some \<lparr>resp_result = Ok 2048, resp_source_peer = 5, resp_transport_source = Some 80\<rparr>"
  using demo_responses(2) by (simp_all add: response_of_def demo_outcomes)

lemma helper_refines_first_reply_witness:
  "await_response demo_postcard 5 7 demo_handler (\<lambda>_. []) 100 (bus_trace 16 demo_log 100 1 10 [(2, 3), (1, 0)]) =
   Some (Ok \<lparr>resp_result = Ok 2048, resp_source_peer = 5, resp_transport_source = Some 80\<rparr>)"
proof -
  have log: "sorted (map fst demo_log)" "length demo_log \<le> 1 + 16"
    by (simp_all add: demo_log_def)
  have "first_reply (\<lambda>e. response_of demo_postcard 5 7 demo_handler (Received e)) (drop 1 demo_log) =
      Some (1, 30, \<lparr>resp_result = Ok 2048, resp_source_peer = 5, resp_transport_source = Some 80\<rparr>)"
    by (simp add: demo_log_def demo_reply)
  moreover have "1 < length [(2 :: nat, 3 :: nat), (1, 0)]" "\<forall>(a, b) \<in> set [(2 :: nat, 3), (1, 0)]. a + b \<le> 5"
    "max (30 :: nat) 10 + (1 + 1) * 5 < 100" by simp_all
  ultimately show ?thesis
    using conjunct2 [OF helper_refines_first_reply [OF log, where d = 100 and now = 10 and \<delta> = 5]]
    by blast
qed

text \<open>A peer that answers a request with \<open>f\<close> of its body and echoes the request id.\<close>

definition answer ::
  "postcard \<Rightarrow> (chunk_message_body \<Rightarrow> chunk_message_body) \<Rightarrow> bytes \<Rightarrow> (bytes, protocol_error) result" where
  "answer P f request = and_then (chunk_message_decode P request) (\<lambda>m.
     chunk_message_encode P \<lparr>msg_request_id = msg_request_id m, msg_body = f (msg_body m)\<rparr>)"

text \<open>
  C16: A whole exchange completes: a request is encoded and sent, the peer decodes it and sends its
  encoded answer under the same request id, and the answer is broadcast after the subscription, possibly
  before the loop first waits. Then the caller gets what its handler makes of exactly the body the peer
  answered with, with the peer and the address it came from, provided that the receiver never lags (no
  more is broadcast from the subscription on than the channel's capacity), that no event before the
  answer is a response the handler takes, and that the answer and the handling of the events up to it
  fit before the deadline.
\<close>

theorem exchange_completes:
  assumes "postcard_round_trips P"
    and "chunk_message_encode P \<lparr>msg_request_id = i, msg_body = req\<rparr> = Ok request"
    and "length request \<le> MAX_WIRE_MESSAGE_SIZE"
    and "answer P f request = Ok reply" "length reply \<le> MAX_WIRE_MESSAGE_SIZE" "h (f req) = Some res"
    and "log = before @ between @ (t, P2P_Message \<lparr>topic = CHUNK_PROTOCOL_ID, source = Some peer,
      transport = addr, payload = reply\<rparr>) # after"
    and "sorted (map fst log)" "length log \<le> length before + capacity"
    and "\<forall>e \<in> snd ` set between. response_of P peer i h (Received e) = None"
    and "send peer CHUNK_PROTOCOL_ID request addrs = Ok ()" "now + timeout \<le> max_instant"
    and "length between < length delays" "\<forall>(a, b) \<in> set delays. a + b \<le> \<delta>"
    and "max t now + (length between + 1) * \<delta> < now + timeout"
  shows "send_and_await_chunk_response_with_metadata P max_instant send peer request i timeout addrs h se te
      now later (bus_trace capacity log (now + timeout) (length before) now delays) =
    Some (Ok \<lparr>resp_result = res, resp_source_peer = peer, resp_transport_source = addr\<rparr>)"
proof -
  have "chunk_message_decode P request = Ok \<lparr>msg_request_id = i, msg_body = req\<rparr>"
    by (rule decode_encoded [OF assms(1-3)])
  then have "chunk_message_encode P \<lparr>msg_request_id = i, msg_body = f req\<rparr> = Ok reply"
    using assms(4) by (simp add: answer_def)
  then have "chunk_message_decode P reply = Ok \<lparr>msg_request_id = i, msg_body = f req\<rparr>"
    using assms(5) by (rule decode_encoded [OF assms(1)])
  then have "response_of P peer i h (Received (P2P_Message \<lparr>topic = CHUNK_PROTOCOL_ID,
      source = Some peer, transport = addr, payload = reply\<rparr>)) =
    Some \<lparr>resp_result = res, resp_source_peer = peer, resp_transport_source = addr\<rparr>"
    using assms(6) by (simp add: response_of_eq_Some)
  then have "first_reply (\<lambda>e. response_of P peer i h (Received e)) (drop (length before) log) =
      Some (length between, t, \<lparr>resp_result = res, resp_source_peer = peer, resp_transport_source = addr\<rparr>)"
    using assms(10) by (simp add: assms(7) first_reply_append)
  then have "await_response P peer i h te (now + timeout)
      (bus_trace capacity log (now + timeout) (length before) now delays) =
    Some (Ok \<lparr>resp_result = res, resp_source_peer = peer, resp_transport_source = addr\<rparr>)"
    using assms(8,9,13,14,15) by (intro bus_delivers)
  then show ?thesis
    using assms(11,12)
    by (simp add: send_and_await_chunk_response_with_metadata_def instant_checked_add_def)
qed

lemma exchange_completes_witness:
  "send_and_await_chunk_response_with_metadata demo_postcard 1000 (\<lambda>_ _ _ _. Ok ()) 5 demo_bytes 7 90 []
     demo_handler (\<lambda>e. e) (\<lambda>_. []) 10 11 (bus_trace 16 demo_log (10 + 90) (length [(5 :: nat, P2P_Other :: (nat, nat) p2p_event)]) 10 [(2, 3), (1, 0)]) =
   Some (Ok \<lparr>resp_result = Ok 2048, resp_source_peer = 5, resp_transport_source = Some 80\<rparr>)"
proof -
  let ?q = "QuoteRequestV2 (chunk_quote_request_v2_new (arr_repeat 17) 2048)"
  have len: "length demo_bytes \<le> MAX_WIRE_MESSAGE_SIZE"
    by (simp add: demo_bytes_def MAX_WIRE_MESSAGE_SIZE_def)
  have enc: "chunk_message_encode demo_postcard \<lparr>msg_request_id = 7, msg_body = ?q\<rparr> = Ok demo_bytes"
    by (rule demo_encodes)
  have ans: "answer demo_postcard (\<lambda>b. b) demo_bytes = Ok demo_bytes"
    by (simp add: answer_def demo_decodes enc)
  have took: "demo_handler ?q = Some (Ok 2048)"
    by (simp add: demo_handler_def chunk_quote_request_v2_new_def)
  show ?thesis
    by (rule exchange_completes [where f = "\<lambda>b. b" and req = ?q and reply = demo_bytes and t = 30 and
        between = "[(20, P2P_Other)]" and after = "[]" and \<delta> = 5])
      (use demo_round_trips enc len ans took demo_log_def in
        \<open>simp_all add: demo_reply, simp_all add: demo_log_def\<close>)
qed

end
