(* ===== verification/Chunk_Properties.thy ===== *)
theory Chunk_Properties
  imports Chunk_Codec
begin

text \<open>The properties of the wire messages of \<^verbatim>\<open>src/chunk.rs\<close>.\<close>

section \<open>Discriminants on the wire\<close>

lemma wire_discriminant_is:
  assumes "postcard_round_trips P" "postcard_layout P"
  shows "wire_discriminant P b = Some (word_of_nat (body_discriminant b))"
proof -
  obtain w where w: "ser_chunk_message_body b = V_Variant (body_discriminant b) w" using ser_body by blast
  obtain bs where bs: "chunk_message_encode P \<lparr>msg_request_id = 0, msg_body = b\<rparr> = Ok bs"
    using encode_total [OF assms(1)] by blast
  have w': "ser_chunk_message_body (msg_body \<lparr>msg_request_id = 0, msg_body = b\<rparr>) =
      V_Variant (body_discriminant b) w" by (simp add: w)
  obtain b0 b1 b2 where parts: "bs = b0 @ b1 @ b2"
    "to_stdvec P (V_U64 (msg_request_id \<lparr>msg_request_id = 0, msg_body = b\<rparr>)) = Ok b0"
    "to_stdvec P (V_U32 (word_of_nat (body_discriminant b))) = Ok b1"
    by (rule encoded_layout [OF assms(2) bs w'])
  have small: "unat (word_of_nat (body_discriminant b) :: u32) = body_discriminant b"
    using body_discriminant_less [of b] by (simp only: unat_of_nat) simp
  have "b0 = [0]" using postcard_layoutD(6) [OF assms(2), of 0] parts(2) by simp
  moreover have "b1 = [word_of_nat (body_discriminant b)]"
    using postcard_layoutD(7) [OF assms(2), of "word_of_nat (body_discriminant b)"] parts(3) small
      body_discriminant_less [of b] by simp
  ultimately show ?thesis
    using bs parts(1) by (simp add: wire_discriminant_def slice_get_def)
qed

section \<open>Properties\<close>

text \<open>
  C7: Every message of the protocol encodes, different messages encode differently, and decoding
  the bytes gives the message back when they are within the wire limit; above it they are
  refused as too large, with both sizes, before any parsing.
\<close>

theorem message_round_trip:
  assumes "postcard_round_trips P"
  shows "\<exists>bs. chunk_message_encode P m = Ok bs \<and>
    (\<forall>m'. chunk_message_encode P m' = Ok bs \<longrightarrow> m' = m) \<and>
    chunk_message_decode P bs =
      (if length bs \<le> 5242880 then Ok m
       else Err (MessageTooLarge (word_of_nat (length bs)) 5242880))"
proof -
  obtain bs where bs: "chunk_message_encode P m = Ok bs"
    using encode_total [OF assms] by blast
  have "m' = m" if "chunk_message_encode P m' = Ok bs" for m'
    using wt_chunk_message.encoding_inject [OF assms] that bs by (simp add: encode_eq_Ok)
  moreover have "chunk_message_decode P bs =
      (if length bs \<le> 5242880 then Ok m else Err (MessageTooLarge (word_of_nat (length bs)) 5242880))"
    using decode_encoded [OF assms bs] decode_too_large [of bs P]
    by (simp add: MAX_WIRE_MESSAGE_SIZE_def not_le)
  ultimately show ?thesis using bs by blast
qed

definition demo_message :: chunk_message where
  "demo_message = \<lparr>msg_request_id = 7,
     msg_body = QuoteRequestV2 (chunk_quote_request_v2_new (arr_repeat 17) 2048)\<rparr>"

lemma demo_write_bytes: "concat (map (\<lambda>b. demo_write (V_U8 b)) bs) = bs"
  by (induction bs) simp_all

lemma demo_message_bytes:
  "chunk_message_encode demo_postcard demo_message = Ok ([7, 8] @ replicate 32 17 @ [128, 16, 0, 1])"
proof -
  have "varint 7 = [7]" "varint 8 = [8]" "varint 2048 = [128, 16]" "varint 0 = [0]" "varint 1 = [1]"
    by (simp_all add: varint.simps)
  then show ?thesis
    using demo_write_bytes [of "replicate 32 17"]
    by (simp add: chunk_message_encode_def demo_message_def ser_chunk_message_def comp_def
        ser_chunk_quote_request_v2_def chunk_quote_request_v2_new_def ser_xorname_def demo_postcard_def
        DATA_TYPE_CHUNK_def CURRENT_SETTLEMENT_VERSION_def)
qed

lemma message_round_trip_witness:
  "chunk_message_decode demo_postcard ([7, 8] @ replicate 32 17 @ [128, 16, 0, 1]) = Ok demo_message"
  using message_round_trip [OF demo_round_trips, of demo_message] demo_message_bytes by simp

text \<open>
  Decoding on any bytes: an accepted message is within the wire limit and carries exactly the
  value postcard read, nothing dropped or defaulted, and a failure is either the size limit or the
  error postcard reports; the derived code never meets a value of the schema it cannot build.
\<close>

theorem decode_outcomes:
  assumes "postcard_round_trips P"
  shows "case chunk_message_decode P bs of
      Ok m \<Rightarrow> length bs \<le> 5242880 \<and> postcard_from_bytes P ty_chunk_message bs = Ok (ser_chunk_message m)
    | Err e \<Rightarrow> if length bs > 5242880 then e = MessageTooLarge (word_of_nat (length bs)) 5242880
        else \<exists>msg. postcard_from_bytes P ty_chunk_message bs = Err msg \<and> e = DeserializationFailed msg"
proof (cases "postcard_from_bytes P ty_chunk_message bs")
  case (Ok v)
  then obtain m where "de_chunk_message v = Some m" "ser_chunk_message m = v"
    using wt_chunk_message.decodes [OF assms] by blast
  then show ?thesis using Ok by (simp add: chunk_message_decode_def MAX_WIRE_MESSAGE_SIZE_def)
next
  case (Err e)
  then show ?thesis by (simp add: chunk_message_decode_def MAX_WIRE_MESSAGE_SIZE_def)
qed

lemma decode_outcomes_witness:
  "postcard_from_bytes demo_postcard ty_chunk_message ([7, 8] @ replicate 32 17 @ [128, 16, 0, 1]) =
     Ok (ser_chunk_message demo_message)"
proof -
  have "chunk_message_decode demo_postcard ([7, 8] @ replicate 32 17 @ [128, 16, 0, 1]) = Ok demo_message"
    by (rule decode_encoded [OF demo_round_trips demo_message_bytes]) (simp add: MAX_WIRE_MESSAGE_SIZE_def)
  then show ?thesis
    using decode_outcomes [OF demo_round_trips, of "[7, 8] @ replicate 32 17 @ [128, 16, 0, 1]"]
    by (simp del: append.simps)
qed



text \<open>
  The discriminants are pinned: at request id zero the second byte on the wire is the variant's
  index in declaration order, from 0 for the chunk PUT request to 15 for the get-or-closer response,
  whatever the payload.
\<close>

theorem discriminants_are_pinned:
  assumes "postcard_round_trips P" "postcard_layout P"
  shows "wire_discriminant P b = Some (word_of_nat (body_discriminant b))"
  by (rule wire_discriminant_is [OF assms])

lemma discriminants_are_pinned_witness:
  "wire_discriminant demo_postcard (GetOrCloserRequest (ChunkGetOrCloserRequest (arr_repeat 1))) = Some 14"
  using discriminants_are_pinned [OF demo_round_trips demo_layout] by simp

lemma put_travels:
  assumes "postcard_round_trips P" "postcard_layout P" "postcard_sizes P"
    and "length content \<le> MAX_CHUNK_SIZE" "length proof_bytes \<le> 1048508"
  shows "\<exists>bs. chunk_message_encode P \<lparr>msg_request_id = i,
        msg_body = PutRequest (chunk_put_request_with_payment a content proof_bytes)\<rparr> = Ok bs \<and>
      chunk_message_decode P bs = Ok \<lparr>msg_request_id = i,
        msg_body = PutRequest (chunk_put_request_with_payment a content proof_bytes)\<rparr>"
proof -
  let ?put = "\<lparr>msg_request_id = i, msg_body = PutRequest (chunk_put_request_with_payment a content proof_bytes)\<rparr>"
  have "sized (ser_chunk_message ?put)" "size_bound (ser_chunk_message ?put) \<le> MAX_WIRE_MESSAGE_SIZE"
    using assms(4,5) by (simp_all add: ser_chunk_message_def ser_chunk_put_request_def
        chunk_put_request_with_payment_def MAX_CHUNK_SIZE_def MAX_WIRE_MESSAGE_SIZE_def)
  then show ?thesis using small_message_travels [OF assms(1-3)] by blast
qed

text \<open>
  C37: The limits fit together: a PUT of a chunk of the maximal size with a payment proof of up to
  1048508 bytes, and the response that returns such a chunk, are within the wire limit, so every
  peer that receives them decodes them.
\<close>

theorem full_chunk_fits:
  assumes "postcard_round_trips P" "postcard_layout P" "postcard_sizes P"
    and "length content \<le> MAX_CHUNK_SIZE" "length proof_bytes \<le> 1048508"
  shows "\<exists>bs bs'. chunk_message_encode P \<lparr>msg_request_id = i,
        msg_body = PutRequest (chunk_put_request_with_payment a content proof_bytes)\<rparr> = Ok bs \<and>
      chunk_message_decode P bs = Ok \<lparr>msg_request_id = i,
        msg_body = PutRequest (chunk_put_request_with_payment a content proof_bytes)\<rparr> \<and>
      chunk_message_encode P \<lparr>msg_request_id = i, msg_body = GetResponse (Get_Success a content)\<rparr> = Ok bs' \<and>
      chunk_message_decode P bs' = Ok \<lparr>msg_request_id = i, msg_body = GetResponse (Get_Success a content)\<rparr>"
proof -
  let ?get = "\<lparr>msg_request_id = i, msg_body = GetResponse (Get_Success a content)\<rparr>"
  have "sized (ser_chunk_message ?get)" "size_bound (ser_chunk_message ?get) \<le> MAX_WIRE_MESSAGE_SIZE"
    using assms(4) by (simp_all add: ser_chunk_message_def MAX_CHUNK_SIZE_def MAX_WIRE_MESSAGE_SIZE_def)
  then show ?thesis
    using small_message_travels [OF assms(1-3)] put_travels [OF assms] by blast
qed

lemma full_chunk_fits_witness:
  "\<exists>bs. chunk_message_encode demo_postcard \<lparr>msg_request_id = - 1,
       msg_body = PutRequest (chunk_put_request_with_payment (arr_repeat 1) (replicate 4194304 7)
         (replicate 1000000 9))\<rparr> = Ok bs \<and>
     is_ok (chunk_message_decode demo_postcard bs)"
proof -
  have "length (replicate 4194304 (7 :: u8)) \<le> MAX_CHUNK_SIZE"
    "length (replicate 1000000 (9 :: u8)) \<le> 1048508"
    by (simp_all add: MAX_CHUNK_SIZE_def)
  from full_chunk_fits [OF demo_round_trips demo_layout demo_sizes this, of "- 1" "arr_repeat 1"]
  show ?thesis by (metis is_ok.simps(1))
qed

end
