(* ===== verification/Chunk_Tests.thy ===== *)
theory Chunk_Tests
  imports Chunk_Properties
begin

text \<open>
  The unit tests of \<^verbatim>\<open>src/chunk.rs\<close> as definitions over the model, and that they pass with every
  serializer that has postcard's documented format. A test is true when no assertion fails, no
  \<^verbatim>\<open>expect\<close> panics and no pattern misses.
\<close>

section \<open>Fixtures\<close>

definition sent_and_read :: "postcard \<Rightarrow> chunk_message \<Rightarrow> (chunk_message \<Rightarrow> bool) \<Rightarrow> bool" where
  "sent_and_read P msg k \<longleftrightarrow>
     expect (chunk_message_encode P msg) (\<lambda>encoded. expect (chunk_message_decode P encoded) k)"

section \<open>Round trips\<close>

definition test_put_request_encode_decode :: "postcard \<Rightarrow> bool" where
  "test_put_request_encode_decode P \<longleftrightarrow>
     (let address = arr_repeat 0xAB; content = [1, 2, 3, 4, 5];
          msg = \<lparr>msg_request_id = 42, msg_body = PutRequest (chunk_put_request_new address content)\<rparr>
      in sent_and_read P msg (\<lambda>decoded. msg_request_id decoded = 42 \<and>
        (case msg_body decoded of
           PutRequest req \<Rightarrow> put_address req = address \<and> put_content req = content \<and> put_payment_proof req = None
         | _ \<Rightarrow> False)))"

definition test_put_request_with_payment :: bool where
  "test_put_request_with_payment \<longleftrightarrow>
     (let address = arr_repeat 0xAB; content = [1, 2, 3, 4, 5]; payment = [10, 20, 30];
          request = chunk_put_request_with_payment address content payment
      in put_address request = address \<and> put_content request = content \<and>
         put_payment_proof request = Some payment)"

definition test_get_request_encode_decode :: "postcard \<Rightarrow> bool" where
  "test_get_request_encode_decode P \<longleftrightarrow>
     (let address = arr_repeat 0xCD;
          msg = \<lparr>msg_request_id = 7, msg_body = GetRequest (chunk_get_request_new address)\<rparr>
      in sent_and_read P msg (\<lambda>decoded. msg_request_id decoded = 7 \<and>
        (case msg_body decoded of GetRequest req \<Rightarrow> get_address req = address | _ \<Rightarrow> False)))"

definition test_put_response_success :: "postcard \<Rightarrow> bool" where
  "test_put_response_success P \<longleftrightarrow>
     (let address = arr_repeat 0xEF;
          msg = \<lparr>msg_request_id = 99, msg_body = PutResponse (Put_Success address)\<rparr>
      in sent_and_read P msg (\<lambda>decoded. msg_request_id decoded = 99 \<and>
        (case msg_body decoded of PutResponse (Put_Success addr) \<Rightarrow> addr = address | _ \<Rightarrow> False)))"

definition test_get_response_not_found :: "postcard \<Rightarrow> bool" where
  "test_get_response_not_found P \<longleftrightarrow>
     (let address = arr_repeat 0x12;
          msg = \<lparr>msg_request_id = 0, msg_body = GetResponse (Get_NotFound address)\<rparr>
      in sent_and_read P msg (\<lambda>decoded. msg_request_id decoded = 0 \<and>
        (case msg_body decoded of GetResponse (Get_NotFound addr) \<Rightarrow> addr = address | _ \<Rightarrow> False)))"

definition test_quote_request_encode_decode :: "postcard \<Rightarrow> bool" where
  "test_quote_request_encode_decode P \<longleftrightarrow>
     (let address = arr_repeat 0x34;
          msg = \<lparr>msg_request_id = 1, msg_body = QuoteRequest (chunk_quote_request_new address 1024)\<rparr>
      in sent_and_read P msg (\<lambda>decoded. msg_request_id decoded = 1 \<and>
        (case msg_body decoded of
           QuoteRequest req \<Rightarrow> quote_address req = address \<and> quote_data_size req = 1024 \<and>
             quote_data_type req = DATA_TYPE_CHUNK
         | _ \<Rightarrow> False)))"

definition test_merkle_candidate_quote_request_encode_decode :: "postcard \<Rightarrow> bool" where
  "test_merkle_candidate_quote_request_encode_decode P \<longleftrightarrow>
     (let address = arr_repeat 0x56;
          request = \<lparr>merkle_address = address, merkle_data_type = DATA_TYPE_CHUNK, merkle_data_size = 2048,
            merkle_timestamp = 1700000000\<rparr>;
          msg = \<lparr>msg_request_id = 500, msg_body = MerkleCandidateQuoteRequest request\<rparr>
      in sent_and_read P msg (\<lambda>decoded. msg_request_id decoded = 500 \<and>
        (case msg_body decoded of
           MerkleCandidateQuoteRequest req \<Rightarrow> merkle_address req = address \<and>
             merkle_data_type req = DATA_TYPE_CHUNK \<and> merkle_data_size req = 2048 \<and>
             merkle_timestamp req = 1700000000
         | _ \<Rightarrow> False)))"

definition test_merkle_candidate_quote_response_success_encode_decode :: "postcard \<Rightarrow> bool" where
  "test_merkle_candidate_quote_response_success_encode_decode P \<longleftrightarrow>
     (let candidate_node_bytes = [0xAA, 0xBB, 0xCC, 0xDD];
          response = Candidate_Success candidate_node_bytes (Some [0x11, 0x22]);
          msg = \<lparr>msg_request_id = 501, msg_body = MerkleCandidateQuoteResponse response\<rparr>
      in sent_and_read P msg (\<lambda>decoded. msg_request_id decoded = 501 \<and>
        (case msg_body decoded of
           MerkleCandidateQuoteResponse (Candidate_Success candidate_node commitment) \<Rightarrow>
             candidate_node = candidate_node_bytes \<and> commitment = Some [0x11, 0x22]
         | _ \<Rightarrow> False)))"

definition test_merkle_candidate_quote_response_error_encode_decode :: "postcard \<Rightarrow> bool" where
  "test_merkle_candidate_quote_response_error_encode_decode P \<longleftrightarrow>
     (let error = QuoteFailed (ustr ''no libp2p keypair'');
          msg = \<lparr>msg_request_id = 502, msg_body = MerkleCandidateQuoteResponse (Candidate_Error error)\<rparr>
      in sent_and_read P msg (\<lambda>decoded. msg_request_id decoded = 502 \<and>
        (case msg_body decoded of
           MerkleCandidateQuoteResponse (Candidate_Error err) \<Rightarrow> err = error
         | _ \<Rightarrow> False)))"

definition v2_quote_request_round_trips_with_the_settlement_version :: "postcard \<Rightarrow> bool" where
  "v2_quote_request_round_trips_with_the_settlement_version P \<longleftrightarrow>
     (let address = arr_repeat 0x22;
          msg = \<lparr>msg_request_id = 600, msg_body = QuoteRequestV2 (chunk_quote_request_v2_new address 4096)\<rparr>
      in sent_and_read P msg (\<lambda>decoded. msg_request_id decoded = 600 \<and>
        (case msg_body decoded of
           QuoteRequestV2 req \<Rightarrow> quote2_address req = address \<and> quote2_data_size req = 4096 \<and>
             quote2_data_type req = DATA_TYPE_CHUNK \<and>
             quote2_settlement_version req = CURRENT_SETTLEMENT_VERSION
         | _ \<Rightarrow> False)))"

definition v2_merkle_candidate_request_round_trips_with_the_settlement_version :: "postcard \<Rightarrow> bool" where
  "v2_merkle_candidate_request_round_trips_with_the_settlement_version P \<longleftrightarrow>
     (let address = arr_repeat 0x33;
          msg = \<lparr>msg_request_id = 601, msg_body = MerkleCandidateQuoteRequestV2
            (merkle_candidate_quote_request_v2_new address 4096 1785855600)\<rparr>
      in sent_and_read P msg (\<lambda>decoded. msg_request_id decoded = 601 \<and>
        (case msg_body decoded of
           MerkleCandidateQuoteRequestV2 req \<Rightarrow> merkle2_address req = address \<and>
             merkle2_data_size req = 4096 \<and> merkle2_timestamp req = 1785855600 \<and>
             merkle2_settlement_version req = CURRENT_SETTLEMENT_VERSION
         | _ \<Rightarrow> False)))"

definition test_get_or_closer_request_encode_decode :: "postcard \<Rightarrow> bool" where
  "test_get_or_closer_request_encode_decode P \<longleftrightarrow>
     (let address = arr_repeat 0x61;
          msg = \<lparr>msg_request_id = 600, msg_body = GetOrCloserRequest (chunk_get_or_closer_request_new address)\<rparr>
      in sent_and_read P msg (\<lambda>decoded. msg_request_id decoded = 600 \<and>
        (case msg_body decoded of GetOrCloserRequest request \<Rightarrow> closer_address request = address | _ \<Rightarrow> False)))"

definition test_get_or_closer_responses_encode_decode :: "postcard \<Rightarrow> bool" where
  "test_get_or_closer_responses_encode_decode P \<longleftrightarrow>
     (let address = arr_repeat 0x62;
          found = \<lparr>msg_request_id = 601,
            msg_body = GetOrCloserResponse (Closer_Found address (ascii ''chunk''))\<rparr>;
          closer = \<lparr>msg_request_id = 602, msg_body = GetOrCloserResponse (Closer_Closer address [1, 2, 3])\<rparr>
      in sent_and_read P found (\<lambda>decoded.
           case msg_body decoded of
             GetOrCloserResponse (Closer_Found found_address content) \<Rightarrow>
               found_address = address \<and> content = ascii ''chunk''
           | _ \<Rightarrow> False) \<and>
         sent_and_read P closer (\<lambda>decoded.
           case msg_body decoded of
             GetOrCloserResponse (Closer_Closer closer_addr peers) \<Rightarrow>
               closer_addr = address \<and> peers = [1, 2, 3]
           | _ \<Rightarrow> False))"

definition test_decode_rejects_oversized_payload :: "postcard \<Rightarrow> bool" where
  "test_decode_rejects_oversized_payload P \<longleftrightarrow>
     (case chunk_message_decode P (replicate (MAX_WIRE_MESSAGE_SIZE + 1) 0) of
        Ok m \<Rightarrow> False
      | Err err \<Rightarrow> (case err of MessageTooLarge sz max_size \<Rightarrow> True | _ \<Rightarrow> False))"

section \<open>Discriminants\<close>

definition appending_v2_variants_leaves_existing_discriminants_untouched :: "postcard \<Rightarrow> bool" where
  "appending_v2_variants_leaves_existing_discriminants_untouched P \<longleftrightarrow>
     (let address = arr_repeat 0x11 in
      wire_discriminant P (PutRequest (chunk_put_request_new address [1])) = Some 0 \<and>
      wire_discriminant P (GetRequest (ChunkGetRequest address)) = Some 2 \<and>
      wire_discriminant P (QuoteRequest (chunk_quote_request_new address 1024)) = Some 4 \<and>
      wire_discriminant P (MerkleCandidateQuoteRequest \<lparr>merkle_address = address,
        merkle_data_type = DATA_TYPE_CHUNK, merkle_data_size = 1024, merkle_timestamp = 1785855600\<rparr>) = Some 6 \<and>
      wire_discriminant P (PutResponse (Put_Success address)) = Some 1 \<and>
      wire_discriminant P (GetResponse (Get_NotFound address)) = Some 3 \<and>
      wire_discriminant P (QuoteResponse (Quote_Error (Internal []))) = Some 5 \<and>
      wire_discriminant P (MerkleCandidateQuoteResponse (Candidate_Error (Internal []))) = Some 7 \<and>
      wire_discriminant P (QuoteRequestV2 (chunk_quote_request_v2_new address 1024)) = Some 8 \<and>
      wire_discriminant P (MerkleCandidateQuoteRequestV2
        (merkle_candidate_quote_request_v2_new address 1024 1785855600)) = Some 9)"

definition test_message_discriminants_keep_their_wire_values :: "postcard \<Rightarrow> bool" where
  "test_message_discriminants_keep_their_wire_values P \<longleftrightarrow>
     (let address = arr_repeat 0x63 in
      wire_discriminant P (GetRequest (chunk_get_request_new address)) = Some 2 \<and>
      wire_discriminant P (PointerGetRequest_Body (pointer_get_request_new address)) = Some 12 \<and>
      wire_discriminant P (GetOrCloserRequest (chunk_get_or_closer_request_new address)) = Some 14 \<and>
      wire_discriminant P (GetOrCloserResponse (Closer_Error (Internal (ustr ''x'')))) = Some 15)"

text \<open>The byte an error starts with.\<close>

definition error_byte :: "postcard \<Rightarrow> protocol_error \<Rightarrow> u8 option" where
  "error_byte P e = (case to_stdvec P (ser_protocol_error e) of Ok bs \<Rightarrow> slice_first bs | Err _ \<Rightarrow> None)"

definition client_update_required_is_appended_to_protocol_error :: "postcard \<Rightarrow> bool" where
  "client_update_required_is_appended_to_protocol_error P \<longleftrightarrow>
     error_byte P (SerializationFailed []) = Some 0 \<and>
     error_byte P (DeserializationFailed []) = Some 1 \<and>
     error_byte P (MessageTooLarge 0 0) = Some 2 \<and>
     error_byte P (ChunkTooLarge 0 0) = Some 3 \<and>
     error_byte P (AddressMismatch (arr_repeat 0) (arr_repeat 0)) = Some 4 \<and>
     error_byte P (StorageFailed []) = Some 5 \<and>
     error_byte P (PaymentFailed []) = Some 6 \<and>
     error_byte P (QuoteFailed []) = Some 7 \<and>
     error_byte P (Internal []) = Some 8 \<and>
     error_byte P (ClientUpdateRequired 0 1) = Some 9 \<and>
     error_byte P (StorerUpdateRequired 2 1) = Some 10"

section \<open>Constants, versions and texts\<close>

definition test_constants :: bool where
  "test_constants \<longleftrightarrow>
     CHUNK_PROTOCOL_ID = ustr ''autonomi.ant.chunk.v1'' \<and> PROTOCOL_VERSION = 1 \<and>
     MAX_CHUNK_SIZE = 4 * 1024 * 1024 \<and> DATA_TYPE_CHUNK = 0"

definition test_proof_tag_constants :: bool where
  "test_proof_tag_constants \<longleftrightarrow>
     PROOF_TAG_SINGLE_NODE \<noteq> PROOF_TAG_MERKLE \<and> PROOF_TAG_SINGLE_NODE \<noteq> 0 \<and> PROOF_TAG_MERKLE \<noteq> 0 \<and>
     PROOF_TAG_SINGLE_NODE = 1 \<and> PROOF_TAG_MERKLE = 2"

definition settlement_compatibility_is_bounded_at_both_ends :: bool where
  "settlement_compatibility_is_bounded_at_both_ends \<longleftrightarrow>
     settlement_compatibility CURRENT_SETTLEMENT_VERSION = Compatible \<and>
     settlement_compatibility MIN_SUPPORTED_SETTLEMENT_VERSION = Compatible \<and>
     settlement_compatibility (saturating_sub MIN_SUPPORTED_SETTLEMENT_VERSION 1) = ClientTooOld"

definition a_newer_settlement_version_is_refused_rather_than_assumed_compatible :: bool where
  "a_newer_settlement_version_is_refused_rather_than_assumed_compatible \<longleftrightarrow>
     settlement_compatibility (saturating_add CURRENT_SETTLEMENT_VERSION 1) = NodeTooOld"

definition test_protocol_error_display :: "(bytes \<Rightarrow> ustring) \<Rightarrow> bool" where
  "test_protocol_error_display hex \<longleftrightarrow>
     (let err = ChunkTooLarge 5000000 (word_of_nat MAX_CHUNK_SIZE)
      in str_contains (display_protocol_error hex err) (ustr ''5000000'') \<and>
         str_contains (display_protocol_error hex err) (ustr (show_nat MAX_CHUNK_SIZE))) \<and>
     str_contains (display_protocol_error hex (AddressMismatch (arr_repeat 0xAA) (arr_repeat 0xBB)))
       (ustr ''address mismatch'')"

definition the_two_refusals_do_not_blame_the_same_party :: "(bytes \<Rightarrow> ustring) \<Rightarrow> bool" where
  "the_two_refusals_do_not_blame_the_same_party hex \<longleftrightarrow>
     (let client_at_fault = display_protocol_error hex (ClientUpdateRequired 0 1);
          node_at_fault = display_protocol_error hex (StorerUpdateRequired 2 1)
      in str_contains client_at_fault (ustr ''your client is too old'') \<and>
         \<not> str_contains node_at_fault (ustr ''your client is too old'') \<and>
         str_contains node_at_fault (ustr ''use a different storer'') \<and>
         str_contains client_at_fault (ustr ''nothing was charged'') \<and>
         str_contains node_at_fault (ustr ''Nothing was charged''))"

definition update_required_message_tells_the_user_how_to_fix_it :: "(bytes \<Rightarrow> ustring) \<Rightarrow> bool" where
  "update_required_message_tells_the_user_how_to_fix_it hex \<longleftrightarrow>
     (let rendered = display_protocol_error hex (ClientUpdateRequired 0 1)
      in str_contains rendered (ustr ''ant update'') \<and> str_contains rendered (ustr ''too old'') \<and>
         str_contains rendered (ustr ''nothing was charged''))"

definition test_advertises_get_or_closer :: bool where
  "test_advertises_get_or_closer \<longleftrightarrow>
     advertises_get_or_closer (ustr ''node/0.22.0 migration/files get-or-closer/1'') \<and>
     \<not> advertises_get_or_closer (ustr ''node/0.21.0 migration/files'') \<and>
     \<not> advertises_get_or_closer (ustr ''node/0.22.0 get-or-closer/10'') \<and>
     \<not> advertises_get_or_closer []"

section \<open>They pass\<close>

lemma sent_and_read:
  assumes "postcard_round_trips P" "postcard_layout P" "postcard_sizes P"
    and "sized (ser_chunk_message m)" "size_bound (ser_chunk_message m) \<le> MAX_WIRE_MESSAGE_SIZE"
  shows "sent_and_read P m k \<longleftrightarrow> k m"
  using small_message_travels [OF assms] by (auto simp: sent_and_read_def)

named_theorems test_defs "tests over a serializer"

lemmas [test_defs] =
  test_put_request_encode_decode_def test_get_request_encode_decode_def test_put_response_success_def
  test_get_response_not_found_def test_quote_request_encode_decode_def
  test_merkle_candidate_quote_request_encode_decode_def
  test_merkle_candidate_quote_response_success_encode_decode_def
  test_merkle_candidate_quote_response_error_encode_decode_def
  v2_quote_request_round_trips_with_the_settlement_version_def
  v2_merkle_candidate_request_round_trips_with_the_settlement_version_def
  test_get_or_closer_request_encode_decode_def test_get_or_closer_responses_encode_decode_def

lemmas message_defs = chunk_put_request_new_def chunk_get_request_new_def chunk_quote_request_new_def
  chunk_quote_request_v2_new_def merkle_candidate_quote_request_v2_new_def
  chunk_get_or_closer_request_new_def chunk_put_request_with_payment_def
  ser_chunk_message_def MAX_WIRE_MESSAGE_SIZE_def

lemma round_trip_tests:
  assumes "postcard_round_trips P" "postcard_layout P" "postcard_sizes P"
  shows "test_put_request_encode_decode P" "test_get_request_encode_decode P" "test_put_response_success P"
    "test_get_response_not_found P" "test_quote_request_encode_decode P"
    "test_merkle_candidate_quote_request_encode_decode P"
    "test_merkle_candidate_quote_response_success_encode_decode P"
    "test_merkle_candidate_quote_response_error_encode_decode P"
    "v2_quote_request_round_trips_with_the_settlement_version P"
    "v2_merkle_candidate_request_round_trips_with_the_settlement_version P"
    "test_get_or_closer_request_encode_decode P" "test_get_or_closer_responses_encode_decode P"
  by (simp_all add: test_defs Let_def sent_and_read [OF assms] message_defs wire_defs
    ser_chunk_put_request_def ser_chunk_quote_request_def ser_chunk_quote_request_v2_def
    ser_merkle_candidate_quote_request_def ser_merkle_candidate_quote_request_v2_def ustr_def)

lemma test_oversized: "test_decode_rejects_oversized_payload P"
  by (simp add: test_decode_rejects_oversized_payload_def decode_too_large)

lemma discriminant_tests:
  assumes "postcard_round_trips P" "postcard_layout P"
  shows "appending_v2_variants_leaves_existing_discriminants_untouched P"
    "test_message_discriminants_keep_their_wire_values P"
  by (simp_all add: appending_v2_variants_leaves_existing_discriminants_untouched_def
    test_message_discriminants_keep_their_wire_values_def wire_discriminant_is [OF assms] Let_def)

lemma error_byte_is:
  assumes "postcard_round_trips P" "postcard_layout P" "ser_protocol_error e = V_Variant k w" "k < 128"
  shows "error_byte P e = Some (word_of_nat k)"
proof -
  obtain bs where bs: "to_stdvec P (ser_protocol_error e) = Ok bs"
    using wt_protocol_error.encodes [OF assms(1)] by blast
  have small: "unat (word_of_nat k :: u32) = k" using assms(4) by (simp add: unat_of_nat)
  obtain c where "bs = word_of_nat k # c"
    using bs postcard_layoutD(7) [OF assms(2), of "word_of_nat k"] small assms(4)
    unfolding assms(3) postcard_layoutD(4) [OF assms(2)] by (auto simp: result_simps)
  then show ?thesis using bs by (simp add: error_byte_def)
qed

lemma test_error_bytes:
  assumes "postcard_round_trips P" "postcard_layout P"
  shows "client_update_required_is_appended_to_protocol_error P"
  unfolding client_update_required_is_appended_to_protocol_error_def
  by (intro conjI; subst error_byte_is [OF assms ser_protocol_error.simps(1)] error_byte_is [OF assms ser_protocol_error.simps(2)]
    error_byte_is [OF assms ser_protocol_error.simps(3)] error_byte_is [OF assms ser_protocol_error.simps(4)]
    error_byte_is [OF assms ser_protocol_error.simps(5)] error_byte_is [OF assms ser_protocol_error.simps(6)]
    error_byte_is [OF assms ser_protocol_error.simps(7)] error_byte_is [OF assms ser_protocol_error.simps(8)]
    error_byte_is [OF assms ser_protocol_error.simps(9)] error_byte_is [OF assms ser_protocol_error.simps(10)]
    error_byte_is [OF assms ser_protocol_error.simps(11)]; simp)

lemma constant_tests:
  "test_constants" "test_proof_tag_constants" "settlement_compatibility_is_bounded_at_both_ends"
  "a_newer_settlement_version_is_refused_rather_than_assumed_compatible" "test_put_request_with_payment"
  by (simp_all add: test_constants_def test_proof_tag_constants_def CHUNK_PROTOCOL_ID_def PROTOCOL_VERSION_def
    MAX_CHUNK_SIZE_def DATA_TYPE_CHUNK_def PROOF_TAG_SINGLE_NODE_def PROOF_TAG_MERKLE_def
    settlement_compatibility_is_bounded_at_both_ends_def saturating_sub_def saturating_add_def
    a_newer_settlement_version_is_refused_rather_than_assumed_compatible_def settlement_compatibility_def
    CURRENT_SETTLEMENT_VERSION_def MIN_SUPPORTED_SETTLEMENT_VERSION_def test_put_request_with_payment_def
    chunk_put_request_with_payment_def Let_def)

lemma rendered_numbers:
  "show_word (0 :: u32) = ''0''" "show_word (1 :: u32) = ''1''" "show_word (2 :: u32) = ''2''"
  "show_word (5000000 :: u64) = ''5000000''" "show_nat MAX_CHUNK_SIZE = ''4194304''"
  "show_word (word_of_nat MAX_CHUNK_SIZE :: u64) = ''4194304''"
  by (simp_all add: show_word_def show_nat.simps digit_char_def digit_chars MAX_CHUNK_SIZE_def)

lemma test_two_refusals: "the_two_refusals_do_not_blame_the_same_party hex"
  unfolding the_two_refusals_do_not_blame_the_same_party_def Let_def display_protocol_error_def
    client_update_required_message_def protocol_error.case contains_ustr rendered_numbers
  by code_simp

lemma test_update_message: "update_required_message_tells_the_user_how_to_fix_it hex"
  unfolding update_required_message_tells_the_user_how_to_fix_it_def Let_def display_protocol_error_def
    client_update_required_message_def protocol_error.case contains_ustr rendered_numbers
  by code_simp

lemma test_display: "test_protocol_error_display hex"
proof -
  have "str_contains (ustr ''chunk size 5000000 exceeds maximum 4194304'') (ustr ''5000000'')"
    "str_contains (ustr ''chunk size 5000000 exceeds maximum 4194304'') (ustr ''4194304'')"
    unfolding contains_ustr by code_simp+
  moreover have "str_contains (ustr ''address mismatch: expected '' @ s) (ustr ''address mismatch'')" for s
    using contains_prefix [of "ustr ''address mismatch''" "ustr '': expected '' @ s"]
    by (simp add: ustr_def)
  ultimately show ?thesis
    unfolding test_protocol_error_display_def Let_def display_protocol_error_def protocol_error.case
      rendered_numbers by simp
qed

lemma test_advertises: "test_advertises_get_or_closer"
  unfolding test_advertises_get_or_closer_def advertises_get_or_closer_def GET_OR_CLOSER_AGENT_TOKEN_def
  by (simp add: split_whitespace_def ustr_def is_whitespace_low Uchar_low)

text \<open>
  C39: The unit tests of the module pass with every serializer of postcard's documented format and every
  hex rendering: the round trips of twelve messages, the oversized input, the pinned discriminants of
  messages and of errors, the constants, the settlement verdicts, the texts of the refusals and the
  capability token. Left out is the test that three bytes 0xFF do not decode, which tries postcard itself.
\<close>

theorem chunk_tests_pass:
  assumes "postcard_round_trips P" "postcard_layout P" "postcard_sizes P"
  shows "test_put_request_encode_decode P \<and> test_put_request_with_payment \<and>
    test_get_request_encode_decode P \<and> test_put_response_success P \<and> test_get_response_not_found P \<and>
    test_quote_request_encode_decode P \<and> test_protocol_error_display hex \<and>
    test_decode_rejects_oversized_payload P \<and> test_constants \<and> test_proof_tag_constants \<and>
    test_merkle_candidate_quote_request_encode_decode P \<and>
    test_merkle_candidate_quote_response_success_encode_decode P \<and>
    test_merkle_candidate_quote_response_error_encode_decode P \<and>
    appending_v2_variants_leaves_existing_discriminants_untouched P \<and>
    client_update_required_is_appended_to_protocol_error P \<and>
    v2_quote_request_round_trips_with_the_settlement_version P \<and>
    v2_merkle_candidate_request_round_trips_with_the_settlement_version P \<and>
    settlement_compatibility_is_bounded_at_both_ends \<and>
    a_newer_settlement_version_is_refused_rather_than_assumed_compatible \<and>
    the_two_refusals_do_not_blame_the_same_party hex \<and>
    update_required_message_tells_the_user_how_to_fix_it hex \<and>
    test_get_or_closer_request_encode_decode P \<and> test_get_or_closer_responses_encode_decode P \<and>
    test_message_discriminants_keep_their_wire_values P \<and> test_advertises_get_or_closer"
  by (intro conjI round_trip_tests [OF assms] test_oversized discriminant_tests [OF assms(1,2)]
      test_error_bytes [OF assms(1,2)] constant_tests test_two_refusals test_update_message test_display
      test_advertises)

lemma chunk_tests_pass_witness:
  "client_update_required_is_appended_to_protocol_error demo_postcard \<and>
   test_get_or_closer_responses_encode_decode demo_postcard \<and>
   the_two_refusals_do_not_blame_the_same_party (\<lambda>bs. [])"
  using chunk_tests_pass [OF demo_round_trips demo_layout demo_sizes] by blast

end
