(* ===== verification/Data_Tests.thy ===== *)
theory Data_Tests
  imports Data_Types
begin

text \<open>
  The unit tests of \<^verbatim>\<open>src/data_types.rs\<close> as definitions over the model, and that they pass; the test
  of one digest of BLAKE3 takes that digest as its hypothesis.
\<close>

section \<open>The tests\<close>

definition test_data_chunk_creation :: bool where
  "test_data_chunk_creation \<longleftrightarrow>
     (let address = arr_repeat 0xAB; content = ascii ''test data''; chunk = data_chunk_new address content
      in chunk_address chunk = address \<and> chunk_content chunk = content \<and> data_chunk_size chunk = 9)"

text \<open>The published digest of \<^verbatim>\<open>hello world\<close>.\<close>

definition hello_digest :: xorname where
  "hello_digest = Arr [0xd7, 0x49, 0x81, 0xef, 0xa7, 0x0a, 0x0c, 0x88, 0x0b, 0x8d, 0x8c, 0x19, 0x85, 0xd0,
     0x75, 0xdb, 0xcb, 0xf6, 0x79, 0xb9, 0x9a, 0x5f, 0x99, 0x14, 0xe5, 0xaa, 0xf9, 0x6b,
     0x83, 0x1a, 0x9e, 0x24]"

definition test_chunk_from_content :: "('pk, 'sk, 'sig) crypto \<Rightarrow> bool" where
  "test_chunk_from_content C \<longleftrightarrow>
     (let content = ascii ''hello world''; chunk = data_chunk_from_content C content; expected = hello_digest
      in chunk_address chunk = expected \<and> chunk_content chunk = content \<and> data_chunk_verify C chunk)"

definition test_xor_distance_identity :: bool where
  "test_xor_distance_identity \<longleftrightarrow> (let a = arr_repeat 0xAB in xor_distance a a = arr_repeat 0)"

definition test_xor_distance_symmetry :: bool where
  "test_xor_distance_symmetry \<longleftrightarrow>
     (let a = arr_repeat 0x01; b = arr_repeat 0xFF in xor_distance a b = xor_distance b a)"

text \<open>\<open>first_byte b\<close> is the zeroed array with its first byte set.\<close>

definition first_byte :: "u8 \<Rightarrow> xorname" where
  "first_byte b = arr_from_fn (\<lambda>i. if i = 0 then b else 0x00)"

definition test_xor_distance_known_values :: bool where
  "test_xor_distance_known_values \<longleftrightarrow>
     (let a = arr_repeat 0x00; b = arr_repeat 0xFF; c = first_byte 0x80; expected = first_byte 0x80
      in xor_distance a b = arr_repeat 0xFF \<and> xor_distance a c = expected)"

type_synonym hex_decoder = "string \<Rightarrow> (bytes, string) result"

definition test_peer_id_to_xor_name_valid :: "hex_decoder \<Rightarrow> bool" where
  "test_peer_id_to_xor_name_valid hex_decode \<longleftrightarrow>
     (let hex_str = concat (replicate 32 ''ab'') in
      peer_id_to_xor_name hex_decode hex_str = Some (arr_repeat 0xAB))"

definition test_peer_id_to_xor_name_invalid_hex :: "hex_decoder \<Rightarrow> bool" where
  "test_peer_id_to_xor_name_invalid_hex hex_decode \<longleftrightarrow> peer_id_to_xor_name hex_decode ''not_hex_at_all!'' = None"

definition test_peer_id_to_xor_name_wrong_length :: "hex_decoder \<Rightarrow> bool" where
  "test_peer_id_to_xor_name_wrong_length hex_decode \<longleftrightarrow>
     peer_id_to_xor_name hex_decode (concat (replicate 16 ''ab'')) = None \<and>
     peer_id_to_xor_name hex_decode (concat (replicate 33 ''ab'')) = None"

definition test_chunk_verify :: "('pk, 'sk, 'sig) crypto \<Rightarrow> bool" where
  "test_chunk_verify C \<longleftrightarrow>
     data_chunk_verify C (data_chunk_from_content C (ascii ''test'')) \<and>
     \<not> data_chunk_verify C (data_chunk_new (arr_repeat 0) (ascii ''test''))"

section \<open>They pass\<close>

text \<open>What the \<^verbatim>\<open>hex\<close> crate documents: two lower-case digits a byte are read back, and anything else
  than hexadecimal digits is an error.\<close>

definition hex_of :: "bytes \<Rightarrow> string" where
  "hex_of bs = concat (map (\<lambda>b. [''0123456789abcdef'' ! (unat b div 16), ''0123456789abcdef'' ! (unat b mod 16)]) bs)"

definition reads_hex :: "hex_decoder \<Rightarrow> bool" where
  "reads_hex hex_decode \<longleftrightarrow> (\<forall>bs. hex_decode (hex_of bs) = Ok bs) \<and>
     (\<forall>s. \<not> set s \<subseteq> set ''0123456789abcdefABCDEF'' \<longrightarrow> \<not> is_ok (hex_decode s))"

lemma hex_of_ab: "hex_of (replicate n 0xAB) = concat (replicate n ''ab'')"
  by (simp add: hex_of_def)

lemma peer_id_ab:
  assumes "reads_hex hex_decode"
  shows "peer_id_to_xor_name hex_decode (concat (replicate n ''ab'')) =
    (if n = 32 then Some (arr_repeat 0xAB) else None)"
proof -
  have "hex_decode (concat (replicate n ''ab'')) = Ok (replicate n 0xAB)"
    using assms by (simp add: reads_hex_def flip: hex_of_ab)
  moreover have "arr_of_list (replicate 32 (0xAB :: u8)) = (Some (arr_repeat 0xAB) :: xorname option)"
    using arr_of_list_elems [of "arr_repeat 0xAB :: xorname"] by simp
  ultimately show ?thesis by (simp add: peer_id_to_xor_name_def)
qed

lemma xor_tests:
  "test_data_chunk_creation" "test_xor_distance_identity" "test_xor_distance_symmetry"
  "test_xor_distance_known_values"
proof -
  show "test_xor_distance_known_values"
    unfolding test_xor_distance_known_values_def Let_def
    by (intro conjI; rule arr_eqI) (simp_all add: first_byte_def)
qed (simp_all add: test_data_chunk_creation_def data_chunk_new_def data_chunk_size_def Let_def
    test_xor_distance_identity_def test_xor_distance_symmetry_def xor_distance_self xor_distance_sym)

lemma peer_id_tests:
  assumes "reads_hex hex_decode"
  shows "test_peer_id_to_xor_name_valid hex_decode" "test_peer_id_to_xor_name_invalid_hex hex_decode"
    "test_peer_id_to_xor_name_wrong_length hex_decode"
proof -
  have "\<not> set ''not_hex_at_all!'' \<subseteq> set ''0123456789abcdefABCDEF''" by simp
  then have "\<not> is_ok (hex_decode ''not_hex_at_all!'')"
    using assms unfolding reads_hex_def by blast
  then show "test_peer_id_to_xor_name_invalid_hex hex_decode"
    by (cases "hex_decode ''not_hex_at_all!''")
      (simp_all add: test_peer_id_to_xor_name_invalid_hex_def peer_id_to_xor_name_def)
qed (simp_all add: test_peer_id_to_xor_name_valid_def test_peer_id_to_xor_name_wrong_length_def Let_def
    peer_id_ab [OF assms])

lemma chunk_verify_test: "blake3_hash C (ascii ''test'') \<noteq> arr_repeat 0 \<Longrightarrow> test_chunk_verify C"
  by (auto simp: test_chunk_verify_def data_chunk_verify_def data_chunk_from_content_def data_chunk_new_def
      compute_address_def)

lemma chunk_digest_test: "blake3_hash C (ascii ''hello world'') = hello_digest \<Longrightarrow> test_chunk_from_content C"
  by (simp add: test_chunk_from_content_def data_chunk_verify_def data_chunk_from_content_def data_chunk_new_def
      compute_address_def Let_def)

text \<open>
  The unit tests of the module pass with any hex decoder that reads what it documents, the one on a wrong
  address as far as the digest of its content is not zero.
\<close>

lemma data_tests_pass:
  assumes "reads_hex hex_decode" "blake3_hash C (ascii ''test'') \<noteq> arr_repeat 0"
    and "blake3_hash C (ascii ''hello world'') = hello_digest"
  shows "test_data_chunk_creation \<and> test_xor_distance_identity \<and> test_xor_distance_symmetry \<and>
    test_xor_distance_known_values \<and> test_peer_id_to_xor_name_valid hex_decode \<and>
    test_peer_id_to_xor_name_invalid_hex hex_decode \<and> test_peer_id_to_xor_name_wrong_length hex_decode \<and>
    test_chunk_verify C \<and> test_chunk_from_content C"
  by (intro conjI xor_tests peer_id_tests [OF assms(1)] chunk_verify_test [OF assms(2)]
      chunk_digest_test [OF assms(3)])

end
