(* ===== verification/Devnet_Manifest.thy ===== *)
theory Devnet_Manifest
  imports Rust_String
begin

text \<open>
  \<^verbatim>\<open>src/devnet_manifest.rs\<close>: the devnet's hand-off document as the derived serializers write and
  read it: a JSON object with one entry per field, \<open>evm\<close> left out when absent and defaulted when
  missing, other entries ignored, a repeated or missing one refused. Writing fails on a directory whose
  path is not Unicode. The transport address type and its JSON form are parameters.
\<close>

section \<open>JSON documents\<close>

datatype json =
    J_Null
  | J_Num nat
  | J_Str ustring
  | J_List "json list"
  | J_Obj "(ustring \<times> json) list"

section \<open>The manifest\<close>

record devnet_evm_info =
  rpc_url :: ustring
  wallet_private_key :: ustring
  payment_token_address :: ustring
  payment_vault_address :: ustring

text \<open>A \<^verbatim>\<open>PathBuf\<close> is text or, where the platform allows it, bytes that are no UTF-8.\<close>

datatype path_buf = Unicode_Path ustring | Other_Path bytes

record 'addr devnet_manifest =
  base_port :: u16
  node_count :: usize
  bootstrap :: "'addr list"
  data_dir :: path_buf
  created_at :: ustring
  evm :: "devnet_evm_info option"

section \<open>The derived serializers\<close>

definition json_of_evm :: "devnet_evm_info \<Rightarrow> json" where
  "json_of_evm e = J_Obj
     [(ustr ''rpc_url'', J_Str (rpc_url e)),
      (ustr ''wallet_private_key'', J_Str (wallet_private_key e)),
      (ustr ''payment_token_address'', J_Str (payment_token_address e)),
      (ustr ''payment_vault_address'', J_Str (payment_vault_address e))]"

definition json_of_path :: "path_buf \<Rightarrow> (json, ustring) result" where
  "json_of_path p =
     (case p of
        Unicode_Path s \<Rightarrow> Ok (J_Str s)
      | Other_Path bs \<Rightarrow> Err (ustr ''path contains invalid UTF-8 characters''))"

fun json_of_all :: "('a \<Rightarrow> (json, ustring) result) \<Rightarrow> 'a list \<Rightarrow> (json list, ustring) result" where
  "json_of_all f [] = Ok []"
| "json_of_all f (x # xs) = and_then (f x) (\<lambda>j. result_map ((#) j) (json_of_all f xs))"

definition manifest_entries ::
  "('addr \<Rightarrow> (json, ustring) result) \<Rightarrow> 'addr devnet_manifest \<Rightarrow> ((ustring \<times> json) list, ustring) result" where
  "manifest_entries json_of_addr m =
     and_then (json_of_all json_of_addr (bootstrap m)) (\<lambda>addrs.
     and_then (json_of_path (data_dir m)) (\<lambda>dir.
     Ok ([(ustr ''base_port'', J_Num (unat (base_port m))),
          (ustr ''node_count'', J_Num (unat (node_count m))),
          (ustr ''bootstrap'', J_List addrs),
          (ustr ''data_dir'', dir),
          (ustr ''created_at'', J_Str (created_at m))] @
         (case evm m of None \<Rightarrow> [] | Some e \<Rightarrow> [(ustr ''evm'', json_of_evm e)]))))"

text \<open>An entry by name: refused when repeated.\<close>

definition entry :: "string \<Rightarrow> (ustring \<times> json) list \<Rightarrow> json option option" where
  "entry name obj =
     (case filter (\<lambda>(k, v). k = ustr name) obj of
        [] \<Rightarrow> Some None
      | [(k, v)] \<Rightarrow> Some (Some v)
      | _ \<Rightarrow> None)"

definition required :: "string \<Rightarrow> (json \<Rightarrow> 'a option) \<Rightarrow> (ustring \<times> json) list \<Rightarrow> 'a option" where
  "required name f obj = Option.bind (entry name obj) (\<lambda>found. Option.bind found f)"

definition json_str :: "json \<Rightarrow> ustring option" where
  "json_str j = (case j of J_Str s \<Rightarrow> Some s | _ \<Rightarrow> None)"

definition path_of_json :: "json \<Rightarrow> path_buf option" where
  "path_of_json j = map_option Unicode_Path (json_str j)"

definition json_uint :: "json \<Rightarrow> 'a::len word option" where
  "json_uint j = (case j of J_Num n \<Rightarrow> if n < 2 ^ LENGTH('a) then Some (word_of_nat n) else None | _ \<Rightarrow> None)"

definition evm_of_json :: "json \<Rightarrow> devnet_evm_info option" where
  "evm_of_json j =
     (case j of
        J_Obj obj \<Rightarrow>
          Option.bind (required ''rpc_url'' json_str obj) (\<lambda>url.
          Option.bind (required ''wallet_private_key'' json_str obj) (\<lambda>key.
          Option.bind (required ''payment_token_address'' json_str obj) (\<lambda>token.
          Option.bind (required ''payment_vault_address'' json_str obj) (\<lambda>vault.
          Some \<lparr>rpc_url = url, wallet_private_key = key, payment_token_address = token,
                payment_vault_address = vault\<rparr>))))
      | _ \<Rightarrow> None)"

definition manifest_of_json :: "(json \<Rightarrow> 'addr option) \<Rightarrow> json \<Rightarrow> 'addr devnet_manifest option" where
  "manifest_of_json addr_of_json j =
     (case j of
        J_Obj obj \<Rightarrow>
          Option.bind (required ''base_port'' json_uint obj) (\<lambda>port.
          Option.bind (required ''node_count'' json_uint obj) (\<lambda>count.
          Option.bind (required ''bootstrap'' (\<lambda>b. case b of
              J_List bs \<Rightarrow> those (map addr_of_json bs) | _ \<Rightarrow> None) obj) (\<lambda>addrs.
          Option.bind (required ''data_dir'' path_of_json obj) (\<lambda>dir.
          Option.bind (required ''created_at'' json_str obj) (\<lambda>created.
          Option.bind (entry ''evm'' obj) (\<lambda>found.
          Option.bind (case found of
              None \<Rightarrow> Some None
            | Some J_Null \<Rightarrow> Some None
            | Some e \<Rightarrow> map_option Some (evm_of_json e)) (\<lambda>info.
          Some \<lparr>base_port = port, node_count = count, bootstrap = addrs, data_dir = dir,
                created_at = created, evm = info\<rparr>)))))))
      | _ \<Rightarrow> None)"

section \<open>Properties\<close>

definition manifest_fields :: "string list" where
  "manifest_fields = [''base_port'', ''node_count'', ''bootstrap'', ''data_dir'', ''created_at'', ''evm'']"

lemma entry_append_other:
  "\<forall>(k, v) \<in> set extra. k \<noteq> ustr name \<Longrightarrow> entry name (obj @ extra) = entry name obj"
proof -
  assume "\<forall>(k, v) \<in> set extra. k \<noteq> ustr name"
  then have "filter (\<lambda>(k, v). k = ustr name) extra = []"
    by (auto simp: filter_empty_conv)
  then show ?thesis by (simp add: entry_def)
qed

lemma json_uint_unat [simp]: "json_uint (J_Num (unat w)) = Some (w :: 'a::len word)"
  using unsigned_less [of w, where ?'a = nat] by (simp add: json_uint_def)

lemma json_of_all_cases:
  "is_ok (json_of_all f xs) \<longleftrightarrow> (\<forall>x \<in> set xs. is_ok (f x))"
proof (induction xs)
  case (Cons x xs)
  then show ?case by (cases "f x"; cases "json_of_all f xs") simp_all
qed simp

lemma json_of_all_reads:
  assumes "json_of_all f xs = Ok js" "\<forall>x \<in> set xs. \<forall>j. f x = Ok j \<longrightarrow> g j = Some x"
  shows "those (map g js) = Some xs"
  using assms by (induction xs arbitrary: js) (auto simp: result_simps)

lemma evm_round_trip: "evm_of_json (json_of_evm e) = Some e"
  by (simp add: evm_of_json_def json_of_evm_def required_def entry_def json_str_def)

text \<open>
  C38: The manifest a devnet writes is the one a client reads: writing succeeds exactly when the data
  directory's path is Unicode and every bootstrap address has a JSON form, and fails with the path's
  own error when only the path is at fault; what is written has an EVM section exactly when the manifest
  has one and reads back as the manifest, even among entries a later launcher adds under other names.
\<close>

theorem manifest_round_trip:
  assumes "\<forall>a \<in> set (bootstrap m). \<forall>j. json_of_addr a = Ok j \<longrightarrow> addr_of_json j = Some a"
    and "\<forall>(k, v) \<in> set extra. \<forall>name \<in> set manifest_fields. k \<noteq> ustr name"
  shows "(is_ok (manifest_entries json_of_addr m) \<longleftrightarrow>
      (\<exists>s. data_dir m = Unicode_Path s) \<and> (\<forall>a \<in> set (bootstrap m). is_ok (json_of_addr a))) \<and>
    (\<forall>bs. data_dir m = Other_Path bs \<and> (\<forall>a \<in> set (bootstrap m). is_ok (json_of_addr a)) \<longrightarrow>
      manifest_entries json_of_addr m = Err (ustr ''path contains invalid UTF-8 characters'')) \<and>
    (\<forall>obj. manifest_entries json_of_addr m = Ok obj \<longrightarrow>
      manifest_of_json addr_of_json (J_Obj (obj @ extra)) = Some m \<and>
      (ustr ''evm'' \<in> fst ` set obj \<longleftrightarrow> evm m \<noteq> None))"
proof -
  have reads: "manifest_of_json addr_of_json (J_Obj (obj @ extra)) = Some m \<and>
      (ustr ''evm'' \<in> fst ` set obj \<longleftrightarrow> evm m \<noteq> None)"
    if obj: "manifest_entries json_of_addr m = Ok obj" for obj
  proof -
    obtain addrs s where written: "json_of_all json_of_addr (bootstrap m) = Ok addrs" "data_dir m = Unicode_Path s"
      using obj by (cases "data_dir m") (auto simp: manifest_entries_def json_of_path_def result_simps)
    have entries: "obj = [(ustr ''base_port'', J_Num (unat (base_port m))),
        (ustr ''node_count'', J_Num (unat (node_count m))), (ustr ''bootstrap'', J_List addrs),
        (ustr ''data_dir'', J_Str s), (ustr ''created_at'', J_Str (created_at m))] @
        (case evm m of None \<Rightarrow> [] | Some e \<Rightarrow> [(ustr ''evm'', json_of_evm e)])"
      using obj by (simp add: manifest_entries_def json_of_path_def written)
    have other: "entry name (obj @ extra) = entry name obj" if "name \<in> set manifest_fields" for name
      using assms(2) that by (intro entry_append_other) auto
    note others = other [of "''base_port''"] other [of "''node_count''"] other [of "''bootstrap''"]
      other [of "''data_dir''"] other [of "''created_at''"] other [of "''evm''"]
    have addrs: "those (map addr_of_json addrs) = Some (bootstrap m)"
      by (rule json_of_all_reads [OF written(1) assms(1)])
    have "manifest_of_json addr_of_json (J_Obj (obj @ extra)) = Some m"
      using others [unfolded manifest_fields_def] written(2)
      by (cases "evm m")
        (simp_all add: manifest_of_json_def required_def, simp_all add: entry_def entries json_str_def
          path_of_json_def addrs, simp_all add: json_of_evm_def evm_round_trip [unfolded json_of_evm_def])
    moreover have "ustr ''evm'' \<in> fst ` set obj \<longleftrightarrow> evm m \<noteq> None"
      by (cases "evm m") (simp_all add: entries)
    ultimately show ?thesis ..
  qed
  have fails: "manifest_entries json_of_addr m = Err (ustr ''path contains invalid UTF-8 characters'')"
    if "data_dir m = Other_Path bs" "\<forall>a \<in> set (bootstrap m). is_ok (json_of_addr a)" for bs
  proof -
    note ok = that(2) and dir = that(1)
    obtain addrs where "json_of_all json_of_addr (bootstrap m) = Ok addrs"
      using ok json_of_all_cases [of json_of_addr "bootstrap m"] by (auto simp: is_ok_iff)
    then show ?thesis using dir by (simp add: manifest_entries_def json_of_path_def)
  qed
  have "is_ok (manifest_entries json_of_addr m) \<longleftrightarrow>
      (\<exists>s. data_dir m = Unicode_Path s) \<and> (\<forall>a \<in> set (bootstrap m). is_ok (json_of_addr a))"
    unfolding json_of_all_cases [symmetric]
    by (cases "json_of_all json_of_addr (bootstrap m)"; cases "data_dir m")
      (simp_all add: manifest_entries_def json_of_path_def)
  then show ?thesis using reads fails by blast
qed

definition demo_manifest :: "path_buf \<Rightarrow> nat devnet_manifest" where
  "demo_manifest dir = \<lparr>base_port = 20000, node_count = 25, bootstrap = [7, 8], data_dir = dir,
     created_at = ustr ''1700000000'', evm = None\<rparr>"

lemma manifest_round_trip_witness:
  "(\<exists>obj. manifest_entries (\<lambda>a. Ok (J_Num a)) (demo_manifest (Unicode_Path (ustr ''/tmp/d''))) = Ok obj \<and>
     manifest_of_json (\<lambda>j. case j of J_Num n \<Rightarrow> Some n | _ \<Rightarrow> None)
       (J_Obj (obj @ [(ustr ''launcher'', J_Str [])])) = Some (demo_manifest (Unicode_Path (ustr ''/tmp/d''))) \<and>
     ustr ''evm'' \<notin> fst ` set obj) \<and>
   manifest_entries (\<lambda>a. Ok (J_Num a)) (demo_manifest (Other_Path [0xff])) =
     Err (ustr ''path contains invalid UTF-8 characters'')"
proof -
  let ?read = "\<lambda>j. case j of J_Num n \<Rightarrow> Some n | _ \<Rightarrow> None" and ?more = "[(ustr ''launcher'', J_Str [])]"
  have addrs: "\<forall>a \<in> set (bootstrap (demo_manifest dir)). \<forall>j. (\<lambda>a. Ok (J_Num a)) a = Ok j \<longrightarrow> ?read j = Some a" for dir
    by simp
  have more: "\<forall>(k, v) \<in> set ?more. \<forall>name \<in> set manifest_fields. k \<noteq> ustr name"
    by (simp add: manifest_fields_def)
  note T = manifest_round_trip [OF addrs more]
  let ?m = "demo_manifest (Unicode_Path (ustr ''/tmp/d''))"
  have "is_ok (manifest_entries (\<lambda>a. Ok (J_Num a)) ?m)"
    using T [of "Unicode_Path (ustr ''/tmp/d'')"] by (simp add: demo_manifest_def)
  then obtain obj where "manifest_entries (\<lambda>a. Ok (J_Num a)) ?m = Ok obj" by (auto simp: is_ok_iff)
  moreover have "evm ?m = None" by (simp add: demo_manifest_def)
  moreover have "data_dir (demo_manifest (Other_Path [0xff])) = Other_Path [0xff]" by (simp add: demo_manifest_def)
  ultimately show ?thesis
    using T [of "Unicode_Path (ustr ''/tmp/d'')"] T [of "Other_Path [0xff]"] by simp
qed

end
