(* ===== verification/Spec2Isabelle.thy ===== *)
theory Spec2Isabelle
  imports Pointer_World Tamper_Tests Chunk_Exchange Chunk_Tests Data_Tests Devnet_Manifest
begin

text \<open>
  \<^bold>\<open>A verification development for ant-protocol\<close>

  The crate is the contract between the client and the node of the Autonomi network: addresses and
  chunks, signed pointers, the postcard-encoded request/response messages, the request helper over the
  peer-to-peer node, and the payment artifacts (prices, single-node payments, proofs, quote signatures,
  storage commitments). This library translates its Rust code into definitions that evaluate and proves
  what makes each part correct.

  \<^bold>\<open>Theories and the code they model\<close>

  \<^item> \<open>Rust_Prelude\<close>, \<open>Rust_Array\<close>, \<open>Rust_String\<close>: what the code uses of the language: integers as
    machine words, \<^verbatim>\<open>Result\<close>, checked and saturating arithmetic, slices by range, big- and little-endian
    bytes, fixed-size arrays with their order, strings of Unicode scalar values and
    \<^verbatim>\<open>split_whitespace\<close>. \<open>Primitives\<close>: BLAKE3 and the context-taking ML-DSA-65 interface as the
    record \<open>crypto\<close>, with their documented behaviour as predicates and a concrete instance.
  \<^item> \<open>Data_Types\<close> (\<^verbatim>\<open>data_types.rs\<close>): content addresses, XOR distance, peer ids, \<^verbatim>\<open>DataChunk\<close>.
  \<^item> \<open>Pointer_State\<close>, \<open>Pointer_Record\<close> (\<^verbatim>\<open>pointer.rs\<close>): the layout constants, errors, targets,
    \<^verbatim>\<open>MergeRank\<close> and its order, \<^verbatim>\<open>PointerState\<close> with its parse and merge rule; then
    \<^verbatim>\<open>ParsedPointer\<close> and \<^verbatim>\<open>Pointer\<close> with signing, update, finalize, transfer, validation and
    encoding. \<open>Pointer_Merge\<close> holds the fold over arrivals, the locales \<open>replacement\<close> and
    \<open>final_replacement\<close> with their interpretations on states and on records, and a step relation for
    many nodes. \<open>Pointer_Properties\<close> states the properties. \<open>Pointer_Lifecycle\<close> is the abstract
    specification: a pointer's life is open, retired or handed over, and commands act on lives; the records
    refine it (\<open>Refinement\<close> has the locale \<open>functional_refinement\<close>, interpreted on the owner's commands
    and on a store that reads bytes), and \<open>public_pointer\<close> is what the public interface can make.
    \<open>Pointer_World\<close> adds an adversary: an inductive world of one owner who signs what it likes, final
    records twice included, any number of nodes and a wire anyone can write to.
  \<^item> \<open>Chunk_Types\<close> (\<^verbatim>\<open>chunk.rs\<close>): constants, settlement versions, the agent token,
    \<^verbatim>\<open>ProtocolError\<close>, every message with its constructors. \<open>Serde\<close>: the data model the derive macros
    target, postcard as a parameter with its documented format in three predicates, and the locale
    \<open>wire_type\<close>. \<open>Wire_Types\<close>, \<open>Wire_Messages\<close>: the derived serializers, each an interpretation of
    \<open>wire_type\<close>. \<open>Postcard_Demo\<close>: a concrete serializer with postcard's laws. \<open>Chunk_Codec\<close>,
    \<open>Chunk_Properties\<close>: \<^verbatim>\<open>ChunkMessage::encode\<close> and \<^verbatim>\<open>decode\<close>, sizes, and the released
    numbering of the messages as a literal table that older peers hold a prefix of.
  \<^item> \<open>Chunk_Protocol\<close>, \<open>Chunk_Protocol_Properties\<close> (\<^verbatim>\<open>chunk_protocol.rs\<close>): the event loop over a
    trace of iterations, each with its clock readings and its receive outcome. \<open>Chunk_Exchange\<close>
    puts the loop on a broadcast channel: a log of events with their times and a receiver that keeps up.
  \<^item> \<open>Pricing\<close> (\<^verbatim>\<open>payment/pricing.rs\<close>), \<open>Single_Node\<close> and \<open>Single_Node_Properties\<close>
    (\<^verbatim>\<open>payment/single_node.rs\<close>), \<open>Payment_Proof\<close> and \<open>Proof_Serde\<close>
    (\<^verbatim>\<open>payment/proof.rs\<close>; locales \<open>tagged_framing\<close> and \<open>two_framings\<close>, the derived serializer with
    its defaulted field), \<open>Quote_Verify\<close> (\<^verbatim>\<open>payment/verify.rs\<close>; locale
    \<open>signed_artifact\<close>), \<open>Commitment\<close> (\<^verbatim>\<open>payment/commitment.rs\<close>), \<open>Errors\<close> (\<^verbatim>\<open>error.rs\<close>),
    \<open>Devnet_Manifest\<close> (\<^verbatim>\<open>devnet_manifest.rs\<close>).
  \<^item> \<open>Pointer_Tests\<close>, \<open>Chunk_Tests\<close>, \<open>Payment_Tests\<close>, \<open>Artifact_Tests\<close>, \<open>Data_Tests\<close>: the
    repository's unit tests over the model, named as in the code, with what they draw at random as parameters.
    \<open>Tamper_Tests\<close>: those that change signed data, and what changing a signed record leads to.

  \<^bold>\<open>What the lemmas show\<close>

  \<^item> Pointers: validation on every input with its error order, canonical encoding, sign-and-read-back,
    the binding of the paid identifier, counters that never wrap, hand-over, and the merge rule: the
    documented one, a strict order, first-come finality, convergence, and final states that survive any
    deliveries to any number of nodes. The records refine the abstract life of a pointer under any
    commands of its owner, stores fed the same bytes in any order converge, and every value the public
    interface makes is valid. No network can roll a pointer back; what a node holds for an owner is what
    the owner signed, unless a byte string on the wire breaks a primitive, a break the statement writes
    out; and the one exception to convergence, an owner who signs two final records, is shown to be real.
    Bytes changed under a signature are refused.
  \<^item> Messages: the round trip under the wire limit, injectivity, the outcomes of decoding any bytes, room
    for a full chunk, and peers of any earlier release, which read what they know exactly and refuse the
    rest. The numbers, payload shapes and meanings they hold are written out apart from the enum, so that
    a variant inserted or moved in it breaks the proof.
  \<^item> The request helper: only a matching response and the first one, a return by the deadline,
    indifference to other traffic, the two early exits; on a channel it refines the search for the first
    reply while its receiver keeps up, and then a whole exchange with an answering peer completes.
  \<^item> Payments: the price formula without saturation and its inverse on all inputs, the median payment,
    its failures and what paying it returns, verified payments that were paid, verification that is the
    same for every holder of the same quotes whatever their order, proofs of either age that read back
    behind their tags, signature checks, what one key and signature on two candidates prove, commitment
    pins, and commitments that cannot be tampered with short of a forgery.
  \<^item> The unit tests hold for any lawful primitives and any draws, not for the one run a test makes;
    those that try a primitive hold up to a break of it, which the statement writes out: a signature
    that carries over to a second message, or two inputs with one digest. Where a test asserts that two
    outputs of a primitive differ, that is assumed of the primitive.

  \<^bold>\<open>Conventions and bounds\<close>

  A fallible function returns \<open>result\<close>; a panic of the source, or a loop still waiting, is
  \<open>None\<close>. No definition takes fuel: every loop of the crate runs over a list. A length in memory is a
  natural number, and becomes a machine word where the code stores it. Signing takes the randomness it
  draws as its first argument. Code outside the repository is a parameter: BLAKE3, ML-DSA-65 (both
  interfaces), postcard, rmp-serde, hex, the integer root of \<^verbatim>\<open>ruint\<close>, \<^verbatim>\<open>evmlib\<close>'s quotes, wallet
  and vault, and the peer-to-peer node. What a property needs of it is a named predicate that states
  documented behaviour, and a witness instantiates the parameter with a concrete function.

  \<^bold>\<open>Not modelled\<close>

  \<^verbatim>\<open>logging.rs\<close> (macro re-exports without effect on results), \<^verbatim>\<open>lib.rs\<close> and \<^verbatim>\<open>payment/mod.rs\<close>
  (re-exports), and the log lines inside the modelled functions. Of the tests: the one that compares
  plain digests of BLAKE3 with derived ones, the one of three bytes postcard refuses, the two of
  \<^verbatim>\<open>evmlib\<close>'s vault alone, and the fixture that builds a proof over \<^verbatim>\<open>evmlib\<close>'s Merkle tree, whose code
  is not in the repository. What a node or a client does with these functions (which checks a storer
  runs on a PUT, how a reader verifies an answer) is not in the repository either, and no theorem here
  is about it.
\<close>

end
